(* ===== verification/Prelude.thy ===== *)
theory Prelude
  imports Main "HOL-Library.Word" "HOL-Library.Monad_Syntax"
begin

text \<open>
  What every component shares: the machine integer types, the two build profiles Rust
  distinguishes (overflow checks and \<open>debug_assert!\<close> are on in a debug build only), the
  little-endian byte views of \<open>u16\<close>, \<open>u32\<close> and \<open>u64\<close>, slices of byte buffers with the
  bounds check that panics, and the \<open>format!\<close> directives the fault messages use.

  A Rust call that may panic returns an \<open>option\<close>: \<open>None\<close> is the panic. A call that may
  return an \<open>std::io::Error\<close> returns a sum with the error on the left.
\<close>

unbundle bit_operations_syntax

type_synonym u8 = "8 word"
type_synonym u16 = "16 word"
type_synonym u32 = "32 word"
type_synonym u64 = "64 word"
type_synonym 'a panics = "'a option"

text \<open>Collections: values of layout constants, facts on byte buffers, facts on oracle states.\<close>

named_theorems layout_simps
named_theorems buffer_simps
named_theorems oracle_simps

section \<open>Build profiles and checked arithmetic\<close>

datatype profile = Debug | Release

text \<open>Rust's \<open>debug_assert!\<close>: panics in a debug build when the condition is false.\<close>

definition debug_assert :: "profile \<Rightarrow> bool \<Rightarrow> unit panics" where
  "debug_assert p c = (if p = Debug \<and> \<not> c then None else Some ())"

text \<open>Rust's \<open>a + b\<close> on \<open>u64\<close>: a debug build panics on overflow, a release build wraps.\<close>

definition add_u64 :: "profile \<Rightarrow> u64 \<Rightarrow> u64 \<Rightarrow> u64 panics" where
  "add_u64 p a b = (if p = Debug \<and> 2 ^ 64 \<le> unat a + unat b then None else Some (a + b))"

text \<open>\<open>usize::checked_add\<close> on a 64-bit host.\<close>

definition checked_add_usize :: "nat \<Rightarrow> nat \<Rightarrow> nat option" where
  "checked_add_usize a b = (if a + b < 2 ^ 64 then Some (a + b) else None)"

lemma debug_assert_True [simp]: "debug_assert p True = Some ()"
  by (simp add: debug_assert_def)

lemma debug_assert_Release [simp]: "debug_assert Release c = Some ()"
  by (simp add: debug_assert_def)

lemma debug_assert_eq_Some [simp]: "debug_assert p c = Some u \<longleftrightarrow> (p = Debug \<longrightarrow> c)"
  by (simp add: debug_assert_def)

lemma add_u64_fits: "unat a + unat b < 2 ^ 64 \<Longrightarrow> add_u64 p a b = Some (a + b)"
  by (simp add: add_u64_def)

lemma add_u64_Release [simp]: "add_u64 Release a b = Some (a + b)"
  by (simp add: add_u64_def)

lemma add_u64_Debug_overflow: "2 ^ 64 \<le> unat a + unat b \<Longrightarrow> add_u64 Debug a b = None"
  by (simp add: add_u64_def)

lemma unat_add_u64: "unat a + unat b < 2 ^ 64 \<Longrightarrow> unat (a + b :: u64) = unat a + unat b"
  by (simp add: unat_word_ariths)

lemma unat_u64_less [simp]: "unat (a :: u64) < 18446744073709551616"
  using unsigned_less [of a] by simp

lemma unat_drop_bit: "unat (drop_bit k (x :: 'a::len word)) = unat x div 2 ^ k"
  unfolding unsigned_drop_bit_eq by (simp add: drop_bit_eq_div [where 'a = nat] take_bit_nat_eq_self)

lemma unat_take_bit: "unat (take_bit k (x :: 'a::len word)) = unat x mod 2 ^ k"
  unfolding unsigned_take_bit_eq by (simp add: take_bit_eq_mod [where 'a = nat])

lemma bit_push_one: "bit (push_bit k 1 :: u64) n \<longleftrightarrow> n = k \<and> k < 64"
  by (auto simp add: bit_exp_iff)

section \<open>Little-endian byte views\<close>

definition to_le_bytes :: "u64 \<Rightarrow> u8 list" where
  "to_le_bytes x = map (\<lambda>i. ucast (drop_bit (8 * i) x)) [0..<8]"

definition to_le_bytes32 :: "u32 \<Rightarrow> u8 list" where
  "to_le_bytes32 x = map (\<lambda>i. ucast (drop_bit (8 * i) x)) [0..<4]"

fun from_le_bytes :: "u8 list \<Rightarrow> u64" where
  "from_le_bytes [] = 0"
| "from_le_bytes (b # bs) = ucast b OR push_bit 8 (from_le_bytes bs)"

lemma length_to_le_bytes [simp]: "length (to_le_bytes x) = 8"
  by (simp add: to_le_bytes_def)

lemma length_to_le_bytes32 [simp]: "length (to_le_bytes32 x) = 4"
  by (simp add: to_le_bytes32_def)

lemma bit_from_le_bytes:
  "length bs \<le> 8 \<Longrightarrow>
   bit (from_le_bytes bs) n \<longleftrightarrow> n div 8 < length bs \<and> bit (bs ! (n div 8)) (n mod 8)"
proof (induction bs arbitrary: n)
  case Nil
  then show ?case by simp
next
  case (Cons b bs)
  show ?case
  proof (cases "n < 8")
    case True
    then show ?thesis by (simp add: bit_simps)
  next
    case False
    then have d: "n div 8 = Suc ((n - 8) div 8)" and m: "n mod 8 = (n - 8) mod 8"
      by (simp_all add: le_div_geq le_mod_geq)
    have "\<not> bit b n" using False by (auto dest: bit_imp_le_length)
    moreover have "n < 64" if "(n - 8) div 8 < length bs"
      using that Cons.prems False by simp
    ultimately show ?thesis
      using False Cons.prems Cons.IH [of "n - 8"] by (auto simp: bit_simps d m)
  qed
qed

lemma nth_to_le_bytes: "i < 8 \<Longrightarrow> to_le_bytes x ! i = ucast (drop_bit (8 * i) x)"
  by (simp add: to_le_bytes_def)

lemma from_to_le_bytes [simp]: "from_le_bytes (to_le_bytes x) = x"
proof (rule bit_word_eqI)
  fix n assume n: "n < LENGTH(64)"
  then have "n div 8 < 8" by simp
  then show "bit (from_le_bytes (to_le_bytes x)) n = bit x n"
    by (simp add: bit_from_le_bytes nth_to_le_bytes bit_simps)
qed

lemma to_from_le_bytes: "length bs = 8 \<Longrightarrow> to_le_bytes (from_le_bytes bs) = bs"
proof (rule nth_equalityI)
  fix i assume l: "length bs = 8" and i: "i < length (to_le_bytes (from_le_bytes bs))"
  then have i: "i < 8" by simp
  show "to_le_bytes (from_le_bytes bs) ! i = bs ! i"
  proof (rule bit_word_eqI)
    fix n assume n: "n < LENGTH(8)"
    then have "(8 * i + n) div 8 = i" and "(8 * i + n) mod 8 = n" by simp_all
    with n i l show "bit (to_le_bytes (from_le_bytes bs) ! i) n = bit (bs ! i) n"
      by (simp add: nth_to_le_bytes bit_from_le_bytes bit_simps)
  qed
qed simp

lemma from_le_bytes_zeros [simp]: "from_le_bytes (replicate n 0) = 0"
  by (induction n) simp_all

section \<open>Byte buffers: slices with the bounds check\<close>

text \<open>
  \<open>&bytes[off..off + n]\<close> and \<open>bytes[off..off + n].copy_from_slice(data)\<close>: the range must end
  inside the buffer, otherwise the index panics.
\<close>

definition slice_get :: "'a list \<Rightarrow> nat \<Rightarrow> nat \<Rightarrow> 'a list panics" where
  "slice_get bytes off n = (if off + n \<le> length bytes then Some (take n (drop off bytes)) else None)"

definition slice_put :: "'a list \<Rightarrow> nat \<Rightarrow> 'a list \<Rightarrow> 'a list panics" where
  "slice_put bytes off data =
     (if off + length data \<le> length bytes
      then Some (take off bytes @ data @ drop (off + length data) bytes) else None)"

definition overwrite_at :: "'a list \<Rightarrow> nat \<Rightarrow> 'a list \<Rightarrow> 'a list" where
  "overwrite_at bytes off data = take off bytes @ data @ drop (off + length data) bytes"

lemma slice_put_overwrite:
  "off + length data \<le> length bytes \<Longrightarrow> slice_put bytes off data = Some (overwrite_at bytes off data)"
  by (simp add: slice_put_def overwrite_at_def)

lemma length_overwrite_at [buffer_simps]:
  "off + length data \<le> length bytes \<Longrightarrow> length (overwrite_at bytes off data) = length bytes"
  by (simp add: overwrite_at_def)

lemma slice_put_Some_length: "slice_put bytes off data = Some b \<Longrightarrow> length b = length bytes"
  by (auto simp: slice_put_def split: if_splits)

lemma take_drop_overwrite_same:
  "off + length data \<le> length bytes \<Longrightarrow>
   take (length data) (drop off (overwrite_at bytes off data)) = data"
  by (simp add: overwrite_at_def)

lemma take_drop_overwrite_disjoint:
  assumes "off + length data \<le> length bytes"
    and "o2 + n \<le> off \<or> off + length data \<le> o2"
  shows "take n (drop o2 (overwrite_at bytes off data)) = take n (drop o2 bytes)"
  using assms(2)
proof
  assume a: "o2 + n \<le> off"
  then have "take n (drop o2 (overwrite_at bytes off data)) = take n (drop o2 (take off bytes))"
    using assms(1) by (simp add: overwrite_at_def)
  with a show ?thesis by (simp add: take_drop min_def)
next
  assume "off + length data \<le> o2"
  with assms(1) show ?thesis
    by (simp add: overwrite_at_def)
qed

section \<open>Formatting\<close>

text \<open>
  \<open>{}\<close> of an unsigned integer, \<open>{:x}\<close> and \<open>{:#x}\<close>: digits from the most significant one,
  no leading zero, lower case.
\<close>

definition digit_char :: "nat \<Rightarrow> char" where
  "digit_char d = ''0123456789abcdef'' ! d"

fun digits_in :: "nat \<Rightarrow> nat \<Rightarrow> string" where
  "digits_in base n =
     (if base < 2 \<or> n < base then [digit_char n]
      else digits_in base (n div base) @ [digit_char (n mod base)])"

declare digits_in.simps [simp del]

definition fmt_dec :: "nat \<Rightarrow> string" where
  "fmt_dec n = digits_in 10 n"

definition fmt_hex :: "nat \<Rightarrow> string" where
  "fmt_hex n = ''0x'' @ digits_in 16 n"

lemma digits_in_nonempty [simp]: "digits_in b n \<noteq> []"
  by (subst digits_in.simps) simp

lemma digit_char_inject:
  assumes "a < 16" and "b < 16" and "digit_char a = digit_char b"
  shows "a = b"
proof -
  have "distinct ''0123456789abcdef''" and "length ''0123456789abcdef'' = 16" by simp_all
  with assms show ?thesis
    unfolding digit_char_def by (metis nth_eq_iff_index_eq)
qed

text \<open>Two numbers print alike only when they are equal, so a message determines its numbers.\<close>

lemma digits_in_inject:
  assumes "2 \<le> b" and "b \<le> 16"
  shows "digits_in b m = digits_in b n \<longleftrightarrow> m = n"
proof
  show "digits_in b m = digits_in b n \<Longrightarrow> m = n"
  proof (induction m arbitrary: n rule: less_induct)
    case (less m)
    have one: "length (digits_in b k) = 1 \<longleftrightarrow> k < b" for k
      using assms by (subst digits_in.simps) auto
    have small: "digits_in b k = [digit_char k]" if "k < b" for k
      using that by (subst digits_in.simps) simp
    have big: "digits_in b k = digits_in b (k div b) @ [digit_char (k mod b)]" if "\<not> k < b" for k
      using that assms by (subst digits_in.simps) simp
    have same: "m < b \<longleftrightarrow> n < b"
      using one [of m] one [of n] less.prems by simp
    show ?case
    proof (cases "m < b")
      case True
      with same less.prems have "digit_char m = digit_char n" by (simp add: small)
      with True same assms show ?thesis by (auto intro: digit_char_inject)
    next
      case False
      with same less.prems have d: "digits_in b (m div b) = digits_in b (n div b)"
        and c: "digit_char (m mod b) = digit_char (n mod b)" by (simp_all add: big)
      have "m div b < m" using False assms by simp
      from less.IH [OF this d] have "m div b = n div b" .
      moreover have "m mod b = n mod b"
        using c assms by (intro digit_char_inject) (simp_all add: less_le_trans [OF mod_less_divisor])
      ultimately show ?thesis by (metis div_mult_mod_eq)
    qed
  qed
qed simp

lemma fmt_dec_inject [simp]: "fmt_dec m = fmt_dec n \<longleftrightarrow> m = n"
  by (simp add: fmt_dec_def digits_in_inject)

lemma fmt_hex_inject [simp]: "fmt_hex m = fmt_hex n \<longleftrightarrow> m = n"
  by (simp add: fmt_hex_def digits_in_inject)

section \<open>Loops whose body may panic\<close>

text \<open>A loop whose body may panic, over the state.\<close>

fun for_each :: "('i \<Rightarrow> 's \<Rightarrow> 's panics) \<Rightarrow> 'i list \<Rightarrow> 's \<Rightarrow> 's panics" where
  "for_each f [] s = Some s"
| "for_each f (i # is) s = Option.bind (f i s) (for_each f is)"

text \<open>A loop that fills the slots of an array.\<close>

fun fill_each :: "('i \<Rightarrow> 'v panics) \<Rightarrow> 'i list \<Rightarrow> 'v list panics" where
  "fill_each f [] = Some []"
| "fill_each f (i # is) = do { v \<leftarrow> f i; vs \<leftarrow> fill_each f is; Some (v # vs) }"

lemma fill_each_all:
  "(\<And>i. i \<in> set is \<Longrightarrow> f i = Some (g i)) \<Longrightarrow> fill_each f is = Some (map g is)"
  by (induction "is") auto

lemma fill_each_length: "fill_each f is = Some vs \<Longrightarrow> length vs = length is"
  by (induction "is" arbitrary: vs) (auto split: bind_splits)

lemma for_each_append:
  "for_each f (xs @ ys) s = Option.bind (for_each f xs s) (for_each f ys)"
  by (induction xs arbitrary: s) (auto split: bind_splits)

text \<open>The invariant rule of a counting loop: what holds before pass \<open>i\<close> holds before \<open>i + 1\<close>.\<close>

lemma for_each_upt_invariant:
  assumes "I 0 s"
    and "\<And>i t. i < n \<Longrightarrow> I i t \<Longrightarrow> \<exists>t'. f i t = Some t' \<and> I (Suc i) t'"
  shows "\<exists>s'. for_each f [0..<n] s = Some s' \<and> I n s'"
  using assms(2)
proof (induction n)
  case 0
  from assms(1) show ?case by simp
next
  case (Suc n)
  have "\<exists>s'. for_each f [0..<n] s = Some s' \<and> I n s'"
    by (rule Suc.IH) (simp add: Suc.prems)
  then obtain s' where "for_each f [0..<n] s = Some s'" and "I n s'" by blast
  moreover obtain t' where "f n s' = Some t'" and "I (Suc n) t'"
    using Suc.prems [of n s'] \<open>I n s'\<close> by auto
  ultimately show ?case by (auto simp: for_each_append)
qed

section \<open>Results\<close>

text \<open>
  \<open>Result<T, E>\<close> is a sum with the error on the left. \<open>expect\<close> panics on the error; \<open>?\<close> in a
  function that may also panic is \<open>try_then\<close>.
\<close>

definition expect :: "'e + 'a \<Rightarrow> 'a panics" where
  "expect r = (case r of Inl _ \<Rightarrow> None | Inr x \<Rightarrow> Some x)"

definition try_then :: "'e + 'a \<Rightarrow> ('a \<Rightarrow> ('e + 'b) panics) \<Rightarrow> ('e + 'b) panics" where
  "try_then r k = (case r of Inl e \<Rightarrow> Some (Inl e) | Inr x \<Rightarrow> k x)"

lemma expect_simps [simp]: "expect (Inl e) = None" "expect (Inr x) = Some x"
  by (simp_all add: expect_def)

lemma try_then_simps [simp]: "try_then (Inl e) k = Some (Inl e)" "try_then (Inr x) k = k x"
  by (simp_all add: try_then_def)

lemma expect_eq_Some [simp]: "expect r = Some x \<longleftrightarrow> r = Inr x"
  by (cases r) auto

text \<open>The same over a state: an early return keeps the state reached so far.\<close>

definition on_ok ::
    "(('e + 'a) \<times> 's) panics \<Rightarrow> ('a \<Rightarrow> 's \<Rightarrow> (('e + 'b) \<times> 's) panics) \<Rightarrow> (('e + 'b) \<times> 's) panics" where
  "on_ok m k = Option.bind m (\<lambda>(r, s). case r of Inl e \<Rightarrow> Some (Inl e, s) | Inr x \<Rightarrow> k x s)"

lemma on_ok_simps [simp]:
  "on_ok None k = None" "on_ok (Some (Inl e, s)) k = Some (Inl e, s)" "on_ok (Some (Inr x, s)) k = k x s"
  by (simp_all add: on_ok_def)

lemma on_ok_eq_Some:
  "on_ok m k = Some (r, t) \<longleftrightarrow>
     (\<exists>e. m = Some (Inl e, t) \<and> r = Inl e) \<or> (\<exists>x s. m = Some (Inr x, s) \<and> k x s = Some (r, t))"
  by (auto simp: on_ok_def split: bind_splits sum.splits)

end
