(* ===== verification/Oracle_Types.thy ===== *)
theory Oracle_Types
  imports Prelude
begin

text \<open>
  The backend-independent data of \<open>src/lib.rs\<close>: the register, segment, MSR and flag
  constants, the outcome of a step with its fault classification, the comparable snapshot
  \<open>CpuState\<close> with its three comparisons, and the shadow-stack error.
\<close>

section \<open>Constants\<close>

definition RAX :: u32 where [oracle_simps]: "RAX = 0"
definition RCX :: u32 where [oracle_simps]: "RCX = 1"
definition RDX :: u32 where [oracle_simps]: "RDX = 2"
definition RBX :: u32 where [oracle_simps]: "RBX = 3"
definition RSP :: u32 where [oracle_simps]: "RSP = 4"
definition RBP :: u32 where [oracle_simps]: "RBP = 5"
definition RSI :: u32 where [oracle_simps]: "RSI = 6"
definition RDI :: u32 where [oracle_simps]: "RDI = 7"
definition R8 :: u32 where [oracle_simps]: "R8 = 8"
definition R9 :: u32 where [oracle_simps]: "R9 = 9"
definition R10 :: u32 where [oracle_simps]: "R10 = 10"
definition R11 :: u32 where [oracle_simps]: "R11 = 11"
definition R12 :: u32 where [oracle_simps]: "R12 = 12"
definition R13 :: u32 where [oracle_simps]: "R13 = 13"
definition R14 :: u32 where [oracle_simps]: "R14 = 14"
definition R15 :: u32 where [oracle_simps]: "R15 = 15"

definition SEG_ES :: u32 where [oracle_simps]: "SEG_ES = 0"
definition SEG_CS :: u32 where [oracle_simps]: "SEG_CS = 1"
definition SEG_SS :: u32 where [oracle_simps]: "SEG_SS = 2"
definition SEG_DS :: u32 where [oracle_simps]: "SEG_DS = 3"
definition SEG_FS :: u32 where [oracle_simps]: "SEG_FS = 4"
definition SEG_GS :: u32 where [oracle_simps]: "SEG_GS = 5"

definition IA32_EFER :: u32 where [oracle_simps]: "IA32_EFER = 0xC0000080"
definition IA32_STAR :: u32 where [oracle_simps]: "IA32_STAR = 0xC0000081"
definition IA32_LSTAR :: u32 where [oracle_simps]: "IA32_LSTAR = 0xC0000082"
definition IA32_FMASK :: u32 where [oracle_simps]: "IA32_FMASK = 0xC0000084"
definition IA32_FS_BASE :: u32 where [oracle_simps]: "IA32_FS_BASE = 0xC0000100"
definition IA32_GS_BASE :: u32 where [oracle_simps]: "IA32_GS_BASE = 0xC0000101"
definition IA32_KERNEL_GS_BASE :: u32 where [oracle_simps]: "IA32_KERNEL_GS_BASE = 0xC0000102"
definition IA32_U_CET :: u32 where [oracle_simps]: "IA32_U_CET = 0x6A0"
definition IA32_S_CET :: u32 where [oracle_simps]: "IA32_S_CET = 0x6A2"

definition FLAG_CF :: u64 where [oracle_simps]: "FLAG_CF = 0x1"
definition FLAG_PF :: u64 where [oracle_simps]: "FLAG_PF = 0x4"
definition FLAG_AF :: u64 where [oracle_simps]: "FLAG_AF = 0x10"
definition FLAG_ZF :: u64 where [oracle_simps]: "FLAG_ZF = 0x40"
definition FLAG_SF :: u64 where [oracle_simps]: "FLAG_SF = 0x80"
definition FLAG_TF :: u64 where [oracle_simps]: "FLAG_TF = 0x100"
definition FLAG_RF :: u64 where [oracle_simps]: "FLAG_RF = 0x10000"
definition FLAG_IF :: u64 where [oracle_simps]: "FLAG_IF = 0x200"
definition FLAG_DF :: u64 where [oracle_simps]: "FLAG_DF = 0x400"
definition FLAG_OF :: u64 where [oracle_simps]: "FLAG_OF = 0x800"

definition ARITH_FLAGS :: u64 where
  "ARITH_FLAGS = FLAG_CF OR FLAG_PF OR FLAG_AF OR FLAG_ZF OR FLAG_SF OR FLAG_OF"

definition EFER_LMA :: u64 where [oracle_simps]: "EFER_LMA = 0x400"
definition EFER_SCE :: u64 where [oracle_simps]: "EFER_SCE = 0x1"
definition CR4_OSFXSR :: u64 where [oracle_simps]: "CR4_OSFXSR = 0x200"
definition CR4_OSXSAVE :: u64 where [oracle_simps]: "CR4_OSXSAVE = 0x40000"

definition ZMM_BITS :: nat where "ZMM_BITS = 512"
definition ZMM_CHUNKS :: nat where "ZMM_CHUNKS = ZMM_BITS div 64"
definition ZMM_REGS :: nat where "ZMM_REGS = 32"
definition SEG_COUNT :: nat where "SEG_COUNT = 6"

definition DEFAULT_CODE_ADDR :: u64 where "DEFAULT_CODE_ADDR = 0x400000"

lemma ZMM_CHUNKS_8 [simp]: "ZMM_CHUNKS = 8"
  by (simp add: ZMM_CHUNKS_def ZMM_BITS_def)

lemma ZMM_REGS_32 [simp]: "ZMM_REGS = 32"
  by (simp add: ZMM_REGS_def)

lemma SEG_COUNT_6 [simp]: "SEG_COUNT = 6"
  by (simp add: SEG_COUNT_def)

section \<open>Outcomes\<close>

datatype fault_kind =
    UndefinedOpcode
  | DivideError
  | PageFault
  | GeneralProtection
  | AlignmentCheck
  | ControlProtection
  | OtherException
  | Unimplemented

definition is_architectural :: "fault_kind \<Rightarrow> bool" where
  "is_architectural k \<longleftrightarrow> k \<noteq> Unimplemented"

datatype step_outcome =
    Retired
  | Fault fault_kind string
  | Syscall

fun is_retired :: "step_outcome \<Rightarrow> bool" where
  "is_retired Retired = True"
| "is_retired _ = False"

fun fault_kind_of :: "step_outcome \<Rightarrow> fault_kind option" where
  "fault_kind_of (Fault k _) = Some k"
| "fault_kind_of _ = None"

fun is_comparable :: "step_outcome \<Rightarrow> bool" where
  "is_comparable (Fault Unimplemented _) = False"
| "is_comparable _ = True"

definition outcome_classify :: "step_outcome \<Rightarrow> fault_kind option" where
  "outcome_classify o' = fault_kind_of o'"

lemma is_comparable_iff:
  "is_comparable oc \<longleftrightarrow> (\<forall>k. fault_kind_of oc = Some k \<longrightarrow> is_architectural k)"
  by (cases oc rule: is_comparable.cases) (auto simp: is_architectural_def)

section \<open>The comparable snapshot\<close>

record cpu_state =
  cs_gpr :: "u64 list"
  cs_rip :: u64
  cs_rflags :: u64
  cs_zmm :: "u64 list list"

text \<open>The array types of the fields: sixteen GPRs, thirty-two registers of eight chunks.\<close>

definition wf_cpu_state :: "cpu_state \<Rightarrow> bool" where
  "wf_cpu_state s \<longleftrightarrow>
     length (cs_gpr s) = 16 \<and> length (cs_zmm s) = ZMM_REGS \<and>
     list_all (\<lambda>z. length z = ZMM_CHUNKS) (cs_zmm s)"

definition default_cpu_state :: cpu_state where
  "default_cpu_state =
     \<lparr>cs_gpr = replicate 16 0, cs_rip = 0, cs_rflags = 0,
      cs_zmm = replicate ZMM_REGS (replicate ZMM_CHUNKS 0)\<rparr>"

definition eq_integer :: "cpu_state \<Rightarrow> cpu_state \<Rightarrow> bool" where
  "eq_integer s t \<longleftrightarrow>
     cs_gpr s = cs_gpr t \<and> cs_rip s = cs_rip t \<and>
     cs_rflags s AND ARITH_FLAGS = cs_rflags t AND ARITH_FLAGS"

definition reg_names :: "string list" where
  "reg_names = [''rax'', ''rcx'', ''rdx'', ''rbx'', ''rsp'', ''rbp'', ''rsi'', ''rdi'',
     ''r8'', ''r9'', ''r10'', ''r11'', ''r12'', ''r13'', ''r14'', ''r15'']"

text \<open>\<open>{:x?}\<close> of an array: the elements in hexadecimal, without the prefix.\<close>

fun fmt_hex_elems :: "u64 list \<Rightarrow> string" where
  "fmt_hex_elems [] = ''''"
| "fmt_hex_elems [x] = digits_in 16 (unat x)"
| "fmt_hex_elems (x # xs) = digits_in 16 (unat x) @ '', '' @ fmt_hex_elems xs"

definition fmt_hex_array :: "u64 list \<Rightarrow> string" where
  "fmt_hex_array xs = ''['' @ fmt_hex_elems xs @ '']''"

definition versus :: "string \<Rightarrow> u64 \<Rightarrow> u64 \<Rightarrow> string" where
  "versus name a b = name @ '': '' @ fmt_hex (unat a) @ '' vs '' @ fmt_hex (unat b)"

definition diff_masked :: "cpu_state \<Rightarrow> cpu_state \<Rightarrow> u64 \<Rightarrow> string list" where
  "diff_masked s t ignore_flags =
     concat (map (\<lambda>i. if cs_gpr s ! i \<noteq> cs_gpr t ! i
                      then [versus (reg_names ! i) (cs_gpr s ! i) (cs_gpr t ! i)] else []) [0..<16])
     @ (if cs_rip s \<noteq> cs_rip t then [versus ''rip'' (cs_rip s) (cs_rip t)] else [])
     @ (let mask = NOT ignore_flags in
        if cs_rflags s AND mask \<noteq> cs_rflags t AND mask
        then [versus ''rflags'' (cs_rflags s) (cs_rflags t)
              @ (if ignore_flags \<noteq> 0
                 then '' (ignoring '' @ fmt_hex (unat ignore_flags) @ '')'' else '''')]
        else [])
     @ concat (map (\<lambda>i. if cs_zmm s ! i \<noteq> cs_zmm t ! i
                        then [''zmm'' @ fmt_dec i @ '': '' @ fmt_hex_array (cs_zmm s ! i)
                              @ '' vs '' @ fmt_hex_array (cs_zmm t ! i)] else []) [0..<ZMM_REGS])"

definition diff :: "cpu_state \<Rightarrow> cpu_state \<Rightarrow> string list" where
  "diff s t = diff_masked s t 0"

section \<open>Shadow-stack errors\<close>

datatype shadow_stack_error = Unsupported | BadRange

fun fmt_shadow_stack_error :: "shadow_stack_error \<Rightarrow> string" where
  "fmt_shadow_stack_error Unsupported = ''backend does not model CET shadow stacks''"
| "fmt_shadow_stack_error BadRange = ''range rejected for a shadow stack''"

section \<open>Lemmas on the snapshot\<close>

lemma wf_cpu_stateD:
  assumes "wf_cpu_state s"
  shows "length (cs_gpr s) = 16" and "length (cs_zmm s) = 32"
    and "i < 32 \<Longrightarrow> length (cs_zmm s ! i) = 8"
  using assms by (auto simp: wf_cpu_state_def list_all_length)

lemma wf_default_cpu_state: "wf_cpu_state default_cpu_state"
  by (simp add: wf_cpu_state_def default_cpu_state_def list_all_iff)

lemma concat_if_empty_iff:
  "concat (map (\<lambda>i. if P i then [f i] else []) xs) = [] \<longleftrightarrow> (\<forall>i \<in> set xs. \<not> P i)"
  by (auto split: if_splits)

lemma diff_masked_empty_iff:
  assumes "wf_cpu_state s" and "wf_cpu_state t"
  shows "diff_masked s t m = [] \<longleftrightarrow>
    cs_gpr s = cs_gpr t \<and> cs_rip s = cs_rip t \<and> cs_zmm s = cs_zmm t \<and>
    cs_rflags s AND NOT m = cs_rflags t AND NOT m"
proof -
  have g: "(\<forall>i \<in> set [0..<16]. \<not> cs_gpr s ! i \<noteq> cs_gpr t ! i) \<longleftrightarrow> cs_gpr s = cs_gpr t"
    using assms by (auto simp: wf_cpu_stateD list_eq_iff_nth_eq)
  have z: "(\<forall>i \<in> set [0..<ZMM_REGS]. \<not> cs_zmm s ! i \<noteq> cs_zmm t ! i) \<longleftrightarrow> cs_zmm s = cs_zmm t"
    using assms by (auto simp: wf_cpu_stateD list_eq_iff_nth_eq)
  show ?thesis
    unfolding diff_masked_def append_is_Nil_conv concat_if_empty_iff g z
    by (auto simp: Let_def split: if_splits)
qed

lemma length_concat_if:
  "length (concat (map (\<lambda>i. if P i then [f i] else []) xs)) = length (filter P xs)"
  by (induction xs) auto

section \<open>Properties\<close>

text \<open>
  C22: the comparison a differential test rests on is exact. \<open>diff_masked\<close> is empty for two
  snapshots precisely when they agree on every register, RIP, every vector register and all
  flags outside the ignored ones; with nothing ignored that is equality of the snapshots; and
  an empty difference that ignores no status flag implies \<open>eq_integer\<close>.
\<close>

theorem diff_exact:
  assumes "wf_cpu_state s" and "wf_cpu_state t"
  shows "(diff_masked s t m = [] \<longleftrightarrow>
      cs_gpr s = cs_gpr t \<and> cs_rip s = cs_rip t \<and> cs_zmm s = cs_zmm t \<and>
      cs_rflags s AND NOT m = cs_rflags t AND NOT m)
    \<and> (diff s t = [] \<longleftrightarrow> s = t)
    \<and> (diff_masked s t m = [] \<and> m AND ARITH_FLAGS = 0 \<longrightarrow> eq_integer s t)"
proof (intro conjI impI)
  note d = diff_masked_empty_iff [OF assms]
  show "diff_masked s t m = [] \<longleftrightarrow>
      cs_gpr s = cs_gpr t \<and> cs_rip s = cs_rip t \<and> cs_zmm s = cs_zmm t \<and>
      cs_rflags s AND NOT m = cs_rflags t AND NOT m" by (rule d)
  show "diff s t = [] \<longleftrightarrow> s = t"
    unfolding diff_def d [of 0] by (auto intro: cpu_state.equality)
  assume m: "diff_masked s t m = [] \<and> m AND ARITH_FLAGS = 0"
  then have "bit (m AND ARITH_FLAGS) n = bit (0 :: u64) n" for n by simp
  then have "\<not> (bit m n \<and> bit ARITH_FLAGS n)" for n by (simp add: bit_and_iff)
  then have sub: "NOT m AND ARITH_FLAGS = ARITH_FLAGS"
    by (intro bit_word_eqI) (auto simp: bit_simps)
  from m d have "cs_rflags s AND NOT m = cs_rflags t AND NOT m" by blast
  then have "(cs_rflags s AND NOT m) AND ARITH_FLAGS = (cs_rflags t AND NOT m) AND ARITH_FLAGS" by simp
  then have "cs_rflags s AND ARITH_FLAGS = cs_rflags t AND ARITH_FLAGS"
    by (simp only: and.assoc sub)
  with m d show "eq_integer s t"
    unfolding eq_integer_def by blast
qed

theorem diff_exact_witness:
  "diff_masked (default_cpu_state\<lparr>cs_rflags := FLAG_CF\<rparr>) default_cpu_state 1 = [] \<and>
   diff (default_cpu_state\<lparr>cs_rflags := FLAG_CF\<rparr>) default_cpu_state \<noteq> [] \<and>
   diff_masked (default_cpu_state\<lparr>cs_rip := 4\<rparr>) default_cpu_state 1 \<noteq> []"
proof -
  have w: "wf_cpu_state (default_cpu_state\<lparr>cs_rflags := f, cs_rip := r\<rparr>)" for f r
    using wf_default_cpu_state by (simp add: wf_cpu_state_def)
  have d: "default_cpu_state\<lparr>cs_rflags := 0, cs_rip := 0\<rparr> = default_cpu_state"
    "default_cpu_state\<lparr>cs_rflags := f, cs_rip := 0\<rparr> = default_cpu_state\<lparr>cs_rflags := f\<rparr>"
    "default_cpu_state\<lparr>cs_rflags := 0, cs_rip := r\<rparr> = default_cpu_state\<lparr>cs_rip := r\<rparr>" for f r
    by (simp_all add: default_cpu_state_def)
  show ?thesis
    using diff_exact [OF w w, of 0 FLAG_CF 0 0 1] diff_exact [OF w w, of 4 0 0 0 1]
    unfolding d by (simp add: default_cpu_state_def FLAG_CF_def)
qed

end
