(* ===== verification/Guest_Ram.thy ===== *)
theory Guest_Ram
  imports Oracle_Types
begin

text \<open>
  \<open>GuestRam\<close> of \<open>src/hw.rs\<close>: the host mapping behind guest RAM. The pointer is the byte at
  each offset below \<open>len\<close>; a fresh mapping is zero. Addresses are \<open>u64\<close>, offsets \<open>usize\<close>
  (64 bits), so the end of an access is computed with \<open>checked_add\<close>. An access that is not
  wholly inside the mapping reads zeroes and writes nothing.
\<close>

record guest_ram =
  ram_len :: nat
  ram_byte :: "nat \<Rightarrow> u8"

definition ram_new :: "nat \<Rightarrow> guest_ram" where
  "ram_new len = \<lparr>ram_len = len, ram_byte = (\<lambda>_. 0)\<rparr>"

definition ram_read :: "guest_ram \<Rightarrow> u64 \<Rightarrow> nat \<Rightarrow> u8 list" where
  "ram_read ram addr n =
     (case checked_add_usize (unat addr) n of
        None \<Rightarrow> replicate n 0
      | Some e \<Rightarrow>
          if e > ram_len ram then replicate n 0
          else map (\<lambda>i. ram_byte ram (unat addr + i)) [0..<n])"

definition ram_write :: "guest_ram \<Rightarrow> u64 \<Rightarrow> u8 list \<Rightarrow> guest_ram" where
  "ram_write ram addr data =
     (case checked_add_usize (unat addr) (length data) of
        None \<Rightarrow> ram
      | Some e \<Rightarrow>
          if e > ram_len ram then ram
          else ram\<lparr>ram_byte := (\<lambda>x. if unat addr \<le> x \<and> x < unat addr + length data
                                   then data ! (x - unat addr) else ram_byte ram x)\<rparr>)"

definition ram_write_u64 :: "guest_ram \<Rightarrow> u64 \<Rightarrow> u64 \<Rightarrow> guest_ram" where
  "ram_write_u64 ram addr value = ram_write ram addr (to_le_bytes value)"

definition ram_read_u64 :: "guest_ram \<Rightarrow> u64 \<Rightarrow> u64" where
  "ram_read_u64 ram addr = from_le_bytes (ram_read ram addr 8)"

section \<open>Bounds: an access is inside the mapping or it is nothing\<close>

text \<open>Sizes are \<open>usize\<close>, so the length of a mapping fits 64 bits.\<close>

definition ram_ok :: "guest_ram \<Rightarrow> bool" where
  "ram_ok ram \<longleftrightarrow> ram_len ram < 2 ^ 64"

definition in_ram :: "guest_ram \<Rightarrow> u64 \<Rightarrow> nat \<Rightarrow> bool" where
  "in_ram ram addr n \<longleftrightarrow> unat addr + n \<le> ram_len ram"

lemma ram_ok_new: "len < 2 ^ 64 \<Longrightarrow> ram_ok (ram_new len)"
  by (simp add: ram_ok_def ram_new_def)

lemma checked_add_inside:
  "ram_ok ram \<Longrightarrow> in_ram ram a n \<Longrightarrow> checked_add_usize (unat a) n = Some (unat a + n)"
  by (simp add: checked_add_usize_def ram_ok_def in_ram_def)

lemma ram_read_inside:
  "ram_ok ram \<Longrightarrow> in_ram ram a n \<Longrightarrow> ram_read ram a n = map (\<lambda>i. ram_byte ram (unat a + i)) [0..<n]"
  unfolding ram_read_def by (simp add: checked_add_inside) (simp add: in_ram_def)

lemma ram_read_outside: "\<not> in_ram ram a n \<Longrightarrow> ram_read ram a n = replicate n 0"
  by (simp add: ram_read_def in_ram_def checked_add_usize_def)

lemma ram_write_inside:
  "ram_ok ram \<Longrightarrow> in_ram ram a (length d) \<Longrightarrow>
   ram_write ram a d = ram\<lparr>ram_byte := (\<lambda>x. if unat a \<le> x \<and> x < unat a + length d
                                   then d ! (x - unat a) else ram_byte ram x)\<rparr>"
  unfolding ram_write_def by (simp add: checked_add_inside) (simp add: in_ram_def)

lemma ram_write_outside: "\<not> in_ram ram a (length d) \<Longrightarrow> ram_write ram a d = ram"
  by (simp add: ram_write_def in_ram_def checked_add_usize_def)

lemma length_ram_read [simp]: "length (ram_read ram a n) = n"
  by (simp add: ram_read_def split: option.splits)

lemma ram_len_write [simp]: "ram_len (ram_write ram a d) = ram_len ram"
  by (simp add: ram_write_def split: option.splits)

lemma ram_len_write_u64 [simp]: "ram_len (ram_write_u64 ram a v) = ram_len ram"
  by (simp add: ram_write_u64_def)

lemma ram_ok_write [simp]: "ram_ok (ram_write ram a d) = ram_ok ram"
  by (simp add: ram_ok_def)

lemma ram_ok_write_u64 [simp]: "ram_ok (ram_write_u64 ram a v) = ram_ok ram"
  by (simp add: ram_ok_def)

lemma in_ram_write [simp]: "in_ram (ram_write ram a d) b n = in_ram ram b n"
  by (simp add: in_ram_def)

lemma in_ram_write_u64 [simp]: "in_ram (ram_write_u64 ram a v) b n = in_ram ram b n"
  by (simp add: in_ram_def)

lemma ram_byte_write:
  "ram_ok ram \<Longrightarrow> in_ram ram a (length d) \<Longrightarrow>
   ram_byte (ram_write ram a d) x =
     (if unat a \<le> x \<and> x < unat a + length d then d ! (x - unat a) else ram_byte ram x)"
  by (simp add: ram_write_inside)

lemma ram_byte_write_frame:
  "x < unat a \<or> unat a + length d \<le> x \<Longrightarrow> ram_byte (ram_write ram a d) x = ram_byte ram x"
  by (auto simp: ram_write_def split: option.splits)

section \<open>Read after write\<close>

lemma ram_read_write_same:
  assumes "ram_ok ram" and "in_ram ram a (length d)"
  shows "ram_read (ram_write ram a d) a (length d) = d"
  using assms by (intro nth_equalityI) (simp_all add: ram_read_inside ram_byte_write)

lemma ram_read_write_disjoint:
  assumes "unat a + length d \<le> unat b \<or> unat b + n \<le> unat a"
  shows "ram_read (ram_write ram a d) b n = ram_read ram b n"
  using assms by (auto simp: ram_read_def ram_byte_write_frame split: option.splits)

lemma ram_read_write_u64_same:
  "ram_ok ram \<Longrightarrow> in_ram ram a 8 \<Longrightarrow> ram_read_u64 (ram_write_u64 ram a v) a = v"
  using ram_read_write_same [of ram a "to_le_bytes v"]
  by (simp add: ram_read_u64_def ram_write_u64_def)

lemma ram_read_write_u64_disjoint:
  "unat a + 8 \<le> unat b \<or> unat b + 8 \<le> unat a \<Longrightarrow>
   ram_read_u64 (ram_write_u64 ram a v) b = ram_read_u64 ram b"
  by (simp add: ram_read_u64_def ram_write_u64_def ram_read_write_disjoint)

lemma ram_read_u64_write_disjoint:
  "unat a + length d \<le> unat b \<or> unat b + 8 \<le> unat a \<Longrightarrow>
   ram_read_u64 (ram_write ram a d) b = ram_read_u64 ram b"
  by (simp add: ram_read_u64_def ram_read_write_disjoint)

lemma ram_read_new [simp]: "ram_read (ram_new len) a n = replicate n 0"
  by (auto simp: ram_read_def ram_new_def map_replicate_const split: option.splits)

lemma ram_read_u64_new [simp]: "ram_read_u64 (ram_new len) a = 0"
  by (simp add: ram_read_u64_def)

text \<open>Two memories that agree on a range read alike there.\<close>

lemma ram_read_cong:
  "ram_len r = ram_len r' \<Longrightarrow>
   (\<And>x. unat a \<le> x \<Longrightarrow> x < unat a + n \<Longrightarrow> ram_byte r x = ram_byte r' x) \<Longrightarrow>
   ram_read r a n = ram_read r' a n"
  by (auto simp: ram_read_def split: option.splits)

end
