(* ===== verification/Hw_Faults.thy ===== *)
theory Hw_Faults
  imports Guest_Ram
begin

text \<open>
  The fault half of \<open>src/hw.rs\<close>: the layout of the control region, which vectors push an
  error code, the portable classification and the free-text message of a vector, the map
  from the RIP of a \<open>HLT\<close> exit back to the vector whose stub it is, and the reading of the
  exception frame. Vectors are \<open>u8\<close>, addresses and error codes \<open>u64\<close>.
\<close>

section \<open>Layout of the control region\<close>

definition RAM_SIZE :: u64 where "RAM_SIZE = push_bit 20 256"
definition CTRL_BASE :: u64 where "CTRL_BASE = RAM_SIZE - push_bit 20 4"
definition PML4_ADDR :: u64 where "PML4_ADDR = CTRL_BASE"
definition PDPT_ADDR :: u64 where "PDPT_ADDR = CTRL_BASE + 0x1000"
definition PD_ADDR :: u64 where "PD_ADDR = CTRL_BASE + 0x2000"
definition GDT_ADDR :: u64 where "GDT_ADDR = 0xFC03000"
definition GDT_LIMIT :: u16 where "GDT_LIMIT = 39"
definition IDT_ADDR :: u64 where "IDT_ADDR = 0xFC04000"
definition IDT_LIMIT :: u16 where "IDT_LIMIT = 0xFFF"
definition SEL_TSS :: u16 where "SEL_TSS = 0x18"
definition STUB_BASE :: u64 where "STUB_BASE = CTRL_BASE + 0x5000"
definition STUB_STRIDE :: u64 where "STUB_STRIDE = 16"
definition STUB_AREA :: u64 where "STUB_AREA = 256 * STUB_STRIDE"
definition TSS_ADDR :: u64 where "TSS_ADDR = CTRL_BASE + 0x6000"
definition TSS_LIMIT :: u32 where "TSS_LIMIT = 0x67"
definition IST_STACK_TOP :: u64 where "IST_STACK_TOP = CTRL_BASE + 0x8000"
definition SEL_CODE64 :: u16 where "SEL_CODE64 = 0x08"
definition SEL_DATA :: u16 where "SEL_DATA = 0x10"
definition CR0_INIT :: u64 where "CR0_INIT = 0x80050033"
definition CR4_INIT :: u64 where
  "CR4_INIT = push_bit 5 1 OR push_bit 9 1 OR push_bit 10 1 OR push_bit 18 1"
definition EFER_INIT :: u64 where "EFER_INIT = push_bit 8 1 OR push_bit 10 1 OR push_bit 11 1"

lemma RAM_SIZE_val [layout_simps]: "RAM_SIZE = 0x10000000"
  by (simp add: RAM_SIZE_def push_bit_eq_mult)

lemma CTRL_BASE_val [layout_simps]: "CTRL_BASE = 0xFC00000"
  by (simp add: CTRL_BASE_def RAM_SIZE_val push_bit_eq_mult)

lemma control_region_vals [layout_simps]:
  "PML4_ADDR = 0xFC00000" "PDPT_ADDR = 0xFC01000" "PD_ADDR = 0xFC02000"
  "STUB_BASE = 0xFC05000" "STUB_STRIDE = 16" "STUB_AREA = 0x1000"
  "TSS_ADDR = 0xFC06000" "IST_STACK_TOP = 0xFC08000"
  by (simp_all add: PML4_ADDR_def PDPT_ADDR_def PD_ADDR_def STUB_BASE_def STUB_STRIDE_def
      STUB_AREA_def TSS_ADDR_def IST_STACK_TOP_def CTRL_BASE_val)

lemmas contract_vals [layout_simps] =
  GDT_ADDR_def GDT_LIMIT_def IDT_ADDR_def IDT_LIMIT_def SEL_TSS_def TSS_LIMIT_def
  SEL_CODE64_def SEL_DATA_def

lemma control_register_vals [layout_simps]:
  "CR0_INIT = 0x80050033" "CR4_INIT = 0x40620" "EFER_INIT = 0xD00"
  by (simp_all add: CR0_INIT_def CR4_INIT_def EFER_INIT_def push_bit_eq_mult)

text \<open>The compile-time assertion of \<open>hw.rs\<close> that pins the contract's literals to the layout.\<close>

definition layout_assertion :: bool where
  "layout_assertion \<longleftrightarrow>
     GDT_ADDR = CTRL_BASE + 0x3000 \<and> IDT_ADDR = CTRL_BASE + 0x4000 \<and>
     (ucast GDT_LIMIT :: u64) = ucast SEL_TSS + 16 - 1 \<and> (ucast IDT_LIMIT :: u64) = 256 * 16 - 1"

lemma layout_assertion_holds: "layout_assertion"
  by (simp add: layout_assertion_def layout_simps)

section \<open>Vectors\<close>

definition has_error_code :: "u8 \<Rightarrow> bool" where
  "has_error_code vector \<longleftrightarrow> vector \<in> {8, 10, 11, 12, 13, 14, 17, 21}"

definition classify :: "u8 \<Rightarrow> fault_kind" where
  "classify vector =
     (if vector = 0 then DivideError
      else if vector = 6 then UndefinedOpcode
      else if vector = 13 then GeneralProtection
      else if vector = 14 then PageFault
      else if vector = 17 then AlignmentCheck
      else if vector = 21 then ControlProtection
      else OtherException)"

definition vector_name :: "u8 \<Rightarrow> string" where
  "vector_name vector =
     (if vector = 0 then ''#DE divide error''
      else if vector = 1 then ''#DB debug''
      else if vector = 3 then ''#BP breakpoint''
      else if vector = 4 then ''#OF overflow''
      else if vector = 5 then ''#BR bound range''
      else if vector = 6 then ''#UD invalid opcode''
      else if vector = 7 then ''#NM device not available''
      else if vector = 8 then ''#DF double fault''
      else if vector = 10 then ''#TS invalid TSS''
      else if vector = 11 then ''#NP segment not present''
      else if vector = 12 then ''#SS stack fault''
      else if vector = 13 then ''#GP general protection''
      else if vector = 14 then ''#PF page fault''
      else if vector = 16 then ''#MF x87 FP''
      else if vector = 17 then ''#AC alignment check''
      else if vector = 18 then ''#MC machine check''
      else if vector = 19 then ''#XM SIMD FP''
      else if vector = 21 then ''#CP control protection''
      else ''exception'')"

definition fault_message :: "u8 \<Rightarrow> u64 \<Rightarrow> string" where
  "fault_message vector error_code =
     (if has_error_code vector
      then vector_name vector @ '' (vector '' @ fmt_dec (unat vector) @ '', error code ''
           @ fmt_hex (unat error_code) @ '')''
      else vector_name vector @ '' (vector '' @ fmt_dec (unat vector) @ '')'')"

definition stub_vector :: "u64 \<Rightarrow> u8 option" where
  "stub_vector halt_rip =
     (if halt_rip > STUB_BASE \<and> halt_rip \<le> STUB_BASE + STUB_AREA
      then Some (ucast ((halt_rip - 1 - STUB_BASE) div STUB_STRIDE)) else None)"

section \<open>The exception frame\<close>

record unwound =
  uw_rip :: u64
  uw_rsp :: u64
  uw_rflags :: u64
  uw_error_code :: u64

definition unwind_frame :: "profile \<Rightarrow> guest_ram \<Rightarrow> u64 \<Rightarrow> u8 \<Rightarrow> unwound panics" where
  "unwind_frame prof ram handler_rsp vector = do {
     (error_code, base) \<leftarrow>
       (if has_error_code vector
        then do { b \<leftarrow> add_u64 prof handler_rsp 8; Some (ram_read_u64 ram handler_rsp, b) }
        else Some (0, handler_rsp));
     rip_at \<leftarrow> Some base;
     flags_at \<leftarrow> add_u64 prof base 16;
     rsp_at \<leftarrow> add_u64 prof base 24;
     Some \<lparr>uw_rip = ram_read_u64 ram rip_at, uw_rsp = ram_read_u64 ram rsp_at,
           uw_rflags = ram_read_u64 ram flags_at, uw_error_code = error_code\<rparr> }"

section \<open>Lemmas on vectors\<close>

lemma unat_STUB: "unat STUB_BASE = 0xFC05000" "unat (STUB_BASE + STUB_AREA) = 0xFC06000"
  by (simp_all add: layout_simps)

text \<open>The stubs partition the area: an exit in the sixteen bytes of stub \<open>v\<close> is vector \<open>v\<close>.\<close>

lemma stub_vector_Some_iff:
  "stub_vector rip = Some v \<longleftrightarrow>
     unat STUB_BASE + 16 * unat v < unat rip \<and> unat rip \<le> unat STUB_BASE + 16 * unat v + 16"
proof (cases "rip > STUB_BASE \<and> rip \<le> STUB_BASE + STUB_AREA")
  case True
  then have lo: "0xFC05000 < unat rip" and hi: "unat rip \<le> 0xFC06000"
    by (simp_all add: word_less_nat_alt word_le_nat_alt unat_STUB)
  let ?d = "rip - 1 - STUB_BASE"
  have "unat (rip - 1) = unat rip - 1" using lo by (simp add: unat_sub_if' word_le_nat_alt)
  then have d: "unat ?d = unat rip - 1 - 0xFC05000"
    using lo by (simp add: unat_sub_if' word_le_nat_alt unat_STUB)
  have q: "unat (?d div STUB_STRIDE) = (unat rip - 1 - 0xFC05000) div 16"
    by (simp only: unat_div d) (simp add: layout_simps)
  have "(unat rip - 1 - 0xFC05000) div 16 < 256" using hi lo by simp
  then have u: "unat (ucast (?d div STUB_STRIDE) :: u8) = (unat rip - 1 - 0xFC05000) div 16"
    by (simp add: unsigned_ucast_eq q take_bit_nat_eq_self)
  have "stub_vector rip = Some v \<longleftrightarrow> (unat rip - 1 - 0xFC05000) div 16 = unat v"
    using True u by (auto simp: stub_vector_def word_unat_eq_iff)
  also have "\<dots> \<longleftrightarrow> 0xFC05000 + 16 * unat v < unat rip \<and> unat rip \<le> 0xFC05000 + 16 * unat v + 16"
    using lo by auto
  finally show ?thesis by (simp add: unat_STUB)
next
  case False
  then have "unat rip \<le> 0xFC05000 \<or> 0xFC06000 < unat rip"
    by (auto simp: word_less_nat_alt word_le_nat_alt unat_STUB)
  moreover have "unat v < 256" using unsigned_less [of v] by simp
  ultimately show ?thesis using False by (auto simp: stub_vector_def unat_STUB)
qed

lemma stub_vector_None_iff:
  "stub_vector rip = None \<longleftrightarrow> unat rip \<le> unat STUB_BASE \<or> unat STUB_BASE + 4096 < unat rip"
  by (auto simp: stub_vector_def word_less_nat_alt word_le_nat_alt unat_STUB)

text \<open>The message names the vector: the name has no parenthesis, the number no delimiter.\<close>

lemma no_paren_vector_name: "CHR ''('' \<notin> set (vector_name v)"
  by (simp add: vector_name_def)

definition digit_set :: "char set" where
  "digit_set = set ''0123456789abcdef''"

lemma digit_char_in: "d < 16 \<Longrightarrow> digit_char d \<in> digit_set"
  unfolding digit_char_def digit_set_def by (rule nth_mem) simp

lemma set_digits_in: "2 \<le> b \<Longrightarrow> b \<le> 16 \<Longrightarrow> set (digits_in b n) \<subseteq> digit_set"
proof (induction b n rule: digits_in.induct)
  case (1 b n)
  show ?case
  proof (cases "n < b")
    case True
    with 1(3) have "n < 16" by simp
    with True 1(2) show ?thesis by (subst digits_in.simps) (simp add: digit_char_in)
  next
    case False
    have "n mod b < b" using 1(2) by simp
    with 1(3) have m: "n mod b < 16" by (rule less_le_trans [rotated])
    from False 1(2) 1(1) [OF _ 1(2,3)] show ?thesis
      by (subst digits_in.simps) (simp add: digit_char_in [OF m])
  qed
qed

lemma fmt_dec_digits: "c \<in> set (fmt_dec n) \<Longrightarrow> c \<in> digit_set"
  using set_digits_in [of 10 n] by (auto simp: fmt_dec_def)

text \<open>What is printed before and after the first character outside a class.\<close>

lemma split_at_delimiter:
  assumes "list_all P xs" and "list_all P ys" and "\<not> P c" and "\<not> P d"
    and "xs @ c # us = ys @ d # vs"
  shows "xs = ys \<and> c = d \<and> us = vs"
proof -
  have t: "takeWhile P (zs @ e # ws) = zs" if "list_all P zs" and "\<not> P e" for zs e ws
    using that by (simp add: list_all_iff)
  from t [OF assms(1,3)] t [OF assms(2,4)] assms(5) have "xs = ys" by metis
  with assms(5) show ?thesis by simp
qed

lemma fault_message_parts:
  "fault_message v e =
     (vector_name v @ '' '') @ CHR ''('' #
     ''vector '' @ (fmt_dec (unat v) @
       (if has_error_code v then CHR '','' # '' error code '' @ fmt_hex (unat e) @ '')''
        else CHR '')'' # ''''))"
  by (simp add: fault_message_def)

lemma fault_message_inject:
  "fault_message v e = fault_message v' e' \<longleftrightarrow> v = v' \<and> (has_error_code v \<longrightarrow> e = e')"
proof
  let ?tail = "\<lambda>v e. if has_error_code v then CHR '','' # '' error code '' @ fmt_hex (unat e) @ '')''
                     else CHR '')'' # ''''"
  assume m: "fault_message v e = fault_message v' e'"
  have paren: "list_all (\<lambda>c. c \<noteq> CHR ''('') (vector_name w @ '' '')" for w
    using no_paren_vector_name [of w] by (auto simp: list_all_iff)
  have "''vector '' @ (fmt_dec (unat v) @ ?tail v e) = ''vector '' @ (fmt_dec (unat v') @ ?tail v' e')"
    using split_at_delimiter [OF paren paren _ _ m [unfolded fault_message_parts]] by blast
  then have n: "fmt_dec (unat v) @ ?tail v e = fmt_dec (unat v') @ ?tail v' e'"
    by simp
  have digits: "list_all (\<lambda>c. c \<in> digit_set) (fmt_dec k)" for k
    using fmt_dec_digits by (simp add: list_all_iff)
  obtain c us where t: "?tail v e = c # us" "c \<notin> digit_set"
    by (cases "has_error_code v") (auto simp: digit_set_def)
  obtain d vs where t': "?tail v' e' = d # vs" "d \<notin> digit_set"
    by (cases "has_error_code v'") (auto simp: digit_set_def)
  have "fmt_dec (unat v) = fmt_dec (unat v') \<and> c = d \<and> us = vs"
    using split_at_delimiter [OF digits digits t(2) t'(2)] n unfolding t t' by blast
  with t t' have "unat v = unat v'" and "?tail v e = ?tail v' e'" by simp_all
  then show "v = v' \<and> (has_error_code v \<longrightarrow> e = e')"
    by (auto simp: word_unat_eq_iff split: if_splits)
next
  assume "v = v' \<and> (has_error_code v \<longrightarrow> e = e')"
  then show "fault_message v e = fault_message v' e'"
    by (simp add: fault_message_def)
qed

section \<open>Lemmas on the frame\<close>

text \<open>The part of a long-mode frame the code reads, at \<open>base\<close>: RIP, (CS,) RFLAGS, RSP, (SS).\<close>

definition frame_at :: "guest_ram \<Rightarrow> u64 \<Rightarrow> u64 \<Rightarrow> u64 \<Rightarrow> u64 \<Rightarrow> bool" where
  "frame_at ram base rip rflags rsp \<longleftrightarrow>
     ram_read_u64 ram base = rip \<and> ram_read_u64 ram (base + 16) = rflags \<and>
     ram_read_u64 ram (base + 24) = rsp"

lemma unwind_frame_plain:
  assumes "\<not> has_error_code v" and "unat h + 24 < 2 ^ 64" and "frame_at ram h rip rflags rsp"
  shows "unwind_frame prof ram h v =
    Some \<lparr>uw_rip = rip, uw_rsp = rsp, uw_rflags = rflags, uw_error_code = 0\<rparr>"
  using assms by (simp add: unwind_frame_def add_u64_def frame_at_def)

lemma unwind_frame_code:
  assumes "has_error_code v" and "unat h + 32 < 2 ^ 64" and "frame_at ram (h + 8) rip rflags rsp"
    and "ram_read_u64 ram h = ec"
  shows "unwind_frame prof ram h v =
    Some \<lparr>uw_rip = rip, uw_rsp = rsp, uw_rflags = rflags, uw_error_code = ec\<rparr>"
proof -
  have "unat (h + 8) = unat h + 8" using assms(2) by (simp add: unat_word_ariths)
  with assms show ?thesis by (simp add: unwind_frame_def add_u64_def frame_at_def)
qed

end
