(* ===== verification/Hw_Image.thy ===== *)
theory Hw_Image
  imports Hw_Tables
begin

text \<open>
  What the image of \<open>build_control_structures\<close> means to a processor. The first half reads the
  image back word by word; the second half defines, from the Intel SDM (vol. 3, 4-level
  paging; 64-bit interrupt gates; the TSS descriptor; exception delivery through an IST
  stack), how a processor walks the page tables (\<open>pt_walk\<close>) and delivers a vector
  (\<open>arch_deliver\<close>). These two are the specification side and model no code of the
  repository.
\<close>

section \<open>The image, region by region\<close>

lemma ram_read_u64_cong:
  "ram_len r = ram_len r' \<Longrightarrow>
   (\<And>x. unat a \<le> x \<Longrightarrow> x < unat a + 8 \<Longrightarrow> ram_byte r x = ram_byte r' x) \<Longrightarrow>
   ram_read_u64 r a = ram_read_u64 r' a"
  unfolding ram_read_u64_def by (subst ram_read_cong [of r r']) auto

lemma unat_mul8: "i < 2 ^ 40 \<Longrightarrow> unat base < 2 ^ 40 \<Longrightarrow>
  unat (base + of_nat i * 8 :: u64) = unat base + i * 8"
  using unat_slot [of base i 8] by simp

lemma unat_mul16: "i < 2 ^ 40 \<Longrightarrow> unat base < 2 ^ 40 \<Longrightarrow>
  unat (base + of_nat i * 16 :: u64) = unat base + i * 16"
  using unat_slot [of base i 16] by simp

lemma pd_slots: "unat (drop_bit 21 RAM_SIZE) = 128"
  by (simp add: layout_simps drop_bit_eq_div)

text \<open>Lengths: no table changes the size of the mapping.\<close>

lemma ram_len_tables [simp]:
  "ram_len (build_page_tables r) = ram_len r" "ram_len (build_gdt r) = ram_len r"
  "ram_len (build_tss r) = ram_len r" "ram_len (build_idt r) = ram_len r"
  "ram_len (build_stubs r) = ram_len r" "ram_len (build_control_structures r) = ram_len r"
  by (simp_all add: build_page_tables_def build_gdt_def build_tss_def build_idt_def
      build_stubs_def build_control_structures_def ram_len_fold Let_def)

text \<open>Frames: each table writes only its own region.\<close>

lemma page_tables_frame:
  assumes "x < 0xFC00000 \<or> 0xFC02400 \<le> x"
  shows "ram_byte (build_page_tables r) x = ram_byte r x"
proof -
  let ?g = "\<lambda>i r. ram_write_u64 r (PD_ADDR + of_nat i * 8) (pd_entry i)"
  have "ram_byte (fold ?g [0..<128] r') x = ram_byte r' x" for r'
  proof (rule fold_slots_byte [where base = "0xFC02000" and stride = 8])
    show "x < 0xFC02000 \<or> 0xFC02000 + 8 * 128 \<le> x" using assms by auto
  next
    fix i r x
    assume "i < (128 :: nat)" and "x < 0xFC02000 + 8 * i \<or> 0xFC02000 + 8 * Suc i \<le> x"
    then show "ram_byte (?g i r) x = ram_byte r x"
      by (intro ram_byte_write_u64_frame) (auto simp: unat_mul8 layout_simps)
  qed
  with assms show ?thesis
    unfolding build_page_tables_def pd_slots
    by (auto simp: ram_byte_write_u64_frame layout_simps)
qed

lemma gdt_frame:
  "x < 0xFC03000 \<or> 0xFC03028 \<le> x \<Longrightarrow> ram_byte (build_gdt r) x = ram_byte r x"
  by (auto simp: build_gdt_def Let_def ram_byte_write_u64_frame layout_simps)

lemma tss_frame:
  "x < 0xFC06000 \<or> 0xFC06068 \<le> x \<Longrightarrow> ram_byte (build_tss r) x = ram_byte r x"
  by (auto simp: build_tss_def ram_byte_write_frame layout_simps)

lemma stubs_frame:
  "x < 0xFC05000 \<or> 0xFC06000 \<le> x \<Longrightarrow> ram_byte (build_stubs r) x = ram_byte r x"
  by (auto simp: build_stubs_def ram_byte_write_frame layout_simps)

definition idt_slot :: "nat \<Rightarrow> guest_ram \<Rightarrow> guest_ram" where
  "idt_slot v r = ram_write_u64 (ram_write_u64 r (IDT_ADDR + of_nat v * 16) (gate_low (stub_addr v)))
                    (IDT_ADDR + of_nat v * 16 + 8) (drop_bit 32 (stub_addr v))"

lemma build_idt_slots: "build_idt r = fold idt_slot [0..<256] r"
  by (simp add: build_idt_def idt_slot_def [abs_def] Let_def)

lemma unat_idt_slot:
  assumes "v < 256"
  shows "unat (IDT_ADDR + of_nat v * 16) = 0xFC04000 + 16 * v"
    and "unat (IDT_ADDR + of_nat v * 16 + 8) = 0xFC04008 + 16 * v"
proof -
  show a: "unat (IDT_ADDR + of_nat v * 16) = 0xFC04000 + 16 * v"
    using assms by (simp add: unat_mul16 layout_simps)
  show "unat (IDT_ADDR + of_nat v * 16 + 8) = 0xFC04008 + 16 * v"
    using assms by (subst unat_add_u64) (simp_all add: a)
qed

lemma idt_slot_frame:
  "v < 256 \<Longrightarrow> x < 0xFC04000 + 16 * v \<or> 0xFC04000 + 16 * Suc v \<le> x \<Longrightarrow>
   ram_byte (idt_slot v r) x = ram_byte r x"
  by (auto simp: idt_slot_def ram_byte_write_u64_frame unat_idt_slot)

lemma idt_frame:
  "x < 0xFC04000 \<or> 0xFC05000 \<le> x \<Longrightarrow> ram_byte (build_idt r) x = ram_byte r x"
  unfolding build_idt_slots
  by (rule fold_slots_byte [where base = "0xFC04000" and stride = 16]) (auto simp: idt_slot_frame)

lemma control_frame:
  "x < 0xFC00000 \<or> 0xFC06068 \<le> x \<Longrightarrow> ram_byte (build_control_structures r) x = ram_byte r x"
  by (auto simp: build_control_structures_def stubs_frame idt_frame tss_frame gdt_frame page_tables_frame)

section \<open>The image, word by word\<close>

definition holds_guest :: "guest_ram \<Rightarrow> bool" where
  "holds_guest r \<longleftrightarrow> ram_ok r \<and> 0x10000000 \<le> ram_len r"

lemma holds_guest_tables [simp]:
  "holds_guest (build_page_tables r) = holds_guest r" "holds_guest (build_gdt r) = holds_guest r"
  "holds_guest (build_tss r) = holds_guest r" "holds_guest (build_idt r) = holds_guest r"
  "holds_guest (build_stubs r) = holds_guest r"
  "holds_guest (build_control_structures r) = holds_guest r"
  by (simp_all add: holds_guest_def ram_ok_def)

lemma holds_guest_write [simp]:
  "holds_guest (ram_write r a d) = holds_guest r" "holds_guest (ram_write_u64 r a v) = holds_guest r"
  by (simp_all add: holds_guest_def)

lemma holds_guest_in_ram: "holds_guest r \<Longrightarrow> unat a + n \<le> 0x10000000 \<Longrightarrow> ram_ok r \<and> in_ram r a n"
  by (simp add: holds_guest_def in_ram_def)

lemma read_u64_after_write:
  "holds_guest r \<Longrightarrow> unat a + 8 \<le> 0x10000000 \<Longrightarrow> ram_read_u64 (ram_write_u64 r a v) a = v"
  using holds_guest_in_ram [of r a 8] by (blast intro: ram_read_write_u64_same)

text \<open>A read that ends before, or starts after, the region of a table skips it.\<close>

lemma skip_tables:
  "unat a + 8 \<le> 0xFC04000 \<or> 0xFC05000 \<le> unat a \<Longrightarrow>
     ram_read_u64 (build_idt r) a = ram_read_u64 r a"
  "unat a + 8 \<le> 0xFC05000 \<or> 0xFC06000 \<le> unat a \<Longrightarrow>
     ram_read_u64 (build_stubs r) a = ram_read_u64 r a"
  "unat a + 8 \<le> 0xFC06000 \<or> 0xFC06068 \<le> unat a \<Longrightarrow>
     ram_read_u64 (build_tss r) a = ram_read_u64 r a"
  "unat a + 8 \<le> 0xFC03000 \<or> 0xFC03028 \<le> unat a \<Longrightarrow>
     ram_read_u64 (build_gdt r) a = ram_read_u64 r a"
  by (rule ram_read_u64_cong; force simp: idt_frame stubs_frame tss_frame gdt_frame)+

lemma image_pml4_pdpt:
  assumes "holds_guest r"
  shows "ram_read_u64 (build_control_structures r) PML4_ADDR = 0xFC01003"
    and "ram_read_u64 (build_control_structures r) PDPT_ADDR = 0xFC02003"
proof -
  let ?r1 = "ram_write_u64 r PML4_ADDR (PDPT_ADDR OR PTE_P OR PTE_W)"
  let ?r2 = "ram_write_u64 ?r1 PDPT_ADDR (PD_ADDR OR PTE_P OR PTE_W)"
  have pd: "ram_byte (build_page_tables r) x = ram_byte ?r2 x" if "x < 0xFC02000" for x
    unfolding build_page_tables_def pd_slots
  proof (rule fold_slots_byte [where base = "0xFC02000" and stride = 8])
    fix i r x
    assume "i < (128 :: nat)" and "x < 0xFC02000 + 8 * i \<or> 0xFC02000 + 8 * Suc i \<le> x"
    then show "ram_byte (ram_write_u64 r (PD_ADDR + of_nat i * 8) (pd_entry i)) x = ram_byte r x"
      by (intro ram_byte_write_u64_frame) (auto simp: unat_mul8 layout_simps)
  qed (use that in simp)
  have rd: "ram_read_u64 (build_control_structures r) a = ram_read_u64 ?r2 a"
    if "unat a + 8 \<le> 0xFC02000" for a
    using that unfolding build_control_structures_def
    by (simp add: skip_tables) (rule ram_read_u64_cong, simp_all add: pd)
  have "ram_read_u64 ?r2 PML4_ADDR = ram_read_u64 ?r1 PML4_ADDR"
    by (rule ram_read_write_u64_disjoint) (simp add: layout_simps)
  then show "ram_read_u64 (build_control_structures r) PML4_ADDR = 0xFC01003"
    using assms by (simp add: rd layout_simps read_u64_after_write)
  show "ram_read_u64 (build_control_structures r) PDPT_ADDR = 0xFC02003"
    using assms by (simp add: rd layout_simps read_u64_after_write)
qed

lemma image_pd:
  assumes "holds_guest r" and "i < 128"
  shows "ram_read_u64 (build_control_structures r) (PD_ADDR + of_nat i * 8) = pd_entry i"
proof -
  let ?g = "\<lambda>i r. ram_write_u64 r (PD_ADDR + of_nat i * 8) (pd_entry i)"
  let ?a = "PD_ADDR + of_nat i * 8"
  have u: "unat ?a = 0xFC02000 + 8 * i"
    using assms(2) by (simp add: unat_mul8 layout_simps)
  define r2 where "r2 = ram_write_u64 (ram_write_u64 r PML4_ADDR (PDPT_ADDR OR PTE_P OR PTE_W))
          PDPT_ADDR (PD_ADDR OR PTE_P OR PTE_W)"
  have big: "holds_guest (fold ?g [0..<n] r2)" for n
    by (induction n) (simp_all add: r2_def assms)
  have "ram_read_u64 (build_control_structures r) ?a = ram_read_u64 (build_page_tables r) ?a"
    using assms(2) u unfolding build_control_structures_def by (simp add: skip_tables)
  also have "\<dots> = ram_read_u64 (?g i (fold ?g [0..<i] r2)) ?a"
  proof (rule ram_read_u64_cong)
    show "ram_len (build_page_tables r) = ram_len (?g i (fold ?g [0..<i] r2))"
      by (simp add: ram_len_fold r2_def)
  next
    fix x assume x: "unat ?a \<le> x" "x < unat ?a + 8"
    show "ram_byte (build_page_tables r) x = ram_byte (?g i (fold ?g [0..<i] r2)) x"
      unfolding build_page_tables_def pd_slots r2_def [symmetric]
    proof (rule fold_slots_byte_in [where base = "0xFC02000" and stride = 8])
      fix i r x
      assume "i < (128 :: nat)" and "x < 0xFC02000 + 8 * i \<or> 0xFC02000 + 8 * Suc i \<le> x"
      then show "ram_byte (?g i r) x = ram_byte r x"
        by (intro ram_byte_write_u64_frame) (auto simp: unat_mul8 layout_simps)
    qed (use x u assms(2) in simp_all)
  qed
  also have "\<dots> = pd_entry i"
    using big u assms(2) by (intro read_u64_after_write) simp_all
  finally show ?thesis .
qed

text \<open>Entries the code does not write keep the zero of a fresh mapping.\<close>

lemma page_tables_zero:
  assumes "0xFC00008 \<le> x" and "x < 0xFC01000 \<or> 0xFC01008 \<le> x \<and> x < 0xFC02000 \<or> 0xFC02400 \<le> x \<and> x < 0xFC03000"
  shows "ram_byte (build_control_structures (ram_new n)) x = 0"
proof -
  let ?g = "\<lambda>i r. ram_write_u64 r (PD_ADDR + of_nat i * 8) (pd_entry i)"
  have pd: "ram_byte (fold ?g [0..<128] r) x = ram_byte r x" for r
  proof (rule fold_slots_byte [where base = "0xFC02000" and stride = 8])
    show "x < 0xFC02000 \<or> 0xFC02000 + 8 * 128 \<le> x" using assms by auto
  next
    fix i r x
    assume "i < (128 :: nat)" and "x < 0xFC02000 + 8 * i \<or> 0xFC02000 + 8 * Suc i \<le> x"
    then show "ram_byte (?g i r) x = ram_byte r x"
      by (intro ram_byte_write_u64_frame) (auto simp: unat_mul8 layout_simps)
  qed
  have "ram_byte (build_control_structures (ram_new n)) x = ram_byte (build_page_tables (ram_new n)) x"
    using assms unfolding build_control_structures_def
    by (auto simp: stubs_frame idt_frame tss_frame gdt_frame)
  also have "\<dots> = ram_byte (ram_new n) x"
    using assms unfolding build_page_tables_def pd_slots pd
    by (auto simp: ram_byte_write_u64_frame layout_simps)
  finally show ?thesis by (simp add: ram_new_def)
qed



lemma read_u64_zero:
  assumes "\<And>x. unat a \<le> x \<Longrightarrow> x < unat a + 8 \<Longrightarrow> ram_byte r x = 0"
  shows "ram_read_u64 r a = 0"
proof -
  have "ram_read r a 8 = replicate 8 0"
    by (rule nth_equalityI) (auto simp: ram_read_def assms simp del: replicate.simps split: option.splits)
  then show ?thesis by (simp only: ram_read_u64_def from_le_bytes_zeros)
qed

lemma image_absent:
  assumes "i < 512"
  shows "0 < i \<Longrightarrow> ram_read_u64 (build_control_structures (ram_new n)) (PML4_ADDR + of_nat i * 8) = 0"
    and "0 < i \<Longrightarrow> ram_read_u64 (build_control_structures (ram_new n)) (PDPT_ADDR + of_nat i * 8) = 0"
    and "128 \<le> i \<Longrightarrow> ram_read_u64 (build_control_structures (ram_new n)) (PD_ADDR + of_nat i * 8) = 0"
proof -
  have a: "unat (PML4_ADDR + of_nat i * 8) = 0xFC00000 + i * 8"
    and b: "unat (PDPT_ADDR + of_nat i * 8) = 0xFC01000 + i * 8"
    and c: "unat (PD_ADDR + of_nat i * 8) = 0xFC02000 + i * 8"
    using assms by (simp_all add: unat_mul8 layout_simps)
  show "0 < i \<Longrightarrow> ram_read_u64 (build_control_structures (ram_new n)) (PML4_ADDR + of_nat i * 8) = 0"
    by (rule read_u64_zero, rule page_tables_zero) (use assms in \<open>simp_all add: a\<close>)
  show "0 < i \<Longrightarrow> ram_read_u64 (build_control_structures (ram_new n)) (PDPT_ADDR + of_nat i * 8) = 0"
    by (rule read_u64_zero, rule page_tables_zero) (use assms in \<open>simp_all add: b\<close>)
  show "128 \<le> i \<Longrightarrow> ram_read_u64 (build_control_structures (ram_new n)) (PD_ADDR + of_nat i * 8) = 0"
    by (rule read_u64_zero, rule page_tables_zero) (use assms in \<open>simp_all add: c\<close>)
qed

lemma image_idt:
  assumes "holds_guest r" and "v < 256"
  shows "ram_read_u64 (build_control_structures r) (IDT_ADDR + of_nat v * 16) = gate_low (stub_addr v)"
    and "ram_read_u64 (build_control_structures r) (IDT_ADDR + of_nat v * 16 + 8)
           = drop_bit 32 (stub_addr v)"
proof -
  define r0 where "r0 = build_tss (build_gdt (build_page_tables r))"
  define f where "f = fold idt_slot [0..<v] r0"
  have "holds_guest (fold idt_slot [0..<n] r0)" for n
    by (induction n) (simp_all add: r0_def assms idt_slot_def)
  then have big: "holds_guest f" by (simp add: f_def)
  note u = unat_idt_slot [OF assms(2)]
  have rd: "ram_read_u64 (build_control_structures r) a = ram_read_u64 (idt_slot v f) a"
    if "0xFC04000 + 16 * v \<le> unat a" and "unat a + 8 \<le> 0xFC04000 + 16 * Suc v" for a
  proof -
    have "ram_read_u64 (build_control_structures r) a = ram_read_u64 (build_idt r0) a"
      unfolding build_control_structures_def r0_def
      by (rule skip_tables) (use that assms(2) in simp)
    also have "\<dots> = ram_read_u64 (idt_slot v f) a"
      unfolding build_idt_slots
    proof (rule ram_read_u64_cong)
      show "ram_len (fold idt_slot [0..<256] r0) = ram_len (idt_slot v f)"
        by (simp add: ram_len_fold idt_slot_def f_def)
    next
      fix x assume "unat a \<le> x" "x < unat a + 8"
      with that assms(2) show "ram_byte (fold idt_slot [0..<256] r0) x = ram_byte (idt_slot v f) x"
        unfolding f_def by (intro fold_slots_byte_in [where base = "0xFC04000" and stride = 16])
           (auto simp: idt_slot_frame)
    qed
    finally show ?thesis .
  qed
  have "ram_read_u64 (idt_slot v f) (IDT_ADDR + of_nat v * 16) = gate_low (stub_addr v)"
    unfolding idt_slot_def
    by (subst ram_read_write_u64_disjoint)
       (use assms big in \<open>simp_all add: u read_u64_after_write\<close>)
  then show "ram_read_u64 (build_control_structures r) (IDT_ADDR + of_nat v * 16) = gate_low (stub_addr v)"
    by (subst rd) (simp_all add: u)
  have "ram_read_u64 (idt_slot v f) (IDT_ADDR + of_nat v * 16 + 8) = drop_bit 32 (stub_addr v)"
    unfolding idt_slot_def
    by (rule read_u64_after_write) (use assms big in \<open>simp_all add: u\<close>)
  then show "ram_read_u64 (build_control_structures r) (IDT_ADDR + of_nat v * 16 + 8)
           = drop_bit 32 (stub_addr v)"
    by (subst rd) (simp_all add: u)
qed

lemma image_stub:
  assumes "holds_guest r" and "v < 256"
  shows "ram_byte (build_control_structures r) (unat (stub_addr v)) = 0xF4"
proof -
  have u: "unat (stub_addr v) = 0xFC05000 + v * 16"
    using assms(2) by (simp add: stub_addr_def unat_mul16 layout_simps)
  have "unat STUB_BASE = 0xFC05000" by (simp add: layout_simps)
  with assms have "ram_ok r \<and> in_ram r STUB_BASE (length stub_image)"
    by (simp add: holds_guest_def in_ram_def)
  then have "ram_ok r0 \<and> in_ram r0 STUB_BASE (length stub_image)"
    if "ram_len r0 = ram_len r" for r0
    using that by (simp add: ram_ok_def in_ram_def)
  then show ?thesis
    using assms(2) unfolding build_control_structures_def build_stubs_def
    by (subst ram_byte_write) (simp_all add: u unat_STUB nth_stub_image)
qed

lemma image_tss_descriptor:
  assumes "holds_guest r"
  shows "ram_read_u64 (build_control_structures r) (GDT_ADDR + ucast SEL_TSS) = tss_low"
    and "ram_read_u64 (build_control_structures r) (GDT_ADDR + ucast SEL_TSS + 8) = drop_bit 32 TSS_ADDR"
    and "ram_read_u64 (build_control_structures r) (GDT_ADDR + 8) = 0x00AF9B000000FFFF"
    and "ram_read_u64 (build_control_structures r) (GDT_ADDR + 16) = 0x00CF93000000FFFF"
proof -
  have rd: "ram_read_u64 (build_control_structures r) a = ram_read_u64 (build_gdt (build_page_tables r)) a"
    if "unat a + 8 \<le> 0xFC04000" for a
    using that unfolding build_control_structures_def by (simp add: skip_tables)
  show "ram_read_u64 (build_control_structures r) (GDT_ADDR + ucast SEL_TSS) = tss_low"
    by (subst rd) (simp_all add: build_gdt_def Let_def layout_simps
        ram_read_write_u64_disjoint read_u64_after_write assms)
  show "ram_read_u64 (build_control_structures r) (GDT_ADDR + ucast SEL_TSS + 8) = drop_bit 32 TSS_ADDR"
    by (subst rd) (simp_all add: build_gdt_def Let_def layout_simps
        ram_read_write_u64_disjoint read_u64_after_write assms)
  show "ram_read_u64 (build_control_structures r) (GDT_ADDR + 8) = 0x00AF9B000000FFFF"
    by (subst rd) (simp_all add: build_gdt_def Let_def layout_simps
        ram_read_write_u64_disjoint read_u64_after_write assms)
  show "ram_read_u64 (build_control_structures r) (GDT_ADDR + 16) = 0x00CF93000000FFFF"
    by (subst rd) (simp_all add: build_gdt_def Let_def layout_simps
        ram_read_write_u64_disjoint read_u64_after_write assms)
qed

lemma image_ist1:
  assumes "holds_guest r"
  shows "ram_read_u64 (build_control_structures r) (TSS_ADDR + 0x24) = IST_STACK_TOP"
proof -
  let ?r = "build_gdt (build_page_tables r)"
  have u: "unat TSS_ADDR = 0xFC06000" "unat (TSS_ADDR + 0x24) = 0xFC06024"
    by (simp_all add: layout_simps)
  have ok: "ram_ok ?r" "in_ram ?r TSS_ADDR (length tss_image)"
    using assms u by (simp_all add: holds_guest_def in_ram_def ram_ok_def)
  have "ram_read_u64 (build_control_structures r) (TSS_ADDR + 0x24) = ram_read_u64 (build_tss ?r) (TSS_ADDR + 0x24)"
    unfolding build_control_structures_def by (simp add: skip_tables u)
  also have "ram_read (build_tss ?r) (TSS_ADDR + 0x24) 8 = to_le_bytes IST_STACK_TOP"
  proof (rule nth_equalityI)
    fix i assume "i < length (ram_read (build_tss ?r) (TSS_ADDR + 0x24) 8)"
    then have i: "i < 8" by simp
    have "ram_read (build_tss ?r) (TSS_ADDR + 0x24) 8 ! i = tss_image ! (0x24 + i)"
      using i ok unfolding build_tss_def
      by (subst ram_read_inside) (simp_all add: in_ram_def ram_ok_def u ram_byte_write)
    also have "\<dots> = to_le_bytes IST_STACK_TOP ! i"
      using i by (simp add: tss_image_def overwrite_at_def nth_append)
    finally show "ram_read (build_tss ?r) (TSS_ADDR + 0x24) 8 ! i = to_le_bytes IST_STACK_TOP ! i" .
  qed simp
  then have "ram_read_u64 (build_tss ?r) (TSS_ADDR + 0x24) = IST_STACK_TOP"
    by (simp add: ram_read_u64_def)
  finally show ?thesis .
qed

section \<open>A page walk\<close>

definition canonical :: "u64 \<Rightarrow> bool" where
  "canonical lin \<longleftrightarrow> drop_bit 47 lin = 0 \<or> drop_bit 47 lin = mask 17"

definition pt_index :: "nat \<Rightarrow> u64 \<Rightarrow> nat" where
  "pt_index k lin = unat (take_bit 9 (drop_bit k lin))"

definition pt_frame :: "nat \<Rightarrow> u64 \<Rightarrow> u64" where
  "pt_frame k e = take_bit 52 e AND NOT (mask k)"

text \<open>A translation: the physical address, and whether every level grants writes and execution.\<close>

definition pt_leaf :: "nat \<Rightarrow> u64 \<Rightarrow> u64 list \<Rightarrow> u64 \<times> bool \<times> bool" where
  "pt_leaf k lin es =
     (pt_frame k (last es) OR take_bit k lin,
      list_all (\<lambda>e. bit e 1) es, list_all (\<lambda>e. \<not> bit e 63) es)"

definition pt_walk :: "guest_ram \<Rightarrow> u64 \<Rightarrow> u64 \<Rightarrow> (u64 \<times> bool \<times> bool) option" where
  "pt_walk ram cr3 lin =
     (let entry = (\<lambda>base k. ram_read_u64 ram (base + of_nat (pt_index k lin) * 8)) in
      if \<not> canonical lin then None
      else let e4 = entry (pt_frame 12 cr3) 39 in
        if \<not> bit e4 0 then None
        else let e3 = entry (pt_frame 12 e4) 30 in
          if \<not> bit e3 0 then None
          else if bit e3 7 then Some (pt_leaf 30 lin [e4, e3])
          else let e2 = entry (pt_frame 12 e3) 21 in
            if \<not> bit e2 0 then None
            else if bit e2 7 then Some (pt_leaf 21 lin [e4, e3, e2])
            else let e1 = entry (pt_frame 12 e2) 12 in
              if \<not> bit e1 0 then None else Some (pt_leaf 12 lin [e4, e3, e2, e1]))"

lemma pt_index_eq: "pt_index k lin = unat lin div 2 ^ k mod 512"
  unfolding pt_index_def unat_take_bit unat_drop_bit by simp

lemma pt_index_less [simp]: "pt_index k lin < 512"
  by (simp add: pt_index_eq)

lemma canonical_iff: "canonical lin \<longleftrightarrow> unat lin < 2 ^ 47 \<or> 2 ^ 64 - 2 ^ 47 \<le> unat lin"
proof -
  have d: "unat (drop_bit 47 lin) = unat lin div 2 ^ 47"
    by (rule unat_drop_bit)
  have m: "unat (mask 17 :: u64) = 131071" by (simp add: mask_eq_exp_minus_1)
  have "drop_bit 47 lin = 0 \<longleftrightarrow> unat lin div 2 ^ 47 = 0"
    and "drop_bit 47 lin = mask 17 \<longleftrightarrow> unat lin div 2 ^ 47 = 131071"
    unfolding word_unat_eq_iff d m by simp_all
  moreover have "unat lin div 2 ^ 47 = 131071 \<longleftrightarrow> 2 ^ 64 - 2 ^ 47 \<le> unat lin"
    using unat_u64_less [of lin] by (simp, arith)
  moreover have "unat lin div 2 ^ 47 = 0 \<longleftrightarrow> unat lin < 2 ^ 47" by (simp add: div_eq_0_iff)
  ultimately show ?thesis by (simp only: canonical_def)
qed

lemma pd_entry_bits:
  assumes "i < 128"
  shows "bit (pd_entry i) n \<longleftrightarrow> n = 0 \<or> n = 1 \<or> n = 7 \<or> (21 \<le> n \<and> n < 64 \<and> bit (of_nat i :: u64) (n - 21))"
proof -
  have e: "PTE_P = push_bit 0 1" "PTE_W = push_bit 1 1" "PTE_PS = push_bit 7 1"
    by (simp_all add: layout_simps push_bit_eq_mult)
  show ?thesis
    unfolding pd_entry_def e bit_or_iff bit_push_one by (auto simp: bit_push_bit_iff)
qed

lemma bit_of_small_nat: "i < 128 \<Longrightarrow> 7 \<le> k \<Longrightarrow> \<not> bit (of_nat i :: u64) k"
proof -
  assume "i < 128" and k: "7 \<le> k"
  then have "(of_nat i :: u64) = take_bit 7 (of_nat i)"
    by (simp add: word_unat_eq_iff unat_take_bit unat_of_nat_small)
  then have "bit (of_nat i :: u64) k = bit (take_bit 7 (of_nat i :: u64)) k" by simp
  with k show ?thesis by (simp add: bit_take_bit_iff)
qed

lemma pt_frame_low:
  "pt_frame 12 0xFC00000 = 0xFC00000" "pt_frame 12 0xFC01003 = 0xFC01000"
  "pt_frame 12 0xFC02003 = 0xFC02000"
  by (simp_all add: pt_frame_def take_bit_eq_mask mask_eq_exp_minus_1)

lemma pd_leaf_identity:
  assumes "lin < RAM_SIZE"
  shows "pt_frame 21 (pd_entry (pt_index 21 lin)) OR take_bit 21 lin = lin"
proof (rule bit_word_eqI)
  fix n assume n: "n < LENGTH(64)"
  have l: "unat lin < 0x10000000" using assms by (simp add: word_less_nat_alt layout_simps)
  then have "unat lin div 2 ^ 21 < 128" by simp
  then have i: "pt_index 21 lin = unat lin div 2 ^ 21" and i': "pt_index 21 lin < 128"
    by (simp_all add: pt_index_eq)
  have "(of_nat (pt_index 21 lin) :: u64) = drop_bit 21 lin"
    by (simp add: word_unat_eq_iff unat_drop_bit i unat_of_nat_small less_imp_diff_less
        order.strict_trans1 [OF div_le_dividend])
  moreover have "n < 52" if "bit lin n"
  proof -
    have "lin = take_bit 28 lin"
      using l by (simp add: word_unat_eq_iff unat_take_bit)
    with that have "bit (take_bit 28 lin) n" by simp
    then show ?thesis by (simp add: bit_take_bit_iff)
  qed
  ultimately show "bit (pt_frame 21 (pd_entry (pt_index 21 lin)) OR take_bit 21 lin) n = bit lin n"
    using n by (auto simp: pt_frame_def bit_simps pd_entry_bits [OF i'] not_less)
qed

lemma low_canonical:
  fixes n :: nat
  assumes "n < 2 ^ 47 \<or> 2 ^ 64 - 2 ^ 47 \<le> n" and "n < 2 ^ 64" and "n div 2 ^ 39 mod 512 = 0"
  shows "n < 2 ^ 39"
  using assms(1)
proof
  assume "n < 2 ^ 47"
  then have "n div 2 ^ 39 < 2 ^ 8" by (intro less_mult_imp_div_less) simp
  with assms(3) have "n div 2 ^ 39 = 0" by simp
  then show ?thesis by (simp add: div_eq_0_iff)
next
  assume "2 ^ 64 - 2 ^ 47 \<le> n"
  then have "(2 ^ 64 - 2 ^ 47) div 2 ^ 39 \<le> n div 2 ^ 39" by (rule div_le_mono)
  moreover have "(33554176 :: nat) = (2 ^ 64 - 2 ^ 47) div 2 ^ 39" by simp
  ultimately have lo: "33554176 \<le> n div 2 ^ 39" by (simp only:)
  have hi: "n div 2 ^ 39 < 33554432" using assms(2) by (intro less_mult_imp_div_less) simp
  have "q mod 512 \<noteq> 0" if "33554176 \<le> q" and "q < 33554432" for q :: nat
  proof
    assume "q mod 512 = 0"
    then obtain k where "q = 512 * k" by (auto simp: mod_eq_0_iff_dvd)
    moreover have "k \<le> 65535 \<or> 65536 \<le> k" by linarith
    ultimately show False using that by linarith
  qed
  from this [OF lo hi] assms(3) show ?thesis by simp
qed

text \<open>Linear equals physical below \<open>RAM_SIZE\<close>, writable and executable; nothing else is mapped.\<close>

lemma walk_image:
  "pt_walk (build_control_structures (ram_new (unat RAM_SIZE))) PML4_ADDR lin =
     (if lin < RAM_SIZE then Some (lin, True, True) else None)"
proof -
  let ?img = "build_control_structures (ram_new (unat RAM_SIZE))"
  have big: "holds_guest (ram_new (unat RAM_SIZE))"
    by (simp add: holds_guest_def ram_ok_new ram_new_def layout_simps ram_ok_def)
  note e4 = image_pml4_pdpt(1) [OF big] and e3 = image_pml4_pdpt(2) [OF big]
  let ?i = "pt_index 21 lin"
  have bits: "bit (0xFC01003 :: u64) 0" "bit (0xFC01003 :: u64) 1" "\<not> bit (0xFC01003 :: u64) 63"
    "bit (0xFC02003 :: u64) 0" "bit (0xFC02003 :: u64) 1" "\<not> bit (0xFC02003 :: u64) 63"
    "\<not> bit (0xFC02003 :: u64) 7"
    by (simp_all add: bit_iff_odd)
  have up: "lin < RAM_SIZE \<longleftrightarrow> unat lin < 0x10000000"
    by (simp add: word_less_nat_alt layout_simps)
  show ?thesis
  proof (cases "canonical lin \<and> pt_index 39 lin = 0")
    case False
    then have "pt_walk ?img PML4_ADDR lin = None"
      using image_absent(1) [of "pt_index 39 lin"]
      by (auto simp: pt_walk_def Let_def pt_frame_low control_region_vals)
    moreover have "\<not> lin < RAM_SIZE"
      using False by (auto simp: up canonical_iff pt_index_eq)
    ultimately show ?thesis by simp
  next
    case c: True
    then have lt: "unat lin < 2 ^ 39"
      using unat_u64_less [of lin] unfolding canonical_iff pt_index_eq
      by (intro low_canonical) simp_all
    show ?thesis
    proof (cases "pt_index 30 lin = 0")
      case False
      then have "pt_walk ?img PML4_ADDR lin = None"
        using image_absent(2) [of "pt_index 30 lin"] c e4
        by (auto simp: pt_walk_def Let_def pt_frame_low control_region_vals)
      moreover have "\<not> lin < RAM_SIZE"
        using False by (auto simp: up pt_index_eq)
      ultimately show ?thesis by simp
    next
      case True
      then have lt: "unat lin < 2 ^ 30"
        using lt less_mult_imp_div_less [of "unat lin" 512 "2 ^ 30"] unfolding pt_index_eq
        by (simp add: div_eq_0_iff)
      show ?thesis
      proof (cases "lin < RAM_SIZE")
        case l: True
        then have i: "?i < 128" by (simp add: up pt_index_eq)
        have pb: "bit (pd_entry ?i) 0" "bit (pd_entry ?i) 1" "bit (pd_entry ?i) 7"
          "\<not> bit (pd_entry ?i) 63"
          using i by (simp_all add: pd_entry_bits bit_of_small_nat)
        have "ram_read_u64 ?img (0xFC02000 + of_nat ?i * 8) = pd_entry ?i"
          using image_pd [OF big i] by (simp add: control_region_vals)
        with c True e3 e4 l pb pd_leaf_identity [OF l] show ?thesis
          by (simp add: pt_walk_def Let_def pt_frame_low control_region_vals bits pt_leaf_def)
      next
        case False
        then have "128 \<le> ?i" using lt by (simp add: up pt_index_eq)
        with False c True e3 e4 image_absent(3) [of ?i] show ?thesis
          by (simp add: pt_walk_def Let_def pt_frame_low control_region_vals bits)
      qed
    qed
  qed
qed

section \<open>Delivering a vector\<close>

text \<open>A 64-bit gate descriptor (SDM vol. 3, figure 6-8) and a 64-bit TSS descriptor (figure 8-4).\<close>

record gate =
  gate_offset :: u64
  gate_selector :: u16
  gate_ist :: nat
  gate_type :: nat
  gate_present :: bool

definition gate_decode :: "u64 \<Rightarrow> u64 \<Rightarrow> gate" where
  "gate_decode low high =
     \<lparr>gate_offset = take_bit 16 low OR push_bit 16 (drop_bit 48 low) OR push_bit 32 (take_bit 32 high),
      gate_selector = ucast (drop_bit 16 low),
      gate_ist = unat (take_bit 3 (drop_bit 32 low)),
      gate_type = unat (take_bit 4 (drop_bit 40 low)),
      gate_present = bit low 47\<rparr>"

definition tss_base_of :: "u64 \<Rightarrow> u64 \<Rightarrow> u64" where
  "tss_base_of low high =
     take_bit 24 (drop_bit 16 low) OR push_bit 24 (drop_bit 56 low) OR push_bit 32 (take_bit 32 high)"

text \<open>The registers exception delivery reads and writes.\<close>

record arch_cpu =
  ac_rip :: u64
  ac_rsp :: u64
  ac_rflags :: u64
  ac_cs :: u16
  ac_ss :: u16

text \<open>
  Delivery at CPL 0 through a present 64-bit interrupt gate: switch to the stack the gate's
  IST index names (aligned to 16), push SS, RSP, the flags image, CS, RIP and, for the
  vectors that have one, the error code; load CS:RIP from the gate; clear TF, IF, NT, RF and
  VM. \<open>saved\<close> is the flags image the processor pushes: RFLAGS, with RF set for a fault.
  \<open>None\<close> when the gate is absent or is not an interrupt gate.
\<close>

definition push_u64 :: "guest_ram \<times> u64 \<Rightarrow> u64 \<Rightarrow> guest_ram \<times> u64" where
  "push_u64 m v = (ram_write_u64 (fst m) (snd m - 8) v, snd m - 8)"

definition arch_deliver ::
    "u64 \<Rightarrow> u64 \<Rightarrow> u16 \<Rightarrow> u8 \<Rightarrow> u64 \<Rightarrow> u64 \<Rightarrow> guest_ram \<Rightarrow> arch_cpu \<Rightarrow> (guest_ram \<times> arch_cpu) option" where
  "arch_deliver idt gdt tr v ec saved ram c =
     (let g = gate_decode (ram_read_u64 ram (idt + ucast v * 16)) (ram_read_u64 ram (idt + ucast v * 16 + 8));
          tss = tss_base_of (ram_read_u64 ram (gdt + ucast tr)) (ram_read_u64 ram (gdt + ucast tr + 8));
          sp = (if gate_ist g = 0 then ac_rsp c
                else ram_read_u64 ram (tss + 0x1C + of_nat (gate_ist g) * 8));
          m = foldl push_u64 (ram, sp AND NOT 15)
                ([ucast (ac_ss c), ac_rsp c, saved, ucast (ac_cs c), ac_rip c]
                 @ (if has_error_code v then [ec] else []))
      in if \<not> gate_present g \<or> gate_type g \<noteq> 14 then None
         else Some (fst m, c\<lparr>ac_rip := gate_offset g, ac_cs := gate_selector g, ac_rsp := snd m,
                             ac_rflags := ac_rflags c AND NOT 0x34300\<rparr>))"

text \<open>The bytes delivery depends on are the ones the code built: GDT, IDT, stubs and TSS.\<close>

definition vectors_intact :: "guest_ram \<Rightarrow> bool" where
  "vectors_intact ram \<longleftrightarrow>
     ram_ok ram \<and> ram_len ram = unat RAM_SIZE \<and>
     (\<forall>x. 0xFC03000 \<le> x \<and> x < 0xFC06068 \<longrightarrow>
        ram_byte ram x = ram_byte (build_control_structures (ram_new (unat RAM_SIZE))) x)"

lemma vectors_intact_frame:
  assumes "vectors_intact ram" and "ram_len ram' = ram_len ram"
    and "\<And>x. 0xFC03000 \<le> x \<Longrightarrow> x < 0xFC06068 \<Longrightarrow> ram_byte ram' x = ram_byte ram x"
  shows "vectors_intact ram'"
  using assms by (simp add: vectors_intact_def ram_ok_def)

lemma vectors_intact_write:
  "vectors_intact ram \<Longrightarrow> unat a + length d \<le> 0xFC03000 \<or> 0xFC06068 \<le> unat a \<Longrightarrow>
   vectors_intact (ram_write ram a d)"
  by (erule vectors_intact_frame) (auto simp: ram_byte_write_frame)

lemma unat_RAM_SIZE: "unat RAM_SIZE = 0x10000000"
  by (simp add: layout_simps)

lemma holds_guest_new: "holds_guest (ram_new (unat RAM_SIZE))"
  by (simp add: holds_guest_def ram_ok_new unat_RAM_SIZE ram_new_def ram_ok_def)

lemma vectors_intact_holds: "vectors_intact ram \<Longrightarrow> holds_guest ram"
  by (simp add: vectors_intact_def holds_guest_def unat_RAM_SIZE)

lemma vectors_intact_read:
  assumes "vectors_intact ram" and "0xFC03000 \<le> unat a" and "unat a + 8 \<le> 0xFC06068"
  shows "ram_read_u64 ram a = ram_read_u64 (build_control_structures (ram_new (unat RAM_SIZE))) a"
  using assms by (intro ram_read_u64_cong) (simp_all add: vectors_intact_def ram_new_def)

text \<open>The bytes the code does not write are the same in every image of the size.\<close>

lemma build_vectors_intact:
  "vectors_intact (build_control_structures (ram_new (unat RAM_SIZE)))"
  by (simp add: vectors_intact_def unat_RAM_SIZE ram_ok_def ram_new_def)

lemma stub_addr_less: "v < 256 \<Longrightarrow> unat (stub_addr v) = 0xFC05000 + 16 * v"
  by (simp add: stub_addr_def unat_mul16 layout_simps)

text \<open>The middle 32 bits of a gate are constant: selector, IST index, type and P.\<close>

lemma gate_low_bits:
  "bit (gate_low t) n \<longleftrightarrow> n < 64 \<and>
     (if n < 16 then bit t n else if n < 48 then bit (0x8E0100080000 :: u64) n else bit t (n - 32))"
proof -
  have "(push_bit 16 (ucast SEL_CODE64) OR push_bit 32 1 OR push_bit 40 0x8E :: u64) = 0x8E0100080000"
    by (simp add: layout_simps push_bit_eq_mult)
  then have k: "bit (0x8E0100080000 :: u64) n = bit (push_bit 16 (ucast SEL_CODE64) OR push_bit 32 1 OR push_bit 40 0x8E :: u64) n"
    by (simp only:)
  have "(0x8E0100080000 :: u64) = push_bit 16 (take_bit 32 0x8E010008)"
    by (simp add: push_bit_eq_mult)
  then have "bit (0x8E0100080000 :: u64) n = bit (push_bit 16 (take_bit 32 0x8E010008) :: u64) n"
    by (simp only:)
  then have range: "bit (0x8E0100080000 :: u64) n \<Longrightarrow> 16 \<le> n \<and> n < 48"
    by (simp only: bit_push_bit_iff bit_take_bit_iff) auto
  have m: "(0xFFFF :: u64) = mask 16" by (simp add: mask_eq_exp_minus_1)
  have "bit (gate_low t) n \<longleftrightarrow> bit (t AND mask 16) n \<or> bit (0x8E0100080000 :: u64) n
      \<or> bit (push_bit 48 (drop_bit 16 t AND mask 16)) n"
    by (simp only: k gate_low_def m bit_or_iff disj_assoc)
  with range show ?thesis
    by (auto simp: bit_simps not_less dest: bit_imp_le_length)
qed

lemma gate_decode_stub:
  assumes "v < 256"
  shows "gate_decode (gate_low (stub_addr v)) (drop_bit 32 (stub_addr v)) =
    \<lparr>gate_offset = stub_addr v, gate_selector = SEL_CODE64, gate_ist = 1, gate_type = 14,
     gate_present = True\<rparr>"
proof -
  let ?t = "stub_addr v"
  have t32: "take_bit 32 ?t = ?t"
    using assms by (simp add: word_unat_eq_iff unat_take_bit stub_addr_less)
  have b: "n < 32" if "bit ?t n" for n
  proof -
    from that t32 have "bit (take_bit 32 ?t) n" by simp
    then show ?thesis by (simp add: bit_take_bit_iff)
  qed
  let ?K = "0x8E0100080000 :: u64"
  have "take_bit 16 (gate_low ?t) OR push_bit 16 (drop_bit 48 (gate_low ?t))
          OR push_bit 32 (take_bit 32 (drop_bit 32 ?t)) = ?t"
    by (rule bit_word_eqI) (auto simp: bit_simps gate_low_bits dest: b)
  moreover have "ucast (drop_bit 16 (gate_low ?t)) = (ucast (drop_bit 16 ?K) :: u16)"
    by (rule bit_word_eqI) (simp only: bit_simps o_apply gate_low_bits, simp)
  moreover have "take_bit 3 (drop_bit 32 (gate_low ?t)) = take_bit 3 (drop_bit 32 ?K)"
    by (rule bit_word_eqI) (simp only: bit_simps o_apply gate_low_bits, auto)
  moreover have "take_bit 4 (drop_bit 40 (gate_low ?t)) = take_bit 4 (drop_bit 40 ?K)"
    by (rule bit_word_eqI) (simp only: bit_simps o_apply gate_low_bits, auto)
  moreover have "bit (gate_low ?t) 47" by (simp only: gate_low_bits) (simp add: bit_iff_odd)
  ultimately show ?thesis
    by (simp add: gate_decode_def SEL_CODE64_def)
qed

lemma tss_base_image: "tss_base_of tss_low (drop_bit 32 TSS_ADDR) = TSS_ADDR"
  by (simp add: tss_base_of_def tss_low_def layout_simps)

section \<open>What delivery through the image does\<close>

definition frame_ram :: "u8 \<Rightarrow> u64 \<Rightarrow> u64 \<Rightarrow> guest_ram \<Rightarrow> arch_cpu \<Rightarrow> guest_ram" where
  "frame_ram v ec saved ram c =
     (let r = ram_write_u64 (ram_write_u64 (ram_write_u64 (ram_write_u64 (ram_write_u64 ram
                0xFC07FF8 (ucast (ac_ss c))) 0xFC07FF0 (ac_rsp c)) 0xFC07FE8 saved)
                0xFC07FE0 (ucast (ac_cs c))) 0xFC07FD8 (ac_rip c)
      in if has_error_code v then ram_write_u64 r 0xFC07FD0 ec else r)"

definition frame_base :: "u8 \<Rightarrow> u64" where
  "frame_base v = (if has_error_code v then 0xFC07FD0 else 0xFC07FD8)"

lemma unat_u8_less: "unat (v :: u8) < 256"
  using unsigned_less [of v] by simp

lemma ucast_of_nat_unat: "(ucast (v :: u8) :: u64) = of_nat (unat v)"
  by simp

lemma deliver_vector:
  assumes "vectors_intact ram"
  shows "arch_deliver IDT_ADDR GDT_ADDR SEL_TSS v ec saved ram c =
    Some (frame_ram v ec saved ram c,
          c\<lparr>ac_rip := stub_addr (unat v), ac_cs := SEL_CODE64, ac_rsp := frame_base v,
            ac_rflags := ac_rflags c AND NOT 0x34300\<rparr>)"
proof -
  let ?img = "build_control_structures (ram_new (unat RAM_SIZE))"
  let ?i = "IDT_ADDR + of_nat (unat v) * 16"
  note rd = vectors_intact_read [OF assms]
  note u = unat_idt_slot [of "unat v"]
  have g: "ram_read_u64 ram ?i = gate_low (stub_addr (unat v))"
      "ram_read_u64 ram (?i + 8) = drop_bit 32 (stub_addr (unat v))"
    using u unat_u8_less [of v] image_idt [OF holds_guest_new, of "unat v"]
    by (simp_all only: rd)
  have t: "ram_read_u64 ram (GDT_ADDR + ucast SEL_TSS) = tss_low"
      "ram_read_u64 ram (GDT_ADDR + ucast SEL_TSS + 8) = drop_bit 32 TSS_ADDR"
    using image_tss_descriptor [OF holds_guest_new] by (simp_all add: rd layout_simps)
  have s: "ram_read_u64 ram (TSS_ADDR + 0x24) = IST_STACK_TOP"
    using image_ist1 [OF holds_guest_new] by (simp add: rd layout_simps)
  have sp: "IST_STACK_TOP AND - 16 = 0xFC08000"
    by (simp add: layout_simps)
  show ?thesis
    unfolding arch_deliver_def ucast_of_nat_unat g t gate_decode_stub [OF unat_u8_less] tss_base_image
    using s by (simp add: Let_def sp push_u64_def frame_ram_def frame_base_def add.assoc)
qed

text \<open>The frame is on the IST stack: 48 bytes under its top, and nothing else.\<close>

lemma ram_len_frame [simp]: "ram_len (frame_ram v ec saved ram c) = ram_len ram"
  by (simp add: frame_ram_def Let_def)

lemma frame_ram_frame:
  "x < 0xFC07FD0 \<or> 0xFC08000 \<le> x \<Longrightarrow> ram_byte (frame_ram v ec saved ram c) x = ram_byte ram x"
  by (auto simp: frame_ram_def Let_def ram_byte_write_u64_frame)

lemma deliver_intact: "vectors_intact ram \<Longrightarrow> vectors_intact (frame_ram v ec saved ram c)"
  by (erule vectors_intact_frame) (simp_all add: frame_ram_frame)

lemma frame_unwinds:
  assumes "vectors_intact ram"
  shows "unwind_frame prof (frame_ram v ec saved ram c) (frame_base v) v =
    Some \<lparr>uw_rip = ac_rip c, uw_rsp = ac_rsp c, uw_rflags = saved,
          uw_error_code = (if has_error_code v then ec else 0)\<rparr>"
proof -
  note h = vectors_intact_holds [OF assms]
  show ?thesis
  proof (cases "has_error_code v")
    case True
    then show ?thesis
      using h by (subst unwind_frame_code [where rip = "ac_rip c" and rsp = "ac_rsp c" and rflags = saved and ec = ec])
        (simp_all add: frame_base_def frame_at_def frame_ram_def Let_def
          ram_read_write_u64_disjoint read_u64_after_write)
  next
    case False
    then show ?thesis
      using h by (subst unwind_frame_plain [where rip = "ac_rip c" and rsp = "ac_rsp c" and rflags = saved])
        (simp_all add: frame_base_def frame_at_def frame_ram_def Let_def
          ram_read_write_u64_disjoint read_u64_after_write)
  qed
qed

lemma stub_vector_stub: "stub_vector (stub_addr (unat v) + 1) = Some v"
proof -
  have u: "unat (stub_addr (unat v)) = 0xFC05000 + 16 * unat v" and v: "unat v < 256"
    using unat_u8_less [of v] by (simp_all add: stub_addr_less)
  from u v have "unat (stub_addr (unat v)) + unat (1 :: u64) < 2 ^ 64" by simp
  from unat_add_u64 [OF this] u have "unat (stub_addr (unat v) + 1) = 0xFC05001 + 16 * unat v" by simp
  then show ?thesis by (simp add: stub_vector_Some_iff unat_STUB)
qed

lemma stub_halts:
  fixes v :: u8
  assumes "vectors_intact ram"
  shows "ram_byte ram (unat (stub_addr (unat v))) = 0xF4"
proof -
  have v: "unat v < 256" by (rule unat_u8_less)
  then have "unat (stub_addr (unat v)) < 0xFC06068" "0xFC03000 \<le> unat (stub_addr (unat v))"
    by (simp_all add: stub_addr_less)
  with assms image_stub [OF holds_guest_new v] show ?thesis
    by (simp only: vectors_intact_def)
qed

section \<open>Properties\<close>

text \<open>
  C1: the page tables map every linear address below \<open>RAM_SIZE\<close> to itself, writable and
  executable, and map nothing else.
\<close>

theorem identity_map:
  "pt_walk (build_control_structures (ram_new (unat RAM_SIZE))) PML4_ADDR lin =
     (if lin < RAM_SIZE then Some (lin, True, True) else None)"
  by (rule walk_image)

text \<open>
  C2: delivering any vector from any register state lands on a \<open>HLT\<close> whose exit RIP
  identifies the vector, and the frame read back at the handler's stack pointer gives the
  faulting RIP, RSP, flags image and error code; the guest's own stack is not touched (only
  48 bytes under the IST top change) and the vectors stay intact for the next fault.
\<close>

theorem fault_is_observable:
  assumes "vectors_intact ram"
  shows "\<exists>ram' c'. arch_deliver IDT_ADDR GDT_ADDR SEL_TSS v ec saved ram c = Some (ram', c') \<and>
    ram_byte ram' (unat (ac_rip c')) = 0xF4 \<and> stub_vector (ac_rip c' + 1) = Some v \<and>
    unwind_frame prof ram' (ac_rsp c') v =
      Some \<lparr>uw_rip = ac_rip c, uw_rsp = ac_rsp c, uw_rflags = saved,
            uw_error_code = (if has_error_code v then ec else 0)\<rparr> \<and>
    vectors_intact ram' \<and>
    (\<forall>x. x < unat IST_STACK_TOP - 48 \<or> unat IST_STACK_TOP \<le> x \<longrightarrow> ram_byte ram' x = ram_byte ram x)"
  using deliver_vector [OF assms] frame_unwinds [OF assms] deliver_intact [OF assms]
  by (auto simp: stub_halts stub_vector_stub frame_ram_frame layout_simps)

theorem fault_is_observable_witness:
  "\<exists>ram' c'. arch_deliver IDT_ADDR GDT_ADDR SEL_TSS 14 0x5 0x10046
       (build_control_structures (ram_new (unat RAM_SIZE)))
       \<lparr>ac_rip = 0x400000, ac_rsp = 0, ac_rflags = 0x46, ac_cs = 8, ac_ss = 16\<rparr> = Some (ram', c') \<and>
     stub_vector (ac_rip c' + 1) = Some 14 \<and>
     unwind_frame Debug ram' (ac_rsp c') 14 =
       Some \<lparr>uw_rip = 0x400000, uw_rsp = 0, uw_rflags = 0x10046, uw_error_code = 5\<rparr>"
  using fault_is_observable [OF build_vectors_intact, of 14 "0x5" "0x10046"
      "\<lparr>ac_rip = 0x400000, ac_rsp = 0, ac_rflags = 0x46, ac_cs = 8, ac_ss = 16\<rparr>" Debug]
  by (auto simp: has_error_code_def)



text \<open>
  A \<open>HLT\<close> exit is attributed to the stub it landed in and to no other: RIP after the
  \<open>HLT\<close> belongs to vector \<open>v\<close> exactly in the sixteen bytes of its stub, and outside the
  stub area the \<open>HLT\<close> is the guest's own.
\<close>

theorem stub_vector_exact:
  "(stub_vector rip = Some v \<longleftrightarrow>
      unat STUB_BASE + 16 * unat v < unat rip \<and> unat rip \<le> unat STUB_BASE + 16 * unat v + 16) \<and>
   (stub_vector rip = None \<longleftrightarrow> unat rip \<le> unat STUB_BASE \<or> unat STUB_BASE + 4096 < unat rip)"
  using stub_vector_Some_iff stub_vector_None_iff by simp

text \<open>
  A fault message determines what it reports: two messages are equal only for the same
  vector and, where the vector has one, the same error code.
\<close>

theorem fault_message_determines:
  "fault_message v e = fault_message v' e' \<longleftrightarrow> v = v' \<and> (has_error_code v \<longrightarrow> e = e')"
  by (rule fault_message_inject)

text \<open>
  C4: guest RAM is a bounded byte array. After a write, a read wholly inside the mapping sees
  the written bytes where the two overlap and the old ones elsewhere; a write not wholly inside
  changes nothing; a read not wholly inside is all zero, even where it overlaps RAM.
\<close>

theorem ram_read_after_write:
  assumes "ram_ok ram"
  shows "ram_read (ram_write ram a d) b n =
    (if \<not> in_ram ram b n then replicate n 0
     else map (\<lambda>i. if in_ram ram a (length d) \<and> unat a \<le> unat b + i \<and> unat b + i < unat a + length d
                   then d ! (unat b + i - unat a) else ram_read ram b n ! i) [0..<n])"
  using assms
  by (cases "in_ram ram a (length d)")
     (auto simp: ram_read_outside ram_read_inside ram_byte_write ram_write_outside)

theorem ram_read_after_write_witness:
  "ram_read (ram_write (ram_new 8) 6 [1, 2]) 5 3 = [0, 1, 2] \<and>
   ram_read (ram_write (ram_new 8) 7 [1, 2]) 6 2 = [0, 0] \<and>
   ram_read (ram_write (ram_new 8) 6 [1, 2]) 6 3 = [0, 0, 0]"
proof -
  have ok: "ram_ok (ram_new 8)" by (simp add: ram_ok_def ram_new_def)
  have z: "replicate 2 (0 :: u8) = [0, 0]" "replicate 3 (0 :: u8) = [0, 0, 0]"
    by (simp_all add: numeral_2_eq_2 numeral_3_eq_3)
  have old: "ram_read (ram_new 8) 5 3 = [0, 0, 0]" "ram_read (ram_new 8) 6 2 = [0, 0]"
    by (simp_all only: ram_read_new z)
  have i: "in_ram (ram_new 8) x n = (unat x + n \<le> 8)" for x n
    by (simp add: in_ram_def ram_new_def)
  show ?thesis
    using ram_read_after_write [OF ok, of 6 "[1, 2]" 5 3] ram_read_after_write [OF ok, of 7 "[1, 2]" 6 2]
      ram_read_after_write [OF ok, of 6 "[1, 2]" 6 3]
    by (simp add: i z old upt_conv_Cons del: ram_read_new)
qed

end
