(* ===== verification/Hw_Xsave.thy ===== *)
theory Hw_Xsave
  imports Oracle_Types
begin

text \<open>
  The vector state of \<open>src/hw.rs\<close>: where the upper halves of YMM0-15, ZMM0-15 and the whole
  of ZMM16-31 lie in an XSAVE image (\<open>XsaveLayout::probe\<close>, standard and compacted format)
  and the reset, read and write of one vector register in it. An image is its byte list; a
  slice out of its bounds panics. The CPUID the guest sees is a parameter.

  A register is read and written through the byte offsets of its eight chunks
  (\<open>zmm_slot\<close>); the lemmas reduce both operations to it.
\<close>

section \<open>CPUID and the layout\<close>

record cpuid_regs =
  cpuid_eax :: u32
  cpuid_ebx :: u32
  cpuid_ecx :: u32
  cpuid_edx :: u32

type_synonym cpuid = "u32 \<Rightarrow> u32 \<Rightarrow> cpuid_regs"

definition XSAVE_MXCSR :: nat where "XSAVE_MXCSR = 24"
definition XSAVE_XMM_OFFSET :: nat where "XSAVE_XMM_OFFSET = 160"
definition XSAVE_XSTATE_BV :: nat where "XSAVE_XSTATE_BV = 512"
definition XSAVE_XCOMP_BV :: nat where "XSAVE_XCOMP_BV = 520"
definition XSAVE_COMPACT_BASE :: nat where "XSAVE_COMPACT_BASE = 576"

definition read_u64_at :: "u8 list \<Rightarrow> nat \<Rightarrow> u64 panics" where
  "read_u64_at bytes offset = map_option from_le_bytes (slice_get bytes offset 8)"

definition write_u64_at :: "u8 list \<Rightarrow> nat \<Rightarrow> u64 \<Rightarrow> u8 list panics" where
  "write_u64_at bytes offset value = slice_put bytes offset (to_le_bytes value)"

definition xsave_xcomp_bv :: "u8 list \<Rightarrow> u64 panics" where
  "xsave_xcomp_bv bytes = read_u64_at bytes XSAVE_XCOMP_BV"

record xsave_component =
  xc_offset :: nat
  xc_size :: nat

record xsave_layout =
  xl_ymm_hi :: "xsave_component option"
  xl_zmm_hi :: "xsave_component option"
  xl_zmm_hi16 :: "xsave_component option"

text \<open>\<open>(offset + 63) & !63\<close>.\<close>

definition align64 :: "nat \<Rightarrow> nat" where
  "align64 offset = (offset + 63) div 64 * 64"

text \<open>The loop over \<open>2..=index\<close> of the compacted format.\<close>

fun compact_loop :: "cpuid \<Rightarrow> u64 \<Rightarrow> nat \<Rightarrow> nat \<Rightarrow> nat list \<Rightarrow> nat \<Rightarrow> xsave_component option" where
  "compact_loop cpuid xcomp_bv index sz [] offset = None"
| "compact_loop cpuid xcomp_bv index sz (i # is) offset =
     (if \<not> bit xcomp_bv i then compact_loop cpuid xcomp_bv index sz is offset
      else let l = cpuid 0x0D (of_nat i) in
        if cpuid_eax l = 0 then compact_loop cpuid xcomp_bv index sz is offset
        else let offset = (if bit (cpuid_ecx l) 1 then align64 offset else offset) in
          if i = index then Some \<lparr>xc_offset = offset, xc_size = sz\<rparr>
          else compact_loop cpuid xcomp_bv index sz is (offset + unat (cpuid_eax l)))"

definition locate :: "cpuid \<Rightarrow> u64 \<Rightarrow> u64 \<Rightarrow> nat \<Rightarrow> xsave_component option" where
  "locate cpuid xcr0 xcomp_bv index =
     (if \<not> bit xcr0 index then None
      else let leaf = cpuid 0x0D (of_nat index); sz = unat (cpuid_eax leaf) in
        if sz = 0 then None
        else if \<not> bit xcomp_bv 63 then
          let offset = unat (cpuid_ebx leaf) in
          if offset \<noteq> 0 then Some \<lparr>xc_offset = offset, xc_size = sz\<rparr> else None
        else if \<not> bit xcomp_bv index then None
        else compact_loop cpuid xcomp_bv index sz [2..<Suc index] XSAVE_COMPACT_BASE)"

definition probe :: "cpuid \<Rightarrow> u64 \<Rightarrow> u64 \<Rightarrow> xsave_layout" where
  "probe cpuid xcr0 xcomp_bv =
     \<lparr>xl_ymm_hi = locate cpuid xcr0 xcomp_bv 2, xl_zmm_hi = locate cpuid xcr0 xcomp_bv 6,
      xl_zmm_hi16 = locate cpuid xcr0 xcomp_bv 7\<rparr>"

definition vector_width :: "xsave_layout \<Rightarrow> nat" where
  "vector_width layout =
     (if xl_zmm_hi layout \<noteq> None then 512 else if xl_ymm_hi layout \<noteq> None then 256 else 128)"

definition layout_vector_regs :: "xsave_layout \<Rightarrow> nat" where
  "layout_vector_regs layout = (if xl_zmm_hi16 layout \<noteq> None then ZMM_REGS else 16)"

section \<open>Reset, read, write\<close>

text \<open>\<open>layout.c.filter(|&c| fits(c))\<close> for an image of \<open>len\<close> bytes.\<close>

definition fitting :: "nat \<Rightarrow> xsave_component option \<Rightarrow> xsave_component option" where
  "fitting len cm =
     (case cm of None \<Rightarrow> None
      | Some c \<Rightarrow> if xc_offset c + xc_size c \<le> len then Some c else None)"

text \<open>\<open>bytes[off..off + n].fill(0)\<close>\<close>

definition fill_zero :: "nat \<Rightarrow> nat \<Rightarrow> u8 list \<Rightarrow> u8 list panics" where
  "fill_zero off n bytes = slice_put bytes off (replicate n 0)"

definition xsave_reset_vectors :: "u8 list \<Rightarrow> xsave_layout \<Rightarrow> u8 list panics" where
  "xsave_reset_vectors bytes layout = do {
     bytes \<leftarrow> fill_zero XSAVE_XMM_OFFSET (16 * 16) bytes;
     bytes \<leftarrow> for_each (\<lambda>cm b. case fitting (length bytes) cm of None \<Rightarrow> Some b
                          | Some c \<Rightarrow> fill_zero (xc_offset c) (xc_size c) b)
                [xl_ymm_hi layout, xl_zmm_hi layout, xl_zmm_hi16 layout] bytes;
     slice_put bytes XSAVE_MXCSR (to_le_bytes32 0x1F80) }"

definition xsave_get_zmm :: "u8 list \<Rightarrow> xsave_layout \<Rightarrow> u32 \<Rightarrow> u64 list panics" where
  "xsave_get_zmm bytes layout n =
     (let len = length bytes in
      if n < 16 then do {
        let off = XSAVE_XMM_OFFSET + unat n * 16;
        x0 \<leftarrow> read_u64_at bytes off;
        x1 \<leftarrow> read_u64_at bytes (off + 8);
        (x2, x3) \<leftarrow> (case fitting len (xl_ymm_hi layout) of
                       None \<Rightarrow> Some (0, 0)
                     | Some c \<Rightarrow> do {
                         let off = xc_offset c + unat n * 16;
                         x2 \<leftarrow> read_u64_at bytes off;
                         x3 \<leftarrow> read_u64_at bytes (off + 8);
                         Some (x2, x3) });
        hi \<leftarrow> (case fitting len (xl_zmm_hi layout) of
                 None \<Rightarrow> Some [0, 0, 0, 0]
               | Some c \<Rightarrow> do {
                   let off = xc_offset c + unat n * 32;
                   fill_each (\<lambda>i. read_u64_at bytes (off + i * 8)) [0..<4] });
        Some ([x0, x1, x2, x3] @ hi) }
      else (case fitting len (xl_zmm_hi16 layout) of
          None \<Rightarrow> Some [0, 0, 0, 0, 0, 0, 0, 0]
        | Some c \<Rightarrow> do {
            let off = xc_offset c + (unat n - 16) * 64;
            fill_each (\<lambda>i. read_u64_at bytes (off + i * 8)) [0..<ZMM_CHUNKS] }))"

definition xsave_set_zmm :: "u8 list \<Rightarrow> xsave_layout \<Rightarrow> u32 \<Rightarrow> u64 list \<Rightarrow> u8 list panics" where
  "xsave_set_zmm bytes layout n data = do {
     let chunk = (\<lambda>i. if i < length data then data ! i else 0);
     xstate_bv \<leftarrow> read_u64_at bytes XSAVE_XSTATE_BV;
     let len = length bytes;
     (bytes, xstate_bv) \<leftarrow>
       (if n < 16 then do {
          let off = XSAVE_XMM_OFFSET + unat n * 16;
          bytes \<leftarrow> write_u64_at bytes off (chunk 0);
          bytes \<leftarrow> write_u64_at bytes (off + 8) (chunk 1);
          let xstate_bv = xstate_bv OR 2;
          (bytes, xstate_bv) \<leftarrow>
            (case fitting len (xl_ymm_hi layout) of
               None \<Rightarrow> Some (bytes, xstate_bv)
             | Some c \<Rightarrow> do {
                 let off = xc_offset c + unat n * 16;
                 bytes \<leftarrow> write_u64_at bytes off (chunk 2);
                 bytes \<leftarrow> write_u64_at bytes (off + 8) (chunk 3);
                 Some (bytes, xstate_bv OR push_bit 2 1) });
          case fitting len (xl_zmm_hi layout) of
            None \<Rightarrow> Some (bytes, xstate_bv)
          | Some c \<Rightarrow> do {
              let off = xc_offset c + unat n * 32;
              bytes \<leftarrow> for_each (\<lambda>i b. write_u64_at b (off + i * 8) (chunk (4 + i))) [0..<4] bytes;
              Some (bytes, xstate_bv OR push_bit 6 1) } }
        else (case fitting len (xl_zmm_hi16 layout) of
            None \<Rightarrow> Some (bytes, xstate_bv)
          | Some c \<Rightarrow> do {
              let off = xc_offset c + (unat n - 16) * 64;
              bytes \<leftarrow> for_each (\<lambda>i b. write_u64_at b (off + i * 8) (chunk i)) [0..<ZMM_CHUNKS] bytes;
              Some (bytes, xstate_bv OR push_bit 7 1) }));
     write_u64_at bytes XSAVE_XSTATE_BV xstate_bv }"

section \<open>Words in a byte buffer\<close>

definition u64_at :: "u8 list \<Rightarrow> nat \<Rightarrow> u64" where
  "u64_at bytes off = from_le_bytes (take 8 (drop off bytes))"

lemma read_u64_at_in: "off + 8 \<le> length bytes \<Longrightarrow> read_u64_at bytes off = Some (u64_at bytes off)"
  by (simp add: read_u64_at_def slice_get_def u64_at_def)

lemma read_u64_at_out: "length bytes < off + 8 \<Longrightarrow> read_u64_at bytes off = None"
  by (simp add: read_u64_at_def slice_get_def)

lemma write_u64_at_in:
  "off + 8 \<le> length bytes \<Longrightarrow> write_u64_at bytes off v = Some (overwrite_at bytes off (to_le_bytes v))"
  by (simp add: write_u64_at_def slice_put_overwrite)

lemma length_overwrite_u64 [simp]:
  "off + 8 \<le> length bytes \<Longrightarrow> length (overwrite_at bytes off (to_le_bytes v)) = length bytes"
  by (simp add: length_overwrite_at)

lemma u64_at_overwrite_same [buffer_simps]:
  "off + 8 \<le> length bytes \<Longrightarrow> u64_at (overwrite_at bytes off (to_le_bytes v)) off = v"
  using take_drop_overwrite_same [of off "to_le_bytes v" bytes] by (simp add: u64_at_def)

lemma u64_at_overwrite_disjoint [buffer_simps]:
  "off + length d \<le> length bytes \<Longrightarrow> o2 + 8 \<le> off \<or> off + length d \<le> o2 \<Longrightarrow>
   u64_at (overwrite_at bytes off d) o2 = u64_at bytes o2"
  by (simp add: u64_at_def take_drop_overwrite_disjoint)

text \<open>Several words written one after the other, at places that do not overlap.\<close>

fun put_words :: "u8 list \<Rightarrow> (nat \<times> u64) list \<Rightarrow> u8 list" where
  "put_words bytes [] = bytes"
| "put_words bytes ((off, v) # ws) = put_words (overwrite_at bytes off (to_le_bytes v)) ws"

definition apart :: "nat \<Rightarrow> nat \<Rightarrow> bool" where
  "apart a b \<longleftrightarrow> a + 8 \<le> b \<or> b + 8 \<le> a"

definition words_fit :: "nat \<Rightarrow> (nat \<times> u64) list \<Rightarrow> bool" where
  "words_fit len ws \<longleftrightarrow> list_all (\<lambda>w. fst w + 8 \<le> len) ws"

lemma words_fit_simps [simp]:
  "words_fit len []" "words_fit len (w # ws) \<longleftrightarrow> fst w + 8 \<le> len \<and> words_fit len ws"
  "words_fit len (us @ ws) \<longleftrightarrow> words_fit len us \<and> words_fit len ws"
  by (auto simp: words_fit_def)

lemma length_put_words [simp]: "words_fit (length bytes) ws \<Longrightarrow> length (put_words bytes ws) = length bytes"
  by (induction bytes ws rule: put_words.induct) auto

lemma put_words_append: "put_words bytes (us @ ws) = put_words (put_words bytes us) ws"
  by (induction bytes us rule: put_words.induct) auto

lemma u64_at_put_words_frame:
  "words_fit (length bytes) ws \<Longrightarrow> \<forall>w \<in> set ws. apart (fst w) a \<Longrightarrow>
   u64_at (put_words bytes ws) a = u64_at bytes a"
  by (induction bytes ws rule: put_words.induct) (auto simp: apart_def buffer_simps)

lemma u64_at_put_words:
  "words_fit (length bytes) ws \<Longrightarrow> sorted_wrt (\<lambda>u w. apart (fst u) (fst w)) ws \<Longrightarrow>
   (a, v) \<in> set ws \<Longrightarrow> u64_at (put_words bytes ws) a = v"
proof (induction bytes ws rule: put_words.induct)
  case (2 bytes off u ws)
  show ?case
  proof (cases "(a, v) \<in> set ws")
    case True
    with 2 show ?thesis by simp
  next
    case False
    with 2 have e: "a = off" "v = u" by auto
    have "\<forall>w \<in> set ws. apart (fst w) a" using 2(3) e by (auto simp: apart_def)
    then show ?thesis
      using 2(2) e by (simp add: u64_at_put_words_frame u64_at_overwrite_same)
  qed
qed simp

lemma write_words_loop:
  "words_fit (length bytes) (map (\<lambda>i. (f i, g i)) is) \<Longrightarrow>
   for_each (\<lambda>i b. write_u64_at b (f i) (g i)) is bytes = Some (put_words bytes (map (\<lambda>i. (f i, g i)) is))"
  by (induction "is" arbitrary: bytes) (auto simp: write_u64_at_in)

section \<open>The chunks of a register\<close>

text \<open>
  Where chunk \<open>i\<close> of register \<open>n\<close> lies in an image of \<open>len\<close> bytes; \<open>None\<close> when the vCPU
  cannot hold it. \<open>zmm_component\<close> is the XSAVE component the chunk belongs to, \<open>zmm_rel\<close> its
  offset there and \<open>part\<close> the component's place.
\<close>

definition zmm_component :: "nat \<Rightarrow> nat \<Rightarrow> nat" where
  "zmm_component n i = (if n < 16 then (if i < 2 then 1 else if i < 4 then 2 else 6) else 7)"

definition zmm_rel :: "nat \<Rightarrow> nat \<Rightarrow> nat" where
  "zmm_rel n i =
     (if n < 16 then (if i < 2 then n * 16 + i * 8 else if i < 4 then n * 16 + (i - 2) * 8
                      else n * 32 + (i - 4) * 8)
      else (n - 16) * 64 + i * 8)"

definition part :: "nat \<Rightarrow> xsave_layout \<Rightarrow> nat \<Rightarrow> xsave_component option" where
  "part len layout k =
     (if k = 1 then Some \<lparr>xc_offset = XSAVE_XMM_OFFSET, xc_size = 256\<rparr>
      else fitting len (if k = 2 then xl_ymm_hi layout else if k = 6 then xl_zmm_hi layout
                        else xl_zmm_hi16 layout))"

definition zmm_slot :: "nat \<Rightarrow> xsave_layout \<Rightarrow> nat \<Rightarrow> nat \<Rightarrow> nat option" where
  "zmm_slot len layout n i =
     map_option (\<lambda>c. xc_offset c + zmm_rel n i) (part len layout (zmm_component n i))"

text \<open>
  What the layout must satisfy for an image of \<open>len\<close> bytes: the legacy area and the header
  are there, and the components that fit lie behind them, are as large as the architecture
  says and do not overlap.
\<close>

definition part_size :: "nat \<Rightarrow> nat" where
  "part_size k = (if k = 1 \<or> k = 2 then 256 else if k = 6 then 512 else 1024)"

definition beyond :: "xsave_component \<Rightarrow> xsave_component \<Rightarrow> bool" where
  "beyond c d \<longleftrightarrow> xc_offset c + xc_size c \<le> xc_offset d \<or> xc_offset d + xc_size d \<le> xc_offset c"

definition layout_ok :: "nat \<Rightarrow> xsave_layout \<Rightarrow> bool" where
  "layout_ok len layout \<longleftrightarrow> 576 \<le> len \<and>
     (\<forall>k \<in> {2, 6, 7}. \<forall>c. part len layout k = Some c \<longrightarrow> 576 \<le> xc_offset c \<and> part_size k \<le> xc_size c) \<and>
     (\<forall>j \<in> {2, 6, 7}. \<forall>k \<in> {2, 6, 7}. \<forall>c d.
        j \<noteq> k \<and> part len layout j = Some c \<and> part len layout k = Some d \<longrightarrow> beyond c d)"

lemma fitting_Some_iff:
  "fitting len cm = Some c \<longleftrightarrow> cm = Some c \<and> xc_offset c + xc_size c \<le> len"
  by (auto simp: fitting_def split: option.splits if_splits)

lemma zmm_component_cases: "zmm_component n i \<in> {1, 2, 6, 7}"
  by (simp add: zmm_component_def)

lemma zmm_rel_range: "n < 32 \<Longrightarrow> i < 8 \<Longrightarrow> zmm_rel n i + 8 \<le> part_size (zmm_component n i)"
  by (auto simp: zmm_rel_def part_size_def zmm_component_def)

lemma zmm_rel_apart:
  assumes "i < 8" and "j < 8" and "(n, i) \<noteq> (m, j)" and "zmm_component n i = zmm_component m j"
  shows "apart (zmm_rel n i) (zmm_rel m j)"
proof -
  consider "n < m" | "m < n" | "n = m" by linarith
  then show ?thesis
    using assms by cases (auto simp: zmm_rel_def zmm_component_def apart_def split: if_splits)
qed

lemma part_place:
  assumes "layout_ok len layout" and "k \<in> {1, 2, 6, 7}" and "part len layout k = Some c"
  shows "part_size k \<le> xc_size c" and "xc_offset c + xc_size c \<le> len"
    and "k \<noteq> 1 \<Longrightarrow> 576 \<le> xc_offset c" and "k = 1 \<Longrightarrow> xc_offset c = 160 \<and> xc_size c = 256"
proof -
  have l: "576 \<le> len" using assms(1) by (simp add: layout_ok_def)
  show one: "k = 1 \<Longrightarrow> xc_offset c = 160 \<and> xc_size c = 256"
    using assms(3) by (auto simp: part_def XSAVE_XMM_OFFSET_def)
  show "k \<noteq> 1 \<Longrightarrow> 576 \<le> xc_offset c"
    using assms unfolding layout_ok_def by blast
  show "part_size k \<le> xc_size c"
    using assms one unfolding layout_ok_def by (cases "k = 1") (auto simp: part_size_def)
  show "xc_offset c + xc_size c \<le> len"
    using assms(3) one l by (cases "k = 1") (auto simp: part_def fitting_Some_iff)
qed

lemma parts_beyond:
  assumes "layout_ok len layout" and "j \<in> {1, 2, 6, 7}" and "k \<in> {1, 2, 6, 7}" and "j \<noteq> k"
    and "part len layout j = Some c" and "part len layout k = Some d"
  shows "beyond c d"
proof (cases "j = 1 \<or> k = 1")
  case True
  with part_place [OF assms(1) assms(2) assms(5)] part_place [OF assms(1) assms(3) assms(6)] assms(4)
  show ?thesis by (auto simp: beyond_def)
next
  case False
  with assms show ?thesis unfolding layout_ok_def by blast
qed

lemma zmm_slot_range:
  assumes "layout_ok len layout" and "n < 32" and "i < 8" and "zmm_slot len layout n i = Some a"
  shows "a + 8 \<le> len" and "(160 \<le> a \<and> a + 8 \<le> 416) \<or> 576 \<le> a"
proof -
  let ?k = "zmm_component n i"
  obtain c where c: "part len layout ?k = Some c" "a = xc_offset c + zmm_rel n i"
    using assms(4) by (auto simp: zmm_slot_def)
  note p = part_place [OF assms(1) zmm_component_cases c(1)] and r = zmm_rel_range [OF assms(2,3)]
  show "a + 8 \<le> len" using p(1,2) r c(2) by linarith
  show "(160 \<le> a \<and> a + 8 \<le> 416) \<or> 576 \<le> a"
    using p(1,3,4) r c(2) by (cases "?k = 1") (auto simp: part_size_def)
qed

lemma zmm_slots_apart:
  assumes "layout_ok len layout" and "n < 32" and "i < 8" and "m < 32" and "j < 8"
    and "(n, i) \<noteq> (m, j)" and "zmm_slot len layout n i = Some a" and "zmm_slot len layout m j = Some b"
  shows "apart a b"
proof -
  let ?k = "zmm_component n i" and ?l = "zmm_component m j"
  obtain c where c: "part len layout ?k = Some c" "a = xc_offset c + zmm_rel n i"
    using assms(7) by (auto simp: zmm_slot_def)
  obtain d where d: "part len layout ?l = Some d" "b = xc_offset d + zmm_rel m j"
    using assms(8) by (auto simp: zmm_slot_def)
  note pc = part_place [OF assms(1) zmm_component_cases c(1)] and rc = zmm_rel_range [OF assms(2,3)]
  note pd = part_place [OF assms(1) zmm_component_cases d(1)] and rd = zmm_rel_range [OF assms(4,5)]
  show ?thesis
  proof (cases "?k = ?l")
    case True
    with c(1) d(1) have "c = d" by simp
    with zmm_rel_apart [OF assms(3,5,6) True] c(2) d(2) show ?thesis by (auto simp: apart_def)
  next
    case False
    from parts_beyond [OF assms(1) zmm_component_cases zmm_component_cases False c(1) d(1)]
    show ?thesis using pc(1) rc pd(1) rd c(2) d(2) by (auto simp: apart_def beyond_def)
  qed
qed

section \<open>Reading and writing a register, through its slots\<close>

lemma upt8: "[0..<8] = [0, 1, 2, 3, 4, 5, 6, 7 :: nat]" and upt4: "[0..<4] = [0, 1, 2, 3 :: nat]"
  by (simp_all add: upt_conv_Cons)

lemma u32_less_16: "(n :: u32) < 16 \<longleftrightarrow> unat n < 16"
  by (simp add: word_less_nat_alt)

text \<open>The three places behind the header that a register uses, and that they hold it.\<close>

lemma part_room:
  assumes "layout_ok len layout" and "n < 32"
  shows "fitting len (xl_ymm_hi layout) = Some c \<Longrightarrow> n < 16 \<Longrightarrow> xc_offset c + n * 16 + 16 \<le> len"
    and "fitting len (xl_zmm_hi layout) = Some c \<Longrightarrow> n < 16 \<Longrightarrow> xc_offset c + n * 32 + 32 \<le> len"
    and "fitting len (xl_zmm_hi16 layout) = Some c \<Longrightarrow> \<not> n < 16 \<Longrightarrow> xc_offset c + (n - 16) * 64 + 64 \<le> len"
  using part_place [OF assms(1), of 2 c] part_place [OF assms(1), of 6 c] part_place [OF assms(1), of 7 c] assms(2)
  by (auto simp: part_def part_size_def)

definition chunk_of :: "u8 list \<Rightarrow> nat option \<Rightarrow> u64" where
  "chunk_of bytes slot = (case slot of None \<Rightarrow> 0 | Some a \<Rightarrow> u64_at bytes a)"

lemma xsave_get_zmm_slots:
  assumes "layout_ok (length bytes) layout" and "unat n < 32"
  shows "xsave_get_zmm bytes layout n =
    Some (map (\<lambda>i. chunk_of bytes (zmm_slot (length bytes) layout (unat n) i)) [0..<8])"
proof -
  let ?len = "length bytes" and ?y = "fitting (length bytes) (xl_ymm_hi layout)"
    and ?z = "fitting (length bytes) (xl_zmm_hi layout)" and ?h = "fitting (length bytes) (xl_zmm_hi16 layout)"
  have l: "576 \<le> ?len" using assms(1) by (simp add: layout_ok_def)
  note room = part_room [OF assms]
  show ?thesis
  proof (cases "unat n < 16")
    case True
    have y: "\<And>c. ?y = Some c \<Longrightarrow> xc_offset c + unat n * 16 + 16 \<le> ?len"
      and z: "\<And>c. ?z = Some c \<Longrightarrow> xc_offset c + unat n * 32 + 32 \<le> ?len"
      using room True by blast+
    from True l show ?thesis
      by (cases ?y; cases ?z)
         (insert y z, simp_all add: xsave_get_zmm_def u32_less_16 Let_def read_u64_at_in XSAVE_XMM_OFFSET_def
           upt8 upt4 zmm_slot_def zmm_component_def zmm_rel_def part_def chunk_of_def add.assoc)
  next
    case False
    have h: "\<And>c. ?h = Some c \<Longrightarrow> xc_offset c + (unat n - 16) * 64 + 64 \<le> ?len"
      using room False by blast
    from False l show ?thesis
      by (cases ?h)
         (insert h, simp_all add: xsave_get_zmm_def u32_less_16 Let_def read_u64_at_in
           upt8 zmm_slot_def zmm_component_def zmm_rel_def part_def chunk_of_def add.assoc)
  qed
qed

definition zmm_words :: "nat \<Rightarrow> xsave_layout \<Rightarrow> nat \<Rightarrow> u64 list \<Rightarrow> (nat \<times> u64) list" where
  "zmm_words len layout n data =
     concat (map (\<lambda>i. case zmm_slot len layout n i of None \<Rightarrow> []
                   | Some a \<Rightarrow> [(a, if i < length data then data ! i else 0)]) [0..<8])"

definition zmm_mask :: "nat \<Rightarrow> xsave_layout \<Rightarrow> nat \<Rightarrow> u64" where
  "zmm_mask len layout n =
     (if n < 16 then
        2 OR (case part len layout 2 of None \<Rightarrow> 0 | Some _ \<Rightarrow> push_bit 2 1)
          OR (case part len layout 6 of None \<Rightarrow> 0 | Some _ \<Rightarrow> push_bit 6 1)
      else (case part len layout 7 of None \<Rightarrow> 0 | Some _ \<Rightarrow> push_bit 7 1))"

lemma words_fit_zmm:
  assumes "layout_ok len layout" and "n < 32"
  shows "words_fit len (zmm_words len layout n data)"
  using zmm_slot_range(1) [OF assms]
  by (auto simp: words_fit_def zmm_words_def list_all_iff split: option.splits)

lemma xsave_set_zmm_words:
  assumes "layout_ok (length bytes) layout" and "unat n < 32"
  shows "xsave_set_zmm bytes layout n data =
    Some (put_words bytes (zmm_words (length bytes) layout (unat n) data
            @ [(XSAVE_XSTATE_BV, u64_at bytes XSAVE_XSTATE_BV OR zmm_mask (length bytes) layout (unat n))]))"
proof -
  let ?len = "length bytes" and ?y = "fitting (length bytes) (xl_ymm_hi layout)"
    and ?z = "fitting (length bytes) (xl_zmm_hi layout)" and ?h = "fitting (length bytes) (xl_zmm_hi16 layout)"
  have l: "576 \<le> ?len" using assms(1) by (simp add: layout_ok_def)
  note room = part_room [OF assms]
  show ?thesis
  proof (cases "unat n < 16")
    case True
    have y: "\<And>c. ?y = Some c \<Longrightarrow> xc_offset c + unat n * 16 + 16 \<le> ?len"
      and z: "\<And>c. ?z = Some c \<Longrightarrow> xc_offset c + unat n * 32 + 32 \<le> ?len"
      using room True by blast+
    from True l show ?thesis
      by (cases ?y; cases ?z)
         (insert y z, simp_all add: xsave_set_zmm_def u32_less_16 Let_def read_u64_at_in write_u64_at_in
           XSAVE_XMM_OFFSET_def XSAVE_XSTATE_BV_def upt8 upt4 zmm_words_def zmm_mask_def
           zmm_slot_def zmm_component_def zmm_rel_def part_def add.assoc or.assoc)
  next
    case False
    have h: "\<And>c. ?h = Some c \<Longrightarrow> xc_offset c + (unat n - 16) * 64 + 64 \<le> ?len"
      using room False by blast
    from False l show ?thesis
      by (cases ?h)
         (insert h, simp_all add: xsave_set_zmm_def u32_less_16 Let_def read_u64_at_in write_u64_at_in
           XSAVE_XSTATE_BV_def upt8 zmm_words_def zmm_mask_def
           zmm_slot_def zmm_component_def zmm_rel_def part_def add.assoc or.assoc)
  qed
qed

definition zmm_norm :: "nat \<Rightarrow> xsave_layout \<Rightarrow> nat \<Rightarrow> u64 list \<Rightarrow> u64 list" where
  "zmm_norm len layout n data =
     map (\<lambda>i. case zmm_slot len layout n i of None \<Rightarrow> 0
           | Some _ \<Rightarrow> if i < length data then data ! i else 0) [0..<8]"

lemma set_zmm_words:
  "(a, v) \<in> set (zmm_words len layout n data) \<longleftrightarrow>
     (\<exists>i<8. zmm_slot len layout n i = Some a \<and> v = (if i < length data then data ! i else 0))"
proof -
  have e: "(a, v) \<in> set (concat (map (\<lambda>i. case f i of None \<Rightarrow> [] | Some a \<Rightarrow> [(a, g i)]) is)) \<longleftrightarrow>
      (\<exists>i \<in> set is. f i = Some a \<and> v = g i)" for f :: "nat \<Rightarrow> nat option" and g "is"
    by (induction "is") (auto split: option.splits)
  show ?thesis unfolding zmm_words_def e set_upt by (simp only: Bex_def atLeastLessThan_iff) blast
qed

lemma zmm_words_sorted:
  assumes "layout_ok len layout" and "n < 32"
  shows "sorted_wrt (\<lambda>u w. apart (fst u) (fst w)) (zmm_words len layout n data @ [(XSAVE_XSTATE_BV, v)])"
proof -
  let ?f = "\<lambda>i. case zmm_slot len layout n i of None \<Rightarrow> []
                   | Some a \<Rightarrow> [(a, if i < length data then data ! i else 0)]"
  have "sorted_wrt (\<lambda>u w. apart (fst u) (fst w)) (concat (map ?f is))"
    if "distinct is" and "set is \<subseteq> {..<8}" for "is"
    using that
  proof (induction "is")
    case (Cons i "is")
    have "apart a b" if "zmm_slot len layout n i = Some a" "j \<in> set is" "zmm_slot len layout n j = Some b"
      for j a b
      using that Cons.prems zmm_slots_apart [OF assms(1,2) _ assms(2), of i j a b] by auto
    then have "\<forall>w \<in> set (concat (map ?f is)). \<forall>u \<in> set (?f i). apart (fst u) (fst w)"
      by (fastforce split: option.splits)
    moreover have "sorted_wrt (\<lambda>u w. apart (fst u) (fst w)) (?f i)" by (simp split: option.splits)
    ultimately show ?case using Cons by (simp add: sorted_wrt_append)
  qed simp
  from this [of "[0..<8]"] have
    "sorted_wrt (\<lambda>u w. apart (fst u) (fst w)) (zmm_words len layout n data)"
    unfolding zmm_words_def by (simp add: atLeast0LessThan)
  moreover have "apart a XSAVE_XSTATE_BV" if "(a, u) \<in> set (zmm_words len layout n data)" for a u
    using that zmm_slot_range(2) [OF assms, of _ a]
    by (fastforce simp: set_zmm_words apart_def XSAVE_XSTATE_BV_def)
  ultimately show ?thesis by (auto simp: sorted_wrt_append)
qed

lemma xsave_set_zmm_effect:
  assumes "layout_ok (length bytes) layout" and "unat n < 32"
  obtains bytes' where "xsave_set_zmm bytes layout n data = Some bytes'"
    and "length bytes' = length bytes"
    and "u64_at bytes' XSAVE_XSTATE_BV = u64_at bytes XSAVE_XSTATE_BV OR zmm_mask (length bytes) layout (unat n)"
    and "\<And>i a. i < 8 \<Longrightarrow> zmm_slot (length bytes) layout (unat n) i = Some a \<Longrightarrow>
           u64_at bytes' a = (if i < length data then data ! i else 0)"
    and "\<And>a. (\<And>i s. i < 8 \<Longrightarrow> zmm_slot (length bytes) layout (unat n) i = Some s \<Longrightarrow> apart s a) \<Longrightarrow>
           apart XSAVE_XSTATE_BV a \<Longrightarrow> u64_at bytes' a = u64_at bytes a"
proof -
  let ?len = "length bytes"
  let ?v = "u64_at bytes XSAVE_XSTATE_BV OR zmm_mask ?len layout (unat n)"
  let ?ws = "zmm_words ?len layout (unat n) data @ [(XSAVE_XSTATE_BV, ?v)]"
  have fit: "words_fit ?len ?ws"
    using words_fit_zmm [OF assms] assms(1) by (simp add: XSAVE_XSTATE_BV_def layout_ok_def)
  note at = u64_at_put_words [OF fit zmm_words_sorted [OF assms]]
  show thesis
  proof (rule that)
    show "xsave_set_zmm bytes layout n data = Some (put_words bytes ?ws)"
      by (rule xsave_set_zmm_words [OF assms])
    show "length (put_words bytes ?ws) = ?len" using fit by simp
    show "u64_at (put_words bytes ?ws) XSAVE_XSTATE_BV = ?v" by (rule at) simp
  next
    fix i a assume "i < 8" and "zmm_slot ?len layout (unat n) i = Some a"
    then show "u64_at (put_words bytes ?ws) a = (if i < length data then data ! i else 0)"
      by (intro at) (auto simp: set_zmm_words)
  next
    fix a assume "\<And>i s. i < 8 \<Longrightarrow> zmm_slot ?len layout (unat n) i = Some s \<Longrightarrow> apart s a"
      and "apart XSAVE_XSTATE_BV a"
    then show "u64_at (put_words bytes ?ws) a = u64_at bytes a"
      by (intro u64_at_put_words_frame [OF fit]) (auto simp: set_zmm_words)
  qed
qed

lemma apart_header:
  assumes "layout_ok len layout" and "n < 32" and "i < 8" and "zmm_slot len layout n i = Some a"
  shows "apart XSAVE_XSTATE_BV a" and "apart XSAVE_XCOMP_BV a"
  using zmm_slot_range [OF assms] by (auto simp: apart_def XSAVE_XSTATE_BV_def XSAVE_XCOMP_BV_def)

text \<open>Reading any register after writing one.\<close>

lemma get_after_set_zmm:
  assumes "layout_ok (length bytes) layout" and "unat n < 32" and "unat m < 32"
    and "xsave_set_zmm bytes layout n data = Some bytes'"
  shows "xsave_get_zmm bytes' layout m =
    (if m = n then Some (zmm_norm (length bytes) layout (unat n) data) else xsave_get_zmm bytes layout m)"
proof -
  let ?len = "length bytes"
  obtain b where s: "xsave_set_zmm bytes layout n data = Some b" and lb: "length b = ?len"
    and at: "\<And>i a. i < 8 \<Longrightarrow> zmm_slot ?len layout (unat n) i = Some a \<Longrightarrow>
           u64_at b a = (if i < length data then data ! i else 0)"
    and frame: "\<And>a. (\<And>i s. i < 8 \<Longrightarrow> zmm_slot ?len layout (unat n) i = Some s \<Longrightarrow> apart s a) \<Longrightarrow>
           apart XSAVE_XSTATE_BV a \<Longrightarrow> u64_at b a = u64_at bytes a"
    by (rule xsave_set_zmm_effect [OF assms(1,2), of data]) blast
  have b: "bytes' = b" "length b = ?len" using s lb assms(4) by simp_all
  have get: "xsave_get_zmm b layout m = Some (map (\<lambda>i. chunk_of b (zmm_slot ?len layout (unat m) i)) [0..<8])"
    using xsave_get_zmm_slots [of b layout m] assms(1,3) b(2) by simp
  show ?thesis
  proof (cases "m = n")
    case True
    then show ?thesis
      by (auto simp: b(1) get [unfolded True] zmm_norm_def chunk_of_def at split: option.splits)
  next
    case False
    then have u: "unat m \<noteq> unat n" by (simp add: word_unat_eq_iff)
    have "chunk_of b (zmm_slot ?len layout (unat m) i) = chunk_of bytes (zmm_slot ?len layout (unat m) i)"
      if i: "i < 8" for i
    proof (cases "zmm_slot ?len layout (unat m) i")
      case (Some a)
      have "u64_at b a = u64_at bytes a"
      proof (rule frame)
        fix j s assume "j < 8" and "zmm_slot ?len layout (unat n) j = Some s"
        then show "apart s a"
          using zmm_slots_apart [OF assms(1,2) _ assms(3) i _ _ Some] u by auto
      qed (rule apart_header(1) [OF assms(1,3) i Some])
      with Some show ?thesis by (simp add: chunk_of_def)
    qed (simp add: chunk_of_def)
    with False show ?thesis
      using xsave_get_zmm_slots [OF assms(1,3)] by (simp add: b(1) get)
  qed
qed

lemma zmm_norm_idem: "zmm_norm len layout n (zmm_norm len layout n d) = zmm_norm len layout n d"
  by (simp add: zmm_norm_def split: option.splits)

lemma length_zmm_norm [simp]: "length (zmm_norm len layout n d) = 8"
  by (simp add: zmm_norm_def)

lemma zmm_norm_get:
  assumes "layout_ok (length bytes) layout" and "unat n < 32" and "xsave_get_zmm bytes layout n = Some d"
  shows "zmm_norm (length bytes) layout (unat n) d = d"
  using assms(3) unfolding xsave_get_zmm_slots [OF assms(1,2)]
  by (auto simp: zmm_norm_def chunk_of_def split: option.splits)

section \<open>What a processor loads\<close>

text \<open>
  \<open>XRSTOR\<close> loads a component from the image when its bit in XSTATE_BV is set and gives it its
  initial value (zero, for the vector components) otherwise. An image is \<open>settled\<close> when the
  bytes of an absent component are zero, as hypervisors return it: then the bytes are the
  values.
\<close>

definition xrstor_chunk :: "u8 list \<Rightarrow> xsave_layout \<Rightarrow> nat \<Rightarrow> nat \<Rightarrow> u64" where
  "xrstor_chunk bytes layout n i =
     (if bit (u64_at bytes XSAVE_XSTATE_BV) (zmm_component n i)
      then chunk_of bytes (zmm_slot (length bytes) layout n i) else 0)"

definition settled :: "u8 list \<Rightarrow> xsave_layout \<Rightarrow> bool" where
  "settled bytes layout \<longleftrightarrow>
     (\<forall>n<32. \<forall>i<8. \<not> bit (u64_at bytes XSAVE_XSTATE_BV) (zmm_component n i) \<longrightarrow>
        chunk_of bytes (zmm_slot (length bytes) layout n i) = 0)"

lemma bit_zmm_mask:
  "i < 8 \<Longrightarrow> zmm_slot len layout n i \<noteq> None \<Longrightarrow> bit (zmm_mask len layout n) (zmm_component n i)"
proof -
  have two: "(2 :: u64) = push_bit 1 1" by (simp add: push_bit_eq_mult)
  assume "i < 8" and "zmm_slot len layout n i \<noteq> None"
  then obtain c where c: "part len layout (zmm_component n i) = Some c"
    by (auto simp: zmm_slot_def)
  have pb: "k < 64 \<Longrightarrow> bit (push_bit k 1 :: u64) k" for k by (simp only: bit_push_one)
  consider "\<not> n < 16" | "n < 16" "i < 2" | "n < 16" "\<not> i < 2" "i < 4" | "n < 16" "\<not> i < 2" "\<not> i < 4"
    by blast
  then show ?thesis
  proof cases
    case 1
    with c pb [of 7] show ?thesis by (simp only: zmm_mask_def zmm_component_def if_False option.case)
  next
    case 2
    with pb [of 1] show ?thesis
      by (simp only: zmm_mask_def zmm_component_def if_True bit_or_iff two) simp
  next
    case 3
    with c pb [of 2] show ?thesis
      by (simp only: zmm_mask_def zmm_component_def if_True if_False bit_or_iff option.case) simp
  next
    case 4
    with c pb [of 6] show ?thesis
      by (simp only: zmm_mask_def zmm_component_def if_True if_False bit_or_iff option.case) simp
  qed
qed

lemma chunk_frame:
  assumes "layout_ok (length bytes) layout" and "unat n < 32" and "m < 32" and "i < 8" and "m \<noteq> unat n"
    and "xsave_set_zmm bytes layout n data = Some b"
  shows "chunk_of b (zmm_slot (length bytes) layout m i) = chunk_of bytes (zmm_slot (length bytes) layout m i)"
proof -
  have u: "unat (of_nat m :: u32) = m" using assms(3) by (simp add: unsigned_of_nat take_bit_nat_eq_self)
  have l: "length b = length bytes"
    using xsave_set_zmm_effect [OF assms(1,2), of data] assms(6) by (metis option.inject)
  have "of_nat m \<noteq> n" using assms(5) u by auto
  with get_after_set_zmm [OF assms(1,2) _ assms(6), of "of_nat m"] assms(3)
  have "xsave_get_zmm b layout (of_nat m) = xsave_get_zmm bytes layout (of_nat m)" by (simp add: u)
  then have "map (\<lambda>i. chunk_of b (zmm_slot (length bytes) layout m i)) [0..<8]
      = map (\<lambda>i. chunk_of bytes (zmm_slot (length bytes) layout m i)) [0..<8]"
    using xsave_get_zmm_slots [of b layout "of_nat m"] xsave_get_zmm_slots [of bytes layout "of_nat m"]
      assms(1,3) by (simp add: u l)
  from arg_cong [OF this, of "\<lambda>xs. xs ! i"] assms(4) show ?thesis by simp
qed

lemma settled_xrstor:
  "settled bytes layout \<Longrightarrow> n < 32 \<Longrightarrow> i < 8 \<Longrightarrow>
   xrstor_chunk bytes layout n i = chunk_of bytes (zmm_slot (length bytes) layout n i)"
  by (simp add: settled_def xrstor_chunk_def)

lemma settled_set_zmm:
  assumes "layout_ok (length bytes) layout" and "unat n < 32" and "settled bytes layout"
    and "xsave_set_zmm bytes layout n data = Some b"
  shows "settled b layout"
  unfolding settled_def
proof (intro allI impI)
  fix m i assume m: "m < 32" and i: "i < (8 :: nat)"
    and absent: "\<not> bit (u64_at b XSAVE_XSTATE_BV) (zmm_component m i)"
  obtain b' where b': "xsave_set_zmm bytes layout n data = Some b'" "length b' = length bytes"
    "u64_at b' XSAVE_XSTATE_BV = u64_at bytes XSAVE_XSTATE_BV OR zmm_mask (length bytes) layout (unat n)"
    by (rule xsave_set_zmm_effect [OF assms(1,2), of data]) blast
  then have b: "b' = b" using assms(4) by simp
  show "chunk_of b (zmm_slot (length b) layout m i) = 0"
  proof (cases "m = unat n")
    case True
    have "zmm_slot (length bytes) layout m i = None"
    proof (rule ccontr)
      assume "zmm_slot (length bytes) layout m i \<noteq> None"
      from bit_zmm_mask [OF i this] absent b'(3) True show False by (simp add: b bit_or_iff)
    qed
    then show ?thesis using b'(2) by (simp add: b chunk_of_def)
  next
    case False
    have "\<not> bit (u64_at bytes XSAVE_XSTATE_BV) (zmm_component m i)"
      using absent b'(3) by (simp add: b bit_or_iff)
    with assms(3) m i have "chunk_of bytes (zmm_slot (length bytes) layout m i) = 0"
      by (simp add: settled_def)
    with chunk_frame [OF assms(1,2) m i False assms(4)] b'(2) show ?thesis by (simp add: b)
  qed
qed

section \<open>Reset\<close>

definition clear :: "u8 list \<Rightarrow> xsave_component option \<Rightarrow> u8 list" where
  "clear bytes cm =
     (case cm of None \<Rightarrow> bytes | Some c \<Rightarrow> overwrite_at bytes (xc_offset c) (replicate (xc_size c) 0))"

lemma length_clear:
  "(\<And>c. cm = Some c \<Longrightarrow> xc_offset c + xc_size c \<le> length bytes) \<Longrightarrow> length (clear bytes cm) = length bytes"
  by (auto simp: clear_def length_overwrite_at split: option.splits)

lemma u64_at_clear_inside:
  assumes "xc_offset c + xc_size c \<le> length bytes" and "xc_offset c \<le> a" and "a + 8 \<le> xc_offset c + xc_size c"
  shows "u64_at (clear bytes (Some c)) a = 0"
proof -
  have "take 8 (drop a (clear bytes (Some c))) = replicate 8 0"
  proof (rule nth_equalityI)
    show "length (take 8 (drop a (clear bytes (Some c)))) = length (replicate 8 (0 :: u8))"
      using assms by (simp add: clear_def length_overwrite_at)
  next
    fix i assume "i < length (take 8 (drop a (clear bytes (Some c))))"
    then have i: "i < 8" by simp
    with assms show "take 8 (drop a (clear bytes (Some c))) ! i = replicate 8 0 ! i"
      by (simp add: clear_def overwrite_at_def nth_append)
  qed
  then show ?thesis by (simp only: u64_at_def from_le_bytes_zeros)
qed

lemma u64_at_clear_apart:
  "(\<And>c. cm = Some c \<Longrightarrow> xc_offset c + xc_size c \<le> length bytes \<and>
      (a + 8 \<le> xc_offset c \<or> xc_offset c + xc_size c \<le> a)) \<Longrightarrow>
   u64_at (clear bytes cm) a = u64_at bytes a"
  by (auto simp: clear_def u64_at_overwrite_disjoint split: option.splits)

lemma xsave_reset_clears:
  assumes "layout_ok (length bytes) layout"
  shows "xsave_reset_vectors bytes layout =
    Some (overwrite_at (foldl clear bytes (map (part (length bytes) layout) [1, 2, 6, 7]))
            XSAVE_MXCSR (to_le_bytes32 0x1F80))"
proof -
  let ?len = "length bytes"
  have l: "576 \<le> ?len" using assms by (simp add: layout_ok_def)
  have p: "part ?len layout k = Some c \<Longrightarrow> k \<in> {1, 2, 6, 7} \<Longrightarrow> xc_offset c + xc_size c \<le> ?len" for k c
    using part_place(2) [OF assms] by blast
  have step: "(case fitting ?len cm of None \<Rightarrow> Some b | Some c \<Rightarrow> fill_zero (xc_offset c) (xc_size c) b)
      = Some (clear b (fitting ?len cm))" if "length b = ?len" for b cm
  proof (cases "fitting ?len cm")
    case (Some c)
    then have "xc_offset c + xc_size c \<le> ?len" by (simp add: fitting_Some_iff)
    with that Some show ?thesis by (simp add: clear_def fill_zero_def slice_put_overwrite)
  qed (simp add: clear_def)
  have len: "length (clear b (part ?len layout k)) = ?len" if "length b = ?len" "k \<in> {1, 2, 6, 7}" for b k
    using that p by (subst length_clear) auto
  have one: "fill_zero XSAVE_XMM_OFFSET (16 * 16) bytes = Some (clear bytes (part ?len layout 1))"
    using l by (simp add: fill_zero_def slice_put_overwrite clear_def part_def XSAVE_XMM_OFFSET_def)
  have f: "fitting ?len (xl_ymm_hi layout) = part ?len layout 2"
    "fitting ?len (xl_zmm_hi layout) = part ?len layout 6"
    "fitting ?len (xl_zmm_hi16 layout) = part ?len layout 7"
    by (simp_all add: part_def)
  have lens: "length (clear bytes (part ?len layout 1)) = ?len" by (simp add: len)
  show ?thesis
    using l unfolding xsave_reset_vectors_def one
    by (simp add: lens step [of _ "xl_ymm_hi layout", unfolded f] step [of _ "xl_zmm_hi layout", unfolded f]
        step [of _ "xl_zmm_hi16 layout", unfolded f] f len slice_put_overwrite XSAVE_MXCSR_def
        del: One_nat_def)
qed

text \<open>Clearing components one after the other: what is outside all of them stays, what is in one is zero.\<close>

lemma part_inside: "layout_ok len layout \<Longrightarrow> part len layout k = Some c \<Longrightarrow> k \<in> {1, 2, 6, 7} \<Longrightarrow> xc_offset c + xc_size c \<le> len"
  using part_place(2) by blast

lemma length_clears:
  assumes "layout_ok (length bytes) layout" and "set ks \<subseteq> {1, 2, 6, 7}"
  shows "length (foldl clear bytes (map (part (length bytes) layout) ks)) = length bytes"
  using assms(2) by (induction ks rule: rev_induct) (auto simp: length_clear part_inside [OF assms(1)])

lemma clears_apart:
  assumes "layout_ok (length bytes) layout" and "set ks \<subseteq> {1, 2, 6, 7}"
    and "\<And>k c. k \<in> set ks \<Longrightarrow> part (length bytes) layout k = Some c \<Longrightarrow> a + 8 \<le> xc_offset c \<or> xc_offset c + xc_size c \<le> a"
  shows "u64_at (foldl clear bytes (map (part (length bytes) layout) ks)) a = u64_at bytes a"
  using assms(2,3)
proof (induction ks rule: rev_induct)
  case (snoc k ks)
  let ?f = "foldl clear bytes (map (part (length bytes) layout) ks)"
  have "u64_at (clear ?f (part (length bytes) layout k)) a = u64_at ?f a"
    using snoc.prems by (intro u64_at_clear_apart) (auto simp: length_clears [OF assms(1)] part_inside [OF assms(1)])
  moreover have "u64_at ?f a = u64_at bytes a" by (rule snoc.IH) (use snoc.prems in auto)
  ultimately show ?case by simp
qed simp

lemma clears_inside:
  assumes "layout_ok (length bytes) layout" and "set ks \<subseteq> {1, 2, 6, 7}" and "distinct ks" and "k \<in> set ks"
    and "part (length bytes) layout k = Some c" and "xc_offset c \<le> a" and "a + 8 \<le> xc_offset c + xc_size c"
  shows "u64_at (foldl clear bytes (map (part (length bytes) layout) ks)) a = 0"
  using assms(2-7)
proof (induction ks rule: rev_induct)
  case (snoc j ks)
  let ?p = "part (length bytes) layout"
  show ?case
  proof (cases "k = j")
    case True
    with snoc.prems show ?thesis
      by (simp add: u64_at_clear_inside length_clears [OF assms(1)] part_inside [OF assms(1)])
  next
    case False
    have "beyond c d" if "?p j = Some d" for d
      using parts_beyond [OF assms(1) _ _ False, of c d] snoc.prems that by auto
    then have "u64_at (clear (foldl clear bytes (map ?p ks)) (?p j)) a = u64_at (foldl clear bytes (map ?p ks)) a"
      using snoc.prems
      by (intro u64_at_clear_apart) (auto simp: beyond_def length_clears [OF assms(1)] part_inside [OF assms(1)])
    with snoc False show ?thesis by simp
  qed
qed simp

lemma xsave_reset_effect:
  assumes "layout_ok (length bytes) layout"
  obtains b where "xsave_reset_vectors bytes layout = Some b" and "length b = length bytes"
    and "\<And>n i. n < 32 \<Longrightarrow> i < 8 \<Longrightarrow> chunk_of b (zmm_slot (length bytes) layout n i) = 0"
    and "take 4 (drop XSAVE_MXCSR b) = to_le_bytes32 0x1F80"
    and "u64_at b XSAVE_XSTATE_BV = u64_at bytes XSAVE_XSTATE_BV"
    and "u64_at b XSAVE_XCOMP_BV = u64_at bytes XSAVE_XCOMP_BV"
proof -
  let ?len = "length bytes"
  let ?p = "part ?len layout"
  have l: "576 \<le> ?len" using assms by (simp add: layout_ok_def)
  define f where "f = foldl clear bytes (map ?p [1, 2, 6, 7])"
  have lf: "length f = ?len" unfolding f_def by (rule length_clears [OF assms]) simp
  let ?b = "overwrite_at f XSAVE_MXCSR (to_le_bytes32 0x1F80)"
  have mx: "u64_at ?b a = u64_at f a" if "32 \<le> a" for a
    using that l lf by (intro u64_at_overwrite_disjoint) (simp_all add: XSAVE_MXCSR_def)
  show thesis
  proof (rule that)
    show "xsave_reset_vectors bytes layout = Some ?b"
      unfolding f_def by (rule xsave_reset_clears [OF assms])
    show "length ?b = ?len" using l lf by (simp add: length_overwrite_at XSAVE_MXCSR_def)
    show "take 4 (drop XSAVE_MXCSR ?b) = to_le_bytes32 0x1F80"
      using take_drop_overwrite_same [of XSAVE_MXCSR "to_le_bytes32 0x1F80" f] l lf
      by (simp add: XSAVE_MXCSR_def)
    have hdr: "u64_at f a = u64_at bytes a" if "416 \<le> a" "a + 8 \<le> 576" for a
      unfolding f_def
    proof (rule clears_apart [OF assms])
      fix k c assume "k \<in> set [1, 2, 6, 7 :: nat]" and c: "?p k = Some c"
      then have k: "k \<in> {1, 2, 6, 7}" by simp
      with part_place [OF assms k c] that show "a + 8 \<le> xc_offset c \<or> xc_offset c + xc_size c \<le> a"
        by (cases "k = 1") auto
    qed simp
    show "u64_at ?b XSAVE_XSTATE_BV = u64_at bytes XSAVE_XSTATE_BV"
      and "u64_at ?b XSAVE_XCOMP_BV = u64_at bytes XSAVE_XCOMP_BV"
      by (simp_all add: mx hdr XSAVE_XSTATE_BV_def XSAVE_XCOMP_BV_def)
  next
    fix n i :: nat assume n: "n < 32" and i: "i < 8"
    show "chunk_of ?b (zmm_slot ?len layout n i) = 0"
    proof (cases "zmm_slot ?len layout n i")
      case (Some a)
      then obtain c where c: "?p (zmm_component n i) = Some c" "a = xc_offset c + zmm_rel n i"
        by (auto simp: zmm_slot_def)
      have "u64_at f a = 0"
        unfolding f_def
        using zmm_rel_range [OF n i] part_place(1) [OF assms zmm_component_cases c(1)] c zmm_component_cases [of n i]
        by (intro clears_inside [OF assms, of _ "zmm_component n i" c]) auto
      moreover have "32 \<le> a" using zmm_slot_range [OF assms n i Some] by auto
      ultimately show ?thesis by (simp add: Some chunk_of_def mx)
    qed (simp add: chunk_of_def)
  qed
qed

section \<open>The two operations as a whole\<close>

lemma xsave_set_zmm_result:
  assumes "layout_ok (length bytes) layout" and "settled bytes layout" and "unat n < 32"
  shows "\<exists>bytes'. xsave_set_zmm bytes layout n data = Some bytes' \<and>
    length bytes' = length bytes \<and> settled bytes' layout \<and>
    xsave_xcomp_bv bytes' = xsave_xcomp_bv bytes \<and>
    (\<forall>m. unat m < 32 \<longrightarrow> xsave_get_zmm bytes' layout m =
       (if m = n then Some (zmm_norm (length bytes) layout (unat n) data) else xsave_get_zmm bytes layout m)) \<and>
    (\<forall>m. unat m < 32 \<longrightarrow> xsave_get_zmm bytes' layout m = Some (map (xrstor_chunk bytes' layout (unat m)) [0..<8]))"
proof -
  obtain b where b: "xsave_set_zmm bytes layout n data = Some b" "length b = length bytes"
    and frame: "\<And>a. (\<And>i s. i < 8 \<Longrightarrow> zmm_slot (length bytes) layout (unat n) i = Some s \<Longrightarrow> apart s a) \<Longrightarrow>
           apart XSAVE_XSTATE_BV a \<Longrightarrow> u64_at b a = u64_at bytes a"
    by (rule xsave_set_zmm_effect [OF assms(1,3), of data]) blast
  note st = settled_set_zmm [OF assms(1,3,2) b(1)]
  have "u64_at b XSAVE_XCOMP_BV = u64_at bytes XSAVE_XCOMP_BV"
  proof (rule frame)
    fix i s assume "i < 8" and "zmm_slot (length bytes) layout (unat n) i = Some s"
    from apart_header(2) [OF assms(1,3) this] show "apart s XSAVE_XCOMP_BV" by (auto simp: apart_def)
  qed (simp add: apart_def XSAVE_XSTATE_BV_def XSAVE_XCOMP_BV_def)
  moreover have "576 \<le> length bytes" using assms(1) by (simp add: layout_ok_def)
  ultimately have "xsave_xcomp_bv b = xsave_xcomp_bv bytes"
    by (simp add: xsave_xcomp_bv_def read_u64_at_in b(2) XSAVE_XCOMP_BV_def)
  moreover have "xsave_get_zmm b layout m = Some (map (xrstor_chunk b layout (unat m)) [0..<8])"
    if "unat m < 32" for m
    using xsave_get_zmm_slots [of b layout m] settled_xrstor [OF st that] assms(1) that b(2) by simp
  ultimately show ?thesis
    using b st get_after_set_zmm [OF assms(1,3) _ b(1)] by blast
qed

lemma xsave_reset_result:
  assumes "layout_ok (length bytes) layout"
  shows "\<exists>bytes'. xsave_reset_vectors bytes layout = Some bytes' \<and> length bytes' = length bytes \<and>
    settled bytes' layout \<and>
    (\<forall>n. unat n < 32 \<longrightarrow> xsave_get_zmm bytes' layout n = Some (replicate 8 0)) \<and>
    slice_get bytes' XSAVE_MXCSR 4 = Some (to_le_bytes32 0x1F80) \<and>
    u64_at bytes' XSAVE_XSTATE_BV = u64_at bytes XSAVE_XSTATE_BV \<and>
    xsave_xcomp_bv bytes' = xsave_xcomp_bv bytes"
proof -
  have l: "576 \<le> length bytes" using assms by (simp add: layout_ok_def)
  obtain b where b: "xsave_reset_vectors bytes layout = Some b" "length b = length bytes"
    "\<And>n i. n < 32 \<Longrightarrow> i < 8 \<Longrightarrow> chunk_of b (zmm_slot (length bytes) layout n i) = 0"
    "take 4 (drop XSAVE_MXCSR b) = to_le_bytes32 0x1F80"
    "u64_at b XSAVE_XSTATE_BV = u64_at bytes XSAVE_XSTATE_BV"
    "u64_at b XSAVE_XCOMP_BV = u64_at bytes XSAVE_XCOMP_BV"
    by (rule xsave_reset_effect [OF assms]) blast
  have "xsave_get_zmm b layout n = Some (replicate 8 0)" if "unat n < 32" for n
  proof -
    have "map (\<lambda>i. chunk_of b (zmm_slot (length b) layout (unat n) i)) [0..<8] = map (\<lambda>_. 0) [0..<8]"
      using b(2,3) that by (intro map_cong) simp_all
    with xsave_get_zmm_slots [of b layout n] assms b(2) that show ?thesis
      by (simp add: map_replicate_const)
  qed
  moreover have "settled b layout" using b(2,3) by (simp add: settled_def)
  ultimately show ?thesis
    using b l by (auto simp: slice_get_def XSAVE_MXCSR_def xsave_xcomp_bv_def read_u64_at_in XSAVE_XCOMP_BV_def)
qed

section \<open>The layout a CPU describes\<close>

lemma align64_props: "off \<le> align64 off" "64 dvd align64 off" "align64 off < off + 64"
proof -
  have "(off + 63) mod 64 < 64" by simp
  moreover have "(off + 63) div 64 * 64 + (off + 63) mod 64 = off + 63" by simp
  ultimately show "off \<le> align64 off" and "align64 off < off + 64" unfolding align64_def by linarith+
  show "64 dvd align64 off" by (simp add: align64_def)
qed

lemma compact_loop_place:
  "compact_loop cpuid bv index sz is off = Some c \<Longrightarrow>
     off \<le> xc_offset c \<and> xc_size c = sz \<and> index \<in> set is \<and> bit bv index \<and>
     (bit (cpuid_ecx (cpuid 0x0D (of_nat index))) 1 \<longrightarrow> 64 dvd xc_offset c)"
proof (induction "is" arbitrary: off)
  case (Cons i "is")
  let ?l = "cpuid 0x0D (of_nat i)"
  let ?o = "if bit (cpuid_ecx ?l) 1 then align64 off else off"
  have o: "off \<le> ?o" by (simp add: align64_props)
  consider "\<not> bit bv i \<or> cpuid_eax ?l = 0" "compact_loop cpuid bv index sz is off = Some c"
    | "bit bv i" "i = index" "c = \<lparr>xc_offset = ?o, xc_size = sz\<rparr>"
    | "compact_loop cpuid bv index sz is (?o + unat (cpuid_eax ?l)) = Some c"
    using Cons.prems by (auto simp: Let_def split: if_splits)
  then show ?case
  proof cases
    case 1
    with Cons.IH show ?thesis by simp
  next
    case 2
    with o show ?thesis by (auto simp: align64_props)
  next
    case 3
    with Cons.IH [OF 3] o show ?thesis by auto
  qed
qed simp

text \<open>A later component starts where the loop stood after an earlier one.\<close>

lemma compact_loop_prefix:
  assumes "compact_loop cpuid bv i si (us @ [i]) off = Some c" and "i \<notin> set us" and "j \<notin> set (us @ [i])"
    and "unat (cpuid_eax (cpuid 0x0D (of_nat i))) = si"
  shows "compact_loop cpuid bv j sj (us @ i # ws) off = compact_loop cpuid bv j sj ws (xc_offset c + xc_size c)"
  using assms
proof (induction us arbitrary: off)
  case Nil
  then show ?case by (auto simp: Let_def split: if_splits)
next
  case (Cons u us)
  then show ?case by (auto simp: Let_def split: if_splits)
qed

lemma locate_compactD:
  assumes "locate cpuid xcr0 bv i = Some c" and "bit bv 63" and "2 \<le> i"
  shows "compact_loop cpuid bv i (xc_size c) [2..<Suc i] 576 = Some c"
    and "xc_size c = unat (cpuid_eax (cpuid 0x0D (of_nat i)))" and "xc_size c \<noteq> 0" and "576 \<le> xc_offset c"
proof -
  have l: "compact_loop cpuid bv i (unat (cpuid_eax (cpuid 0x0D (of_nat i)))) [2..<Suc i] 576 = Some c"
    and nz: "unat (cpuid_eax (cpuid 0x0D (of_nat i))) \<noteq> 0"
    using assms by (auto simp: locate_def Let_def XSAVE_COMPACT_BASE_def split: if_splits)
  show sz: "xc_size c = unat (cpuid_eax (cpuid 0x0D (of_nat i)))" and "576 \<le> xc_offset c"
    using compact_loop_place [OF l] by simp_all
  show "compact_loop cpuid bv i (xc_size c) [2..<Suc i] 576 = Some c" and "xc_size c \<noteq> 0"
    using l nz sz by simp_all
qed

lemma locate_compact_order:
  assumes "locate cpuid xcr0 bv i = Some c" and "locate cpuid xcr0 bv j = Some d" and "bit bv 63"
    and "2 \<le> i" and "i < j"
  shows "xc_offset c + xc_size c \<le> xc_offset d"
proof -
  note c = locate_compactD [OF assms(1,3,4)]
  have d: "compact_loop cpuid bv j (xc_size d) [2..<Suc j] 576 = Some d"
    using locate_compactD(1) [OF assms(2,3)] assms(4,5) by simp
  have "[2..<i + (Suc j - i)] = [2..<i] @ [i..<i + (Suc j - i)]"
    by (rule upt_add_eq_append [OF assms(4)])
  moreover have "i + (Suc j - i) = Suc j" using assms(5) by linarith
  moreover have "[i..<Suc j] = i # [Suc i..<Suc j]" by (rule upt_conv_Cons) (use assms(5) in linarith)
  ultimately have js: "[2..<Suc j] = [2..<i] @ i # [Suc i..<Suc j]" by (simp only:)
  have "is": "[2..<Suc i] = [2..<i] @ [i]" by (rule upt_Suc_append [OF assms(4)])
  have "compact_loop cpuid bv j (xc_size d) [Suc i..<Suc j] (xc_offset c + xc_size c) =
      compact_loop cpuid bv j (xc_size d) ([2..<i] @ i # [Suc i..<Suc j]) 576"
    by (rule compact_loop_prefix [symmetric, OF c(1) [unfolded "is"]]) (use assms(5) c(2) in auto)
  with d js have "compact_loop cpuid bv j (xc_size d) [Suc i..<Suc j] (xc_offset c + xc_size c) = Some d"
    by (simp only:)
  from compact_loop_place [OF this] show ?thesis by simp
qed

lemma locate_standardD:
  "locate cpuid xcr0 bv i = Some c \<Longrightarrow> \<not> bit bv 63 \<Longrightarrow>
   xc_offset c = unat (cpuid_ebx (cpuid 0x0D (of_nat i))) \<and> xc_size c = unat (cpuid_eax (cpuid 0x0D (of_nat i))) \<and>
   xc_size c \<noteq> 0 \<and> xc_offset c \<noteq> 0"
  by (auto simp: locate_def Let_def split: if_splits)

text \<open>
  What the SDM promises of CPUID leaf 0DH for the three vector components: they are as large as
  their registers, and the standard-format offsets put them behind the header, apart.
\<close>

definition cpuid_sizes :: "cpuid \<Rightarrow> bool" where
  "cpuid_sizes cpuid \<longleftrightarrow>
     (\<forall>k \<in> {2, 6, 7}. let s = unat (cpuid_eax (cpuid 0x0D (of_nat k))) in s = 0 \<or> part_size k \<le> s)"

definition cpuid_standard :: "cpuid \<Rightarrow> bool" where
  "cpuid_standard cpuid \<longleftrightarrow>
     (\<forall>k \<in> {2, 6, 7}. let o' = unat (cpuid_ebx (cpuid 0x0D (of_nat k))) in o' = 0 \<or> 576 \<le> o') \<and>
     (\<forall>j \<in> {2, 6, 7}. \<forall>k \<in> {2, 6, 7}. j < k \<longrightarrow>
        unat (cpuid_ebx (cpuid 0x0D (of_nat j))) + unat (cpuid_eax (cpuid 0x0D (of_nat j)))
          \<le> unat (cpuid_ebx (cpuid 0x0D (of_nat k))) \<or>
        unat (cpuid_ebx (cpuid 0x0D (of_nat k))) + unat (cpuid_eax (cpuid 0x0D (of_nat k)))
          \<le> unat (cpuid_ebx (cpuid 0x0D (of_nat j))))"

lemma cpuid_standardD:
  assumes "cpuid_standard cpuid" and "j \<in> {2, 6, 7}"
  shows "unat (cpuid_ebx (cpuid 0x0D (of_nat j))) = 0 \<or> 576 \<le> unat (cpuid_ebx (cpuid 0x0D (of_nat j)))"
    and "k \<in> {2, 6, 7} \<Longrightarrow> j < k \<Longrightarrow>
        unat (cpuid_ebx (cpuid 0x0D (of_nat j))) + unat (cpuid_eax (cpuid 0x0D (of_nat j)))
          \<le> unat (cpuid_ebx (cpuid 0x0D (of_nat k))) \<or>
        unat (cpuid_ebx (cpuid 0x0D (of_nat k))) + unat (cpuid_eax (cpuid 0x0D (of_nat k)))
          \<le> unat (cpuid_ebx (cpuid 0x0D (of_nat j)))"
  using bspec [OF conjunct1 [OF assms(1) [unfolded cpuid_standard_def]] assms(2)]
    bspec [OF bspec [OF conjunct2 [OF assms(1) [unfolded cpuid_standard_def]] assms(2)], of k]
  by (simp_all only: Let_def)

lemma locate_size: "locate cpuid xcr0 bv i = Some c \<Longrightarrow> 2 \<le> i \<Longrightarrow>
   xc_size c = unat (cpuid_eax (cpuid 0x0D (of_nat i))) \<and> xc_size c \<noteq> 0"
  using locate_compactD [of cpuid xcr0 bv i c] locate_standardD [of cpuid xcr0 bv i c] by blast

lemma part_probe:
  "k \<in> {2, 6, 7} \<Longrightarrow> part len (probe cpuid xcr0 bv) k = Some c \<Longrightarrow> locate cpuid xcr0 bv k = Some c"
  by (auto simp: part_def probe_def fitting_Some_iff split: if_splits)

lemma probe_ok:
  assumes "576 \<le> len" and "cpuid_sizes cpuid" and "\<not> bit bv 63 \<Longrightarrow> cpuid_standard cpuid"
  shows "layout_ok len (probe cpuid xcr0 bv)"
  unfolding layout_ok_def
proof (intro conjI ballI allI impI)
  fix k c assume k: "k \<in> {2, 6, 7 :: nat}" and "part len (probe cpuid xcr0 bv) k = Some c"
  then have c: "locate cpuid xcr0 bv k = Some c" by (rule part_probe)
  have k2: "2 \<le> k" using k by auto
  show "576 \<le> xc_offset c"
  proof (cases "bit bv 63")
    case True
    then show ?thesis using locate_compactD(4) [OF c _ k2] by simp
  next
    case False
    have "unat (cpuid_ebx (cpuid 0x0D (of_nat k))) = 0 \<or> 576 \<le> unat (cpuid_ebx (cpuid 0x0D (of_nat k)))"
      by (rule cpuid_standardD(1) [OF assms(3) [OF False] k])
    with locate_standardD [OF c False] show ?thesis by simp
  qed
  show "part_size k \<le> xc_size c"
  proof -
    have "unat (cpuid_eax (cpuid 0x0D (of_nat k))) = 0 \<or> part_size k \<le> unat (cpuid_eax (cpuid 0x0D (of_nat k)))"
      using bspec [OF assms(2) [unfolded cpuid_sizes_def] k] by (simp only: Let_def)
    with locate_size [OF c k2] show ?thesis by simp
  qed
next
  fix j k c d
  assume j: "j \<in> {2, 6, 7 :: nat}" and k: "k \<in> {2, 6, 7 :: nat}"
    and a: "j \<noteq> k \<and> part len (probe cpuid xcr0 bv) j = Some c \<and> part len (probe cpuid xcr0 bv) k = Some d"
  then have c: "locate cpuid xcr0 bv j = Some c" and d: "locate cpuid xcr0 bv k = Some d"
    by (auto intro: part_probe)
  have 2: "2 \<le> j" "2 \<le> k" using j k by auto
  show "beyond c d"
  proof (cases "bit bv 63")
    case True
    from a consider "j < k" | "k < j" by linarith
    then show ?thesis
      using locate_compact_order [OF c d True 2(1)] locate_compact_order [OF d c True 2(2)]
      by cases (auto simp: beyond_def)
  next
    case False
    let ?o = "\<lambda>k. unat (cpuid_ebx (cpuid 0x0D (of_nat k)))" and ?s = "\<lambda>k. unat (cpuid_eax (cpuid 0x0D (of_nat k)))"
    have ap: "?o x + ?s x \<le> ?o y \<or> ?o y + ?s y \<le> ?o x"
      if "x \<in> {2, 6, 7 :: nat}" and "y \<in> {2, 6, 7 :: nat}" and "x < y" for x y
      by (rule cpuid_standardD(2) [OF assms(3) [OF False] that])
    from a consider "j < k" | "k < j" by linarith
    then show ?thesis
    proof cases
      case 1
      from ap [OF j k 1] locate_standardD [OF c False] locate_standardD [OF d False]
      show ?thesis by (simp add: beyond_def)
    next
      case 2
      from ap [OF k j 2] locate_standardD [OF c False] locate_standardD [OF d False]
      show ?thesis by (auto simp: beyond_def)
    qed
  qed
qed (rule assms(1))

section \<open>Properties\<close>

text \<open>An Intel CPU with AVX-512: the leaf 0DH values of the three components.\<close>

definition avx512_cpuid :: cpuid where
  "avx512_cpuid leaf sub =
     (if leaf = 0x0D \<and> sub = 0 then \<lparr>cpuid_eax = 0xE7, cpuid_ebx = 2688, cpuid_ecx = 2688, cpuid_edx = 0\<rparr>
      else if leaf = 0x0D \<and> sub = 2 then \<lparr>cpuid_eax = 256, cpuid_ebx = 576, cpuid_ecx = 0, cpuid_edx = 0\<rparr>
      else if leaf = 0x0D \<and> sub = 5 then \<lparr>cpuid_eax = 64, cpuid_ebx = 1088, cpuid_ecx = 0, cpuid_edx = 0\<rparr>
      else if leaf = 0x0D \<and> sub = 6 then \<lparr>cpuid_eax = 512, cpuid_ebx = 1152, cpuid_ecx = 2, cpuid_edx = 0\<rparr>
      else if leaf = 0x0D \<and> sub = 7 then \<lparr>cpuid_eax = 1024, cpuid_ebx = 1664, cpuid_ecx = 0, cpuid_edx = 0\<rparr>
      else \<lparr>cpuid_eax = 0, cpuid_ebx = 0, cpuid_ecx = 0, cpuid_edx = 0\<rparr>)"

definition avx512_layout :: xsave_layout where
  "avx512_layout =
     \<lparr>xl_ymm_hi = Some \<lparr>xc_offset = 576, xc_size = 256\<rparr>, xl_zmm_hi = Some \<lparr>xc_offset = 1152, xc_size = 512\<rparr>,
      xl_zmm_hi16 = Some \<lparr>xc_offset = 1664, xc_size = 1024\<rparr>\<rparr>"

lemma probe_avx512: "probe avx512_cpuid 0xE7 0 = avx512_layout"
proof -
  have "bit (0xE7 :: u64) 2" "bit (0xE7 :: u64) 6" "bit (0xE7 :: u64) 7"
    by (simp_all add: bit_iff_odd)
  then show ?thesis
    by (simp add: probe_def locate_def avx512_cpuid_def avx512_layout_def)
qed

lemma avx512_cpuid_ok: "cpuid_sizes avx512_cpuid" "cpuid_standard avx512_cpuid"
  by (simp_all add: cpuid_sizes_def cpuid_standard_def avx512_cpuid_def part_size_def)

text \<open>
  C21: whichever of the two formats the image uses, the layout \<open>probe\<close> finds is sound for any
  image that has its header: every component that fits lies behind the 576 header bytes, is
  large enough for its registers and overlaps no other. In the compacted format this needs
  only the component sizes; in the standard format it is what CPUID promises of its offsets.
\<close>

theorem probe_is_sound:
  assumes "576 \<le> len" and "cpuid_sizes cpuid" and "\<not> bit bv 63 \<Longrightarrow> cpuid_standard cpuid"
  shows "layout_ok len (probe cpuid xcr0 bv)"
  using assms by (rule probe_ok)

theorem probe_is_sound_witness:
  "layout_ok 2688 (probe avx512_cpuid 0xE7 0) \<and> probe avx512_cpuid 0xE7 0 = avx512_layout"
proof
  show "layout_ok 2688 (probe avx512_cpuid 0xE7 0)"
    by (rule probe_is_sound) (simp_all add: avx512_cpuid_ok)
qed (rule probe_avx512)

text \<open>
  Compacted offsets are the architecture's: a located component starts at or after byte
  576, on a multiple of 64 when CPUID asks for it, and a component of higher index starts
  behind every located one of lower index.
\<close>

theorem compacted_offsets:
  assumes "locate cpuid xcr0 bv i = Some c" and "bit bv 63" and "2 \<le> i"
  shows "576 \<le> xc_offset c \<and> xc_size c = unat (cpuid_eax (cpuid 0x0D (of_nat i))) \<and>
    (bit (cpuid_ecx (cpuid 0x0D (of_nat i))) 1 \<longrightarrow> 64 dvd xc_offset c) \<and>
    (\<forall>j d. i < j \<and> locate cpuid xcr0 bv j = Some d \<longrightarrow> xc_offset c + xc_size c \<le> xc_offset d)"
  using compact_loop_place [OF locate_compactD(1) [OF assms]] locate_compactD [OF assms]
    locate_compact_order [OF assms(1) _ assms(2,3)] by blast

text \<open>
  C20: writing a vector register into an image and reading it back gives the written chunks the
  vCPU can hold, and zero for the others; every other register reads as before; the components
  written are marked present, so that the processor loads exactly what is read back; and the
  format field is untouched.
\<close>

theorem set_zmm_then_get:
  assumes "layout_ok (length bytes) layout" and "settled bytes layout" and "unat n < 32"
  shows "\<exists>bytes'. xsave_set_zmm bytes layout n data = Some bytes' \<and>
    length bytes' = length bytes \<and> settled bytes' layout \<and>
    xsave_xcomp_bv bytes' = xsave_xcomp_bv bytes \<and>
    (\<forall>m. unat m < 32 \<longrightarrow> xsave_get_zmm bytes' layout m =
       (if m = n then Some (zmm_norm (length bytes) layout (unat n) data) else xsave_get_zmm bytes layout m)) \<and>
    (\<forall>m. unat m < 32 \<longrightarrow> xsave_get_zmm bytes' layout m = Some (map (xrstor_chunk bytes' layout (unat m)) [0..<8]))"
  using assms by (rule xsave_set_zmm_result)

text \<open>
  The reset leaves an image whose thirty-two registers all read as zero and whose MXCSR is
  1F80H, and touches neither the header nor the size.
\<close>

theorem reset_zeroes_vectors:
  assumes "layout_ok (length bytes) layout"
  shows "\<exists>bytes'. xsave_reset_vectors bytes layout = Some bytes' \<and> length bytes' = length bytes \<and>
    settled bytes' layout \<and>
    (\<forall>n. unat n < 32 \<longrightarrow> xsave_get_zmm bytes' layout n = Some (replicate 8 0)) \<and>
    slice_get bytes' XSAVE_MXCSR 4 = Some (to_le_bytes32 0x1F80) \<and>
    u64_at bytes' XSAVE_XSTATE_BV = u64_at bytes XSAVE_XSTATE_BV \<and>
    xsave_xcomp_bv bytes' = xsave_xcomp_bv bytes"
  using assms by (rule xsave_reset_result)

text \<open>A fresh image of the AVX-512 layout, for the two witnesses.\<close>

lemma avx512_layout_ok: "576 \<le> len \<Longrightarrow> layout_ok len avx512_layout"
  by (auto simp: layout_ok_def avx512_layout_def part_def part_size_def fitting_def beyond_def split: if_splits)

lemma u64_at_zeros: "u64_at (replicate len 0) a = 0"
  by (simp only: u64_at_def drop_replicate take_replicate from_le_bytes_zeros)

lemma settled_zeros: "settled (replicate len 0) layout"
  by (simp add: settled_def chunk_of_def u64_at_zeros split: option.splits)

theorem set_zmm_then_get_witness:
  "\<exists>b. xsave_set_zmm (replicate 2688 0) avx512_layout 17 [1, 2, 3, 4, 5, 6, 7, 8] = Some b \<and>
     xsave_get_zmm b avx512_layout 17 = Some [1, 2, 3, 4, 5, 6, 7, 8]"
proof -
  have n: "zmm_norm 2688 avx512_layout 17 [1, 2, 3, 4, 5, 6, 7, 8] = [1, 2, 3, 4, 5, 6, 7, 8]"
    by (simp add: zmm_norm_def zmm_slot_def zmm_component_def part_def avx512_layout_def fitting_def upt8)
  show ?thesis
    using set_zmm_then_get [of "replicate 2688 0" avx512_layout 17 "[1, 2, 3, 4, 5, 6, 7, 8]"]
    by (auto simp: avx512_layout_ok settled_zeros n)
qed

end
