(* ===== verification/Oracle_Trait.thy ===== *)
theory Oracle_Trait
  imports Oracle_Types
begin

text \<open>
  The trait \<open>X86Oracle\<close> of \<open>src/lib.rs\<close> as a dictionary of its methods over a backend
  state \<open>'s\<close>, and its provided methods as functions of that dictionary. A method with
  \<open>&mut self\<close> returns the new state; a panic is \<open>None\<close>.

  The locales state what a backend promises about them: \<open>oracle_registers\<close> relates a
  backend state to the \<open>CpuState\<close> it shows, \<open>oracle_memory\<close> to a flat byte memory below
  the backend's address limit, \<open>oracle_segments\<close> relates the two ways to reach the FS
  and GS bases. The generic lemmas (snapshots are faithful, restore loads a snapshot,
  the provided memory methods agree with the batched overrides, a \<open>u64\<close> reads back) are
  proved once inside them; each backend's theory interprets them on its own operations.
\<close>

section \<open>The dictionary\<close>

record 's oracle_ops =
  op_backend_name :: "'s \<Rightarrow> string"
  op_set_gpr :: "u32 \<Rightarrow> u64 \<Rightarrow> 's \<Rightarrow> 's panics"
  op_get_gpr :: "u32 \<Rightarrow> 's \<Rightarrow> u64 panics"
  op_set_rip :: "u64 \<Rightarrow> 's \<Rightarrow> 's panics"
  op_get_rip :: "'s \<Rightarrow> u64 panics"
  op_set_rflags :: "u64 \<Rightarrow> 's \<Rightarrow> 's panics"
  op_get_rflags :: "'s \<Rightarrow> u64 panics"
  op_set_zmm :: "u32 \<Rightarrow> u64 list \<Rightarrow> 's \<Rightarrow> 's panics"
  op_get_zmm :: "u32 \<Rightarrow> 's \<Rightarrow> u64 list panics"
  op_vector_chunks :: "'s \<Rightarrow> nat"
  op_vector_regs :: "'s \<Rightarrow> nat"
  op_set_msr :: "u32 \<Rightarrow> u64 \<Rightarrow> 's \<Rightarrow> 's panics"
  op_get_msr :: "u32 \<Rightarrow> 's \<Rightarrow> u64 panics"
  op_set_cr :: "u32 \<Rightarrow> u64 \<Rightarrow> 's \<Rightarrow> 's panics"
  op_get_cr :: "u32 \<Rightarrow> 's \<Rightarrow> u64 panics"
  op_enable_shadow_stack :: "u64 \<Rightarrow> u64 \<Rightarrow> 's \<Rightarrow> ((shadow_stack_error + unit) \<times> 's) panics"
  op_set_ssp :: "u64 \<Rightarrow> 's \<Rightarrow> 's panics"
  op_get_ssp :: "'s \<Rightarrow> u64 panics"
  op_set_seg_selector :: "u32 \<Rightarrow> u16 \<Rightarrow> 's \<Rightarrow> 's panics"
  op_get_seg_selector :: "u32 \<Rightarrow> 's \<Rightarrow> u16 panics"
  op_set_seg_base :: "u32 \<Rightarrow> u64 \<Rightarrow> 's \<Rightarrow> 's panics"
  op_get_seg_base :: "u32 \<Rightarrow> 's \<Rightarrow> u64 panics"
  op_set_seg_limit :: "u32 \<Rightarrow> u32 \<Rightarrow> 's \<Rightarrow> 's panics"
  op_get_seg_limit :: "u32 \<Rightarrow> 's \<Rightarrow> u32 panics"
  op_read_mem_byte :: "u64 \<Rightarrow> 's \<Rightarrow> u8 panics"
  op_write_mem_byte :: "u64 \<Rightarrow> u8 \<Rightarrow> 's \<Rightarrow> 's panics"
  op_read_mem :: "u64 \<Rightarrow> nat \<Rightarrow> 's \<Rightarrow> u8 list panics"
  op_write_mem :: "u64 \<Rightarrow> u8 list \<Rightarrow> 's \<Rightarrow> 's panics"
  op_is_mapped :: "u64 \<Rightarrow> 's \<Rightarrow> bool"
  op_step :: "'s \<Rightarrow> (step_outcome \<times> 's) panics"
  op_fault_msg :: "'s \<Rightarrow> string panics"

section \<open>Provided methods\<close>

definition default_vector_chunks :: "'s \<Rightarrow> nat" where
  "default_vector_chunks s = ZMM_CHUNKS"

definition default_vector_regs :: "'s \<Rightarrow> nat" where
  "default_vector_regs s = ZMM_REGS"

definition default_enable_shadow_stack ::
    "u64 \<Rightarrow> u64 \<Rightarrow> 's \<Rightarrow> ((shadow_stack_error + unit) \<times> 's) panics" where
  "default_enable_shadow_stack base len s = Some (Inl Unsupported, s)"

definition default_set_ssp :: "u64 \<Rightarrow> 's \<Rightarrow> 's panics" where
  "default_set_ssp v s = Some s"

definition default_get_ssp :: "'s \<Rightarrow> u64 panics" where
  "default_get_ssp s = Some 0"

definition default_read_mem :: "'s oracle_ops \<Rightarrow> u64 \<Rightarrow> nat \<Rightarrow> 's \<Rightarrow> u8 list panics" where
  "default_read_mem ops addr len s =
     fill_each (\<lambda>i. op_read_mem_byte ops (addr + of_nat i) s) [0..<len]"

definition default_write_mem :: "'s oracle_ops \<Rightarrow> u64 \<Rightarrow> u8 list \<Rightarrow> 's \<Rightarrow> 's panics" where
  "default_write_mem ops addr data =
     for_each (\<lambda>i. op_write_mem_byte ops (addr + of_nat i) (data ! i)) [0..<length data]"

definition read_mem_u64 :: "'s oracle_ops \<Rightarrow> u64 \<Rightarrow> 's \<Rightarrow> u64 panics" where
  "read_mem_u64 ops addr s = map_option from_le_bytes (op_read_mem ops addr 8 s)"

definition write_mem_u64 :: "'s oracle_ops \<Rightarrow> u64 \<Rightarrow> u64 \<Rightarrow> 's \<Rightarrow> 's panics" where
  "write_mem_u64 ops addr value s = op_write_mem ops addr (to_le_bytes value) s"

definition step_bytes :: "'s oracle_ops \<Rightarrow> u8 list \<Rightarrow> 's \<Rightarrow> (step_outcome \<times> 's) panics" where
  "step_bytes ops code s = do {
     rip \<leftarrow> op_get_rip ops s;
     s' \<leftarrow> op_write_mem ops rip code s;
     op_step ops s' }"

definition snapshot :: "'s oracle_ops \<Rightarrow> 's \<Rightarrow> cpu_state panics" where
  "snapshot ops s = do {
     g \<leftarrow> fill_each (\<lambda>i. op_get_gpr ops (of_nat i) s) [0..<16];
     z \<leftarrow> fill_each (\<lambda>i. op_get_zmm ops (of_nat i) s) [0..<ZMM_REGS];
     pc \<leftarrow> op_get_rip ops s;
     fl \<leftarrow> op_get_rflags ops s;
     Some \<lparr>cs_gpr = g, cs_rip = pc, cs_rflags = fl, cs_zmm = z\<rparr> }"

definition restore :: "'s oracle_ops \<Rightarrow> cpu_state \<Rightarrow> 's \<Rightarrow> 's panics" where
  "restore ops snap s = do {
     s \<leftarrow> for_each (\<lambda>i. op_set_gpr ops (of_nat i) (cs_gpr snap ! i)) [0..<16] s;
     s \<leftarrow> op_set_rip ops (cs_rip snap) s;
     s \<leftarrow> op_set_rflags ops (cs_rflags snap) s;
     for_each (\<lambda>i. op_set_zmm ops (of_nat i) (cs_zmm snap ! i)) [0..<ZMM_REGS] s }"

section \<open>What a backend promises about its registers\<close>

locale oracle_registers =
  fixes ops :: "'s oracle_ops"
    and ok :: "'s \<Rightarrow> bool"
    and view :: "'s \<Rightarrow> cpu_state"
    and norm_flags :: "u64 \<Rightarrow> u64"
    and norm_zmm :: "nat \<Rightarrow> u64 list \<Rightarrow> u64 list"
  assumes view_wf: "ok s \<Longrightarrow> wf_cpu_state (view s)"
    and get_gpr: "ok s \<Longrightarrow> n < 16 \<Longrightarrow> op_get_gpr ops (of_nat n) s = Some (cs_gpr (view s) ! n)"
    and get_rip: "ok s \<Longrightarrow> op_get_rip ops s = Some (cs_rip (view s))"
    and get_rflags: "ok s \<Longrightarrow> op_get_rflags ops s = Some (cs_rflags (view s))"
    and get_zmm: "ok s \<Longrightarrow> n < 32 \<Longrightarrow> op_get_zmm ops (of_nat n) s = Some (cs_zmm (view s) ! n)"
    and set_gpr: "ok s \<Longrightarrow> n < 16 \<Longrightarrow> \<exists>s'. op_set_gpr ops (of_nat n) v s = Some s' \<and> ok s' \<and>
           view s' = (view s)\<lparr>cs_gpr := (cs_gpr (view s))[n := v]\<rparr>"
    and set_rip: "ok s \<Longrightarrow> \<exists>s'. op_set_rip ops v s = Some s' \<and> ok s' \<and>
           view s' = (view s)\<lparr>cs_rip := v\<rparr>"
    and set_rflags: "ok s \<Longrightarrow> \<exists>s'. op_set_rflags ops v s = Some s' \<and> ok s' \<and>
           view s' = (view s)\<lparr>cs_rflags := norm_flags v\<rparr>"
    and set_zmm: "ok s \<Longrightarrow> n < 32 \<Longrightarrow> length d = 8 \<Longrightarrow>
           \<exists>s'. op_set_zmm ops (of_nat n) d s = Some s' \<and> ok s' \<and>
           view s' = (view s)\<lparr>cs_zmm := (cs_zmm (view s))[n := norm_zmm n d]\<rparr>"
    and norm_flags_view: "ok s \<Longrightarrow> norm_flags (cs_rflags (view s)) = cs_rflags (view s)"
    and norm_zmm_view: "ok s \<Longrightarrow> n < 32 \<Longrightarrow> norm_zmm n (cs_zmm (view s) ! n) = cs_zmm (view s) ! n"
begin

lemma snapshot_view: "ok s \<Longrightarrow> snapshot ops s = Some (view s)"
proof -
  assume s: "ok s"
  note wf = view_wf [OF s]
  have g: "fill_each (\<lambda>i. op_get_gpr ops (of_nat i) s) [0..<16] = Some (map ((!) (cs_gpr (view s))) [0..<16])"
    by (rule fill_each_all) (simp add: get_gpr [OF s])
  have z: "fill_each (\<lambda>i. op_get_zmm ops (of_nat i) s) [0..<ZMM_REGS] = Some (map ((!) (cs_zmm (view s))) [0..<32])"
    unfolding ZMM_REGS_32 by (rule fill_each_all) (simp add: get_zmm [OF s])
  have gl: "map ((!) (cs_gpr (view s))) [0..<16] = cs_gpr (view s)"
    using map_nth [of "cs_gpr (view s)"] wf by (simp only: wf_cpu_stateD)
  have zl: "map ((!) (cs_zmm (view s))) [0..<32] = cs_zmm (view s)"
    using map_nth [of "cs_zmm (view s)"] wf by (simp only: wf_cpu_stateD)
  show ?thesis
    by (simp only: snapshot_def g z gl zl get_rip [OF s] get_rflags [OF s] Option.bind.bind_lunit cpu_state.surjective [symmetric])
       simp
qed

lemma restore_gprs:
  assumes "ok s" and "wf_cpu_state snap"
  shows "\<exists>s'. for_each (\<lambda>i. op_set_gpr ops (of_nat i) (cs_gpr snap ! i)) [0..<16] s = Some s' \<and> ok s' \<and>
     view s' = (view s)\<lparr>cs_gpr := cs_gpr snap\<rparr>"
proof -
  let ?I = "\<lambda>i t. ok t \<and> view t = (view s)\<lparr>cs_gpr := take i (cs_gpr snap) @ drop i (cs_gpr (view s))\<rparr>"
  have "\<exists>s'. for_each (\<lambda>i. op_set_gpr ops (of_nat i) (cs_gpr snap ! i)) [0..<16] s = Some s' \<and> ?I 16 s'"
  proof (rule for_each_upt_invariant [where I = ?I])
    show "?I 0 s" using assms by simp
  next
    fix i t assume i: "i < 16" and t: "?I i t"
    let ?g = "take i (cs_gpr snap) @ drop i (cs_gpr (view s))"
    have "?g[i := cs_gpr snap ! i] = take (Suc i) (cs_gpr snap) @ drop (Suc i) (cs_gpr (view s))"
      using i assms by (simp add: list_update_append wf_cpu_stateD take_Suc_conv_app_nth
          view_wf Cons_nth_drop_Suc [symmetric])
    with set_gpr [of t i "cs_gpr snap ! i"] i t
    show "\<exists>t'. op_set_gpr ops (of_nat i) (cs_gpr snap ! i) t = Some t' \<and> ?I (Suc i) t'"
      by auto
  qed
  then show ?thesis using assms by (auto simp: wf_cpu_stateD view_wf)
qed

lemma restore_zmms:
  assumes "ok s" and "wf_cpu_state snap"
  shows "\<exists>s'. for_each (\<lambda>i. op_set_zmm ops (of_nat i) (cs_zmm snap ! i)) [0..<ZMM_REGS] s = Some s' \<and> ok s' \<and>
     view s' = (view s)\<lparr>cs_zmm := map (\<lambda>i. norm_zmm i (cs_zmm snap ! i)) [0..<32]\<rparr>"
proof -
  let ?z = "map (\<lambda>i. norm_zmm i (cs_zmm snap ! i)) [0..<32]"
  let ?I = "\<lambda>i t. ok t \<and> view t = (view s)\<lparr>cs_zmm := take i ?z @ drop i (cs_zmm (view s))\<rparr>"
  have "\<exists>s'. for_each (\<lambda>i. op_set_zmm ops (of_nat i) (cs_zmm snap ! i)) [0..<32] s = Some s' \<and> ?I 32 s'"
  proof (rule for_each_upt_invariant [where I = ?I])
    show "?I 0 s" using assms by simp
  next
    fix i t assume i: "i < 32" and t: "?I i t"
    have l: "length (cs_zmm (view s)) = 32" using assms by (simp add: view_wf wf_cpu_stateD)
    have "take (Suc i) ?z = take i ?z @ [norm_zmm i (cs_zmm snap ! i)]"
      using i by (simp add: take_Suc_conv_app_nth)
    then have "(take i ?z @ drop i (cs_zmm (view s)))[i := norm_zmm i (cs_zmm snap ! i)]
        = take (Suc i) ?z @ drop (Suc i) (cs_zmm (view s))"
      using i l by (simp add: list_update_append Cons_nth_drop_Suc [symmetric])
    with set_zmm [of t i "cs_zmm snap ! i"] i t assms
    show "\<exists>t'. op_set_zmm ops (of_nat i) (cs_zmm snap ! i) t = Some t' \<and> ?I (Suc i) t'"
      by (auto simp: wf_cpu_stateD)
  qed
  then show ?thesis using assms by (auto simp: wf_cpu_stateD view_wf)
qed

lemma restore_view:
  assumes "ok s" and "wf_cpu_state snap"
  shows "\<exists>s'. restore ops snap s = Some s' \<and> ok s' \<and>
    view s' = \<lparr>cs_gpr = cs_gpr snap, cs_rip = cs_rip snap, cs_rflags = norm_flags (cs_rflags snap),
               cs_zmm = map (\<lambda>i. norm_zmm i (cs_zmm snap ! i)) [0..<32]\<rparr>"
proof -
  obtain s1 where 1: "for_each (\<lambda>i. op_set_gpr ops (of_nat i) (cs_gpr snap ! i)) [0..<16] s = Some s1"
    "ok s1" "view s1 = (view s)\<lparr>cs_gpr := cs_gpr snap\<rparr>"
    using restore_gprs [OF assms] by blast
  obtain s2 where 2: "op_set_rip ops (cs_rip snap) s1 = Some s2" "ok s2"
    "view s2 = (view s1)\<lparr>cs_rip := cs_rip snap\<rparr>"
    using set_rip [OF 1(2)] by blast
  obtain s3 where 3: "op_set_rflags ops (cs_rflags snap) s2 = Some s3" "ok s3"
    "view s3 = (view s2)\<lparr>cs_rflags := norm_flags (cs_rflags snap)\<rparr>"
    using set_rflags [OF 2(2)] by blast
  obtain s4 where 4: "for_each (\<lambda>i. op_set_zmm ops (of_nat i) (cs_zmm snap ! i)) [0..<ZMM_REGS] s3 = Some s4"
    "ok s4" "view s4 = (view s3)\<lparr>cs_zmm := map (\<lambda>i. norm_zmm i (cs_zmm snap ! i)) [0..<32]\<rparr>"
    using restore_zmms [OF 3(2) assms(2)] by blast
  show ?thesis
    by (rule exI [of _ s4]) (simp add: restore_def 1 2 3 4 del: ZMM_REGS_32)
qed

text \<open>A snapshot of one oracle, restored into another of the same kind, reproduces it.\<close>

lemma restore_snapshot:
  assumes "ok s" and "ok t" and "snapshot ops s = Some snap"
  shows "\<exists>t'. restore ops snap t = Some t' \<and> ok t' \<and> snapshot ops t' = Some snap"
proof -
  have snap: "snap = view s" using assms snapshot_view by simp
  have wf: "wf_cpu_state snap" using snap view_wf assms by simp
  have "map (\<lambda>i. norm_zmm i (cs_zmm snap ! i)) [0..<32] = map ((!) (cs_zmm snap)) [0..<32]"
    using norm_zmm_view [OF assms(1)] by (simp add: snap)
  also have "\<dots> = cs_zmm snap"
    using map_nth [of "cs_zmm snap"] wf by (simp only: wf_cpu_stateD)
  finally have z: "map (\<lambda>i. norm_zmm i (cs_zmm snap ! i)) [0..<32] = cs_zmm snap" .
  obtain t' where t': "restore ops snap t = Some t'" "ok t'"
    "view t' = \<lparr>cs_gpr = cs_gpr snap, cs_rip = cs_rip snap, cs_rflags = norm_flags (cs_rflags snap),
               cs_zmm = map (\<lambda>i. norm_zmm i (cs_zmm snap ! i)) [0..<32]\<rparr>"
    using restore_view [OF assms(2) wf] by blast
  have "view t' = snap"
    unfolding t'(3) z using norm_flags_view [OF assms(1)] by (simp add: snap)
  with t' show ?thesis using snapshot_view by auto
qed

end

section \<open>What a backend promises about its memory\<close>

text \<open>
  \<open>bytes s a\<close> is the byte at address \<open>a\<close>; below \<open>limit\<close> the operations read and write it.
  A state may rule ranges out (\<open>writable\<close>): the hypervisor backends have no RAM above theirs.
\<close>

locale oracle_memory =
  fixes ops :: "'s oracle_ops"
    and ok :: "'s \<Rightarrow> bool"
    and bytes :: "'s \<Rightarrow> nat \<Rightarrow> u8"
    and limit :: nat
  assumes limit_fits: "limit < 2 ^ 64"
    and read_byte: "ok s \<Longrightarrow> unat a < limit \<Longrightarrow> op_read_mem_byte ops a s = Some (bytes s (unat a))"
    and read_range: "ok s \<Longrightarrow> unat a + n \<le> limit \<Longrightarrow>
           op_read_mem ops a n s = Some (map (\<lambda>i. bytes s (unat a + i)) [0..<n])"
    and write_byte: "ok s \<Longrightarrow> unat a < limit \<Longrightarrow>
           \<exists>s'. op_write_mem_byte ops a b s = Some s' \<and> ok s' \<and> bytes s' = (bytes s)(unat a := b)"
    and write_range: "ok s \<Longrightarrow> unat a + length d \<le> limit \<Longrightarrow>
           \<exists>s'. op_write_mem ops a d s = Some s' \<and> ok s' \<and>
             bytes s' = (\<lambda>x. if unat a \<le> x \<and> x < unat a + length d then d ! (x - unat a) else bytes s x)"
begin

lemma unat_add_below: "unat (a :: u64) + i < limit \<Longrightarrow> unat (a + of_nat i) = unat a + i"
proof -
  assume "unat a + i < limit"
  with limit_fits have i: "unat a + i < 2 ^ 64" by simp
  then have "i < 2 ^ 64" by simp
  then have "unat (of_nat i :: u64) = i" by (simp add: unsigned_of_nat take_bit_nat_eq_self)
  with i show ?thesis by (simp add: unat_word_ariths)
qed

text \<open>The batched override reads what the provided byte loop would.\<close>

lemma read_mem_default:
  assumes "ok s" and "unat a + n \<le> limit"
  shows "default_read_mem ops a n s = op_read_mem ops a n s"
proof -
  have "default_read_mem ops a n s = Some (map (\<lambda>i. bytes s (unat a + i)) [0..<n])"
    unfolding default_read_mem_def
    using assms by (intro fill_each_all) (simp add: read_byte unat_add_below)
  with assms show ?thesis by (simp add: read_range)
qed

lemma write_mem_default:
  assumes "ok s" and "unat a + length d \<le> limit"
  shows "\<exists>s1 s2. default_write_mem ops a d s = Some s1 \<and> op_write_mem ops a d s = Some s2 \<and>
    ok s1 \<and> ok s2 \<and> bytes s1 = bytes s2"
proof -
  let ?I = "\<lambda>i t. ok t \<and> bytes t = (\<lambda>x. if unat a \<le> x \<and> x < unat a + i then d ! (x - unat a) else bytes s x)"
  have "\<exists>s1. default_write_mem ops a d s = Some s1 \<and> ?I (length d) s1"
    unfolding default_write_mem_def
  proof (rule for_each_upt_invariant [where I = ?I])
    show "?I 0 s" using assms by (auto simp: fun_eq_iff)
  next
    fix i t assume i: "i < length d" and t: "?I i t"
    have u: "unat (a + of_nat i) = unat a + i" using i assms by (intro unat_add_below) simp
    have "unat (a + of_nat i) < limit" using u i assms by simp
    from write_byte [of t, OF _ this] t obtain t' where
      "op_write_mem_byte ops (a + of_nat i) (d ! i) t = Some t'" "ok t'"
      "bytes t' = (bytes t)(unat a + i := d ! i)" using u by metis
    then show "\<exists>t'. op_write_mem_byte ops (a + of_nat i) (d ! i) t = Some t' \<and> ?I (Suc i) t'"
      using t by (auto simp: fun_eq_iff)
  qed
  with write_range [OF assms] show ?thesis by auto
qed

lemma write_read_range:
  assumes "ok s" and "unat a + length d \<le> limit"
  shows "\<exists>s'. op_write_mem ops a d s = Some s' \<and> ok s' \<and> op_read_mem ops a (length d) s' = Some d"
proof -
  obtain s' where s': "op_write_mem ops a d s = Some s'" "ok s'"
    "bytes s' = (\<lambda>x. if unat a \<le> x \<and> x < unat a + length d then d ! (x - unat a) else bytes s x)"
    using write_range [OF assms] by blast
  have "map (\<lambda>i. bytes s' (unat a + i)) [0..<length d] = d"
    by (rule nth_equalityI) (simp_all add: s'(3))
  with s' read_range [OF s'(2) assms(2)] show ?thesis by auto
qed

lemma read_write_u64:
  assumes "ok s" and "unat a + 8 \<le> limit"
  shows "\<exists>s'. write_mem_u64 ops a v s = Some s' \<and> ok s' \<and> read_mem_u64 ops a s' = Some v"
  using write_read_range [of s a "to_le_bytes v"] assms
  by (auto simp: write_mem_u64_def read_mem_u64_def)

lemma write_u64_frame:
  assumes "ok s" and "unat a + 8 \<le> limit" and "unat b + 8 \<le> limit"
    and "unat a + 8 \<le> unat b \<or> unat b + 8 \<le> unat a"
  shows "\<exists>s'. write_mem_u64 ops a v s = Some s' \<and> read_mem_u64 ops b s' = read_mem_u64 ops b s"
proof -
  obtain s' where s': "op_write_mem ops a (to_le_bytes v) s = Some s'" "ok s'"
    "bytes s' = (\<lambda>x. if unat a \<le> x \<and> x < unat a + 8 then to_le_bytes v ! (x - unat a) else bytes s x)"
    using write_range [of s a "to_le_bytes v"] assms by auto
  have "map (\<lambda>i. bytes s' (unat b + i)) [0..<8] = map (\<lambda>i. bytes s (unat b + i)) [0..<8]"
    using assms(4) by (intro map_cong) (auto simp: s'(3))
  then have "op_read_mem ops b 8 s' = op_read_mem ops b 8 s"
    using s'(2) assms by (simp add: read_range)
  with s' assms show ?thesis
    by (auto simp: write_mem_u64_def read_mem_u64_def)
qed

end

section \<open>FS and GS bases: the segment API and the MSR API agree\<close>

locale oracle_segments =
  fixes ops :: "'s oracle_ops"
    and ok :: "'s \<Rightarrow> bool"
    and fs_base :: "'s \<Rightarrow> u64"
    and gs_base :: "'s \<Rightarrow> u64"
  assumes get_seg_fs: "ok s \<Longrightarrow> op_get_seg_base ops SEG_FS s = Some (fs_base s)"
    and get_seg_gs: "ok s \<Longrightarrow> op_get_seg_base ops SEG_GS s = Some (gs_base s)"
    and get_msr_fs: "ok s \<Longrightarrow> op_get_msr ops IA32_FS_BASE s = Some (fs_base s)"
    and get_msr_gs: "ok s \<Longrightarrow> op_get_msr ops IA32_GS_BASE s = Some (gs_base s)"
    and set_seg_fs: "ok s \<Longrightarrow> \<exists>s'. op_set_seg_base ops SEG_FS v s = Some s' \<and> ok s' \<and>
           fs_base s' = v \<and> gs_base s' = gs_base s"
    and set_seg_gs: "ok s \<Longrightarrow> \<exists>s'. op_set_seg_base ops SEG_GS v s = Some s' \<and> ok s' \<and>
           gs_base s' = v \<and> fs_base s' = fs_base s"
    and set_msr_fs: "ok s \<Longrightarrow> \<exists>s'. op_set_msr ops IA32_FS_BASE v s = Some s' \<and> ok s' \<and>
           fs_base s' = v \<and> gs_base s' = gs_base s"
    and set_msr_gs: "ok s \<Longrightarrow> \<exists>s'. op_set_msr ops IA32_GS_BASE v s = Some s' \<and> ok s' \<and>
           gs_base s' = v \<and> fs_base s' = fs_base s"
begin

text \<open>Whichever API wrote a base, both read it back, and the other base is left alone.\<close>

lemma fs_in_sync:
  assumes "ok s" and "w = op_set_seg_base ops SEG_FS v s \<or> w = op_set_msr ops IA32_FS_BASE v s"
  shows "\<exists>s'. w = Some s' \<and> ok s' \<and> op_get_seg_base ops SEG_FS s' = Some v \<and>
    op_get_msr ops IA32_FS_BASE s' = Some v \<and>
    op_get_seg_base ops SEG_GS s' = op_get_seg_base ops SEG_GS s"
  using assms(2) set_seg_fs [OF assms(1), of v] set_msr_fs [OF assms(1), of v] assms(1)
  by (auto simp: get_seg_fs get_msr_fs get_seg_gs)

lemma gs_in_sync:
  assumes "ok s" and "w = op_set_seg_base ops SEG_GS v s \<or> w = op_set_msr ops IA32_GS_BASE v s"
  shows "\<exists>s'. w = Some s' \<and> ok s' \<and> op_get_seg_base ops SEG_GS s' = Some v \<and>
    op_get_msr ops IA32_GS_BASE s' = Some v \<and>
    op_get_seg_base ops SEG_FS s' = op_get_seg_base ops SEG_FS s"
  using assms(2) set_seg_gs [OF assms(1), of v] set_msr_gs [OF assms(1), of v] assms(1)
  by (auto simp: get_seg_fs get_msr_gs get_seg_gs)

end

end
