(* ===== verification/Hw_Guest.thy ===== *)
theory Hw_Guest
  imports Hw_Image Hw_Xsave Oracle_Trait
begin

text \<open>
  What the two hypervisor backends share beside \<open>src/hw.rs\<close>: the pages an oracle remembers it
  has written, the single-step flags both keep out of what the caller sees, the vector registers
  as an XSAVE image holds them, and small facts both backends' proofs use.
\<close>

section \<open>Written pages\<close>

definition page_of :: "u64 \<Rightarrow> u64" where
  "page_of addr = addr AND NOT 0xFFF"

text \<open>
  The loop over the inclusive range \<open>page(addr) ..= page(addr + len)\<close> visits every address of it
  and inserts its page; an empty range (after a wrapped sum) visits none.
\<close>

definition touch_range :: "u64 \<Rightarrow> u64 \<Rightarrow> u64 set \<Rightarrow> u64 set" where
  "touch_range first last' touched =
     fold (\<lambda>i. insert (page_of (of_nat i))) [unat first..<Suc (unat last')] touched"

lemma bit_or_2: "bit (w OR 2 :: u64) 1"
proof -
  have "(2 :: u64) = push_bit 1 1" by (simp add: push_bit_eq_mult)
  then show ?thesis unfolding bit_or_iff by (simp only: bit_push_one) simp
qed

lemma unat_page_of: "unat (page_of x) = unat x div 4096 * 4096"
proof -
  have m: "(0xFFF :: u64) = mask 12" by (simp add: mask_eq_exp_minus_1)
  have "page_of x = push_bit 12 (drop_bit 12 x)"
    unfolding page_of_def m by (rule bit_word_eqI) (auto simp: bit_simps)
  then have "unat (page_of x) = unat (drop_bit 12 x) * 2 ^ 12 mod 2 ^ 64"
    by (simp add: push_bit_eq_mult unat_word_ariths mult.commute)
  also have "\<dots> = unat x div 4096 * 4096"
  proof -
    have "unat x div 4096 * 4096 \<le> unat x" by simp
    then have "unat x div 4096 * 4096 < 18446744073709551616" using unat_u64_less [of x] by linarith
    then show ?thesis by (simp add: unat_drop_bit)
  qed
  finally show ?thesis .
qed

lemma touch_range_member:
  "p \<in> touch_range f l T \<longleftrightarrow> p \<in> T \<or> (\<exists>i. unat f \<le> i \<and> i \<le> unat l \<and> p = page_of (of_nat i))"
proof -
  have "p \<in> fold (\<lambda>i. insert (g i)) xs T \<longleftrightarrow> p \<in> T \<or> (\<exists>i \<in> set xs. p = g i)" for g :: "nat \<Rightarrow> u64" and xs
    by (induction xs arbitrary: T) auto
  then show ?thesis by (auto simp: touch_range_def less_Suc_eq_le)
qed

lemma touched_pages:
  "page_of x \<in> touch_range (page_of a) (page_of b) T \<longleftrightarrow>
     page_of x \<in> T \<or> (unat (page_of a) \<le> unat (page_of x) \<and> unat (page_of x) \<le> unat (page_of b))"
proof -
  have "(\<exists>i. unat (page_of a) \<le> i \<and> i \<le> unat (page_of b) \<and> page_of x = page_of (of_nat i)) \<longleftrightarrow>
      unat (page_of a) \<le> unat (page_of x) \<and> unat (page_of x) \<le> unat (page_of b)" (is "?L \<longleftrightarrow> ?R")
  proof
    assume ?L
    then obtain i where i: "unat (page_of a) \<le> i" "i \<le> unat (page_of b)" "page_of x = page_of (of_nat i)" by blast
    have "i < 2 ^ 64" by (rule order.strict_trans1 [OF i(2)]) simp
    then have "unat (page_of x) = i div 4096 * 4096"
      by (simp add: i(3) unat_page_of unat_of_nat_small)
    with i(1,2) show ?R
      using div_le_mono [OF i(1), of 4096] by (simp add: unat_page_of)
  next
    assume r: ?R
    have "page_of (of_nat (unat (page_of x))) = page_of x"
      by (simp add: page_of_def)
    with r show ?L by (intro exI [of _ "unat (page_of x)"]) simp
  qed
  then show ?thesis by (simp add: touch_range_member)
qed

section \<open>The single-step flags\<close>

definition STEP_FLAGS :: u64 where "STEP_FLAGS = FLAG_TF OR FLAG_RF"

definition norm_step_flags :: "u64 \<Rightarrow> u64" where
  "norm_step_flags v = (v AND NOT STEP_FLAGS) OR 0x2"

lemma STEP_FLAGS_val: "STEP_FLAGS = 0x10100"
  by (simp add: STEP_FLAGS_def FLAG_TF_def FLAG_RF_def)

lemma bit1_or: "bit (w :: u64) 1 \<Longrightarrow> w OR 0x2 = w"
proof -
  assume b: "bit w 1"
  have t: "(2 :: u64) = push_bit 1 1" by (simp add: push_bit_eq_mult)
  have "w OR push_bit 1 1 = w"
    by (rule bit_word_eqI) (use b in \<open>auto simp only: bit_or_iff bit_push_one\<close>)
  then show ?thesis by (simp only: t)
qed

lemma norm_step_flags_eq: "(v OR 0x2) AND NOT STEP_FLAGS = norm_step_flags v"
  unfolding norm_step_flags_def bit.conj_disj_distrib2 by (simp add: STEP_FLAGS_val)

lemma norm_step_flags_keeps:
  "bit w 1 \<Longrightarrow> norm_step_flags w = w AND NOT STEP_FLAGS"
  using norm_step_flags_eq [of w] bit1_or [of w] by simp

section \<open>Vector registers of an image\<close>

definition zmm_values :: "nat \<Rightarrow> xsave_layout \<Rightarrow> u8 list \<Rightarrow> u64 list list" where
  "zmm_values len lay b = map (\<lambda>n. map (\<lambda>i. chunk_of b (zmm_slot len lay n i)) [0..<8]) [0..<32]"

lemma unat_of_nat_u32: "n < 4294967296 \<Longrightarrow> unat (of_nat n :: u32) = n"
  by (simp add: unsigned_of_nat take_bit_nat_eq_self)

lemma length_zmm_values [simp]: "length (zmm_values len lay b) = 32"
  by (simp add: zmm_values_def)

lemma nth_zmm_values:
  "n < 32 \<Longrightarrow> zmm_values len lay b ! n = map (\<lambda>i. chunk_of b (zmm_slot len lay n i)) [0..<8]"
  by (simp add: zmm_values_def)

lemma xsave_get_zmm_values:
  "layout_ok (length b) lay \<Longrightarrow> n < 32 \<Longrightarrow> xsave_get_zmm b lay (of_nat n) = Some (zmm_values (length b) lay b ! n)"
  by (simp add: xsave_get_zmm_slots unat_of_nat_u32 nth_zmm_values)

lemma zmm_norm_values: "n < 32 \<Longrightarrow> zmm_norm len lay n (zmm_values len lay b ! n) = zmm_values len lay b ! n"
  by (simp add: nth_zmm_values zmm_norm_def chunk_of_def split: option.splits)

text \<open>Writing register \<open>n\<close> of an image updates the values at \<open>n\<close>.\<close>

lemma zmm_values_set:
  assumes "layout_ok (length b) lay" and "n < 32" and "xsave_set_zmm b lay (of_nat n) d = Some b'"
    and "length b' = length b"
  shows "zmm_values (length b) lay b' = (zmm_values (length b) lay b)[n := zmm_norm (length b) lay n d]"
proof (rule nth_equalityI)
  fix m assume "m < length (zmm_values (length b) lay b')"
  then have m: "m < 32" by simp
  have "unat (of_nat m :: u32) = m" and "unat (of_nat n :: u32) = n"
    using m assms(2) by (simp_all add: unat_of_nat_u32)
  then have "(of_nat m :: u32) = of_nat n \<longleftrightarrow> m = n" by (metis)
  with get_after_set_zmm [OF assms(1) _ _ assms(3), of "of_nat m"] m assms(2)
  show "zmm_values (length b) lay b' ! m = (zmm_values (length b) lay b)[n := zmm_norm (length b) lay n d] ! m"
    using xsave_get_zmm_values [OF assms(1) m] xsave_get_zmm_values [of b' lay m] assms(1,4)
    by (auto simp: unat_of_nat_u32 nth_list_update)
qed simp

lemma zmm_values_settled:
  assumes "settled b lay" and "settled b' lay" and "length b' = length b"
    and "\<And>m i. m < 32 \<Longrightarrow> i < 8 \<Longrightarrow> xrstor_chunk b' lay m i = xrstor_chunk b lay m i"
  shows "zmm_values (length b) lay b' = zmm_values (length b) lay b"
  using assms(4) settled_xrstor [OF assms(1)] settled_xrstor [OF assms(2)] assms(3)
  by (auto simp: zmm_values_def)

text \<open>
  Setting one register in an image and loading it: an image that was settled stays so, and whatever the
  processor saves after loading it has the new register and the old others.
\<close>

lemma set_zmm_loaded:
  assumes "layout_ok (length b0) lay" and "n < 32" and "settled b0 lay"
  obtains b where "xsave_set_zmm b0 lay (of_nat n) d = Some b" and "length b = length b0"
    and "\<And>b'. length b' = length b0 \<Longrightarrow> settled b' lay \<Longrightarrow>
      \<forall>m<32. \<forall>i<8. xrstor_chunk b' lay m i = xrstor_chunk b lay m i \<Longrightarrow>
      zmm_values (length b0) lay b' = (zmm_values (length b0) lay b0)[n := zmm_norm (length b0) lay n d]"
proof -
  have u: "unat (of_nat n :: u32) < 32" using assms(2) by (simp add: unat_of_nat_u32)
  obtain b where b: "xsave_set_zmm b0 lay (of_nat n) d = Some b" "length b = length b0"
    by (rule xsave_set_zmm_effect [OF assms(1) u])
  have st: "settled b lay" by (rule settled_set_zmm [OF assms(1) u assms(3) b(1)])
  show thesis
  proof (rule that [OF b])
    fix b' assume b': "length b' = length b0" "settled b' lay"
      "\<forall>m<32. \<forall>i<8. xrstor_chunk b' lay m i = xrstor_chunk b lay m i"
    then have "zmm_values (length b) lay b' = zmm_values (length b) lay b"
      by (intro zmm_values_settled [OF st]) (simp_all add: b(2))
    then show "zmm_values (length b0) lay b' = (zmm_values (length b0) lay b0)[n := zmm_norm (length b0) lay n d]"
      using zmm_values_set [OF assms(1,2) b] by (simp add: b(2))
  qed
qed

lemma reset_loaded:
  assumes "layout_ok (length b0) lay"
  obtains b where "xsave_reset_vectors b0 lay = Some b" and "length b = length b0"
    and "\<And>b'. length b' = length b0 \<Longrightarrow> settled b' lay \<Longrightarrow>
      \<forall>m<32. \<forall>i<8. xrstor_chunk b' lay m i = xrstor_chunk b lay m i \<Longrightarrow>
      zmm_values (length b0) lay b' = replicate 32 (replicate 8 0)"
proof -
  obtain b where b: "xsave_reset_vectors b0 lay = Some b" "length b = length b0"
    and zero: "\<And>n i. n < 32 \<Longrightarrow> i < 8 \<Longrightarrow> chunk_of b (zmm_slot (length b0) lay n i) = 0"
    by (rule xsave_reset_effect [OF assms]) blast
  have st: "settled b lay" using b(2) zero by (simp add: settled_def)
  have zeros: "zmm_values (length b0) lay b = replicate 32 (replicate 8 0)"
  proof (rule nth_equalityI)
    fix n assume "n < length (zmm_values (length b0) lay b)"
    then have n: "n < 32" by simp
    have "map (\<lambda>i. chunk_of b (zmm_slot (length b0) lay n i)) [0..<8] = map (\<lambda>_. 0) [0..<8]"
      using zero n by (intro map_cong) simp_all
    with n show "zmm_values (length b0) lay b ! n = replicate 32 (replicate 8 0) ! n"
      by (simp add: nth_zmm_values map_replicate_const)
  qed simp
  show thesis
  proof (rule that [OF b])
    fix b' assume b': "length b' = length b0" "settled b' lay"
      "\<forall>m<32. \<forall>i<8. xrstor_chunk b' lay m i = xrstor_chunk b lay m i"
    then have "zmm_values (length b) lay b' = zmm_values (length b) lay b"
      by (intro zmm_values_settled [OF st]) (simp_all add: b(2))
    then show "zmm_values (length b0) lay b' = replicate 32 (replicate 8 0)" by (simp add: b(2) zeros)
  qed
qed

section \<open>Registers, addresses, outcomes\<close>

lemma each_gpr: "list_all P [0..<16] \<Longrightarrow> n < 16 \<Longrightarrow> P n"
  by (simp add: list_all_iff)

lemma add_u64_below:
  assumes "unat a + n \<le> unat RAM_SIZE"
  shows "add_u64 prof a (of_nat n) = Some (a + of_nat n)"
proof -
  have "unat (of_nat n :: u64) = n"
    using assms by (intro unat_of_nat_small) (simp add: unat_RAM_SIZE)
  with assms show ?thesis by (intro add_u64_fits) (simp add: unat_RAM_SIZE)
qed

lemma classify_comparable: "is_comparable (Fault (classify vec) msg)"
  by (simp add: is_comparable_iff is_architectural_def classify_def)

lemma unwind_frame_release: "\<exists>u. unwind_frame Release ram sp vec = Some u"
  by (simp add: unwind_frame_def)

lemma built_ram_zero:
  assumes "unat a < unat CTRL_BASE"
  shows "ram_read (build_control_structures (ram_new (unat RAM_SIZE))) a 1 ! 0 = 0"
proof -
  let ?ram = "build_control_structures (ram_new (unat RAM_SIZE))"
  have a: "unat a < 0xFC00000" using assms by (simp add: layout_simps)
  have len: "ram_len ?ram = unat RAM_SIZE" "ram_ok ?ram"
    using build_vectors_intact by (simp_all add: vectors_intact_def)
  from a have "in_ram ?ram a 1" by (simp add: in_ram_def ram_new_def unat_RAM_SIZE)
  then have "ram_read ?ram a 1 ! 0 = ram_byte ?ram (unat a)" using len by (simp add: ram_read_inside)
  with a show ?thesis by (simp add: control_frame ram_new_def)
qed

end
