(* ===== verification/Kvm_Oracle.thy ===== *)
theory Kvm_Oracle
  imports Hw_Guest
begin

text \<open>
  The KVM backend, \<open>src/kvm.rs\<close>: \<open>KvmOracle\<close> and its implementation of \<open>X86Oracle\<close>.

  The kernel interface (\<open>kvm_ioctls\<close>, \<open>kvm_bindings\<close>) is a parameter: \<open>'v kvm_api\<close> is the
  record of the calls the code makes on a vCPU of type \<open>'v\<close>, each returning an \<open>errno\<close> or its
  result. \<open>KVM_RUN\<close> also takes and returns the guest RAM, which the guest writes. The static
  mutex only serialises calls and keeps no state; no method that holds it calls one that takes
  it, so it is left out.
\<close>

section \<open>The kernel's structures\<close>

type_synonym errno = nat

definition EINTR :: errno where "EINTR = 4"

record kvm_regs =
  kr_rax :: u64
  kr_rbx :: u64
  kr_rcx :: u64
  kr_rdx :: u64
  kr_rsi :: u64
  kr_rdi :: u64
  kr_rsp :: u64
  kr_rbp :: u64
  kr_r8 :: u64
  kr_r9 :: u64
  kr_r10 :: u64
  kr_r11 :: u64
  kr_r12 :: u64
  kr_r13 :: u64
  kr_r14 :: u64
  kr_r15 :: u64
  kr_rip :: u64
  kr_rflags :: u64

record kvm_segment =
  ks_base :: u64
  ks_limit :: u32
  ks_selector :: u16
  ks_type :: u8
  ks_present :: u8
  ks_dpl :: u8
  ks_db :: u8
  ks_s :: u8
  ks_l :: u8
  ks_g :: u8
  ks_avl :: u8
  ks_unusable :: u8

record kvm_dtable =
  kd_base :: u64
  kd_limit :: u16

record kvm_sregs =
  sr_cs :: kvm_segment
  sr_ds :: kvm_segment
  sr_es :: kvm_segment
  sr_fs :: kvm_segment
  sr_gs :: kvm_segment
  sr_ss :: kvm_segment
  sr_tr :: kvm_segment
  sr_ldt :: kvm_segment
  sr_gdt :: kvm_dtable
  sr_idt :: kvm_dtable
  sr_cr0 :: u64
  sr_cr2 :: u64
  sr_cr3 :: u64
  sr_cr4 :: u64
  sr_cr8 :: u64
  sr_efer :: u64

text \<open>\<open>kvm_xcrs\<close>: the count and the (register, value) entries.\<close>

record kvm_xcrs =
  kx_nr :: u32
  kx_xcrs :: "(u32 \<times> u64) list"

datatype vcpu_exit =
    VcpuDebug
  | VcpuHlt
  | VcpuShutdown
  | VcpuMmioRead u64
  | VcpuMmioWrite u64
  | VcpuOther string

record 'v kvm_api =
  kv_get_regs :: "'v \<Rightarrow> errno + kvm_regs"
  kv_set_regs :: "kvm_regs \<Rightarrow> 'v \<Rightarrow> errno + 'v"
  kv_get_sregs :: "'v \<Rightarrow> errno + kvm_sregs"
  kv_set_sregs :: "kvm_sregs \<Rightarrow> 'v \<Rightarrow> errno + 'v"
  kv_get_xcrs :: "'v \<Rightarrow> errno + kvm_xcrs"
  kv_set_xcrs :: "kvm_xcrs \<Rightarrow> 'v \<Rightarrow> errno + 'v"
  kv_get_xsave :: "'v \<Rightarrow> errno + u8 list"
  kv_set_xsave :: "u8 list \<Rightarrow> 'v \<Rightarrow> errno + 'v"
  kv_get_msrs :: "u32 \<Rightarrow> 'v \<Rightarrow> errno + (nat \<times> u64)"
  kv_set_msrs :: "u32 \<Rightarrow> u64 \<Rightarrow> 'v \<Rightarrow> (errno + nat) \<times> 'v"
  kv_set_guest_debug :: "'v \<Rightarrow> errno + 'v"
  kv_run :: "'v \<Rightarrow> guest_ram \<Rightarrow> (errno + vcpu_exit) \<times> 'v \<times> guest_ram"
  kv_display :: "errno \<Rightarrow> string"

text \<open>
  The calls \<open>try_new\<close> makes to create the VM and its one vCPU: opening the device, creating the
  VM, mapping host memory, registering the memory region, creating the vCPU, and handing it the
  supported CPUID.
\<close>

record 'v kvm_host =
  kh_open :: "errno + unit"
  kh_create_vm :: "errno + unit"
  kh_host_alloc :: "nat \<Rightarrow> errno + unit"
  kh_set_user_memory_region :: "u64 \<Rightarrow> errno + unit"
  kh_create_vcpu :: "errno + 'v"
  kh_set_supported_cpuid :: "'v \<Rightarrow> errno + 'v"

section \<open>The oracle\<close>

record 'v kvm_oracle =
  ko_vcpu :: 'v
  ko_ram :: guest_ram
  ko_xsave :: xsave_layout
  ko_last_fault :: "(u8 \<times> u64) option"
  ko_touched :: "u64 set"

definition KVM_ADDRESS_LIMIT :: u64 where "KVM_ADDRESS_LIMIT = CTRL_BASE"
definition KVM_RESERVED_START :: u64 where "KVM_RESERVED_START = CTRL_BASE"

definition kvm_is_available :: "'v kvm_host \<Rightarrow> bool" where
  "kvm_is_available host = (case kh_open host of Inl _ \<Rightarrow> False | Inr _ \<Rightarrow> True)"

definition kvm_host_vector_width :: "'v kvm_oracle \<Rightarrow> nat" where
  "kvm_host_vector_width s = vector_width (ko_xsave s)"

definition kvm_last_vector :: "'v kvm_oracle \<Rightarrow> u8 option" where
  "kvm_last_vector s = map_option fst (ko_last_fault s)"

definition kvm_last_error_code :: "'v kvm_oracle \<Rightarrow> u64 option" where
  "kvm_last_error_code s =
     Option.bind (ko_last_fault s) (\<lambda>(v, e). if has_error_code v then Some e else None)"

definition code_segment :: kvm_segment where
  "code_segment =
     \<lparr>ks_base = 0, ks_limit = 0xFFFFFFFF, ks_selector = SEL_CODE64, ks_type = 11, ks_present = 1,
      ks_dpl = 0, ks_db = 0, ks_s = 1, ks_l = 1, ks_g = 1, ks_avl = 0, ks_unusable = 0\<rparr>"

definition data_segment :: kvm_segment where
  "data_segment =
     \<lparr>ks_base = 0, ks_limit = 0xFFFFFFFF, ks_selector = SEL_DATA, ks_type = 3, ks_present = 1,
      ks_dpl = 0, ks_db = 1, ks_s = 1, ks_l = 0, ks_g = 1, ks_avl = 0, ks_unusable = 0\<rparr>"

definition tss_segment :: kvm_segment where
  "tss_segment =
     \<lparr>ks_base = TSS_ADDR, ks_limit = TSS_LIMIT, ks_selector = SEL_TSS, ks_type = 11, ks_present = 1,
      ks_dpl = 0, ks_db = 0, ks_s = 0, ks_l = 0, ks_g = 0, ks_avl = 0, ks_unusable = 0\<rparr>"

definition long_mode_sregs :: "kvm_sregs \<Rightarrow> kvm_sregs" where
  "long_mode_sregs sregs =
     sregs\<lparr>sr_cs := code_segment, sr_ds := data_segment, sr_es := data_segment,
           sr_ss := data_segment, sr_fs := data_segment, sr_gs := data_segment,
           sr_gdt := \<lparr>kd_base = GDT_ADDR, kd_limit = GDT_LIMIT\<rparr>, sr_tr := tss_segment,
           sr_idt := \<lparr>kd_base = IDT_ADDR, kd_limit = IDT_LIMIT\<rparr>, sr_cr0 := CR0_INIT,
           sr_cr3 := PML4_ADDR, sr_cr4 := CR4_INIT, sr_efer := EFER_INIT\<rparr>"

definition default_regs :: kvm_regs where
  "default_regs =
     \<lparr>kr_rax = 0, kr_rbx = 0, kr_rcx = 0, kr_rdx = 0, kr_rsi = 0, kr_rdi = 0, kr_rsp = 0, kr_rbp = 0,
      kr_r8 = 0, kr_r9 = 0, kr_r10 = 0, kr_r11 = 0, kr_r12 = 0, kr_r13 = 0, kr_r14 = 0, kr_r15 = 0,
      kr_rip = 0, kr_rflags = 0\<rparr>"

text \<open>XCR0 as CPUID reports it, and as KVM accepted it (the first entry for register 0).\<close>

definition host_xcr0 :: "cpuid \<Rightarrow> u64" where
  "host_xcr0 cpuid =
     (let leaf = cpuid 0x0D 0 in push_bit 32 (ucast (cpuid_edx leaf)) OR ucast (cpuid_eax leaf))"

definition effective_xcr0 :: "errno + kvm_xcrs \<Rightarrow> u64 \<Rightarrow> u64" where
  "effective_xcr0 xcrs host =
     (case xcrs of Inl _ \<Rightarrow> host
      | Inr x \<Rightarrow> (case find (\<lambda>c. fst c = 0) (take (unat (kx_nr x)) (kx_xcrs x)) of
          None \<Rightarrow> host | Some c \<Rightarrow> snd c))"

definition kvm_enter_long_mode ::
    "'v kvm_api \<Rightarrow> cpuid \<Rightarrow> 'v kvm_oracle \<Rightarrow> (errno + 'v kvm_oracle) panics" where
  "kvm_enter_long_mode api cpuid s =
     try_then (kv_get_sregs api (ko_vcpu s)) (\<lambda>sregs.
     try_then (kv_set_sregs api (long_mode_sregs sregs) (ko_vcpu s)) (\<lambda>v.
     try_then (kv_get_xcrs api v) (\<lambda>xcrs.
     try_then (kv_set_xcrs api (xcrs\<lparr>kx_nr := 1, kx_xcrs := (kx_xcrs xcrs)[0 := (0, host_xcr0 cpuid)]\<rparr>) v) (\<lambda>v.
     let xcr0 = effective_xcr0 (kv_get_xcrs api v) (host_xcr0 cpuid) in
     try_then (kv_set_regs api (default_regs\<lparr>kr_rflags := 0x2\<rparr>) v) (\<lambda>v.
     try_then (kv_get_xsave api v) (\<lambda>bytes. do {
       xcomp \<leftarrow> xsave_xcomp_bv bytes;
       let layout = probe cpuid xcr0 xcomp;
       bytes \<leftarrow> xsave_reset_vectors bytes layout;
       try_then (kv_set_xsave api bytes v) (\<lambda>v.
         Some (Inr (s\<lparr>ko_vcpu := v, ko_xsave := layout\<rparr>))) }))))))"

definition kvm_try_new :: "'v kvm_host \<Rightarrow> 'v kvm_api \<Rightarrow> cpuid \<Rightarrow> (errno + 'v kvm_oracle) panics" where
  "kvm_try_new host api cpuid =
     try_then (kh_open host) (\<lambda>_.
     try_then (kh_create_vm host) (\<lambda>_.
     try_then (kh_host_alloc host (unat RAM_SIZE)) (\<lambda>_.
     let ram = ram_new (unat RAM_SIZE) in
     try_then (kh_set_user_memory_region host RAM_SIZE) (\<lambda>_.
     try_then (kh_create_vcpu host) (\<lambda>v.
     try_then (kh_set_supported_cpuid host v) (\<lambda>v.
     let s = \<lparr>ko_vcpu = v, ko_ram = ram, ko_xsave = probe cpuid 0 0, ko_last_fault = None, ko_touched = {}\<rparr> in
     kvm_enter_long_mode api cpuid (s\<lparr>ko_ram := build_control_structures ram\<rparr>)))))))"

definition kvm_new :: "'v kvm_host \<Rightarrow> 'v kvm_api \<Rightarrow> cpuid \<Rightarrow> 'v kvm_oracle panics" where
  "kvm_new host api cpuid = Option.bind (kvm_try_new host api cpuid) expect"

section \<open>vCPU plumbing\<close>

definition kvm_arm_singlestep :: "'v kvm_api \<Rightarrow> 'v kvm_oracle \<Rightarrow> 'v kvm_oracle panics" where
  "kvm_arm_singlestep api s = do {
     v \<leftarrow> expect (kv_set_guest_debug api (ko_vcpu s));
     Some (s\<lparr>ko_vcpu := v\<rparr>) }"

definition kvm_regs_of :: "'v kvm_api \<Rightarrow> 'v kvm_oracle \<Rightarrow> kvm_regs panics" where
  "kvm_regs_of api s = expect (kv_get_regs api (ko_vcpu s))"

definition kvm_put_regs :: "'v kvm_api \<Rightarrow> kvm_regs \<Rightarrow> 'v kvm_oracle \<Rightarrow> 'v kvm_oracle panics" where
  "kvm_put_regs api regs s = do {
     v \<leftarrow> expect (kv_set_regs api regs (ko_vcpu s));
     Some (s\<lparr>ko_vcpu := v\<rparr>) }"

definition kvm_read_msr :: "'v kvm_api \<Rightarrow> u32 \<Rightarrow> 'v kvm_oracle \<Rightarrow> u64" where
  "kvm_read_msr api index s =
     (case kv_get_msrs api index (ko_vcpu s) of
        Inr (n, data) \<Rightarrow> if n = 1 then data else 0
      | Inl _ \<Rightarrow> 0)"

definition kvm_write_msr :: "'v kvm_api \<Rightarrow> u32 \<Rightarrow> u64 \<Rightarrow> 'v kvm_oracle \<Rightarrow> 'v kvm_oracle" where
  "kvm_write_msr api index data s = s\<lparr>ko_vcpu := snd (kv_set_msrs api index data (ko_vcpu s))\<rparr>"

definition seg_of :: "u32 \<Rightarrow> kvm_sregs \<Rightarrow> kvm_segment" where
  "seg_of n sregs =
     (if n = SEG_ES then sr_es sregs else if n = SEG_CS then sr_cs sregs
      else if n = SEG_SS then sr_ss sregs else if n = SEG_DS then sr_ds sregs
      else if n = SEG_FS then sr_fs sregs else sr_gs sregs)"

definition seg_update :: "u32 \<Rightarrow> (kvm_segment \<Rightarrow> kvm_segment) \<Rightarrow> kvm_sregs \<Rightarrow> kvm_sregs" where
  "seg_update n f sregs =
     (if n = SEG_ES then sregs\<lparr>sr_es := f (sr_es sregs)\<rparr>
      else if n = SEG_CS then sregs\<lparr>sr_cs := f (sr_cs sregs)\<rparr>
      else if n = SEG_SS then sregs\<lparr>sr_ss := f (sr_ss sregs)\<rparr>
      else if n = SEG_DS then sregs\<lparr>sr_ds := f (sr_ds sregs)\<rparr>
      else if n = SEG_FS then sregs\<lparr>sr_fs := f (sr_fs sregs)\<rparr>
      else sregs\<lparr>sr_gs := f (sr_gs sregs)\<rparr>)"

definition kvm_segment_of :: "'v kvm_api \<Rightarrow> u32 \<Rightarrow> 'v kvm_oracle \<Rightarrow> kvm_segment panics" where
  "kvm_segment_of api n s = map_option (seg_of n) (expect (kv_get_sregs api (ko_vcpu s)))"

definition kvm_modify_sregs ::
    "'v kvm_api \<Rightarrow> (kvm_sregs \<Rightarrow> kvm_sregs) \<Rightarrow> 'v kvm_oracle \<Rightarrow> 'v kvm_oracle panics" where
  "kvm_modify_sregs api f s = do {
     sregs \<leftarrow> expect (kv_get_sregs api (ko_vcpu s));
     v \<leftarrow> expect (kv_set_sregs api (f sregs) (ko_vcpu s));
     Some (s\<lparr>ko_vcpu := v\<rparr>) }"

definition kvm_modify_segment ::
    "'v kvm_api \<Rightarrow> u32 \<Rightarrow> (kvm_segment \<Rightarrow> kvm_segment) \<Rightarrow> 'v kvm_oracle \<Rightarrow> 'v kvm_oracle panics" where
  "kvm_modify_segment api n f s = do {
     sregs \<leftarrow> expect (kv_get_sregs api (ko_vcpu s));
     v \<leftarrow> expect (kv_set_sregs api (seg_update n f sregs) (ko_vcpu s));
     Some (s\<lparr>ko_vcpu := v\<rparr>) }"

definition kvm_debug_sregs :: "'v kvm_api \<Rightarrow> 'v kvm_oracle \<Rightarrow> string panics" where
  "kvm_debug_sregs api s = do {
     s \<leftarrow> expect (kv_get_sregs api (ko_vcpu s));
     Some (''cr0='' @ fmt_hex (unat (sr_cr0 s)) @ '' cr3='' @ fmt_hex (unat (sr_cr3 s))
       @ '' cr4='' @ fmt_hex (unat (sr_cr4 s)) @ '' efer='' @ fmt_hex (unat (sr_efer s))
       @ '' cs{sel:'' @ fmt_hex (unat (ks_selector (sr_cs s))) @ '' base:'' @ fmt_hex (unat (ks_base (sr_cs s)))
       @ '' l:'' @ fmt_dec (unat (ks_l (sr_cs s))) @ '' db:'' @ fmt_dec (unat (ks_db (sr_cs s)))
       @ '' type:'' @ fmt_hex (unat (ks_type (sr_cs s))) @ '' p:'' @ fmt_dec (unat (ks_present (sr_cs s)))
       @ ''} ss{sel:'' @ fmt_hex (unat (ks_selector (sr_ss s))) @ '' type:'' @ fmt_hex (unat (ks_type (sr_ss s)))
       @ '' p:'' @ fmt_dec (unat (ks_present (sr_ss s)))
       @ ''} tr{sel:'' @ fmt_hex (unat (ks_selector (sr_tr s))) @ '' type:'' @ fmt_hex (unat (ks_type (sr_tr s)))
       @ '' p:'' @ fmt_dec (unat (ks_present (sr_tr s))) @ '' unusable:'' @ fmt_dec (unat (ks_unusable (sr_tr s)))
       @ ''} ldt{unusable:'' @ fmt_dec (unat (ks_unusable (sr_ldt s)))
       @ ''} gdt{base:'' @ fmt_hex (unat (kd_base (sr_gdt s))) @ '' limit:'' @ fmt_hex (unat (kd_limit (sr_gdt s)))
       @ ''} idt{base:'' @ fmt_hex (unat (kd_base (sr_idt s))) @ '' limit:'' @ fmt_hex (unat (kd_limit (sr_idt s)))
       @ ''}'') }"

definition kvm_unwind_fault ::
    "profile \<Rightarrow> 'v kvm_api \<Rightarrow> u8 \<Rightarrow> 'v kvm_oracle \<Rightarrow> ((u8 \<times> u64) \<times> 'v kvm_oracle) panics" where
  "kvm_unwind_fault prof api vector s = do {
     regs \<leftarrow> kvm_regs_of api s;
     frame \<leftarrow> unwind_frame prof (ko_ram s) (kr_rsp regs) vector;
     let regs = regs\<lparr>kr_rip := uw_rip frame, kr_rsp := uw_rsp frame, kr_rflags := uw_rflags frame\<rparr>;
     s \<leftarrow> kvm_put_regs api regs s;
     Some ((vector, uw_error_code frame), s) }"

section \<open>\<open>X86Oracle\<close> for \<open>KvmOracle\<close>\<close>

definition kvm_vector_chunks :: "'v kvm_oracle \<Rightarrow> nat" where
  "kvm_vector_chunks s = vector_width (ko_xsave s) div 64"

definition kvm_vector_regs :: "'v kvm_oracle \<Rightarrow> nat" where
  "kvm_vector_regs s = layout_vector_regs (ko_xsave s)"

definition regs_put :: "u32 \<Rightarrow> u64 \<Rightarrow> kvm_regs \<Rightarrow> kvm_regs" where
  "regs_put n value regs =
     (if n = 0 then regs\<lparr>kr_rax := value\<rparr> else if n = 1 then regs\<lparr>kr_rcx := value\<rparr>
      else if n = 2 then regs\<lparr>kr_rdx := value\<rparr> else if n = 3 then regs\<lparr>kr_rbx := value\<rparr>
      else if n = 4 then regs\<lparr>kr_rsp := value\<rparr> else if n = 5 then regs\<lparr>kr_rbp := value\<rparr>
      else if n = 6 then regs\<lparr>kr_rsi := value\<rparr> else if n = 7 then regs\<lparr>kr_rdi := value\<rparr>
      else if n = 8 then regs\<lparr>kr_r8 := value\<rparr> else if n = 9 then regs\<lparr>kr_r9 := value\<rparr>
      else if n = 10 then regs\<lparr>kr_r10 := value\<rparr> else if n = 11 then regs\<lparr>kr_r11 := value\<rparr>
      else if n = 12 then regs\<lparr>kr_r12 := value\<rparr> else if n = 13 then regs\<lparr>kr_r13 := value\<rparr>
      else if n = 14 then regs\<lparr>kr_r14 := value\<rparr> else regs\<lparr>kr_r15 := value\<rparr>)"

definition regs_at :: "u32 \<Rightarrow> kvm_regs \<Rightarrow> u64" where
  "regs_at n regs =
     (if n = 0 then kr_rax regs else if n = 1 then kr_rcx regs
      else if n = 2 then kr_rdx regs else if n = 3 then kr_rbx regs
      else if n = 4 then kr_rsp regs else if n = 5 then kr_rbp regs
      else if n = 6 then kr_rsi regs else if n = 7 then kr_rdi regs
      else if n = 8 then kr_r8 regs else if n = 9 then kr_r9 regs
      else if n = 10 then kr_r10 regs else if n = 11 then kr_r11 regs
      else if n = 12 then kr_r12 regs else if n = 13 then kr_r13 regs
      else if n = 14 then kr_r14 regs else kr_r15 regs)"

definition kvm_set_gpr :: "'v kvm_api \<Rightarrow> u32 \<Rightarrow> u64 \<Rightarrow> 'v kvm_oracle \<Rightarrow> 'v kvm_oracle panics" where
  "kvm_set_gpr api n value s = do {
     regs \<leftarrow> kvm_regs_of api s;
     kvm_put_regs api (regs_put n value regs) s }"

definition kvm_get_gpr :: "'v kvm_api \<Rightarrow> u32 \<Rightarrow> 'v kvm_oracle \<Rightarrow> u64 panics" where
  "kvm_get_gpr api n s = map_option (regs_at n) (kvm_regs_of api s)"

definition kvm_set_rip :: "'v kvm_api \<Rightarrow> u64 \<Rightarrow> 'v kvm_oracle \<Rightarrow> 'v kvm_oracle panics" where
  "kvm_set_rip api value s = do {
     regs \<leftarrow> kvm_regs_of api s;
     kvm_put_regs api (regs\<lparr>kr_rip := value\<rparr>) s }"

definition kvm_get_rip :: "'v kvm_api \<Rightarrow> 'v kvm_oracle \<Rightarrow> u64 panics" where
  "kvm_get_rip api s = map_option kr_rip (kvm_regs_of api s)"

definition kvm_set_rflags :: "'v kvm_api \<Rightarrow> u64 \<Rightarrow> 'v kvm_oracle \<Rightarrow> 'v kvm_oracle panics" where
  "kvm_set_rflags api value s = do {
     regs \<leftarrow> kvm_regs_of api s;
     kvm_put_regs api (regs\<lparr>kr_rflags := (value AND NOT (FLAG_TF OR FLAG_RF)) OR 0x2\<rparr>) s }"

definition kvm_get_rflags :: "'v kvm_api \<Rightarrow> 'v kvm_oracle \<Rightarrow> u64 panics" where
  "kvm_get_rflags api s = map_option (\<lambda>r. kr_rflags r AND NOT (FLAG_TF OR FLAG_RF)) (kvm_regs_of api s)"

definition kvm_set_zmm ::
    "profile \<Rightarrow> 'v kvm_api \<Rightarrow> u32 \<Rightarrow> u64 list \<Rightarrow> 'v kvm_oracle \<Rightarrow> 'v kvm_oracle panics" where
  "kvm_set_zmm prof api n data s = do {
     _ \<leftarrow> debug_assert prof (unat n < ZMM_REGS);
     bytes \<leftarrow> expect (kv_get_xsave api (ko_vcpu s));
     bytes \<leftarrow> xsave_set_zmm bytes (ko_xsave s) n data;
     v \<leftarrow> expect (kv_set_xsave api bytes (ko_vcpu s));
     Some (s\<lparr>ko_vcpu := v\<rparr>) }"

definition kvm_get_zmm :: "profile \<Rightarrow> 'v kvm_api \<Rightarrow> u32 \<Rightarrow> 'v kvm_oracle \<Rightarrow> u64 list panics" where
  "kvm_get_zmm prof api n s = do {
     _ \<leftarrow> debug_assert prof (unat n < ZMM_REGS);
     bytes \<leftarrow> expect (kv_get_xsave api (ko_vcpu s));
     xsave_get_zmm bytes (ko_xsave s) n }"

definition kvm_set_msr :: "'v kvm_api \<Rightarrow> u32 \<Rightarrow> u64 \<Rightarrow> 'v kvm_oracle \<Rightarrow> 'v kvm_oracle panics" where
  "kvm_set_msr api msr value s =
     (if msr = IA32_EFER then kvm_modify_sregs api (\<lambda>sregs. sregs\<lparr>sr_efer := value\<rparr>) s
      else if msr = IA32_FS_BASE then kvm_modify_segment api SEG_FS (\<lambda>g. g\<lparr>ks_base := value\<rparr>) s
      else if msr = IA32_GS_BASE then kvm_modify_segment api SEG_GS (\<lambda>g. g\<lparr>ks_base := value\<rparr>) s
      else if msr \<in> {IA32_STAR, IA32_LSTAR, IA32_FMASK, IA32_KERNEL_GS_BASE}
      then Some (kvm_write_msr api msr value s)
      else Some s)"

definition kvm_get_msr :: "'v kvm_api \<Rightarrow> u32 \<Rightarrow> 'v kvm_oracle \<Rightarrow> u64 panics" where
  "kvm_get_msr api msr s =
     (if msr = IA32_EFER
      then Some (case kv_get_sregs api (ko_vcpu s) of Inl _ \<Rightarrow> 0 | Inr sregs \<Rightarrow> sr_efer sregs)
      else if msr = IA32_FS_BASE then map_option ks_base (kvm_segment_of api SEG_FS s)
      else if msr = IA32_GS_BASE then map_option ks_base (kvm_segment_of api SEG_GS s)
      else if msr \<in> {IA32_STAR, IA32_LSTAR, IA32_FMASK, IA32_KERNEL_GS_BASE}
      then Some (kvm_read_msr api msr s)
      else Some 0)"

definition kvm_set_cr :: "'v kvm_api \<Rightarrow> u32 \<Rightarrow> u64 \<Rightarrow> 'v kvm_oracle \<Rightarrow> 'v kvm_oracle panics" where
  "kvm_set_cr api n value =
     kvm_modify_sregs api (\<lambda>sregs.
       if n = 0 then sregs\<lparr>sr_cr0 := value\<rparr> else if n = 2 then sregs\<lparr>sr_cr2 := value\<rparr>
       else if n = 3 then sregs\<lparr>sr_cr3 := value\<rparr> else if n = 4 then sregs\<lparr>sr_cr4 := value\<rparr>
       else if n = 8 then sregs\<lparr>sr_cr8 := value\<rparr> else sregs)"

definition kvm_get_cr :: "'v kvm_api \<Rightarrow> u32 \<Rightarrow> 'v kvm_oracle \<Rightarrow> u64 panics" where
  "kvm_get_cr api n s =
     (case kv_get_sregs api (ko_vcpu s) of
        Inl _ \<Rightarrow> Some 0
      | Inr sregs \<Rightarrow> Some (if n = 0 then sr_cr0 sregs else if n = 2 then sr_cr2 sregs
          else if n = 3 then sr_cr3 sregs else if n = 4 then sr_cr4 sregs
          else if n = 8 then sr_cr8 sregs else 0))"

definition kvm_set_seg_selector ::
    "profile \<Rightarrow> 'v kvm_api \<Rightarrow> u32 \<Rightarrow> u16 \<Rightarrow> 'v kvm_oracle \<Rightarrow> 'v kvm_oracle panics" where
  "kvm_set_seg_selector prof api n value s = do {
     _ \<leftarrow> debug_assert prof (unat n < SEG_COUNT);
     kvm_modify_segment api n (\<lambda>g. g\<lparr>ks_selector := value\<rparr>) s }"

definition kvm_get_seg_selector :: "'v kvm_api \<Rightarrow> u32 \<Rightarrow> 'v kvm_oracle \<Rightarrow> u16 panics" where
  "kvm_get_seg_selector api n s = map_option ks_selector (kvm_segment_of api n s)"

definition kvm_set_seg_base ::
    "profile \<Rightarrow> 'v kvm_api \<Rightarrow> u32 \<Rightarrow> u64 \<Rightarrow> 'v kvm_oracle \<Rightarrow> 'v kvm_oracle panics" where
  "kvm_set_seg_base prof api n value s = do {
     _ \<leftarrow> debug_assert prof (unat n < SEG_COUNT);
     kvm_modify_segment api n (\<lambda>g. g\<lparr>ks_base := value\<rparr>) s }"

definition kvm_get_seg_base :: "'v kvm_api \<Rightarrow> u32 \<Rightarrow> 'v kvm_oracle \<Rightarrow> u64 panics" where
  "kvm_get_seg_base api n s = map_option ks_base (kvm_segment_of api n s)"

definition kvm_set_seg_limit :: "'v kvm_api \<Rightarrow> u32 \<Rightarrow> u32 \<Rightarrow> 'v kvm_oracle \<Rightarrow> 'v kvm_oracle panics" where
  "kvm_set_seg_limit api n value s = kvm_modify_segment api n (\<lambda>g. g\<lparr>ks_limit := value\<rparr>) s"

definition kvm_get_seg_limit :: "'v kvm_api \<Rightarrow> u32 \<Rightarrow> 'v kvm_oracle \<Rightarrow> u32 panics" where
  "kvm_get_seg_limit api n s = map_option ks_limit (kvm_segment_of api n s)"

definition kvm_read_mem_byte :: "u64 \<Rightarrow> 'v kvm_oracle \<Rightarrow> u8 panics" where
  "kvm_read_mem_byte addr s = Some (ram_read (ko_ram s) addr 1 ! 0)"

definition kvm_write_mem_byte :: "u64 \<Rightarrow> u8 \<Rightarrow> 'v kvm_oracle \<Rightarrow> 'v kvm_oracle panics" where
  "kvm_write_mem_byte addr byte s =
     Some (s\<lparr>ko_touched := insert (page_of addr) (ko_touched s), ko_ram := ram_write (ko_ram s) addr [byte]\<rparr>)"

definition kvm_read_mem :: "u64 \<Rightarrow> nat \<Rightarrow> 'v kvm_oracle \<Rightarrow> u8 list panics" where
  "kvm_read_mem addr len s = Some (ram_read (ko_ram s) addr len)"

definition kvm_write_mem :: "profile \<Rightarrow> u64 \<Rightarrow> u8 list \<Rightarrow> 'v kvm_oracle \<Rightarrow> 'v kvm_oracle panics" where
  "kvm_write_mem prof addr data s = do {
     e \<leftarrow> add_u64 prof addr (of_nat (length data));
     Some (s\<lparr>ko_touched := touch_range (page_of addr) (page_of e) (ko_touched s),
             ko_ram := ram_write (ko_ram s) addr data\<rparr>) }"

definition kvm_is_mapped :: "u64 \<Rightarrow> 'v kvm_oracle \<Rightarrow> bool" where
  "kvm_is_mapped addr s \<longleftrightarrow> page_of addr \<in> ko_touched s"

definition kvm_fault_msg :: "'v kvm_oracle \<Rightarrow> string" where
  "kvm_fault_msg s = (case ko_last_fault s of None \<Rightarrow> '''' | Some (v, e) \<Rightarrow> fault_message v e)"

text \<open>The loop of \<open>step\<close>; the first argument counts the passes left.\<close>

fun kvm_run_loop ::
    "nat \<Rightarrow> profile \<Rightarrow> 'v kvm_api \<Rightarrow> 'v kvm_oracle \<Rightarrow> (step_outcome \<times> 'v kvm_oracle) panics" where
  "kvm_run_loop 0 prof api s = Some (Fault OtherException ''KVM_RUN did not make progress'', s)"
| "kvm_run_loop (Suc k) prof api s =
     (let (r, v, ram) = kv_run api (ko_vcpu s) (ko_ram s);
          s = s\<lparr>ko_vcpu := v, ko_ram := ram\<rparr>
      in case r of
        Inl e \<Rightarrow>
          if e = EINTR then kvm_run_loop k prof api s
          else Some (Fault OtherException (''KVM_RUN failed: '' @ kv_display api e),
                     s\<lparr>ko_last_fault := None\<rparr>)
      | Inr VcpuDebug \<Rightarrow> Some (Retired, s)
      | Inr VcpuHlt \<Rightarrow> do {
          regs \<leftarrow> kvm_regs_of api s;
          case stub_vector (kr_rip regs) of
            Some vector \<Rightarrow> do {
              ((vector, error), s) \<leftarrow> kvm_unwind_fault prof api vector s;
              let s = s\<lparr>ko_last_fault := Some (vector, error)\<rparr>;
              Some (Fault (classify vector) (kvm_fault_msg s), s) }
          | None \<Rightarrow> Some (Retired, s) }
      | Inr VcpuShutdown \<Rightarrow> Some (Fault OtherException ''guest triple fault (KVM_EXIT_SHUTDOWN)'', s)
      | Inr (VcpuMmioRead addr) \<Rightarrow>
          Some (Fault PageFault (''access outside guest RAM at '' @ fmt_hex (unat addr)), s)
      | Inr (VcpuMmioWrite addr) \<Rightarrow>
          Some (Fault PageFault (''access outside guest RAM at '' @ fmt_hex (unat addr)), s)
      | Inr (VcpuOther other) \<Rightarrow> Some (Fault OtherException (''unexpected KVM exit: '' @ other), s))"

definition kvm_step :: "profile \<Rightarrow> 'v kvm_api \<Rightarrow> 'v kvm_oracle \<Rightarrow> (step_outcome \<times> 'v kvm_oracle) panics" where
  "kvm_step prof api s = do {
     s \<leftarrow> kvm_arm_singlestep api (s\<lparr>ko_last_fault := None\<rparr>);
     kvm_run_loop 64 prof api s }"

definition kvm_ops :: "profile \<Rightarrow> 'v kvm_api \<Rightarrow> 'v kvm_oracle oracle_ops" where
  "kvm_ops prof api =
     \<lparr>op_backend_name = (\<lambda>_. ''kvm''),
      op_set_gpr = kvm_set_gpr api, op_get_gpr = kvm_get_gpr api,
      op_set_rip = kvm_set_rip api, op_get_rip = kvm_get_rip api,
      op_set_rflags = kvm_set_rflags api, op_get_rflags = kvm_get_rflags api,
      op_set_zmm = kvm_set_zmm prof api, op_get_zmm = kvm_get_zmm prof api,
      op_vector_chunks = kvm_vector_chunks, op_vector_regs = kvm_vector_regs,
      op_set_msr = kvm_set_msr api, op_get_msr = kvm_get_msr api,
      op_set_cr = kvm_set_cr api, op_get_cr = kvm_get_cr api,
      op_enable_shadow_stack = default_enable_shadow_stack,
      op_set_ssp = default_set_ssp, op_get_ssp = default_get_ssp,
      op_set_seg_selector = kvm_set_seg_selector prof api, op_get_seg_selector = kvm_get_seg_selector api,
      op_set_seg_base = kvm_set_seg_base prof api, op_get_seg_base = kvm_get_seg_base api,
      op_set_seg_limit = kvm_set_seg_limit api, op_get_seg_limit = kvm_get_seg_limit api,
      op_read_mem_byte = kvm_read_mem_byte, op_write_mem_byte = kvm_write_mem_byte,
      op_read_mem = kvm_read_mem, op_write_mem = kvm_write_mem prof,
      op_is_mapped = kvm_is_mapped, op_step = kvm_step prof api,
      op_fault_msg = (\<lambda>s. Some (kvm_fault_msg s))\<rparr>"

end
