(* ===== verification/Kvm_Contract.thy ===== *)
theory Kvm_Contract
  imports Kvm_Oracle
begin

text \<open>
  What the code relies on of the kernel, as predicates over the call record, and what the KVM
  backend then promises: the register, memory and segment contracts of \<open>Oracle_Trait\<close> are
  interpreted on its methods.

  \<open>live\<close> holds of a vCPU whose ioctls succeed, \<open>accepts\<close> of the special registers the kernel
  does not reject. The laws are the documented behaviour of \<open>KVM_GET/SET_REGS\<close>,
  \<open>KVM_GET/SET_SREGS\<close> and \<open>KVM_GET/SET_XSAVE\<close>: what was set is what is got, up to the fixed
  flag bit 1, the single-step flags, and which inactive components an XSAVE image marks.
\<close>

section \<open>The kernel's laws\<close>

definition regs_match :: "kvm_regs \<Rightarrow> kvm_regs \<Rightarrow> bool" where
  "regs_match got put \<longleftrightarrow>
     got\<lparr>kr_rflags := 0\<rparr> = put\<lparr>kr_rflags := 0\<rparr> \<and>
     kr_rflags got AND NOT STEP_FLAGS = (kr_rflags put OR 0x2) AND NOT STEP_FLAGS"

definition kvm_regs_law :: "'v kvm_api \<Rightarrow> ('v \<Rightarrow> bool) \<Rightarrow> bool" where
  "kvm_regs_law api live \<longleftrightarrow>
     (\<forall>v. live v \<longrightarrow>
        (\<exists>r. kv_get_regs api v = Inr r \<and> bit (kr_rflags r) 1) \<and>
        (\<forall>r. \<exists>v' r'. kv_set_regs api r v = Inr v' \<and> live v' \<and> kv_get_regs api v' = Inr r' \<and>
           regs_match r' r \<and> kv_get_sregs api v' = kv_get_sregs api v \<and>
           kv_get_xsave api v' = kv_get_xsave api v))"

definition kvm_sregs_law :: "'v kvm_api \<Rightarrow> ('v \<Rightarrow> bool) \<Rightarrow> (kvm_sregs \<Rightarrow> bool) \<Rightarrow> bool" where
  "kvm_sregs_law api live accepts \<longleftrightarrow>
     (\<forall>v. live v \<longrightarrow> (\<exists>g. kv_get_sregs api v = Inr g \<and> accepts g)) \<and>
     (\<forall>v g. live v \<and> accepts g \<longrightarrow>
        (\<exists>v'. kv_set_sregs api g v = Inr v' \<and> live v' \<and> kv_get_sregs api v' = Inr g \<and>
           kv_get_regs api v' = kv_get_regs api v \<and> kv_get_xsave api v' = kv_get_xsave api v)) \<and>
     (\<forall>g b. accepts g \<longrightarrow>
        accepts (seg_update SEG_FS (\<lambda>x. x\<lparr>ks_base := b\<rparr>) g) \<and>
        accepts (seg_update SEG_GS (\<lambda>x. x\<lparr>ks_base := b\<rparr>) g))"

definition XSAVE_BYTES :: nat where "XSAVE_BYTES = 4096"

text \<open>An image got, with one register rewritten, may be set; the values it loads are got back.\<close>

definition kvm_xsave_law :: "'v kvm_api \<Rightarrow> ('v \<Rightarrow> bool) \<Rightarrow> xsave_layout \<Rightarrow> bool" where
  "kvm_xsave_law api live lay \<longleftrightarrow>
     layout_ok XSAVE_BYTES lay \<and>
     (\<forall>v. live v \<longrightarrow> (\<exists>b. kv_get_xsave api v = Inr b \<and> length b = XSAVE_BYTES \<and> settled b lay)) \<and>
     (\<forall>v b0 n d b. live v \<and> kv_get_xsave api v = Inr b0 \<and> unat n < 32 \<and> xsave_set_zmm b0 lay n d = Some b \<longrightarrow>
        (\<exists>v' b'. kv_set_xsave api b v = Inr v' \<and> live v' \<and> kv_get_xsave api v' = Inr b' \<and>
           length b' = XSAVE_BYTES \<and> settled b' lay \<and>
           (\<forall>m<32. \<forall>i<8. xrstor_chunk b' lay m i = xrstor_chunk b lay m i) \<and>
           kv_get_regs api v' = kv_get_regs api v \<and> kv_get_sregs api v' = kv_get_sregs api v))"

definition kvm_laws ::
    "'v kvm_api \<Rightarrow> ('v \<Rightarrow> bool) \<Rightarrow> (kvm_sregs \<Rightarrow> bool) \<Rightarrow> xsave_layout \<Rightarrow> bool" where
  "kvm_laws api live accepts lay \<longleftrightarrow>
     kvm_regs_law api live \<and> kvm_sregs_law api live accepts \<and> kvm_xsave_law api live lay"

section \<open>The state an oracle shows\<close>

definition gprs :: "kvm_regs \<Rightarrow> u64 list" where
  "gprs r = [kr_rax r, kr_rcx r, kr_rdx r, kr_rbx r, kr_rsp r, kr_rbp r, kr_rsi r, kr_rdi r,
     kr_r8 r, kr_r9 r, kr_r10 r, kr_r11 r, kr_r12 r, kr_r13 r, kr_r14 r, kr_r15 r]"

definition kvm_view :: "'v kvm_api \<Rightarrow> xsave_layout \<Rightarrow> 'v kvm_oracle \<Rightarrow> cpu_state" where
  "kvm_view api lay s =
     (let r = projr (kv_get_regs api (ko_vcpu s)); b = projr (kv_get_xsave api (ko_vcpu s)) in
      \<lparr>cs_gpr = gprs r, cs_rip = kr_rip r, cs_rflags = kr_rflags r AND NOT STEP_FLAGS,
       cs_zmm = zmm_values XSAVE_BYTES lay b\<rparr>)"

definition kvm_ok ::
    "'v kvm_api \<Rightarrow> ('v \<Rightarrow> bool) \<Rightarrow> (kvm_sregs \<Rightarrow> bool) \<Rightarrow> xsave_layout \<Rightarrow> 'v kvm_oracle \<Rightarrow> bool" where
  "kvm_ok api live accepts lay s \<longleftrightarrow>
     kvm_laws api live accepts lay \<and> live (ko_vcpu s) \<and> ko_xsave s = lay \<and>
     ram_ok (ko_ram s) \<and> ram_len (ko_ram s) = unat RAM_SIZE"

section \<open>Consequences of the laws\<close>

lemma kvm_okD:
  assumes "kvm_ok api live accepts lay s"
  shows "kvm_regs_law api live" and "kvm_sregs_law api live accepts" and "kvm_xsave_law api live lay"
    and "live (ko_vcpu s)" and "ko_xsave s = lay" and "ram_ok (ko_ram s)"
    and "ram_len (ko_ram s) = unat RAM_SIZE" and "layout_ok XSAVE_BYTES lay"
  using assms by (auto simp: kvm_ok_def kvm_laws_def kvm_xsave_law_def)

lemma set_regs_live:
  assumes "kvm_regs_law api live" and "live v"
  obtains v' r' where "kv_set_regs api r v = Inr v'" and "live v'" and "kv_get_regs api v' = Inr r'"
    and "regs_match r' r" and "kv_get_sregs api v' = kv_get_sregs api v"
    and "kv_get_xsave api v' = kv_get_xsave api v"
  using assms unfolding kvm_regs_law_def by metis

lemma kvm_ok_vcpu:
  "kvm_ok api live accepts lay s \<Longrightarrow> live v \<Longrightarrow> kvm_ok api live accepts lay (s\<lparr>ko_vcpu := v\<rparr>)"
  by (simp add: kvm_ok_def)

lemma kvm_regs_got:
  assumes "kvm_ok api live accepts lay s"
  obtains r where "kv_get_regs api (ko_vcpu s) = Inr r" and "kvm_regs_of api s = Some r" and "bit (kr_rflags r) 1"
  using kvm_okD(1,4) [OF assms] unfolding kvm_regs_law_def kvm_regs_of_def by (metis expect_simps(2))

lemma kvm_regs_put:
  assumes "kvm_ok api live accepts lay s"
  obtains s' r' where "kvm_put_regs api r s = Some s'" and "kvm_ok api live accepts lay s'"
    and "kv_get_regs api (ko_vcpu s') = Inr r'" and "regs_match r' r"
    and "kv_get_sregs api (ko_vcpu s') = kv_get_sregs api (ko_vcpu s)"
    and "kv_get_xsave api (ko_vcpu s') = kv_get_xsave api (ko_vcpu s)"
    and "s' = s\<lparr>ko_vcpu := ko_vcpu s'\<rparr>"
proof -
  obtain v r' where v: "kv_set_regs api r (ko_vcpu s) = Inr v" "live v" "kv_get_regs api v = Inr r'"
    "regs_match r' r" "kv_get_sregs api v = kv_get_sregs api (ko_vcpu s)"
    "kv_get_xsave api v = kv_get_xsave api (ko_vcpu s)"
    using kvm_okD(1,4) [OF assms] unfolding kvm_regs_law_def by metis
  show thesis
    by (rule that [of "s\<lparr>ko_vcpu := v\<rparr>" r']) (simp_all add: kvm_put_regs_def v kvm_ok_vcpu [OF assms])
qed

lemma kvm_xsave_got:
  assumes "kvm_ok api live accepts lay s"
  obtains b where "kv_get_xsave api (ko_vcpu s) = Inr b" and "length b = XSAVE_BYTES" and "settled b lay"
  using kvm_okD(3,4) [OF assms] unfolding kvm_xsave_law_def by metis

lemma kvm_sregs_got:
  assumes "kvm_ok api live accepts lay s"
  obtains g where "kv_get_sregs api (ko_vcpu s) = Inr g" and "accepts g"
  using kvm_okD(2,4) [OF assms] unfolding kvm_sregs_law_def by metis

lemma kvm_sregs_put:
  assumes "kvm_ok api live accepts lay s" and "accepts g"
  obtains v where "kv_set_sregs api g (ko_vcpu s) = Inr v" and "kvm_ok api live accepts lay (s\<lparr>ko_vcpu := v\<rparr>)"
    and "kv_get_sregs api v = Inr g" and "kv_get_regs api v = kv_get_regs api (ko_vcpu s)"
    and "kv_get_xsave api v = kv_get_xsave api (ko_vcpu s)"
proof -
  obtain v where "kv_set_sregs api g (ko_vcpu s) = Inr v" "live v" "kv_get_sregs api v = Inr g"
    "kv_get_regs api v = kv_get_regs api (ko_vcpu s)" "kv_get_xsave api v = kv_get_xsave api (ko_vcpu s)"
    using kvm_okD(2,4) [OF assms(1)] assms(2) unfolding kvm_sregs_law_def by metis
  with that kvm_ok_vcpu [OF assms(1)] show thesis by blast
qed

lemma regs_at_gprs: "n < 16 \<Longrightarrow> regs_at (of_nat n) r = gprs r ! n"
  by (rule each_gpr) (simp_all add: upt_rec regs_at_def gprs_def)

lemma gprs_regs_put: "n < 16 \<Longrightarrow> gprs (regs_put (of_nat n) v r) = (gprs r)[n := v]"
  by (rule each_gpr) (simp_all add: upt_rec regs_put_def gprs_def)

lemma regs_put_frame [simp]: "kr_rip (regs_put n v r) = kr_rip r" "kr_rflags (regs_put n v r) = kr_rflags r"
  by (simp_all add: regs_put_def)

lemma gprs_frame [simp]: "gprs (r\<lparr>kr_rip := x\<rparr>) = gprs r" "gprs (r\<lparr>kr_rflags := y\<rparr>) = gprs r"
  by (simp_all add: gprs_def)

lemma length_gprs [simp]: "length (gprs r) = 16"
  by (simp add: gprs_def)

lemma regs_matchD:
  assumes "regs_match r' r"
  shows "gprs r' = gprs r" and "kr_rip r' = kr_rip r"
    and "kr_rflags r' AND NOT STEP_FLAGS = (kr_rflags r OR 0x2) AND NOT STEP_FLAGS"
proof -
  have e: "r'\<lparr>kr_rflags := 0\<rparr> = r\<lparr>kr_rflags := 0\<rparr>" using assms by (simp add: regs_match_def)
  from arg_cong [OF e, of gprs] show "gprs r' = gprs r" by simp
  from arg_cong [OF e, of kr_rip] show "kr_rip r' = kr_rip r" by simp
  show "kr_rflags r' AND NOT STEP_FLAGS = (kr_rflags r OR 0x2) AND NOT STEP_FLAGS"
    using assms by (simp add: regs_match_def)
qed

section \<open>The register contract\<close>

lemma kvm_view_eq:
  assumes "kv_get_regs api (ko_vcpu s) = Inr r" and "kv_get_xsave api (ko_vcpu s) = Inr b"
  shows "kvm_view api lay s =
    \<lparr>cs_gpr = gprs r, cs_rip = kr_rip r, cs_rflags = kr_rflags r AND NOT STEP_FLAGS,
     cs_zmm = zmm_values XSAVE_BYTES lay b\<rparr>"
  using assms by (simp add: kvm_view_def)

text \<open>Each setter that goes through \<open>KVM_SET_REGS\<close>.\<close>

lemma kvm_put_regs_view:
  assumes "kvm_ok api live accepts lay s" and "kv_get_regs api (ko_vcpu s) = Inr r0"
  shows "\<exists>s'. kvm_put_regs api r s = Some s' \<and> kvm_ok api live accepts lay s' \<and>
    kvm_view api lay s' = (kvm_view api lay s)\<lparr>cs_gpr := gprs r, cs_rip := kr_rip r,
      cs_rflags := norm_step_flags (kr_rflags r)\<rparr>"
proof -
  obtain s' r' where s': "kvm_put_regs api r s = Some s'" "kvm_ok api live accepts lay s'"
    "kv_get_regs api (ko_vcpu s') = Inr r'" "regs_match r' r"
    "kv_get_xsave api (ko_vcpu s') = kv_get_xsave api (ko_vcpu s)"
    by (rule kvm_regs_put [OF assms(1), of r]) blast
  obtain b where b: "kv_get_xsave api (ko_vcpu s) = Inr b"
    by (rule kvm_xsave_got [OF assms(1)]) blast
  have "kvm_view api lay s' = (kvm_view api lay s)\<lparr>cs_gpr := gprs r, cs_rip := kr_rip r,
      cs_rflags := norm_step_flags (kr_rflags r)\<rparr>"
    using kvm_view_eq [OF s'(3), of b lay] kvm_view_eq [OF assms(2) b, of lay] b s'(5) regs_matchD [OF s'(4)]
    by (simp add: norm_step_flags_eq)
  with s'(1,2) show ?thesis by blast
qed

lemma kvm_set_zmm_view:
  assumes "kvm_ok api live accepts lay s" and "n < 32"
  shows "\<exists>s'. kvm_set_zmm prof api (of_nat n) d s = Some s' \<and> kvm_ok api live accepts lay s' \<and>
    kvm_view api lay s' = (kvm_view api lay s)
      \<lparr>cs_zmm := (cs_zmm (kvm_view api lay s))[n := zmm_norm XSAVE_BYTES lay n d]\<rparr>"
proof -
  obtain r where r: "kv_get_regs api (ko_vcpu s) = Inr r" by (rule kvm_regs_got [OF assms(1)]) blast
  obtain b0 where b0: "kv_get_xsave api (ko_vcpu s) = Inr b0" "length b0 = XSAVE_BYTES" "settled b0 lay"
    by (rule kvm_xsave_got [OF assms(1)]) blast
  note lok = kvm_okD(8) [OF assms(1)]
  have u: "unat (of_nat n :: u32) = n" using assms(2) by (simp add: unat_of_nat_u32)
  obtain b where b: "xsave_set_zmm b0 lay (of_nat n) d = Some b" "length b = length b0"
    and loaded: "\<And>b'. length b' = length b0 \<Longrightarrow> settled b' lay \<Longrightarrow>
      \<forall>m<32. \<forall>i<8. xrstor_chunk b' lay m i = xrstor_chunk b lay m i \<Longrightarrow>
      zmm_values (length b0) lay b' = (zmm_values (length b0) lay b0)[n := zmm_norm (length b0) lay n d]"
    by (rule set_zmm_loaded [of b0 lay n d]) (use lok b0 assms(2) in auto)
  obtain v' b' where v': "kv_set_xsave api b (ko_vcpu s) = Inr v'" "live v'" "kv_get_xsave api v' = Inr b'"
    "length b' = XSAVE_BYTES" "settled b' lay" "\<forall>m<32. \<forall>i<8. xrstor_chunk b' lay m i = xrstor_chunk b lay m i"
    "kv_get_regs api v' = kv_get_regs api (ko_vcpu s)"
    using kvm_okD(3,4) [OF assms(1)] b0(1) b(1) u assms(2) unfolding kvm_xsave_law_def by metis
  let ?s' = "s\<lparr>ko_vcpu := v'\<rparr>"
  have z: "zmm_values XSAVE_BYTES lay b' = (zmm_values XSAVE_BYTES lay b0)[n := zmm_norm XSAVE_BYTES lay n d]"
    using loaded [of b'] v'(4,5,6) b0(2) by simp
  have "kvm_view api lay ?s' = (kvm_view api lay s)
      \<lparr>cs_zmm := (cs_zmm (kvm_view api lay s))[n := zmm_norm XSAVE_BYTES lay n d]\<rparr>"
    using kvm_view_eq [of api ?s' r b' lay] kvm_view_eq [OF r b0(1)] v'(3,7) r z by simp
  moreover have "kvm_set_zmm prof api (of_nat n) d s = Some ?s'"
    using b0(1) b(1) v'(1) u assms(2) kvm_okD(5) [OF assms(1)] by (simp add: kvm_set_zmm_def)
  ultimately show ?thesis using kvm_ok_vcpu [OF assms(1) v'(2)] by blast
qed

interpretation kvm: oracle_registers "kvm_ops prof api" "kvm_ok api live accepts lay" "kvm_view api lay"
    norm_step_flags "zmm_norm XSAVE_BYTES lay"
  for prof and api :: "'v kvm_api" and live accepts lay
proof
  fix s :: "'v kvm_oracle" assume ok: "kvm_ok api live accepts lay s"
  obtain r where r: "kv_get_regs api (ko_vcpu s) = Inr r" "kvm_regs_of api s = Some r" "bit (kr_rflags r) 1"
    by (rule kvm_regs_got [OF ok]) blast
  obtain b where b: "kv_get_xsave api (ko_vcpu s) = Inr b" "length b = XSAVE_BYTES" "settled b lay"
    by (rule kvm_xsave_got [OF ok]) blast
  note view = kvm_view_eq [OF r(1) b(1), of lay] and lok = kvm_okD(8) [OF ok]
  have self: "(kvm_view api lay s)\<lparr>cs_gpr := gprs r, cs_rip := kr_rip r, cs_rflags := norm_step_flags (kr_rflags r)\<rparr>
      = kvm_view api lay s"
    by (simp add: view norm_step_flags_keeps [OF r(3)])
  show "wf_cpu_state (kvm_view api lay s)"
    by (simp add: view wf_cpu_state_def list_all_length nth_zmm_values)
  show "op_get_gpr (kvm_ops prof api) (of_nat n) s = Some (cs_gpr (kvm_view api lay s) ! n)" if "n < 16" for n
    using that by (simp add: kvm_ops_def kvm_get_gpr_def r(2) view regs_at_gprs)
  show "op_get_rip (kvm_ops prof api) s = Some (cs_rip (kvm_view api lay s))"
    by (simp add: kvm_ops_def kvm_get_rip_def r(2) view)
  show "op_get_rflags (kvm_ops prof api) s = Some (cs_rflags (kvm_view api lay s))"
    by (simp add: kvm_ops_def kvm_get_rflags_def r(2) view STEP_FLAGS_def)
  show "op_get_zmm (kvm_ops prof api) (of_nat n) s = Some (cs_zmm (kvm_view api lay s) ! n)" if "n < 32" for n
    using that xsave_get_zmm_values [of b lay n] b lok kvm_okD(5) [OF ok]
    by (simp add: kvm_ops_def kvm_get_zmm_def view unat_of_nat_u32)
  show "\<exists>s'. op_set_gpr (kvm_ops prof api) (of_nat n) x s = Some s' \<and> kvm_ok api live accepts lay s' \<and>
      kvm_view api lay s' = (kvm_view api lay s)\<lparr>cs_gpr := (cs_gpr (kvm_view api lay s))[n := x]\<rparr>"
    if "n < 16" for n x
    using kvm_put_regs_view [OF ok r(1), of "regs_put (of_nat n) x r"] self that
    by (simp add: kvm_ops_def kvm_set_gpr_def r(2) gprs_regs_put view)
  show "\<exists>s'. op_set_rip (kvm_ops prof api) x s = Some s' \<and> kvm_ok api live accepts lay s' \<and>
      kvm_view api lay s' = (kvm_view api lay s)\<lparr>cs_rip := x\<rparr>" for x
    using kvm_put_regs_view [OF ok r(1), of "r\<lparr>kr_rip := x\<rparr>"] self
    by (simp add: kvm_ops_def kvm_set_rip_def r(2) view)
  have nn: "norm_step_flags ((x AND NOT STEP_FLAGS) OR 2) = norm_step_flags x" for x
    unfolding norm_step_flags_eq [symmetric] or.assoc
    by (rule bit_word_eqI) (auto simp: bit_simps)
  show "\<exists>s'. op_set_rflags (kvm_ops prof api) x s = Some s' \<and> kvm_ok api live accepts lay s' \<and>
      kvm_view api lay s' = (kvm_view api lay s)\<lparr>cs_rflags := norm_step_flags x\<rparr>" for x
    using kvm_put_regs_view [OF ok r(1), of "r\<lparr>kr_rflags := (x AND NOT STEP_FLAGS) OR 2\<rparr>"]
    by (simp add: kvm_ops_def kvm_set_rflags_def r(2) view STEP_FLAGS_def [symmetric] nn)
  show "\<exists>s'. op_set_zmm (kvm_ops prof api) (of_nat n) d s = Some s' \<and> kvm_ok api live accepts lay s' \<and>
      kvm_view api lay s' = (kvm_view api lay s)
        \<lparr>cs_zmm := (cs_zmm (kvm_view api lay s))[n := zmm_norm XSAVE_BYTES lay n d]\<rparr>"
    if "n < 32" for n d
    using kvm_set_zmm_view [OF ok that, of prof d] by (simp add: kvm_ops_def)
  show "norm_step_flags (cs_rflags (kvm_view api lay s)) = cs_rflags (kvm_view api lay s)"
    using norm_step_flags_keeps [OF r(3)] nn
    by (simp add: view norm_step_flags_def and.assoc)
  show "zmm_norm XSAVE_BYTES lay n (cs_zmm (kvm_view api lay s) ! n) = cs_zmm (kvm_view api lay s) ! n"
    if "n < 32" for n
    using that by (simp add: view zmm_norm_values)
qed

section \<open>The memory contract\<close>

definition kvm_bytes :: "'v kvm_oracle \<Rightarrow> nat \<Rightarrow> u8" where
  "kvm_bytes s = ram_byte (ko_ram s)"

lemma kvm_ok_ram:
  "kvm_ok api live accepts lay s \<Longrightarrow>
   kvm_ok api live accepts lay (s\<lparr>ko_touched := t, ko_ram := ram_write (ko_ram s) a d\<rparr>)"
  by (simp add: kvm_ok_def)

interpretation kvm_memory: oracle_memory "kvm_ops prof api" "kvm_ok api live accepts lay" kvm_bytes "unat RAM_SIZE"
  for prof and api :: "'v kvm_api" and live accepts lay
proof
  show "unat RAM_SIZE < 2 ^ 64" by (simp add: unat_RAM_SIZE)
  fix s :: "'v kvm_oracle" assume ok: "kvm_ok api live accepts lay s"
  note ram = kvm_okD(6,7) [OF ok]
  have inr: "in_ram (ko_ram s) a n \<longleftrightarrow> unat a + n \<le> unat RAM_SIZE" for a n
    by (simp add: in_ram_def ram)
  show "op_read_mem_byte (kvm_ops prof api) a s = Some (kvm_bytes s (unat a))"
    if "unat a < unat RAM_SIZE" for a
    using that ram_read_inside [OF ram(1), of a 1] inr [of a 1]
    by (simp add: kvm_ops_def kvm_read_mem_byte_def kvm_bytes_def)
  show "op_read_mem (kvm_ops prof api) a n s = Some (map (\<lambda>i. kvm_bytes s (unat a + i)) [0..<n])"
    if "unat a + n \<le> unat RAM_SIZE" for a n
    using that ram_read_inside [OF ram(1), of a n] inr [of a n]
    by (simp add: kvm_ops_def kvm_read_mem_def kvm_bytes_def)
  show "\<exists>s'. op_write_mem_byte (kvm_ops prof api) a b s = Some s' \<and> kvm_ok api live accepts lay s' \<and>
      kvm_bytes s' = (kvm_bytes s)(unat a := b)"
    if "unat a < unat RAM_SIZE" for a b
    using that ram_byte_write [OF ram(1), of a "[b]"] inr [of a 1] kvm_ok_ram [OF ok]
    by (auto simp: kvm_ops_def kvm_write_mem_byte_def kvm_bytes_def fun_eq_iff)
  show "\<exists>s'. op_write_mem (kvm_ops prof api) a d s = Some s' \<and> kvm_ok api live accepts lay s' \<and>
      kvm_bytes s' = (\<lambda>x. if unat a \<le> x \<and> x < unat a + length d then d ! (x - unat a) else kvm_bytes s x)"
    if "unat a + length d \<le> unat RAM_SIZE" for a d
    using that ram_byte_write [OF ram(1), of a d] inr [of a "length d"] kvm_ok_ram [OF ok]
    by (auto simp: kvm_ops_def kvm_write_mem_def kvm_bytes_def fun_eq_iff add_u64_below)
qed

section \<open>The segment contract\<close>

definition kvm_seg_base :: "u32 \<Rightarrow> 'v kvm_api \<Rightarrow> 'v kvm_oracle \<Rightarrow> u64" where
  "kvm_seg_base n api s = ks_base (seg_of n (projr (kv_get_sregs api (ko_vcpu s))))"

lemma kvm_set_base:
  assumes "kvm_ok api live accepts lay s" and "n = SEG_FS \<or> n = SEG_GS"
  shows "\<exists>s'. kvm_modify_segment api n (\<lambda>g. g\<lparr>ks_base := x\<rparr>) s = Some s' \<and> kvm_ok api live accepts lay s' \<and>
    kvm_seg_base n api s' = x \<and>
    (\<forall>m. m \<noteq> n \<and> (m = SEG_FS \<or> m = SEG_GS) \<longrightarrow> kvm_seg_base m api s' = kvm_seg_base m api s)"
proof -
  obtain g where g: "kv_get_sregs api (ko_vcpu s) = Inr g" "accepts g"
    by (rule kvm_sregs_got [OF assms(1)]) blast
  let ?g' = "seg_update n (\<lambda>g. g\<lparr>ks_base := x\<rparr>) g"
  have "accepts ?g'" using kvm_okD(2) [OF assms(1)] g(2) assms(2) unfolding kvm_sregs_law_def by blast
  then obtain v where v: "kv_set_sregs api ?g' (ko_vcpu s) = Inr v"
    "kvm_ok api live accepts lay (s\<lparr>ko_vcpu := v\<rparr>)" "kv_get_sregs api v = Inr ?g'"
    using kvm_sregs_put [OF assms(1)] by metis
  show ?thesis
    using g v assms(2)
    by (intro exI [of _ "s\<lparr>ko_vcpu := v\<rparr>"])
       (auto simp: kvm_modify_segment_def kvm_seg_base_def seg_of_def seg_update_def oracle_simps)
qed

interpretation kvm_segments: oracle_segments "kvm_ops prof api" "kvm_ok api live accepts lay"
    "kvm_seg_base SEG_FS api" "kvm_seg_base SEG_GS api"
  for prof and api :: "'v kvm_api" and live accepts lay
proof
  fix s :: "'v kvm_oracle" and x assume ok: "kvm_ok api live accepts lay s"
  obtain g where g: "kv_get_sregs api (ko_vcpu s) = Inr g"
    by (rule kvm_sregs_got [OF ok]) blast
  have seg: "map_option ks_base (kvm_segment_of api n s) = Some (kvm_seg_base n api s)" for n
    by (simp add: kvm_segment_of_def kvm_seg_base_def g)
  show "op_get_seg_base (kvm_ops prof api) SEG_FS s = Some (kvm_seg_base SEG_FS api s)"
    and "op_get_seg_base (kvm_ops prof api) SEG_GS s = Some (kvm_seg_base SEG_GS api s)"
    by (simp_all add: kvm_ops_def kvm_get_seg_base_def seg)
  show "op_get_msr (kvm_ops prof api) IA32_FS_BASE s = Some (kvm_seg_base SEG_FS api s)"
    and "op_get_msr (kvm_ops prof api) IA32_GS_BASE s = Some (kvm_seg_base SEG_GS api s)"
    by (simp_all add: kvm_ops_def kvm_get_msr_def seg) (simp_all add: oracle_simps)
  note fs = kvm_set_base [OF ok, of SEG_FS x] and gs = kvm_set_base [OF ok, of SEG_GS x]
  have ne: "SEG_FS \<noteq> SEG_GS" "unat SEG_FS < SEG_COUNT" "unat SEG_GS < SEG_COUNT"
    by (simp_all add: oracle_simps)
  have m: "IA32_FS_BASE \<noteq> IA32_EFER" "IA32_GS_BASE \<noteq> IA32_EFER" "IA32_GS_BASE \<noteq> IA32_FS_BASE"
    by (simp_all add: oracle_simps)
  show "\<exists>s'. op_set_seg_base (kvm_ops prof api) SEG_FS x s = Some s' \<and> kvm_ok api live accepts lay s' \<and>
      kvm_seg_base SEG_FS api s' = x \<and> kvm_seg_base SEG_GS api s' = kvm_seg_base SEG_GS api s"
    using fs ne by (auto simp: kvm_ops_def kvm_set_seg_base_def)
  show "\<exists>s'. op_set_seg_base (kvm_ops prof api) SEG_GS x s = Some s' \<and> kvm_ok api live accepts lay s' \<and>
      kvm_seg_base SEG_GS api s' = x \<and> kvm_seg_base SEG_FS api s' = kvm_seg_base SEG_FS api s"
    using gs ne by (auto simp: kvm_ops_def kvm_set_seg_base_def)
  show "\<exists>s'. op_set_msr (kvm_ops prof api) IA32_FS_BASE x s = Some s' \<and> kvm_ok api live accepts lay s' \<and>
      kvm_seg_base SEG_FS api s' = x \<and> kvm_seg_base SEG_GS api s' = kvm_seg_base SEG_GS api s"
    using fs ne m by (auto simp: kvm_ops_def kvm_set_msr_def)
  show "\<exists>s'. op_set_msr (kvm_ops prof api) IA32_GS_BASE x s = Some s' \<and> kvm_ok api live accepts lay s' \<and>
      kvm_seg_base SEG_GS api s' = x \<and> kvm_seg_base SEG_FS api s' = kvm_seg_base SEG_FS api s"
    using gs ne m by (auto simp: kvm_ops_def kvm_set_msr_def)
qed

end
