(* ===== verification/Whp_Api.thy ===== *)
theory Whp_Api
  imports Hw_Guest
begin

text \<open>
  The Windows Hypervisor Platform as \<open>src/whp.rs\<close> uses it: \<open>HRESULT\<close>s, register names and
  values, capabilities, properties and exits, the table of entry points, and \<open>load_whp\<close>.

  The DLL is a parameter: \<open>'w whp_api\<close> is the record of its entry points over a world \<open>'w\<close>
  that holds every partition of the process, each call naming its partition and returning an
  \<open>HRESULT\<close>. A call that fills a buffer returns what it wrote and the count it reports.
\<close>

section \<open>Results\<close>

type_synonym hresult = u32
type_synonym io_error = string

definition hr_ok :: "hresult \<Rightarrow> bool" where
  "hr_ok hr \<longleftrightarrow> 0 \<le> sint hr"

text \<open>\<open>{hr:#010x}\<close>: eight hexadecimal digits of the two's complement.\<close>

definition fmt_hr :: "hresult \<Rightarrow> string" where
  "fmt_hr hr = (let d = digits_in 16 (unat hr) in ''0x'' @ replicate (8 - length d) (CHR ''0'') @ d)"

definition check :: "string \<Rightarrow> hresult \<Rightarrow> io_error + unit" where
  "check what hr = (if hr_ok hr then Inr () else Inl (what @ '' failed: hr='' @ fmt_hr hr))"

section \<open>Registers\<close>

datatype reg_name =
    WRax | WRcx | WRdx | WRbx | WRsp | WRbp | WRsi | WRdi
  | WR8 | WR9 | WR10 | WR11 | WR12 | WR13 | WR14 | WR15
  | WRip | WRflags
  | WEs | WCs | WSs | WDs | WFs | WGs | WTr | WLdtr | WGdtr | WIdtr
  | WCr0 | WCr2 | WCr3 | WCr4 | WCr8 | WXCr0
  | WEfer | WKernelGsBase | WStar | WLstar | WSfmask

record whp_segment =
  wg_base :: u64
  wg_limit :: u32
  wg_selector :: u16
  wg_attributes :: u16

record whp_table =
  wt_limit :: u16
  wt_base :: u64

text \<open>
  \<open>WHV_REGISTER_VALUE\<close>, a union of sixteen bytes. The views the code reads: \<open>Reg64\<close> is the
  first eight bytes, which are \<open>Base\<close> of a segment and the padding and limit of a table.
\<close>

datatype reg_value = Reg64 u64 | Segment whp_segment | Table whp_table

fun as_reg64 :: "reg_value \<Rightarrow> u64" where
  "as_reg64 (Reg64 x) = x"
| "as_reg64 (Segment g) = wg_base g"
| "as_reg64 (Table t) = push_bit 48 (ucast (wt_limit t))"

fun as_segment :: "reg_value \<Rightarrow> whp_segment" where
  "as_segment (Segment g) = g"
| "as_segment (Reg64 x) = \<lparr>wg_base = x, wg_limit = 0, wg_selector = 0, wg_attributes = 0\<rparr>"
| "as_segment (Table t) =
     \<lparr>wg_base = push_bit 48 (ucast (wt_limit t)), wg_limit = ucast (wt_base t),
      wg_selector = ucast (drop_bit 32 (wt_base t)), wg_attributes = ucast (drop_bit 48 (wt_base t))\<rparr>"

definition whp_segment_value :: "u64 \<Rightarrow> u32 \<Rightarrow> u16 \<Rightarrow> u16 \<Rightarrow> whp_segment" where
  "whp_segment_value base limit selector attributes =
     \<lparr>wg_base = base, wg_limit = limit, wg_selector = selector, wg_attributes = attributes\<rparr>"

definition whp_table_value :: "u64 \<Rightarrow> u16 \<Rightarrow> whp_table" where
  "whp_table_value base limit = \<lparr>wt_limit = limit, wt_base = base\<rparr>"

definition GPR_NAMES :: "reg_name list" where
  "GPR_NAMES = [WRax, WRcx, WRdx, WRbx, WRsp, WRbp, WRsi, WRdi,
     WR8, WR9, WR10, WR11, WR12, WR13, WR14, WR15]"

definition ATTR_CODE64 :: u16 where "ATTR_CODE64 = 0xA09B"
definition ATTR_DATA :: u16 where "ATTR_DATA = 0xC093"
definition ATTR_TSS64 :: u16 where "ATTR_TSS64 = 0x008B"

definition EXTENDED_EXIT_EXCEPTION :: u64 where "EXTENDED_EXIT_EXCEPTION = push_bit 2 1"

definition WANTED_EXCEPTIONS :: u64 where
  "WANTED_EXCEPTIONS =
     foldr (\<lambda>v acc. push_bit v 1 OR acc) [0, 1, 3, 4, 5, 6, 7, 10, 11, 12, 13, 14, 16, 17, 19, 21] 0"

definition XCR0_X87_SSE :: u64 where "XCR0_X87_SSE = 3"
definition XCR0_AVX :: u64 where "XCR0_AVX = push_bit 2 1"
definition XCR0_AVX512 :: u64 where "XCR0_AVX512 = push_bit 5 1 OR push_bit 6 1 OR push_bit 7 1"
definition XCR0_OPTIONAL :: u64 where "XCR0_OPTIONAL = push_bit 3 1 OR push_bit 4 1 OR push_bit 9 1"

section \<open>The DLL\<close>

type_synonym whp_handle = nat

datatype whp_capability = CapHypervisorPresent | CapExceptionExitBitmap | CapExtendedVmExits | CapProcessorFeatures | CapXsaveFeatures

datatype whp_property =
    PropProcessorCount | PropProcessorFeatures | PropXsaveFeatures
  | PropExceptionExitBitmap | PropExtendedVmExits

text \<open>The exit reasons the code acts on, with the parts of the exit context it reads.\<close>

datatype whp_exit =
    ExitException u8 bool u32
  | ExitHalt u64
  | ExitCanceled
  | ExitMemoryAccess u64
  | ExitTripleFault
  | ExitOther u32

record 'w whp_api =
  wa_get_capability :: "whp_capability \<Rightarrow> nat \<Rightarrow> 'w \<Rightarrow> hresult \<times> u64 \<times> nat"
  wa_create_partition :: "'w \<Rightarrow> hresult \<times> whp_handle \<times> 'w"
  wa_setup_partition :: "whp_handle \<Rightarrow> 'w \<Rightarrow> hresult \<times> 'w"
  wa_delete_partition :: "whp_handle \<Rightarrow> 'w \<Rightarrow> hresult \<times> 'w"
  wa_set_property :: "whp_handle \<Rightarrow> whp_property \<Rightarrow> u64 \<Rightarrow> 'w \<Rightarrow> hresult \<times> 'w"
  wa_get_property :: "whp_handle \<Rightarrow> whp_property \<Rightarrow> 'w \<Rightarrow> hresult \<times> u64 \<times> nat"
  wa_map_gpa_range :: "whp_handle \<Rightarrow> u64 \<Rightarrow> u64 \<Rightarrow> 'w \<Rightarrow> hresult \<times> 'w"
  wa_unmap_gpa_range :: "whp_handle \<Rightarrow> u64 \<Rightarrow> u64 \<Rightarrow> 'w \<Rightarrow> hresult \<times> 'w"
  wa_create_vp :: "whp_handle \<Rightarrow> 'w \<Rightarrow> hresult \<times> 'w"
  wa_delete_vp :: "whp_handle \<Rightarrow> 'w \<Rightarrow> hresult \<times> 'w"
  wa_run_vp :: "whp_handle \<Rightarrow> 'w \<Rightarrow> guest_ram \<Rightarrow> hresult \<times> whp_exit \<times> 'w \<times> guest_ram"
  wa_get_registers :: "whp_handle \<Rightarrow> reg_name list \<Rightarrow> 'w \<Rightarrow> hresult \<times> reg_value list"
  wa_set_registers :: "whp_handle \<Rightarrow> reg_name list \<Rightarrow> reg_value list \<Rightarrow> 'w \<Rightarrow> hresult \<times> 'w"
  wa_get_xsave :: "whp_handle \<Rightarrow> nat \<Rightarrow> 'w \<Rightarrow> hresult \<times> u8 list \<times> nat"
  wa_set_xsave :: "whp_handle \<Rightarrow> u8 list \<Rightarrow> 'w \<Rightarrow> hresult \<times> 'w"
  wa_cpuid_output :: "(whp_handle \<Rightarrow> u32 \<Rightarrow> u32 \<Rightarrow> 'w \<Rightarrow> hresult \<times> cpuid_regs) option"

text \<open>
  \<open>load_whp\<close>: the exports found in the DLL, when it loads. All but the last are required.
\<close>

record 'w whp_exports =
  we_get_capability :: "(whp_capability \<Rightarrow> nat \<Rightarrow> 'w \<Rightarrow> hresult \<times> u64 \<times> nat) option"
  we_create_partition :: "('w \<Rightarrow> hresult \<times> whp_handle \<times> 'w) option"
  we_setup_partition :: "(whp_handle \<Rightarrow> 'w \<Rightarrow> hresult \<times> 'w) option"
  we_delete_partition :: "(whp_handle \<Rightarrow> 'w \<Rightarrow> hresult \<times> 'w) option"
  we_set_property :: "(whp_handle \<Rightarrow> whp_property \<Rightarrow> u64 \<Rightarrow> 'w \<Rightarrow> hresult \<times> 'w) option"
  we_get_property :: "(whp_handle \<Rightarrow> whp_property \<Rightarrow> 'w \<Rightarrow> hresult \<times> u64 \<times> nat) option"
  we_map_gpa_range :: "(whp_handle \<Rightarrow> u64 \<Rightarrow> u64 \<Rightarrow> 'w \<Rightarrow> hresult \<times> 'w) option"
  we_unmap_gpa_range :: "(whp_handle \<Rightarrow> u64 \<Rightarrow> u64 \<Rightarrow> 'w \<Rightarrow> hresult \<times> 'w) option"
  we_create_vp :: "(whp_handle \<Rightarrow> 'w \<Rightarrow> hresult \<times> 'w) option"
  we_delete_vp :: "(whp_handle \<Rightarrow> 'w \<Rightarrow> hresult \<times> 'w) option"
  we_run_vp :: "(whp_handle \<Rightarrow> 'w \<Rightarrow> guest_ram \<Rightarrow> hresult \<times> whp_exit \<times> 'w \<times> guest_ram) option"
  we_get_registers :: "(whp_handle \<Rightarrow> reg_name list \<Rightarrow> 'w \<Rightarrow> hresult \<times> reg_value list) option"
  we_set_registers :: "(whp_handle \<Rightarrow> reg_name list \<Rightarrow> reg_value list \<Rightarrow> 'w \<Rightarrow> hresult \<times> 'w) option"
  we_get_xsave :: "(whp_handle \<Rightarrow> nat \<Rightarrow> 'w \<Rightarrow> hresult \<times> u8 list \<times> nat) option"
  we_set_xsave :: "(whp_handle \<Rightarrow> u8 list \<Rightarrow> 'w \<Rightarrow> hresult \<times> 'w) option"
  we_cpuid_output :: "(whp_handle \<Rightarrow> u32 \<Rightarrow> u32 \<Rightarrow> 'w \<Rightarrow> hresult \<times> cpuid_regs) option"

definition load_whp :: "'w whp_exports option \<Rightarrow> 'w whp_api option" where
  "load_whp dll = do {
     m \<leftarrow> dll;
     get_capability \<leftarrow> we_get_capability m;
     create_partition \<leftarrow> we_create_partition m;
     setup_partition \<leftarrow> we_setup_partition m;
     delete_partition \<leftarrow> we_delete_partition m;
     set_prop \<leftarrow> we_set_property m;
     get_prop \<leftarrow> we_get_property m;
     map_gpa_range \<leftarrow> we_map_gpa_range m;
     unmap_gpa_range \<leftarrow> we_unmap_gpa_range m;
     create_vp \<leftarrow> we_create_vp m;
     delete_vp \<leftarrow> we_delete_vp m;
     run_vp \<leftarrow> we_run_vp m;
     get_registers \<leftarrow> we_get_registers m;
     set_registers \<leftarrow> we_set_registers m;
     get_xsave \<leftarrow> we_get_xsave m;
     set_xsave \<leftarrow> we_set_xsave m;
     Some \<lparr>wa_get_capability = get_capability, wa_create_partition = create_partition,
       wa_setup_partition = setup_partition, wa_delete_partition = delete_partition,
       wa_set_property = set_prop, wa_get_property = get_prop,
       wa_map_gpa_range = map_gpa_range, wa_unmap_gpa_range = unmap_gpa_range,
       wa_create_vp = create_vp, wa_delete_vp = delete_vp, wa_run_vp = run_vp,
       wa_get_registers = get_registers, wa_set_registers = set_registers,
       wa_get_xsave = get_xsave, wa_set_xsave = set_xsave,
       wa_cpuid_output = we_cpuid_output m\<rparr> }"

end
