(* ===== verification/Whp_Oracle.thy ===== *)
theory Whp_Oracle
  imports Whp_Api
begin

text \<open>
  The Windows Hypervisor Platform backend, \<open>src/whp.rs\<close>: \<open>WhpOracle\<close>, the process-wide slot
  of the one guest-RAM mapping WHP allows, and the implementation of \<open>X86Oracle\<close>.

  \<open>whp()\<close> itself, which loads the DLL once, is the \<open>option\<close> the constructors take; an oracle
  exists only when it is \<open>Some\<close>, so the methods take the record. A method acts on the process
  (world and mapping slot) together with the oracle it is called on. The static mutexes only
  serialise and keep no state beyond the slot.
\<close>

section \<open>The process and the oracle\<close>

text \<open>The process: the world and \<open>MAPPING_OWNER\<close>, the partition that holds the mapping.\<close>

record 'w whp_process =
  wp_world :: 'w
  wp_owner :: "whp_handle option"

record whp_oracle =
  wo_handle :: whp_handle
  wo_ram :: guest_ram
  wo_xsave :: xsave_layout
  wo_xsave_capacity :: nat
  wo_exception_intercept :: bool
  wo_last_fault :: "(u8 \<times> u64) option"
  wo_touched :: "u64 set"

record 'w whp_state =
  ws_proc :: "'w whp_process"
  ws_self :: whp_oracle

abbreviation world :: "'w whp_state \<Rightarrow> 'w" where
  "world s \<equiv> wp_world (ws_proc s)"

definition set_world :: "'w \<Rightarrow> 'w whp_state \<Rightarrow> 'w whp_state" where
  "set_world w s = s\<lparr>ws_proc := (ws_proc s)\<lparr>wp_world := w\<rparr>\<rparr>"

definition capability_u64 :: "'w whp_api \<Rightarrow> whp_capability \<Rightarrow> 'w \<Rightarrow> u64 option" where
  "capability_u64 api code w =
     (let (hr, value, written) = wa_get_capability api code 8 w in
      if hr_ok hr \<and> written = 8 then Some value else None)"

definition get_property_u64 :: "'w whp_api \<Rightarrow> whp_handle \<Rightarrow> whp_property \<Rightarrow> 'w \<Rightarrow> u64 option" where
  "get_property_u64 api h code w =
     (let (hr, value, written) = wa_get_property api h code w in
      if hr_ok hr \<and> written = 8 then Some value else None)"

definition set_property :: "'w whp_api \<Rightarrow> whp_handle \<Rightarrow> whp_property \<Rightarrow> u64 \<Rightarrow> 'w \<Rightarrow> (io_error + unit) \<times> 'w" where
  "set_property api h code value w =
     (let (hr, w) = wa_set_property api h code value w in (check ''WHvSetPartitionProperty'' hr, w))"

definition hypervisor_present :: "'w whp_api \<Rightarrow> 'w \<Rightarrow> bool" where
  "hypervisor_present api w =
     (let (hr, present, written) = wa_get_capability api CapHypervisorPresent 4 w in
      hr_ok hr \<and> (ucast present :: u32) \<noteq> 0)"

definition enable_exception_exits :: "'w whp_api \<Rightarrow> whp_handle \<Rightarrow> 'w \<Rightarrow> bool \<times> 'w" where
  "enable_exception_exits api h w =
     (let bitmap = WANTED_EXCEPTIONS AND
            (case capability_u64 api CapExceptionExitBitmap w of None \<Rightarrow> 0 | Some v \<Rightarrow> v) in
      if bitmap AND push_bit 1 1 = 0 then (False, w)
      else if (case capability_u64 api CapExtendedVmExits w of None \<Rightarrow> 0 | Some v \<Rightarrow> v)
              AND EXTENDED_EXIT_EXCEPTION = 0 then (False, w)
      else let (r, w) = set_property api h PropExtendedVmExits EXTENDED_EXIT_EXCEPTION w in
        if r \<noteq> Inr () then (False, w)
        else let (r, w) = set_property api h PropExceptionExitBitmap bitmap w in
          if r \<noteq> Inr () then (False, w)
          else (get_property_u64 api h PropExceptionExitBitmap w = Some bitmap, w))"

section \<open>The mapping slot\<close>

text \<open>
  \<open>claim_mapping\<close>: a no-op for the owner; otherwise the previous owner's range goes first, and
  the slot is empty until the new range is mapped.
\<close>

definition release_previous :: "'w whp_api \<Rightarrow> 'w whp_process \<Rightarrow> (io_error + unit) \<times> 'w whp_process" where
  "release_previous api p =
     (case wp_owner p of
        None \<Rightarrow> (Inr (), p)
      | Some previous \<Rightarrow>
          (let (hr, w) = wa_unmap_gpa_range api previous 0 RAM_SIZE (wp_world p) in
           case check ''WHvUnmapGpaRange'' hr of
             Inl e \<Rightarrow> (Inl e, p\<lparr>wp_world := w\<rparr>)
           | Inr _ \<Rightarrow> (Inr (), p\<lparr>wp_world := w, wp_owner := None\<rparr>)))"

definition claim_mapping :: "'w whp_api \<Rightarrow> whp_handle \<Rightarrow> 'w whp_process \<Rightarrow> (io_error + unit) \<times> 'w whp_process" where
  "claim_mapping api h p =
     (if wp_owner p = Some h then (Inr (), p)
      else (case release_previous api p of
          (Inl e, p) \<Rightarrow> (Inl e, p)
        | (Inr _, p) \<Rightarrow>
            (let (hr, w) = wa_map_gpa_range api h 0 RAM_SIZE (wp_world p) in
             case check ''WHvMapGpaRange'' hr of
               Inl e \<Rightarrow> (Inl e, p\<lparr>wp_world := w\<rparr>)
             | Inr _ \<Rightarrow> (Inr (), p\<lparr>wp_world := w, wp_owner := Some h\<rparr>))))"

text \<open>\<open>Drop for Partition\<close>: gives the slot up before the handle dies; errors are ignored.\<close>

definition drop_partition :: "'w whp_api \<Rightarrow> whp_handle \<Rightarrow> 'w whp_process \<Rightarrow> 'w whp_process" where
  "drop_partition api h p =
     (let p = (if wp_owner p = Some h
               then p\<lparr>wp_world := snd (wa_unmap_gpa_range api h 0 RAM_SIZE (wp_world p)), wp_owner := None\<rparr>
               else p);
          w = snd (wa_delete_vp api h (wp_world p))
      in p\<lparr>wp_world := snd (wa_delete_partition api h w)\<rparr>)"

section \<open>Register plumbing\<close>

definition whp_get_regs :: "profile \<Rightarrow> 'w whp_api \<Rightarrow> reg_name list \<Rightarrow> 'w whp_state \<Rightarrow> reg_value list panics" where
  "whp_get_regs prof api names s =
     (let (hr, values) = wa_get_registers api (wo_handle (ws_self s)) names (world s) in do {
        _ \<leftarrow> debug_assert prof (hr_ok hr);
        Some values })"

definition whp_set_regs ::
    "profile \<Rightarrow> 'w whp_api \<Rightarrow> reg_name list \<Rightarrow> reg_value list \<Rightarrow> 'w whp_state \<Rightarrow> (hresult \<times> 'w whp_state) panics" where
  "whp_set_regs prof api names values s = do {
     _ \<leftarrow> debug_assert prof (length names = length values);
     let (hr, w) = wa_set_registers api (wo_handle (ws_self s)) names values (world s);
     Some (hr, set_world w s) }"

definition whp_get_reg64 :: "profile \<Rightarrow> 'w whp_api \<Rightarrow> reg_name \<Rightarrow> 'w whp_state \<Rightarrow> u64 panics" where
  "whp_get_reg64 prof api name s = map_option (\<lambda>vs. as_reg64 (vs ! 0)) (whp_get_regs prof api [name] s)"

definition whp_set_reg64 ::
    "profile \<Rightarrow> 'w whp_api \<Rightarrow> reg_name \<Rightarrow> u64 \<Rightarrow> 'w whp_state \<Rightarrow> (hresult \<times> 'w whp_state) panics" where
  "whp_set_reg64 prof api name value = whp_set_regs prof api [name] [Reg64 value]"

definition whp_get_seg :: "profile \<Rightarrow> 'w whp_api \<Rightarrow> reg_name \<Rightarrow> 'w whp_state \<Rightarrow> whp_segment panics" where
  "whp_get_seg prof api name s = map_option (\<lambda>vs. as_segment (vs ! 0)) (whp_get_regs prof api [name] s)"

definition whp_set_seg ::
    "profile \<Rightarrow> 'w whp_api \<Rightarrow> reg_name \<Rightarrow> whp_segment \<Rightarrow> 'w whp_state \<Rightarrow> (hresult \<times> 'w whp_state) panics" where
  "whp_set_seg prof api name g = whp_set_regs prof api [name] [Segment g]"

definition whp_modify_seg ::
    "profile \<Rightarrow> 'w whp_api \<Rightarrow> reg_name \<Rightarrow> (whp_segment \<Rightarrow> whp_segment) \<Rightarrow> 'w whp_state \<Rightarrow> 'w whp_state panics" where
  "whp_modify_seg prof api name f s = do {
     g \<leftarrow> whp_get_seg prof api name s;
     map_option snd (whp_set_seg prof api name (f g) s) }"

definition seg_name :: "u32 \<Rightarrow> reg_name" where
  "seg_name n =
     (if n = SEG_ES then WEs else if n = SEG_CS then WCs else if n = SEG_SS then WSs
      else if n = SEG_DS then WDs else if n = SEG_FS then WFs else WGs)"

definition whp_cpuid :: "'w whp_api \<Rightarrow> cpuid \<Rightarrow> 'w whp_state \<Rightarrow> cpuid" where
  "whp_cpuid api host_cpuid s leaf subleaf =
     (case wa_cpuid_output api of
        None \<Rightarrow> host_cpuid leaf subleaf
      | Some f \<Rightarrow>
          let (hr, out) = f (wo_handle (ws_self s)) leaf subleaf (world s) in
          if hr_ok hr then out else host_cpuid leaf subleaf)"

section \<open>The XSAVE image\<close>

text \<open>
  \<open>XsaveImage\<close> is the buffer of whole 64-byte blocks and the length the platform reported; the
  code reads and writes the first \<open>len\<close> bytes only, so the image is the list of those.
\<close>

definition xsave_image_capacity :: "nat \<Rightarrow> nat" where
  "xsave_image_capacity capacity = (capacity + 63) div 64 * 64"

definition xsave_image_bytes :: "nat \<Rightarrow> u8 list \<Rightarrow> nat \<Rightarrow> u8 list" where
  "xsave_image_bytes cap filled written =
     take (min written cap) (take cap filled @ replicate (cap - length filled) 0)"

definition whp_read_xsave :: "'w whp_api \<Rightarrow> 'w whp_state \<Rightarrow> io_error + u8 list" where
  "whp_read_xsave api s =
     (let cap = xsave_image_capacity (wo_xsave_capacity (ws_self s));
          (hr, filled, written) = wa_get_xsave api (wo_handle (ws_self s)) (cap mod 2 ^ 32) (world s)
      in case check ''WHvGetVirtualProcessorXsaveState'' hr of
        Inl e \<Rightarrow> Inl e
      | Inr _ \<Rightarrow>
          (let img = xsave_image_bytes cap filled written in
           if length img < 576
           then Inl (''WHP returned a '' @ fmt_dec (length img) @ ''-byte XSAVE image, too short to contain one'')
           else Inr img))"

definition whp_write_xsave :: "'w whp_api \<Rightarrow> u8 list \<Rightarrow> 'w whp_state \<Rightarrow> (io_error + unit) \<times> 'w whp_state" where
  "whp_write_xsave api img s =
     (let (hr, w) = wa_set_xsave api (wo_handle (ws_self s)) img (world s)
      in (check ''WHvSetVirtualProcessorXsaveState'' hr, set_world w s))"

section \<open>Entering long mode\<close>

definition xcr0_want :: "u64 \<Rightarrow> u64" where
  "xcr0_want candidate =
     (let want = candidate OR XCR0_X87_SSE in
      if want AND XCR0_AVX512 \<noteq> XCR0_AVX512 \<or> want AND XCR0_AVX = 0
      then want AND NOT XCR0_AVX512 else want)"

definition xcr0_candidates :: "u64 \<Rightarrow> u64 list" where
  "xcr0_candidates host =
     [host,
      host AND NOT XCR0_OPTIONAL,
      XCR0_X87_SSE OR XCR0_AVX OR (host AND XCR0_AVX512),
      XCR0_X87_SSE OR (host AND XCR0_AVX),
      XCR0_X87_SSE]"

fun try_xcr0 :: "profile \<Rightarrow> 'w whp_api \<Rightarrow> u64 list \<Rightarrow> 'w whp_state \<Rightarrow> (u64 \<times> 'w whp_state) panics" where
  "try_xcr0 prof api [] s = Some (XCR0_X87_SSE, s)"
| "try_xcr0 prof api (candidate # rest) s = do {
     (hr, s) \<leftarrow> whp_set_reg64 prof api WXCr0 (xcr0_want candidate) s;
     if hr_ok hr then do {
       effective \<leftarrow> whp_get_reg64 prof api WXCr0 s;
       if effective AND XCR0_X87_SSE = XCR0_X87_SSE then Some (effective, s)
       else try_xcr0 prof api rest s }
     else try_xcr0 prof api rest s }"

definition whp_host_xcr0 :: "cpuid \<Rightarrow> u64" where
  "whp_host_xcr0 guest_cpuid =
     (let leaf = guest_cpuid 0x0D 0
      in push_bit 32 (ucast (cpuid_edx leaf)) OR ucast (cpuid_eax leaf))"

definition enable_widest_xcr0 ::
    "profile \<Rightarrow> 'w whp_api \<Rightarrow> cpuid \<Rightarrow> 'w whp_state \<Rightarrow> (u64 \<times> 'w whp_state) panics" where
  "enable_widest_xcr0 prof api host_cpuid s =
     try_xcr0 prof api (xcr0_candidates (whp_host_xcr0 (whp_cpuid api host_cpuid s))) s"

text \<open>\<open>check(what, self.set_..(..))\<close> on a register write.\<close>

definition checked :: "string \<Rightarrow> (hresult \<times> 'w whp_state) panics \<Rightarrow> ((io_error + unit) \<times> 'w whp_state) panics" where
  "checked what m = map_option (\<lambda>(hr, s). (check what hr, s)) m"

fun set_data_segments ::
    "profile \<Rightarrow> 'w whp_api \<Rightarrow> reg_name list \<Rightarrow> 'w whp_state \<Rightarrow> ((io_error + unit) \<times> 'w whp_state) panics" where
  "set_data_segments prof api [] s = Some (Inr (), s)"
| "set_data_segments prof api (name # rest) s =
     on_ok (checked ''set data segment''
       (whp_set_seg prof api name (whp_segment_value 0 0xFFFFFFFF SEL_DATA ATTR_DATA) s))
     (\<lambda>_. set_data_segments prof api rest)"

definition whp_reset_vectors ::
    "profile \<Rightarrow> 'w whp_api \<Rightarrow> cpuid \<Rightarrow> u64 \<Rightarrow> 'w whp_state \<Rightarrow> ((io_error + unit) \<times> 'w whp_state) panics" where
  "whp_reset_vectors prof api host_cpuid xcr0 s =
     (let leaf = whp_cpuid api host_cpuid s 0x0D 0;
          s = s\<lparr>ws_self := (ws_self s)\<lparr>wo_xsave_capacity := max (unat (cpuid_ecx leaf)) 4096\<rparr>\<rparr>
      in case whp_read_xsave api s of
        Inl e \<Rightarrow> Some (Inl e, s)
      | Inr img \<Rightarrow> do {
          xcomp \<leftarrow> xsave_xcomp_bv img;
          let layout = probe (whp_cpuid api host_cpuid s) xcr0 xcomp;
          let s = s\<lparr>ws_self := (ws_self s)\<lparr>wo_xsave := layout\<rparr>\<rparr>;
          img \<leftarrow> xsave_reset_vectors img layout;
          Some (whp_write_xsave api img s) })"

definition whp_enter_long_mode ::
    "profile \<Rightarrow> 'w whp_api \<Rightarrow> cpuid \<Rightarrow> 'w whp_state \<Rightarrow> ((io_error + unit) \<times> 'w whp_state) panics" where
  "whp_enter_long_mode prof api host_cpuid s =
     on_ok (checked ''set CR4'' (whp_set_reg64 prof api WCr4 CR4_INIT s)) (\<lambda>_ s.
     on_ok (checked ''set CR3'' (whp_set_reg64 prof api WCr3 PML4_ADDR s)) (\<lambda>_ s.
     on_ok (checked ''set EFER.LME'' (whp_set_reg64 prof api WEfer (EFER_INIT AND NOT (push_bit 10 1)) s)) (\<lambda>_ s.
     on_ok (checked ''set CR0.PG'' (whp_set_reg64 prof api WCr0 CR0_INIT s)) (\<lambda>_ s.
     on_ok (checked ''set EFER.LMA'' (whp_set_reg64 prof api WEfer EFER_INIT s)) (\<lambda>_ s.
     on_ok (set_data_segments prof api [WDs, WEs, WSs, WFs, WGs] s) (\<lambda>_ s.
     on_ok (checked ''set CS''
       (whp_set_seg prof api WCs (whp_segment_value 0 0xFFFFFFFF SEL_CODE64 ATTR_CODE64) s)) (\<lambda>_ s.
     on_ok (checked ''set TR''
       (whp_set_seg prof api WTr (whp_segment_value TSS_ADDR TSS_LIMIT SEL_TSS ATTR_TSS64) s)) (\<lambda>_ s.
     on_ok (checked ''set LDTR'' (whp_set_seg prof api WLdtr (whp_segment_value 0 0 0 0) s)) (\<lambda>_ s.
     on_ok (checked ''set GDTR''
       (whp_set_regs prof api [WGdtr] [Table (whp_table_value GDT_ADDR GDT_LIMIT)] s)) (\<lambda>_ s.
     on_ok (checked ''set IDTR''
       (whp_set_regs prof api [WIdtr] [Table (whp_table_value IDT_ADDR IDT_LIMIT)] s)) (\<lambda>_ s.
     Option.bind (enable_widest_xcr0 prof api host_cpuid s) (\<lambda>(xcr0, s).
     on_ok (checked ''zero registers''
       (whp_set_regs prof api (GPR_NAMES @ [WRip, WRflags])
          (replicate (length GPR_NAMES + 1) (Reg64 0) @ [Reg64 0x2]) s)) (\<lambda>_ s.
     whp_reset_vectors prof api host_cpuid xcr0 s)))))))))))))"

section \<open>Construction\<close>

definition whp_is_available :: "'w whp_api option \<Rightarrow> 'w \<Rightarrow> bool" where
  "whp_is_available lib w = (case lib of None \<Rightarrow> False | Some api \<Rightarrow> hypervisor_present api w)"

definition copy_capability :: "'w whp_api \<Rightarrow> whp_handle \<Rightarrow> whp_capability \<Rightarrow> whp_property \<Rightarrow> 'w \<Rightarrow> 'w" where
  "copy_capability api h cap prop w =
     (case capability_u64 api cap w of None \<Rightarrow> w | Some v \<Rightarrow> snd (set_property api h prop v w))"

text \<open>The setup call, retried without the intercepts when it fails with them.\<close>

definition setup_with_fallback :: "'w whp_api \<Rightarrow> whp_handle \<Rightarrow> 'w \<Rightarrow> hresult \<times> bool \<times> 'w" where
  "setup_with_fallback api h w =
     (let (exception_intercept, w) = enable_exception_exits api h w;
          (hr, w) = wa_setup_partition api h w
      in if \<not> hr_ok hr \<and> exception_intercept then
           (let w = snd (set_property api h PropExceptionExitBitmap 0 w);
                w = snd (set_property api h PropExtendedVmExits 0 w);
                (hr, w) = wa_setup_partition api h w
            in (hr, False, w))
         else (hr, exception_intercept, w))"

text \<open>\<open>try_new\<close> from the point where the \<open>Partition\<close> guard owns the handle.\<close>

definition whp_build ::
    "profile \<Rightarrow> 'w whp_api \<Rightarrow> (nat \<Rightarrow> io_error + unit) \<Rightarrow> cpuid \<Rightarrow> whp_handle \<Rightarrow> 'w whp_process \<Rightarrow>
     ((io_error + whp_oracle) \<times> 'w whp_process) panics" where
  "whp_build prof api host_alloc host_cpuid h p =
     (case set_property api h PropProcessorCount 1 (wp_world p) of
        (Inl e, w) \<Rightarrow> Some (Inl e, p\<lparr>wp_world := w\<rparr>)
      | (Inr _, w) \<Rightarrow>
          (let w = copy_capability api h CapProcessorFeatures PropProcessorFeatures w;
               w = copy_capability api h CapXsaveFeatures PropXsaveFeatures w;
               (hr, exception_intercept, w) = setup_with_fallback api h w
           in case check ''WHvSetupPartition'' hr of
             Inl e \<Rightarrow> Some (Inl e, p\<lparr>wp_world := w\<rparr>)
           | Inr _ \<Rightarrow> (case host_alloc (unat RAM_SIZE) of
             Inl e \<Rightarrow> Some (Inl e, p\<lparr>wp_world := w\<rparr>)
           | Inr _ \<Rightarrow>
               (let (hr, w) = wa_create_vp api h w in
                case check ''WHvCreateVirtualProcessor'' hr of
                  Inl e \<Rightarrow> Some (Inl e, p\<lparr>wp_world := w\<rparr>)
                | Inr _ \<Rightarrow>
                    (let ram = ram_new (unat RAM_SIZE);
                         oracle = \<lparr>wo_handle = h, wo_ram = ram, wo_xsave = probe host_cpuid 0 0,
                           wo_xsave_capacity = 0, wo_exception_intercept = exception_intercept,
                           wo_last_fault = None, wo_touched = {}\<rparr>
                     in case claim_mapping api h (p\<lparr>wp_world := w\<rparr>) of
                       (Inl e, p) \<Rightarrow> Some (Inl e, p)
                     | (Inr _, p) \<Rightarrow>
                         Option.bind (whp_enter_long_mode prof api host_cpuid
                           \<lparr>ws_proc = p, ws_self = oracle\<lparr>wo_ram := build_control_structures ram\<rparr>\<rparr>)
                         (\<lambda>(r, s). Some (case r of Inl e \<Rightarrow> Inl e | Inr _ \<Rightarrow> Inr (ws_self s), ws_proc s)))))))"

text \<open>\<open>try_new\<close>: an error after the handle exists drops the guard, which tears it down.\<close>

definition whp_try_new ::
    "profile \<Rightarrow> 'w whp_api option \<Rightarrow> (nat \<Rightarrow> io_error + unit) \<Rightarrow> cpuid \<Rightarrow> 'w whp_process \<Rightarrow>
     ((io_error + whp_oracle) \<times> 'w whp_process) panics" where
  "whp_try_new prof lib host_alloc host_cpuid p =
     (case lib of
        None \<Rightarrow> Some (Inl ''winhvplatform.dll could not be loaded (no WHP on this system)'', p)
      | Some api \<Rightarrow>
          if \<not> hypervisor_present api (wp_world p) then
            Some (Inl (''WHP reports no hypervisor present: enable the \"Windows Hypervisor Platform\" ''
              @ ''optional feature and hardware virtualization in firmware''), p)
          else
            (let (hr, h, w) = wa_create_partition api (wp_world p) in
             case check ''WHvCreatePartition'' hr of
               Inl e \<Rightarrow> Some (Inl e, p\<lparr>wp_world := w\<rparr>)
             | Inr _ \<Rightarrow>
                 Option.bind (whp_build prof api host_alloc host_cpuid h (p\<lparr>wp_world := w\<rparr>))
                 (\<lambda>(r, p). case r of
                     Inl e \<Rightarrow> Some (Inl e, drop_partition api h p)
                   | Inr oracle \<Rightarrow> Some (Inr oracle, p))))"

definition whp_new ::
    "profile \<Rightarrow> 'w whp_api option \<Rightarrow> (nat \<Rightarrow> io_error + unit) \<Rightarrow> cpuid \<Rightarrow> 'w whp_process \<Rightarrow>
     (whp_oracle \<times> 'w whp_process) panics" where
  "whp_new prof lib host_alloc host_cpuid p = do {
     (r, p) \<leftarrow> whp_try_new prof lib host_alloc host_cpuid p;
     oracle \<leftarrow> expect r;
     Some (oracle, p) }"

section \<open>Diagnostics\<close>

definition host_vector_width :: "'w whp_state \<Rightarrow> nat" where
  "host_vector_width s = vector_width (wo_xsave (ws_self s))"

definition uses_exception_intercepts :: "'w whp_state \<Rightarrow> bool" where
  "uses_exception_intercepts s = wo_exception_intercept (ws_self s)"

definition whp_last_vector :: "'w whp_state \<Rightarrow> u8 option" where
  "whp_last_vector s = map_option fst (wo_last_fault (ws_self s))"

definition whp_last_error_code :: "'w whp_state \<Rightarrow> u64 option" where
  "whp_last_error_code s =
     Option.bind (wo_last_fault (ws_self s)) (\<lambda>(v, e). if has_error_code v then Some e else None)"

definition fmt_bool :: "bool \<Rightarrow> string" where
  "fmt_bool b = (if b then ''true'' else ''false'')"

definition whp_debug_state :: "profile \<Rightarrow> 'w whp_api \<Rightarrow> 'w whp_state \<Rightarrow> string panics" where
  "whp_debug_state prof api s = do {
     cs \<leftarrow> whp_get_seg prof api WCs s;
     tr \<leftarrow> whp_get_seg prof api WTr s;
     cr0 \<leftarrow> whp_get_reg64 prof api WCr0 s;
     cr3 \<leftarrow> whp_get_reg64 prof api WCr3 s;
     cr4 \<leftarrow> whp_get_reg64 prof api WCr4 s;
     efer \<leftarrow> whp_get_reg64 prof api WEfer s;
     xcr0 \<leftarrow> whp_get_reg64 prof api WXCr0 s;
     rip \<leftarrow> whp_get_reg64 prof api WRip s;
     rflags \<leftarrow> whp_get_reg64 prof api WRflags s;
     Some (''cr0='' @ fmt_hex (unat cr0) @ '' cr3='' @ fmt_hex (unat cr3) @ '' cr4='' @ fmt_hex (unat cr4)
       @ '' efer='' @ fmt_hex (unat efer) @ '' xcr0='' @ fmt_hex (unat xcr0)
       @ '' cs{sel:'' @ fmt_hex (unat (wg_selector cs)) @ '' base:'' @ fmt_hex (unat (wg_base cs))
       @ '' attr:'' @ fmt_hex (unat (wg_attributes cs))
       @ ''} tr{sel:'' @ fmt_hex (unat (wg_selector tr)) @ '' base:'' @ fmt_hex (unat (wg_base tr))
       @ '' attr:'' @ fmt_hex (unat (wg_attributes tr))
       @ ''} rip='' @ fmt_hex (unat rip) @ '' rflags='' @ fmt_hex (unat rflags)
       @ '' intercepts='' @ fmt_bool (wo_exception_intercept (ws_self s))
       @ '' vector_width='' @ fmt_dec (vector_width (wo_xsave (ws_self s)))) }"

section \<open>Single-stepping and faults\<close>

definition whp_arm_singlestep :: "profile \<Rightarrow> 'w whp_api \<Rightarrow> 'w whp_state \<Rightarrow> (hresult \<times> 'w whp_state) panics" where
  "whp_arm_singlestep prof api s = do {
     rflags \<leftarrow> whp_get_reg64 prof api WRflags s;
     whp_set_reg64 prof api WRflags ((rflags OR FLAG_TF) AND NOT FLAG_RF) s }"

definition whp_disarm_singlestep :: "profile \<Rightarrow> 'w whp_api \<Rightarrow> 'w whp_state \<Rightarrow> 'w whp_state panics" where
  "whp_disarm_singlestep prof api s = do {
     rflags \<leftarrow> whp_get_reg64 prof api WRflags s;
     map_option snd (whp_set_reg64 prof api WRflags (rflags AND NOT (FLAG_TF OR FLAG_RF)) s) }"

definition whp_unwind_fault :: "profile \<Rightarrow> 'w whp_api \<Rightarrow> u8 \<Rightarrow> 'w whp_state \<Rightarrow> (u64 \<times> 'w whp_state) panics" where
  "whp_unwind_fault prof api vector s = do {
     handler_rsp \<leftarrow> whp_get_reg64 prof api WRsp s;
     frame \<leftarrow> unwind_frame prof (wo_ram (ws_self s)) handler_rsp vector;
     (_, s) \<leftarrow> whp_set_regs prof api [WRip, WRsp, WRflags]
       [Reg64 (uw_rip frame), Reg64 (uw_rsp frame), Reg64 (uw_rflags frame AND NOT (FLAG_TF OR FLAG_RF))] s;
     Some (uw_error_code frame, s) }"

definition whp_fault :: "u8 \<Rightarrow> u64 \<Rightarrow> 'w whp_state \<Rightarrow> step_outcome \<times> 'w whp_state" where
  "whp_fault vector error_code s =
     (Fault (classify vector) (fault_message vector error_code),
      s\<lparr>ws_self := (ws_self s)\<lparr>wo_last_fault := Some (vector, error_code)\<rparr>\<rparr>)"


section \<open>\<open>X86Oracle\<close> for \<open>WhpOracle\<close>\<close>

definition whp_vector_chunks :: "'w whp_state \<Rightarrow> nat" where
  "whp_vector_chunks s = vector_width (wo_xsave (ws_self s)) div 64"

definition whp_vector_regs :: "'w whp_state \<Rightarrow> nat" where
  "whp_vector_regs s = layout_vector_regs (wo_xsave (ws_self s))"

definition whp_set_gpr :: "profile \<Rightarrow> 'w whp_api \<Rightarrow> u32 \<Rightarrow> u64 \<Rightarrow> 'w whp_state \<Rightarrow> 'w whp_state panics" where
  "whp_set_gpr prof api n value s =
     map_option snd (whp_set_reg64 prof api (GPR_NAMES ! min (unat n) 15) value s)"

definition whp_get_gpr :: "profile \<Rightarrow> 'w whp_api \<Rightarrow> u32 \<Rightarrow> 'w whp_state \<Rightarrow> u64 panics" where
  "whp_get_gpr prof api n s = whp_get_reg64 prof api (GPR_NAMES ! min (unat n) 15) s"

definition whp_set_rip :: "profile \<Rightarrow> 'w whp_api \<Rightarrow> u64 \<Rightarrow> 'w whp_state \<Rightarrow> 'w whp_state panics" where
  "whp_set_rip prof api value s = map_option snd (whp_set_reg64 prof api WRip value s)"

definition whp_get_rip :: "profile \<Rightarrow> 'w whp_api \<Rightarrow> 'w whp_state \<Rightarrow> u64 panics" where
  "whp_get_rip prof api s = whp_get_reg64 prof api WRip s"

definition whp_set_rflags :: "profile \<Rightarrow> 'w whp_api \<Rightarrow> u64 \<Rightarrow> 'w whp_state \<Rightarrow> 'w whp_state panics" where
  "whp_set_rflags prof api value s =
     map_option snd (whp_set_reg64 prof api WRflags ((value AND NOT (FLAG_TF OR FLAG_RF)) OR 0x2) s)"

definition whp_get_rflags :: "profile \<Rightarrow> 'w whp_api \<Rightarrow> 'w whp_state \<Rightarrow> u64 panics" where
  "whp_get_rflags prof api s =
     map_option (\<lambda>r. r AND NOT (FLAG_TF OR FLAG_RF)) (whp_get_reg64 prof api WRflags s)"

definition whp_set_zmm ::
    "profile \<Rightarrow> 'w whp_api \<Rightarrow> u32 \<Rightarrow> u64 list \<Rightarrow> 'w whp_state \<Rightarrow> 'w whp_state panics" where
  "whp_set_zmm prof api n data s = do {
     _ \<leftarrow> debug_assert prof (unat n < ZMM_REGS);
     case whp_read_xsave api s of
       Inl _ \<Rightarrow> Some s
     | Inr img \<Rightarrow> do {
         img \<leftarrow> xsave_set_zmm img (wo_xsave (ws_self s)) n data;
         Some (snd (whp_write_xsave api img s)) } }"

definition whp_get_zmm :: "profile \<Rightarrow> 'w whp_api \<Rightarrow> u32 \<Rightarrow> 'w whp_state \<Rightarrow> u64 list panics" where
  "whp_get_zmm prof api n s = do {
     _ \<leftarrow> debug_assert prof (unat n < ZMM_REGS);
     case whp_read_xsave api s of
       Inl _ \<Rightarrow> Some (replicate ZMM_CHUNKS 0)
     | Inr img \<Rightarrow> xsave_get_zmm img (wo_xsave (ws_self s)) n }"

definition whp_set_msr :: "profile \<Rightarrow> 'w whp_api \<Rightarrow> u32 \<Rightarrow> u64 \<Rightarrow> 'w whp_state \<Rightarrow> 'w whp_state panics" where
  "whp_set_msr prof api msr value s =
     (if msr = IA32_EFER then map_option snd (whp_set_reg64 prof api WEfer value s)
      else if msr = IA32_FS_BASE then whp_modify_seg prof api WFs (\<lambda>g. g\<lparr>wg_base := value\<rparr>) s
      else if msr = IA32_GS_BASE then whp_modify_seg prof api WGs (\<lambda>g. g\<lparr>wg_base := value\<rparr>) s
      else if msr = IA32_KERNEL_GS_BASE then map_option snd (whp_set_reg64 prof api WKernelGsBase value s)
      else if msr = IA32_STAR then map_option snd (whp_set_reg64 prof api WStar value s)
      else if msr = IA32_LSTAR then map_option snd (whp_set_reg64 prof api WLstar value s)
      else if msr = IA32_FMASK then map_option snd (whp_set_reg64 prof api WSfmask value s)
      else Some s)"

definition whp_get_msr :: "profile \<Rightarrow> 'w whp_api \<Rightarrow> u32 \<Rightarrow> 'w whp_state \<Rightarrow> u64 panics" where
  "whp_get_msr prof api msr s =
     (if msr = IA32_EFER then whp_get_reg64 prof api WEfer s
      else if msr = IA32_FS_BASE then map_option wg_base (whp_get_seg prof api WFs s)
      else if msr = IA32_GS_BASE then map_option wg_base (whp_get_seg prof api WGs s)
      else if msr = IA32_KERNEL_GS_BASE then whp_get_reg64 prof api WKernelGsBase s
      else if msr = IA32_STAR then whp_get_reg64 prof api WStar s
      else if msr = IA32_LSTAR then whp_get_reg64 prof api WLstar s
      else if msr = IA32_FMASK then whp_get_reg64 prof api WSfmask s
      else Some 0)"

definition cr_name :: "u32 \<Rightarrow> reg_name option" where
  "cr_name n =
     (if n = 0 then Some WCr0 else if n = 2 then Some WCr2 else if n = 3 then Some WCr3
      else if n = 4 then Some WCr4 else if n = 8 then Some WCr8 else None)"

definition whp_set_cr :: "profile \<Rightarrow> 'w whp_api \<Rightarrow> u32 \<Rightarrow> u64 \<Rightarrow> 'w whp_state \<Rightarrow> 'w whp_state panics" where
  "whp_set_cr prof api n value s =
     (case cr_name n of None \<Rightarrow> Some s
      | Some name \<Rightarrow> map_option snd (whp_set_reg64 prof api name value s))"

definition whp_get_cr :: "profile \<Rightarrow> 'w whp_api \<Rightarrow> u32 \<Rightarrow> 'w whp_state \<Rightarrow> u64 panics" where
  "whp_get_cr prof api n s =
     (case cr_name n of None \<Rightarrow> Some 0 | Some name \<Rightarrow> whp_get_reg64 prof api name s)"

definition whp_set_seg_selector ::
    "profile \<Rightarrow> 'w whp_api \<Rightarrow> u32 \<Rightarrow> u16 \<Rightarrow> 'w whp_state \<Rightarrow> 'w whp_state panics" where
  "whp_set_seg_selector prof api n value s = do {
     _ \<leftarrow> debug_assert prof (unat n < SEG_COUNT);
     whp_modify_seg prof api (seg_name n) (\<lambda>g. g\<lparr>wg_selector := value\<rparr>) s }"

definition whp_get_seg_selector :: "profile \<Rightarrow> 'w whp_api \<Rightarrow> u32 \<Rightarrow> 'w whp_state \<Rightarrow> u16 panics" where
  "whp_get_seg_selector prof api n s = map_option wg_selector (whp_get_seg prof api (seg_name n) s)"

definition whp_set_seg_base ::
    "profile \<Rightarrow> 'w whp_api \<Rightarrow> u32 \<Rightarrow> u64 \<Rightarrow> 'w whp_state \<Rightarrow> 'w whp_state panics" where
  "whp_set_seg_base prof api n value s = do {
     _ \<leftarrow> debug_assert prof (unat n < SEG_COUNT);
     whp_modify_seg prof api (seg_name n) (\<lambda>g. g\<lparr>wg_base := value\<rparr>) s }"

definition whp_get_seg_base :: "profile \<Rightarrow> 'w whp_api \<Rightarrow> u32 \<Rightarrow> 'w whp_state \<Rightarrow> u64 panics" where
  "whp_get_seg_base prof api n s = map_option wg_base (whp_get_seg prof api (seg_name n) s)"

definition whp_set_seg_limit ::
    "profile \<Rightarrow> 'w whp_api \<Rightarrow> u32 \<Rightarrow> u32 \<Rightarrow> 'w whp_state \<Rightarrow> 'w whp_state panics" where
  "whp_set_seg_limit prof api n value s = whp_modify_seg prof api (seg_name n) (\<lambda>g. g\<lparr>wg_limit := value\<rparr>) s"

definition whp_get_seg_limit :: "profile \<Rightarrow> 'w whp_api \<Rightarrow> u32 \<Rightarrow> 'w whp_state \<Rightarrow> u32 panics" where
  "whp_get_seg_limit prof api n s = map_option wg_limit (whp_get_seg prof api (seg_name n) s)"

definition whp_read_mem_byte :: "u64 \<Rightarrow> 'w whp_state \<Rightarrow> u8 panics" where
  "whp_read_mem_byte addr s = Some (ram_read (wo_ram (ws_self s)) addr 1 ! 0)"

definition whp_write_mem_byte :: "u64 \<Rightarrow> u8 \<Rightarrow> 'w whp_state \<Rightarrow> 'w whp_state panics" where
  "whp_write_mem_byte addr byte s =
     Some (s\<lparr>ws_self := (ws_self s)\<lparr>wo_touched := insert (page_of addr) (wo_touched (ws_self s)),
                                   wo_ram := ram_write (wo_ram (ws_self s)) addr [byte]\<rparr>\<rparr>)"

definition whp_read_mem :: "u64 \<Rightarrow> nat \<Rightarrow> 'w whp_state \<Rightarrow> u8 list panics" where
  "whp_read_mem addr len s = Some (ram_read (wo_ram (ws_self s)) addr len)"

definition whp_write_mem :: "profile \<Rightarrow> u64 \<Rightarrow> u8 list \<Rightarrow> 'w whp_state \<Rightarrow> 'w whp_state panics" where
  "whp_write_mem prof addr data s = do {
     e \<leftarrow> add_u64 prof addr (of_nat (length data));
     Some (s\<lparr>ws_self := (ws_self s)
       \<lparr>wo_touched := touch_range (page_of addr) (page_of e) (wo_touched (ws_self s)),
        wo_ram := ram_write (wo_ram (ws_self s)) addr data\<rparr>\<rparr>) }"

definition whp_is_mapped :: "u64 \<Rightarrow> 'w whp_state \<Rightarrow> bool" where
  "whp_is_mapped addr s \<longleftrightarrow> page_of addr \<in> wo_touched (ws_self s)"

definition whp_fault_msg :: "'w whp_state \<Rightarrow> string" where
  "whp_fault_msg s =
     (case wo_last_fault (ws_self s) of None \<Rightarrow> '''' | Some (v, e) \<Rightarrow> fault_message v e)"


text \<open>The arms of the exit match, and the loop around them; the first argument counts passes left.\<close>

definition whp_on_exception ::
    "profile \<Rightarrow> 'w whp_api \<Rightarrow> u8 \<Rightarrow> bool \<Rightarrow> u32 \<Rightarrow> 'w whp_state \<Rightarrow> (step_outcome \<times> 'w whp_state) panics" where
  "whp_on_exception prof api exception_type has_code error_code s = do {
     s \<leftarrow> whp_disarm_singlestep prof api s;
     if exception_type = 1 then Some (Retired, s)
     else Some (whp_fault exception_type (if has_code then ucast error_code else 0) s) }"

definition whp_on_halt ::
    "profile \<Rightarrow> 'w whp_api \<Rightarrow> u64 \<Rightarrow> 'w whp_state \<Rightarrow> (step_outcome \<times> 'w whp_state) panics" where
  "whp_on_halt prof api rip s =
     (case stub_vector rip of
        Some vector \<Rightarrow>
          if vector = 1 then map_option (\<lambda>(_, s). (Retired, s)) (whp_unwind_fault prof api 1 s)
          else map_option (\<lambda>(error, s). whp_fault vector error s) (whp_unwind_fault prof api vector s)
      | None \<Rightarrow> map_option (\<lambda>s. (Retired, s)) (whp_disarm_singlestep prof api s))"

fun whp_run_loop ::
    "nat \<Rightarrow> profile \<Rightarrow> 'w whp_api \<Rightarrow> 'w whp_state \<Rightarrow> (step_outcome \<times> 'w whp_state) panics" where
  "whp_run_loop 0 prof api s =
     Some (Fault OtherException ''WHvRunVirtualProcessor did not make progress'', s)"
| "whp_run_loop (Suc k) prof api s =
     (let (hr, exit, w, ram) = wa_run_vp api (wo_handle (ws_self s)) (world s) (wo_ram (ws_self s));
          s = (set_world w s)\<lparr>ws_self := (ws_self s)\<lparr>wo_ram := ram\<rparr>\<rparr>
      in if \<not> hr_ok hr then
           Some (Fault OtherException (''WHvRunVirtualProcessor failed: hr='' @ fmt_hr hr), s)
         else (case exit of
           ExitException exception_type has_code error_code \<Rightarrow>
             whp_on_exception prof api exception_type has_code error_code s
         | ExitHalt rip \<Rightarrow> whp_on_halt prof api rip s
         | ExitCanceled \<Rightarrow> whp_run_loop k prof api s
         | ExitMemoryAccess gpa \<Rightarrow>
             Some (Fault PageFault (''access outside guest RAM at '' @ fmt_hex (unat gpa)), s)
         | ExitTripleFault \<Rightarrow>
             Some (Fault OtherException
               ''guest triple fault (WHvRunVpExitReasonUnrecoverableException)'', s)
         | ExitOther other \<Rightarrow>
             Some (Fault OtherException (''unexpected WHP exit reason '' @ fmt_hex (unat other)), s)))"

definition whp_step :: "profile \<Rightarrow> 'w whp_api \<Rightarrow> 'w whp_state \<Rightarrow> (step_outcome \<times> 'w whp_state) panics" where
  "whp_step prof api s =
     (let s = s\<lparr>ws_self := (ws_self s)\<lparr>wo_last_fault := None\<rparr>\<rparr> in
      case claim_mapping api (wo_handle (ws_self s)) (ws_proc s) of
        (Inl e, p) \<Rightarrow>
          Some (Fault OtherException (''could not map guest RAM: '' @ e), s\<lparr>ws_proc := p\<rparr>)
      | (Inr _, p) \<Rightarrow>
          Option.bind (whp_arm_singlestep prof api (s\<lparr>ws_proc := p\<rparr>)) (\<lambda>(hr, s).
            if \<not> hr_ok hr then
              Some (Fault OtherException (''could not arm single-stepping: hr='' @ fmt_hr hr), s)
            else whp_run_loop 64 prof api s))"

definition whp_ops :: "profile \<Rightarrow> 'w whp_api \<Rightarrow> 'w whp_state oracle_ops" where
  "whp_ops prof api =
     \<lparr>op_backend_name = (\<lambda>_. ''whp''),
      op_set_gpr = whp_set_gpr prof api, op_get_gpr = whp_get_gpr prof api,
      op_set_rip = whp_set_rip prof api, op_get_rip = whp_get_rip prof api,
      op_set_rflags = whp_set_rflags prof api, op_get_rflags = whp_get_rflags prof api,
      op_set_zmm = whp_set_zmm prof api, op_get_zmm = whp_get_zmm prof api,
      op_vector_chunks = whp_vector_chunks, op_vector_regs = whp_vector_regs,
      op_set_msr = whp_set_msr prof api, op_get_msr = whp_get_msr prof api,
      op_set_cr = whp_set_cr prof api, op_get_cr = whp_get_cr prof api,
      op_enable_shadow_stack = default_enable_shadow_stack,
      op_set_ssp = default_set_ssp, op_get_ssp = default_get_ssp,
      op_set_seg_selector = whp_set_seg_selector prof api,
      op_get_seg_selector = whp_get_seg_selector prof api,
      op_set_seg_base = whp_set_seg_base prof api, op_get_seg_base = whp_get_seg_base prof api,
      op_set_seg_limit = whp_set_seg_limit prof api, op_get_seg_limit = whp_get_seg_limit prof api,
      op_read_mem_byte = whp_read_mem_byte, op_write_mem_byte = whp_write_mem_byte,
      op_read_mem = whp_read_mem, op_write_mem = whp_write_mem prof,
      op_is_mapped = whp_is_mapped, op_step = whp_step prof api,
      op_fault_msg = (\<lambda>s. Some (whp_fault_msg s))\<rparr>"

end
