(* ===== verification/Whp_Contract.thy ===== *)
theory Whp_Contract
  imports Whp_Oracle
begin

text \<open>
  What the code relies on of a partition's registers and XSAVE state, and the three contracts of
  \<open>Oracle_Trait\<close>, interpreted on the methods of \<open>WhpOracle\<close>.

  \<open>'w whp_guest\<close> ns what a proof is about: the partitions that serve calls (\<open>wh_live\<close>), the
  register writes the platform accepts in a given register file (\<open>wh_accepts\<close>), and the layout,
  length and buffer capacity of the XSAVE images.
\<close>

section \<open>The register file and the image of a partition\<close>

record 'w whp_guest =
  wh_live :: "whp_handle \<Rightarrow> 'w \<Rightarrow> bool"
  wh_accepts :: "(reg_name \<Rightarrow> reg_value) \<Rightarrow> reg_name list \<Rightarrow> reg_value list \<Rightarrow> bool"
  wh_layout :: xsave_layout
  wh_len :: nat
  wh_capacity :: nat

definition reg_in :: "'w whp_api \<Rightarrow> whp_handle \<Rightarrow> 'w \<Rightarrow> reg_name \<Rightarrow> reg_value" where
  "reg_in api h w n = hd (snd (wa_get_registers api h [n] w))"

definition image_in :: "'w whp_api \<Rightarrow> nat \<Rightarrow> whp_handle \<Rightarrow> 'w \<Rightarrow> u8 list" where
  "image_in api cap h w = fst (snd (wa_get_xsave api h (xsave_image_capacity cap) w))"

text \<open>RFLAGS reads back with its fixed bit; every other register as it was set.\<close>

definition stored :: "reg_name \<Rightarrow> reg_value \<Rightarrow> reg_value" where
  "stored n v = (if n = WRflags then Reg64 (as_reg64 v OR 2) else v)"

fun written :: "reg_name list \<Rightarrow> reg_value list \<Rightarrow> (reg_name \<Rightarrow> reg_value) \<Rightarrow> reg_name \<Rightarrow> reg_value" where
  "written (n # ns) (v # vs) f = written ns vs (f(n := stored n v))"
| "written _ _ f = f"

definition program_regs :: "reg_name set" where
  "program_regs = insert WRip (insert WRflags (set GPR_NAMES))"

section \<open>The platform's laws\<close>

definition whp_read_law :: "'w whp_api \<Rightarrow> 'w whp_guest \<Rightarrow> bool" where
  "whp_read_law api G \<longleftrightarrow>
     (\<forall>h w ns. wh_live G h w \<longrightarrow> hr_ok (fst (wa_get_registers api h ns w)) \<and>
        snd (wa_get_registers api h ns w) = map (reg_in api h w) ns) \<and>
     (\<forall>h w. wh_live G h w \<longrightarrow> bit (as_reg64 (reg_in api h w WRflags)) 1)"

definition whp_write_law :: "'w whp_api \<Rightarrow> 'w whp_guest \<Rightarrow> bool" where
  "whp_write_law api G \<longleftrightarrow>
     (\<forall>h w ns vs. wh_live G h w \<and> length ns = length vs \<and> wh_accepts G (reg_in api h w) ns vs \<longrightarrow>
        (case wa_set_registers api h ns vs w of (hr, w') \<Rightarrow>
           hr_ok hr \<and> wh_live G h w' \<and> reg_in api h w' = written ns vs (reg_in api h w) \<and>
           wa_get_xsave api h (xsave_image_capacity (wh_capacity G)) w' =
             wa_get_xsave api h (xsave_image_capacity (wh_capacity G)) w))"

definition whp_accepts_law :: "'w whp_guest \<Rightarrow> bool" where
  "whp_accepts_law G \<longleftrightarrow>
     (\<forall>f n x. n \<in> program_regs \<longrightarrow> wh_accepts G f [n] [Reg64 x]) \<and>
     (\<forall>f x y z. wh_accepts G f [WRip, WRsp, WRflags] [Reg64 x, Reg64 y, Reg64 z]) \<and>
     (\<forall>f b. wh_accepts G f [WFs] [Segment ((as_segment (f WFs))\<lparr>wg_base := b\<rparr>)]) \<and>
     (\<forall>f b. wh_accepts G f [WGs] [Segment ((as_segment (f WGs))\<lparr>wg_base := b\<rparr>)])"

definition whp_xsave_law :: "'w whp_api \<Rightarrow> 'w whp_guest \<Rightarrow> bool" where
  "whp_xsave_law api G \<longleftrightarrow>
     layout_ok (wh_len G) (wh_layout G) \<and> 576 \<le> wh_len G \<and>
     wh_len G \<le> xsave_image_capacity (wh_capacity G) \<and> xsave_image_capacity (wh_capacity G) < 2 ^ 32 \<and>
     (\<forall>h w. wh_live G h w \<longrightarrow>
        (\<exists>hr b. wa_get_xsave api h (xsave_image_capacity (wh_capacity G)) w = (hr, b, wh_len G) \<and> hr_ok hr \<and>
           length b = wh_len G \<and> settled b (wh_layout G))) \<and>
     (\<forall>h w n d b. wh_live G h w \<and> unat n < 32 \<and>
        xsave_set_zmm (image_in api (wh_capacity G) h w) (wh_layout G) n d = Some b \<longrightarrow>
        (case wa_set_xsave api h b w of (hr, w') \<Rightarrow> hr_ok hr \<and> wh_live G h w' \<and>
           reg_in api h w' = reg_in api h w \<and>
           (\<forall>m<32. \<forall>i<8. xrstor_chunk (image_in api (wh_capacity G) h w') (wh_layout G) m i =
              xrstor_chunk b (wh_layout G) m i)))"

definition whp_guest_laws :: "'w whp_api \<Rightarrow> 'w whp_guest \<Rightarrow> bool" where
  "whp_guest_laws api G \<longleftrightarrow> whp_read_law api G \<and> whp_write_law api G \<and> whp_accepts_law G \<and> whp_xsave_law api G"

section \<open>The state an oracle shows\<close>

definition whp_regs :: "'w whp_api \<Rightarrow> 'w whp_state \<Rightarrow> reg_name \<Rightarrow> reg_value" where
  "whp_regs api s = reg_in api (wo_handle (ws_self s)) (world s)"

definition whp_image :: "'w whp_api \<Rightarrow> 'w whp_guest \<Rightarrow> 'w whp_state \<Rightarrow> u8 list" where
  "whp_image api G s = image_in api (wh_capacity G) (wo_handle (ws_self s)) (world s)"

definition whp_view :: "'w whp_api \<Rightarrow> 'w whp_guest \<Rightarrow> 'w whp_state \<Rightarrow> cpu_state" where
  "whp_view api G s =
     \<lparr>cs_gpr = map (\<lambda>n. as_reg64 (whp_regs api s n)) GPR_NAMES,
      cs_rip = as_reg64 (whp_regs api s WRip),
      cs_rflags = as_reg64 (whp_regs api s WRflags) AND NOT STEP_FLAGS,
      cs_zmm = zmm_values (wh_len G) (wh_layout G) (whp_image api G s)\<rparr>"

definition whp_serving :: "'w whp_api \<Rightarrow> 'w whp_guest \<Rightarrow> 'w whp_state \<Rightarrow> bool" where
  "whp_serving api G s \<longleftrightarrow> whp_guest_laws api G \<and> wh_live G (wo_handle (ws_self s)) (world s)"

definition whp_ok :: "'w whp_api \<Rightarrow> 'w whp_guest \<Rightarrow> 'w whp_state \<Rightarrow> bool" where
  "whp_ok api G s \<longleftrightarrow> whp_guest_laws api G \<and> wh_live G (wo_handle (ws_self s)) (world s) \<and>
     wo_xsave (ws_self s) = wh_layout G \<and> wo_xsave_capacity (ws_self s) = wh_capacity G \<and>
     ram_ok (wo_ram (ws_self s)) \<and> ram_len (wo_ram (ws_self s)) = unat RAM_SIZE"

lemma whp_ok_serving: "whp_ok api G s \<Longrightarrow> whp_serving api G s"
  by (simp add: whp_ok_def whp_serving_def)

lemma whp_servingD:
  assumes "whp_serving api G s"
  shows "whp_read_law api G" and "whp_write_law api G" and "whp_accepts_law G" and "whp_xsave_law api G"
    and "wh_live G (wo_handle (ws_self s)) (world s)"
  using assms by (simp_all add: whp_serving_def whp_guest_laws_def)

lemma whp_okD:
  assumes "whp_ok api G s"
  shows "whp_read_law api G" and "whp_write_law api G" and "whp_accepts_law G" and "whp_xsave_law api G"
    and "wh_live G (wo_handle (ws_self s)) (world s)" and "wo_xsave (ws_self s) = wh_layout G"
    and "wo_xsave_capacity (ws_self s) = wh_capacity G" and "ram_ok (wo_ram (ws_self s))"
    and "ram_len (wo_ram (ws_self s)) = unat RAM_SIZE"
  using assms by (simp_all add: whp_ok_def whp_guest_laws_def)

lemma whp_layout_ok: "whp_ok api G s \<Longrightarrow> layout_ok (wh_len G) (wh_layout G)"
  by (drule whp_okD(4)) (simp add: whp_xsave_law_def)

section \<open>Consequences of the laws\<close>

lemma set_world_simps [simp]:
  "world (set_world w s) = w" "ws_self (set_world w s) = ws_self s"
  "wp_owner (ws_proc (set_world w s)) = wp_owner (ws_proc s)"
  by (simp_all add: set_world_def)

lemma read_law:
  assumes "whp_read_law api G" and "wh_live G h w"
  shows "hr_ok (fst (wa_get_registers api h ns w))"
    and "snd (wa_get_registers api h ns w) = map (reg_in api h w) ns"
  using assms by (simp_all add: whp_read_law_def)

lemma write_law:
  assumes "whp_write_law api G" and "wh_live G h w"
    and "length ns = length vs" and "wh_accepts G (reg_in api h w) ns vs"
    and "wa_set_registers api h ns vs w = (hr, w')"
  shows "hr_ok hr" and "wh_live G h w'" and "reg_in api h w' = written ns vs (reg_in api h w)"
    and "image_in api (wh_capacity G) h w' = image_in api (wh_capacity G) h w"
  using assms(1) [unfolded whp_write_law_def, rule_format, of h w ns vs] assms(2-5)
  by (simp_all add: image_in_def)

lemma whp_rflags_fixed: "whp_ok api G s \<Longrightarrow> bit (as_reg64 (whp_regs api s WRflags)) 1"
  by (simp add: whp_ok_def whp_guest_laws_def whp_read_law_def whp_regs_def)

lemma xsave_got:
  assumes "whp_xsave_law api G" and "wh_live G h w"
  obtains hr b where "wa_get_xsave api h (xsave_image_capacity (wh_capacity G)) w = (hr, b, wh_len G)" and "hr_ok hr"
    and "length b = wh_len G" and "settled b (wh_layout G)" and "image_in api (wh_capacity G) h w = b"
proof -
  have "\<exists>hr b. wa_get_xsave api h (xsave_image_capacity (wh_capacity G)) w = (hr, b, wh_len G) \<and> hr_ok hr \<and>
      length b = wh_len G \<and> settled b (wh_layout G)"
    using assms by (simp add: whp_xsave_law_def)
  then show thesis using that by (auto simp: image_in_def)
qed

lemma serving_get:
  assumes "whp_serving api G s"
  shows "whp_get_regs prof api ns s = Some (map (whp_regs api s) ns)"
  using read_law [OF whp_servingD(1,5) [OF assms], of ns]
  by (cases "wa_get_registers api (wo_handle (ws_self s)) ns (world s)")
     (simp add: whp_get_regs_def whp_regs_def)

lemma whp_get_reg:
  assumes "whp_ok api G s"
  shows "whp_get_reg64 prof api n s = Some (as_reg64 (whp_regs api s n))"
    and "whp_get_seg prof api n s = Some (as_segment (whp_regs api s n))"
  by (simp_all add: whp_get_reg64_def whp_get_seg_def serving_get [OF whp_ok_serving [OF assms]])

lemma serving_set:
  assumes "whp_serving api G s" and "length ns = length vs" and "wh_accepts G (whp_regs api s) ns vs"
  obtains hr s' where "whp_set_regs prof api ns vs s = Some (hr, s')" and "hr_ok hr" and "whp_serving api G s'"
    and "whp_regs api s' = written ns vs (whp_regs api s)"
    and "whp_image api G s' = whp_image api G s" and "ws_self s' = ws_self s"
    and "wp_owner (ws_proc s') = wp_owner (ws_proc s)"
proof -
  obtain hr w where w: "wa_set_registers api (wo_handle (ws_self s)) ns vs (world s) = (hr, w)"
    by (metis surj_pair)
  note law = write_law [OF whp_servingD(2,5) [OF assms(1)] assms(2) assms(3) [unfolded whp_regs_def] w]
  show thesis
    by (rule that [of hr "set_world w s"])
       (use assms(1,2) law w in \<open>simp_all add: whp_set_regs_def whp_serving_def whp_regs_def whp_image_def\<close>)
qed

lemma whp_set:
  assumes "whp_ok api G s" and "length ns = length vs" and "wh_accepts G (whp_regs api s) ns vs"
  obtains hr s' where "whp_set_regs prof api ns vs s = Some (hr, s')" and "hr_ok hr" and "whp_ok api G s'"
    and "whp_regs api s' = written ns vs (whp_regs api s)"
    and "whp_image api G s' = whp_image api G s" and "ws_self s' = ws_self s"
    and "wp_owner (ws_proc s') = wp_owner (ws_proc s)"
proof -
  obtain hr s' where s': "whp_set_regs prof api ns vs s = Some (hr, s')" "hr_ok hr" "whp_serving api G s'"
    "whp_regs api s' = written ns vs (whp_regs api s)" "whp_image api G s' = whp_image api G s"
    "ws_self s' = ws_self s" "wp_owner (ws_proc s') = wp_owner (ws_proc s)"
    by (rule serving_set [OF whp_ok_serving [OF assms(1)] assms(2,3), of prof])
  with assms(1) have "whp_ok api G s'" by (simp add: whp_ok_def whp_serving_def)
  with s' that show thesis by blast
qed

lemma whp_set_reg:
  assumes "whp_ok api G s" and "wh_accepts G (whp_regs api s) [n] [v]"
  obtains hr s' where "whp_set_regs prof api [n] [v] s = Some (hr, s')" and "hr_ok hr" and "whp_ok api G s'"
    and "whp_regs api s' = (whp_regs api s)(n := stored n v)"
    and "whp_image api G s' = whp_image api G s" and "ws_self s' = ws_self s"
    and "wp_owner (ws_proc s') = wp_owner (ws_proc s)"
  using whp_set [OF assms(1) _ assms(2), of prof] by simp metis

lemma accepts_program:
  "whp_ok api G s \<Longrightarrow> n \<in> program_regs \<Longrightarrow> wh_accepts G f [n] [Reg64 x]"
  using whp_okD(3) unfolding whp_accepts_law_def by blast

lemma serving_image:
  assumes "whp_serving api G s"
  shows "length (whp_image api G s) = wh_len G" and "settled (whp_image api G s) (wh_layout G)"
  using xsave_got [OF whp_servingD(4,5) [OF assms]] unfolding whp_image_def by metis+

lemmas whp_image_length = serving_image [OF whp_ok_serving]

lemma serving_read_image:
  assumes "whp_serving api G s" and "wo_xsave_capacity (ws_self s) = wh_capacity G"
  shows "whp_read_xsave api s = Inr (whp_image api G s)"
proof -
  obtain hr b where b: "wa_get_xsave api (wo_handle (ws_self s)) (xsave_image_capacity (wh_capacity G)) (world s) = (hr, b, wh_len G)"
    "hr_ok hr" "length b = wh_len G" "whp_image api G s = b"
    using xsave_got [OF whp_servingD(4,5) [OF assms(1)]] unfolding whp_image_def by metis
  have len: "576 \<le> wh_len G" "wh_len G \<le> xsave_image_capacity (wh_capacity G)"
    "xsave_image_capacity (wh_capacity G) < 2 ^ 32"
    using whp_servingD(4) [OF assms(1)] by (simp_all add: whp_xsave_law_def)
  have "xsave_image_bytes (xsave_image_capacity (wh_capacity G)) b (wh_len G) = b"
    using b(3) len by (simp add: xsave_image_bytes_def)
  with b len show ?thesis
    by (simp add: whp_read_xsave_def Let_def assms(2) check_def)
qed

lemma whp_read_image: "whp_ok api G s \<Longrightarrow> whp_read_xsave api s = Inr (whp_image api G s)"
  by (rule serving_read_image [OF whp_ok_serving]) (simp_all add: whp_ok_def)

section \<open>The register contract\<close>

lemma gpr_name: "n < 16 \<Longrightarrow> GPR_NAMES ! min (unat (of_nat n :: u32)) 15 = GPR_NAMES ! n"
  by (simp add: unat_of_nat_u32)

lemma length_GPR_NAMES [simp]: "length GPR_NAMES = 16"
  by (simp add: GPR_NAMES_def)

lemma distinct_GPR_NAMES: "distinct GPR_NAMES"
  by (simp add: GPR_NAMES_def)

lemma gpr_not_special: "WRip \<notin> set GPR_NAMES" "WRflags \<notin> set GPR_NAMES"
  by (simp_all add: GPR_NAMES_def)

lemma gpr_program: "n < 16 \<Longrightarrow> GPR_NAMES ! n \<in> program_regs"
  by (simp add: program_regs_def)

lemma as_reg64_stored [simp]: "n \<noteq> WRflags \<Longrightarrow> stored n v = v"
  by (simp add: stored_def)

lemma gpr_view_update:
  assumes "n < 16"
  shows "map (\<lambda>m. as_reg64 ((f(GPR_NAMES ! n := Reg64 v)) m)) GPR_NAMES =
    (map (\<lambda>m. as_reg64 (f m)) GPR_NAMES)[n := v]"
proof (rule nth_equalityI)
  fix i assume "i < length (map (\<lambda>m. as_reg64 ((f(GPR_NAMES ! n := Reg64 v)) m)) GPR_NAMES)"
  then have i: "i < 16" by simp
  with assms have "GPR_NAMES ! i = GPR_NAMES ! n \<longleftrightarrow> i = n"
    by (simp add: nth_eq_iff_index_eq distinct_GPR_NAMES)
  with i assms show "map (\<lambda>m. as_reg64 ((f(GPR_NAMES ! n := Reg64 v)) m)) GPR_NAMES ! i =
      (map (\<lambda>m. as_reg64 (f m)) GPR_NAMES)[n := v] ! i"
    by (simp add: nth_list_update)
qed simp

lemma gpr_view_other:
  "x \<notin> set GPR_NAMES \<Longrightarrow> map (\<lambda>m. as_reg64 ((f(x := v)) m)) GPR_NAMES = map (\<lambda>m. as_reg64 (f m)) GPR_NAMES"
  by (rule map_cong) auto

text \<open>One 64-bit register of the program, set.\<close>

lemma whp_set_program_reg:
  assumes "whp_ok api G s" and "n \<in> program_regs"
  shows "\<exists>s'. map_option snd (whp_set_reg64 prof api n v s) = Some s' \<and> whp_ok api G s' \<and>
    whp_regs api s' = (whp_regs api s)(n := stored n (Reg64 v)) \<and> whp_image api G s' = whp_image api G s"
proof -
  obtain hr s' where "whp_set_regs prof api [n] [Reg64 v] s = Some (hr, s')" "whp_ok api G s'"
    "whp_regs api s' = (whp_regs api s)(n := stored n (Reg64 v))" "whp_image api G s' = whp_image api G s"
    by (rule whp_set_reg [OF assms(1) accepts_program [OF assms], of prof v])
  then show ?thesis by (simp add: whp_set_reg64_def)
qed

lemma whp_set_zmm_view:
  assumes "whp_ok api G s" and "n < 32"
  shows "\<exists>s'. whp_set_zmm prof api (of_nat n) d s = Some s' \<and> whp_ok api G s' \<and>
    whp_view api G s' = (whp_view api G s)
      \<lparr>cs_zmm := (cs_zmm (whp_view api G s))[n := zmm_norm (wh_len G) (wh_layout G) n d]\<rparr>"
proof -
  let ?b0 = "whp_image api G s" and ?h = "wo_handle (ws_self s)"
  note b0 = whp_image_length [OF assms(1)] and lok = whp_layout_ok [OF assms(1)]
  have u: "unat (of_nat n :: u32) = n" using assms(2) by (simp add: unat_of_nat_u32)
  obtain b where b: "xsave_set_zmm ?b0 (wh_layout G) (of_nat n) d = Some b" "length b = length ?b0"
    and loaded: "\<And>b'. length b' = length ?b0 \<Longrightarrow> settled b' (wh_layout G) \<Longrightarrow>
      \<forall>m<32. \<forall>i<8. xrstor_chunk b' (wh_layout G) m i = xrstor_chunk b (wh_layout G) m i \<Longrightarrow>
      zmm_values (length ?b0) (wh_layout G) b' =
        (zmm_values (length ?b0) (wh_layout G) ?b0)[n := zmm_norm (length ?b0) (wh_layout G) n d]"
    by (rule set_zmm_loaded [of ?b0 "wh_layout G" n d]) (use lok b0 assms(2) in auto)
  obtain hr w where w: "wa_set_xsave api ?h b (world s) = (hr, w)" by (metis surj_pair)
  have "wh_live G ?h (world s) \<and> unat (of_nat n :: u32) < 32 \<and>
      xsave_set_zmm (image_in api (wh_capacity G) ?h (world s)) (wh_layout G) (of_nat n) d = Some b"
    using whp_okD(5) [OF assms(1)] u assms(2) b(1) by (simp add: whp_image_def)
  with whp_okD(4) [OF assms(1)] w
  have law: "wh_live G ?h w" "reg_in api ?h w = reg_in api ?h (world s)"
    "\<forall>m<32. \<forall>i<8. xrstor_chunk (image_in api (wh_capacity G) ?h w) (wh_layout G) m i = xrstor_chunk b (wh_layout G) m i"
    unfolding whp_xsave_law_def by (metis (mono_tags, lifting) case_prod_conv)+
  let ?s' = "set_world w s"
  have ok: "whp_ok api G ?s'" using assms(1) law(1) by (simp add: whp_ok_def)
  have z: "zmm_values (wh_len G) (wh_layout G) (whp_image api G ?s') =
      (zmm_values (wh_len G) (wh_layout G) ?b0)[n := zmm_norm (wh_len G) (wh_layout G) n d]"
    using loaded [OF _ whp_image_length(2) [OF ok]] whp_image_length(1) [OF ok] law(3) b0(1)
    by (simp add: whp_image_def)
  have "whp_set_zmm prof api (of_nat n) d s = Some ?s'"
    using b(1) u assms(2) whp_okD(6) [OF assms(1)] w
    by (simp add: whp_set_zmm_def whp_read_image [OF assms(1)] whp_write_xsave_def)
  moreover have "whp_regs api ?s' = whp_regs api s" using law(2) by (simp add: whp_regs_def)
  ultimately show ?thesis using ok z by (intro exI [of _ ?s']) (simp add: whp_view_def)
qed

interpretation whp: oracle_registers "whp_ops prof api" "whp_ok api G" "whp_view api G"
    norm_step_flags "zmm_norm (wh_len G) (wh_layout G)"
  for prof and api :: "'w whp_api" and G
proof
  fix s :: "'w whp_state" assume ok: "whp_ok api G s"
  note img = whp_image_length [OF ok] and lok = whp_layout_ok [OF ok]
  show "wf_cpu_state (whp_view api G s)"
    by (simp add: whp_view_def wf_cpu_state_def list_all_length nth_zmm_values)
  show "op_get_gpr (whp_ops prof api) (of_nat n) s = Some (cs_gpr (whp_view api G s) ! n)" if "n < 16" for n
    using that gpr_name [OF that] by (simp add: whp_ops_def whp_get_gpr_def whp_get_reg [OF ok] whp_view_def)
  show "op_get_rip (whp_ops prof api) s = Some (cs_rip (whp_view api G s))"
    by (simp add: whp_ops_def whp_get_rip_def whp_get_reg [OF ok] whp_view_def)
  show "op_get_rflags (whp_ops prof api) s = Some (cs_rflags (whp_view api G s))"
    by (simp add: whp_ops_def whp_get_rflags_def whp_get_reg [OF ok] whp_view_def STEP_FLAGS_def)
  show "op_get_zmm (whp_ops prof api) (of_nat n) s = Some (cs_zmm (whp_view api G s) ! n)" if "n < 32" for n
    using that xsave_get_zmm_values [of "whp_image api G s" "wh_layout G" n] img lok whp_okD(6) [OF ok]
    by (simp add: whp_ops_def whp_get_zmm_def whp_read_image [OF ok] whp_view_def unat_of_nat_u32)
  show "\<exists>s'. op_set_gpr (whp_ops prof api) (of_nat n) x s = Some s' \<and> whp_ok api G s' \<and>
      whp_view api G s' = (whp_view api G s)\<lparr>cs_gpr := (cs_gpr (whp_view api G s))[n := x]\<rparr>"
    if "n < 16" for n x
  proof -
    have "GPR_NAMES ! n \<in> set GPR_NAMES" using that by simp
    then have ne: "GPR_NAMES ! n \<noteq> WRip" "GPR_NAMES ! n \<noteq> WRflags" using gpr_not_special by metis+
    with whp_set_program_reg [OF ok gpr_program [OF that], of prof x] gpr_view_update [OF that] gpr_name [OF that]
    show ?thesis
      by (auto simp: whp_ops_def whp_set_gpr_def whp_view_def fun_upd_other ne [symmetric] simp del: fun_upd_apply)
  qed
  show "\<exists>s'. op_set_rip (whp_ops prof api) x s = Some s' \<and> whp_ok api G s' \<and>
      whp_view api G s' = (whp_view api G s)\<lparr>cs_rip := x\<rparr>" for x
    using whp_set_program_reg [OF ok, of WRip prof x] gpr_view_other [OF gpr_not_special(1)]
    by (auto simp: whp_ops_def whp_set_rip_def whp_view_def program_regs_def)
  have nn: "((x AND NOT STEP_FLAGS) OR 2) AND NOT STEP_FLAGS = norm_step_flags x" for x
    unfolding norm_step_flags_eq [symmetric] or.assoc
    by (rule bit_word_eqI) (auto simp: bit_simps)
  show "\<exists>s'. op_set_rflags (whp_ops prof api) x s = Some s' \<and> whp_ok api G s' \<and>
      whp_view api G s' = (whp_view api G s)\<lparr>cs_rflags := norm_step_flags x\<rparr>" for x
    using whp_set_program_reg [OF ok, of WRflags prof "(x AND NOT STEP_FLAGS) OR 2"] gpr_view_other [OF gpr_not_special(2)]
    by (auto simp: whp_ops_def whp_set_rflags_def whp_view_def program_regs_def stored_def STEP_FLAGS_def [symmetric]
        nn or.assoc)
  show "\<exists>s'. op_set_zmm (whp_ops prof api) (of_nat n) d s = Some s' \<and> whp_ok api G s' \<and>
      whp_view api G s' = (whp_view api G s)
        \<lparr>cs_zmm := (cs_zmm (whp_view api G s))[n := zmm_norm (wh_len G) (wh_layout G) n d]\<rparr>"
    if "n < 32" for n d
    using whp_set_zmm_view [OF ok that, of prof d] by (simp add: whp_ops_def)
  show "norm_step_flags (cs_rflags (whp_view api G s)) = cs_rflags (whp_view api G s)"
    using norm_step_flags_keeps [OF whp_rflags_fixed [OF ok]] norm_step_flags_eq
    by (simp add: whp_view_def norm_step_flags_def and.assoc)
  show "zmm_norm (wh_len G) (wh_layout G) n (cs_zmm (whp_view api G s) ! n) = cs_zmm (whp_view api G s) ! n"
    if "n < 32" for n
    using that by (simp add: whp_view_def zmm_norm_values)
qed

section \<open>The memory contract\<close>

definition whp_bytes :: "'w whp_state \<Rightarrow> nat \<Rightarrow> u8" where
  "whp_bytes s = ram_byte (wo_ram (ws_self s))"

lemma whp_ok_ram:
  "whp_ok api G s \<Longrightarrow>
   whp_ok api G (s\<lparr>ws_self := (ws_self s)\<lparr>wo_touched := t, wo_ram := ram_write (wo_ram (ws_self s)) addr d\<rparr>\<rparr>)"
  by (simp add: whp_ok_def)

interpretation whp_memory: oracle_memory "whp_ops prof api" "whp_ok api G" whp_bytes "unat RAM_SIZE"
  for prof and api :: "'w whp_api" and G
proof
  show "unat RAM_SIZE < 2 ^ 64" by (simp add: unat_RAM_SIZE)
  fix s :: "'w whp_state" assume ok: "whp_ok api G s"
  note ram = whp_okD(8,9) [OF ok]
  have inr: "in_ram (wo_ram (ws_self s)) a n \<longleftrightarrow> unat a + n \<le> unat RAM_SIZE" for a n
    by (simp add: in_ram_def ram)
  show "op_read_mem_byte (whp_ops prof api) a s = Some (whp_bytes s (unat a))"
    if "unat a < unat RAM_SIZE" for a
    using that ram_read_inside [OF ram(1), of a 1] inr [of a 1]
    by (simp add: whp_ops_def whp_read_mem_byte_def whp_bytes_def)
  show "op_read_mem (whp_ops prof api) a n s = Some (map (\<lambda>i. whp_bytes s (unat a + i)) [0..<n])"
    if "unat a + n \<le> unat RAM_SIZE" for a n
    using that ram_read_inside [OF ram(1), of a n] inr [of a n]
    by (simp add: whp_ops_def whp_read_mem_def whp_bytes_def)
  show "\<exists>s'. op_write_mem_byte (whp_ops prof api) a b s = Some s' \<and> whp_ok api G s' \<and>
      whp_bytes s' = (whp_bytes s)(unat a := b)"
    if "unat a < unat RAM_SIZE" for a b
    using that ram_byte_write [OF ram(1), of a "[b]"] inr [of a 1] whp_ok_ram [OF ok]
    by (auto simp: whp_ops_def whp_write_mem_byte_def whp_bytes_def fun_eq_iff)
  show "\<exists>s'. op_write_mem (whp_ops prof api) a d s = Some s' \<and> whp_ok api G s' \<and>
      whp_bytes s' = (\<lambda>x. if unat a \<le> x \<and> x < unat a + length d then d ! (x - unat a) else whp_bytes s x)"
    if "unat a + length d \<le> unat RAM_SIZE" for a d
    using that ram_byte_write [OF ram(1), of a d] inr [of a "length d"] whp_ok_ram [OF ok]
    by (auto simp: whp_ops_def whp_write_mem_def whp_bytes_def fun_eq_iff add_u64_below)
qed

section \<open>The segment contract\<close>

definition whp_seg_base :: "reg_name \<Rightarrow> 'w whp_api \<Rightarrow> 'w whp_state \<Rightarrow> u64" where
  "whp_seg_base n api s = wg_base (as_segment (whp_regs api s n))"

lemma whp_set_base:
  assumes "whp_ok api G s" and "n = WFs \<or> n = WGs"
  shows "\<exists>s'. whp_modify_seg prof api n (\<lambda>g. g\<lparr>wg_base := x\<rparr>) s = Some s' \<and> whp_ok api G s' \<and>
    whp_seg_base n api s' = x \<and> (\<forall>k. k \<noteq> n \<longrightarrow> whp_seg_base k api s' = whp_seg_base k api s)"
proof -
  let ?g = "(as_segment (whp_regs api s n))\<lparr>wg_base := x\<rparr>"
  have "wh_accepts G (whp_regs api s) [n] [Segment ?g]"
    using whp_okD(3) [OF assms(1)] assms(2) unfolding whp_accepts_law_def by blast
  from whp_set_reg [OF assms(1) this, of prof] obtain hr s' where
    "whp_set_regs prof api [n] [Segment ?g] s = Some (hr, s')" "whp_ok api G s'"
    "whp_regs api s' = (whp_regs api s)(n := stored n (Segment ?g))" by metis
  with assms(2) show ?thesis
    by (intro exI [of _ s'])
       (auto simp: whp_modify_seg_def whp_get_reg [OF assms(1)] whp_set_seg_def whp_seg_base_def)
qed

interpretation whp_segments: oracle_segments "whp_ops prof api" "whp_ok api G"
    "whp_seg_base WFs api" "whp_seg_base WGs api"
  for prof and api :: "'w whp_api" and G
proof
  fix s :: "'w whp_state" and x assume ok: "whp_ok api G s"
  have n: "seg_name SEG_FS = WFs" "seg_name SEG_GS = WGs" "unat SEG_FS < SEG_COUNT" "unat SEG_GS < SEG_COUNT"
    by (simp_all add: seg_name_def oracle_simps)
  have m: "IA32_FS_BASE \<noteq> IA32_EFER" "IA32_GS_BASE \<noteq> IA32_EFER" "IA32_GS_BASE \<noteq> IA32_FS_BASE"
    by (simp_all add: oracle_simps)
  show "op_get_seg_base (whp_ops prof api) SEG_FS s = Some (whp_seg_base WFs api s)"
    and "op_get_seg_base (whp_ops prof api) SEG_GS s = Some (whp_seg_base WGs api s)"
    by (simp_all add: whp_ops_def whp_get_seg_base_def whp_get_reg [OF ok] whp_seg_base_def n)
  show "op_get_msr (whp_ops prof api) IA32_FS_BASE s = Some (whp_seg_base WFs api s)"
    and "op_get_msr (whp_ops prof api) IA32_GS_BASE s = Some (whp_seg_base WGs api s)"
    by (simp_all add: whp_ops_def whp_get_msr_def whp_get_reg [OF ok] whp_seg_base_def m)
  note fs = whp_set_base [OF ok, of WFs prof x] and gs = whp_set_base [OF ok, of WGs prof x]
  show "\<exists>s'. op_set_seg_base (whp_ops prof api) SEG_FS x s = Some s' \<and> whp_ok api G s' \<and>
      whp_seg_base WFs api s' = x \<and> whp_seg_base WGs api s' = whp_seg_base WGs api s"
    using fs n by (auto simp: whp_ops_def whp_set_seg_base_def)
  show "\<exists>s'. op_set_seg_base (whp_ops prof api) SEG_GS x s = Some s' \<and> whp_ok api G s' \<and>
      whp_seg_base WGs api s' = x \<and> whp_seg_base WFs api s' = whp_seg_base WFs api s"
    using gs n by (auto simp: whp_ops_def whp_set_seg_base_def)
  show "\<exists>s'. op_set_msr (whp_ops prof api) IA32_FS_BASE x s = Some s' \<and> whp_ok api G s' \<and>
      whp_seg_base WFs api s' = x \<and> whp_seg_base WGs api s' = whp_seg_base WGs api s"
    using fs m by (auto simp: whp_ops_def whp_set_msr_def)
  show "\<exists>s'. op_set_msr (whp_ops prof api) IA32_GS_BASE x s = Some s' \<and> whp_ok api G s' \<and>
      whp_seg_base WGs api s' = x \<and> whp_seg_base WFs api s' = whp_seg_base WFs api s"
    using gs m by (auto simp: whp_ops_def whp_set_msr_def)
qed

end
