(* ===== verification/Bochs_Oracle.thy ===== *)
theory Bochs_Oracle
  imports Oracle_Trait Hw_Tables
begin

text \<open>
  The Bochs backend, \<open>src/bochs.rs\<close>: \<open>BochsOracle\<close>, the occupancy of the one CPU of the
  process, and the implementation of \<open>X86Oracle\<close>.

  The C functions of \<open>csrc/bochs_shim.cpp\<close>, glue over the vendored emulator, are a parameter: a
  record of functions on the state \<open>'b\<close> of the process-wide core. A null handle is 0. The lock
  around every call (\<open>BOCHS_LOCK\<close>) only serialises them and keeps no state; poisoning is ignored
  by the code.
\<close>

section \<open>The C interface\<close>

record 'b bochs_api =
  ba_new :: "'b \<Rightarrow> u64 \<times> 'b"
  ba_free :: "u64 \<Rightarrow> 'b \<Rightarrow> 'b"
  ba_cpu_mode :: "'b \<Rightarrow> u32"
  ba_set_gpr :: "u32 \<Rightarrow> u64 \<Rightarrow> 'b \<Rightarrow> 'b"
  ba_get_gpr :: "u32 \<Rightarrow> 'b \<Rightarrow> u64"
  ba_set_rip :: "u64 \<Rightarrow> 'b \<Rightarrow> 'b"
  ba_get_rip :: "'b \<Rightarrow> u64"
  ba_set_rflags :: "u64 \<Rightarrow> 'b \<Rightarrow> 'b"
  ba_get_rflags :: "'b \<Rightarrow> u64"
  ba_set_zmm :: "u32 \<Rightarrow> u32 \<Rightarrow> u64 \<Rightarrow> 'b \<Rightarrow> 'b"
  ba_get_zmm :: "u32 \<Rightarrow> u32 \<Rightarrow> 'b \<Rightarrow> u64"
  ba_set_msr :: "u32 \<Rightarrow> u64 \<Rightarrow> 'b \<Rightarrow> 'b"
  ba_get_msr :: "u32 \<Rightarrow> 'b \<Rightarrow> u64"
  ba_set_cr :: "u32 \<Rightarrow> u64 \<Rightarrow> 'b \<Rightarrow> 'b"
  ba_get_cr :: "u32 \<Rightarrow> 'b \<Rightarrow> u64"
  ba_set_ssp :: "u64 \<Rightarrow> 'b \<Rightarrow> 'b"
  ba_get_ssp :: "'b \<Rightarrow> u64"
  ba_enable_shadow_stack :: "u64 \<Rightarrow> u64 \<Rightarrow> 'b \<Rightarrow> u32 \<times> 'b"
  ba_set_dtr :: "u32 \<Rightarrow> u64 \<Rightarrow> u64 \<Rightarrow> 'b \<Rightarrow> 'b"
  ba_set_tr_selector :: "u64 \<Rightarrow> 'b \<Rightarrow> 'b"
  ba_set_seg_selector :: "u32 \<Rightarrow> u64 \<Rightarrow> 'b \<Rightarrow> 'b"
  ba_get_seg_selector :: "u32 \<Rightarrow> 'b \<Rightarrow> u64"
  ba_set_seg_base :: "u32 \<Rightarrow> u64 \<Rightarrow> 'b \<Rightarrow> 'b"
  ba_get_seg_base :: "u32 \<Rightarrow> 'b \<Rightarrow> u64"
  ba_set_seg_limit :: "u32 \<Rightarrow> u64 \<Rightarrow> 'b \<Rightarrow> 'b"
  ba_get_seg_limit :: "u32 \<Rightarrow> 'b \<Rightarrow> u64"
  ba_read_mem :: "u64 \<Rightarrow> 'b \<Rightarrow> u8"
  ba_write_mem :: "u64 \<Rightarrow> u8 \<Rightarrow> 'b \<Rightarrow> 'b"
  ba_read_mem_slice :: "u64 \<Rightarrow> nat \<Rightarrow> 'b \<Rightarrow> u8 list"
  ba_write_mem_slice :: "u64 \<Rightarrow> u8 list \<Rightarrow> 'b \<Rightarrow> 'b"
  ba_is_mapped :: "u64 \<Rightarrow> 'b \<Rightarrow> u32"
  ba_step :: "u32 \<Rightarrow> u32 \<Rightarrow> 'b \<Rightarrow> u32 \<times> u32 \<times> u32 \<times> 'b"

text \<open>
  \<open>ba_step v e\<close> is the call with the out-parameters holding \<open>v\<close> and \<open>e\<close>: it returns the status
  and what the two hold afterwards.
\<close>

definition MODE_LONG_64 :: u32 where "MODE_LONG_64 = 4"

definition BOCHS_ADDRESS_LIMIT :: u64 where "BOCHS_ADDRESS_LIMIT = push_bit 30 512"
definition BOCHS_RESERVED_START :: u64 where "BOCHS_RESERVED_START = 0x7FC0000000"

section \<open>The process and the oracle\<close>

record 'b bochs_process =
  bp_core :: 'b
  bp_occupied :: bool

record bochs_oracle =
  bx_handle :: u64
  bx_last_fault :: "(u32 \<times> u32) option"

record 'b bochs_state =
  bs_proc :: "'b bochs_process"
  bs_self :: bochs_oracle

abbreviation core :: "'b bochs_state \<Rightarrow> 'b" where
  "core s \<equiv> bp_core (bs_proc s)"

definition set_core :: "'b \<Rightarrow> 'b bochs_state \<Rightarrow> 'b bochs_state" where
  "set_core c s = s\<lparr>bs_proc := (bs_proc s)\<lparr>bp_core := c\<rparr>\<rparr>"

section \<open>Claiming the CPU\<close>

text \<open>
  \<open>claim_instance\<close> tests the flag on entry and again whenever the condition variable returns;
  what the test decides is the value, the loop around it is the state machine of
  \<open>Bochs_Occupancy\<close>. \<open>timed_out\<close> is what \<open>wait_timeout\<close> reports.
\<close>

datatype claim_decision = Claim | Wait_released | Timed_out

definition claim_enter :: "bool \<Rightarrow> claim_decision" where
  "claim_enter occupied = (if occupied then Wait_released else Claim)"

definition claim_resume :: "bool \<Rightarrow> bool \<Rightarrow> claim_decision" where
  "claim_resume timed_out occupied = (if timed_out \<and> occupied then Timed_out else claim_enter occupied)"

definition try_claim_instance :: "'b bochs_process \<Rightarrow> bool \<times> 'b bochs_process" where
  "try_claim_instance p = (if bp_occupied p then (False, p) else (True, p\<lparr>bp_occupied := True\<rparr>))"

definition release_instance :: "'b bochs_process \<Rightarrow> 'b bochs_process" where
  "release_instance p = p\<lparr>bp_occupied := False\<rparr>"

section \<open>Construction\<close>

text \<open>
  \<open>init\<close>. The outer \<open>None\<close> is the panic of the mode assertion, the inner one a null handle. The
  core the call leaves behind is returned in every case: the process may outlive the panic.
\<close>

definition bochs_init :: "'b bochs_api \<Rightarrow> 'b \<Rightarrow> bochs_oracle option panics \<times> 'b" where
  "bochs_init api c =
     (let (h, c) = ba_new api c in
      if h = 0 then (Some None, c)
      else if ba_cpu_mode api c \<noteq> MODE_LONG_64 then (None, c)
      else (let c = ba_set_dtr api 0 GDT_ADDR (ucast GDT_LIMIT) c;
                c = ba_set_dtr api 1 IDT_ADDR (ucast IDT_LIMIT) c;
                c = ba_set_tr_selector api (ucast SEL_TSS) c
            in (Some (Some \<lparr>bx_handle = h, bx_last_fault = None\<rparr>), c)))"

text \<open>What \<open>new\<close> does once it holds the claim; a null handle gives the claim back and panics.\<close>

definition bochs_new_claimed :: "'b bochs_api \<Rightarrow> 'b bochs_process \<Rightarrow> bochs_oracle panics \<times> 'b bochs_process" where
  "bochs_new_claimed api p =
     (let (r, c) = bochs_init api (bp_core p); p = p\<lparr>bp_core := c\<rparr> in
      case r of
        None \<Rightarrow> (None, p)
      | Some (Some cpu) \<Rightarrow> (Some cpu, p)
      | Some None \<Rightarrow> (None, release_instance p))"

definition bochs_try_new :: "'b bochs_api \<Rightarrow> 'b bochs_process \<Rightarrow> bochs_oracle option panics \<times> 'b bochs_process" where
  "bochs_try_new api p =
     (let (claimed, p) = try_claim_instance p in
      if \<not> claimed then (Some None, p)
      else (let (r, c) = bochs_init api (bp_core p); p = p\<lparr>bp_core := c\<rparr> in
            case r of
              None \<Rightarrow> (None, p)
            | Some (Some cpu) \<Rightarrow> (Some (Some cpu), p)
            | Some None \<Rightarrow> (Some None, release_instance p)))"

text \<open>\<open>drop\<close>, in its two steps.\<close>

definition bochs_free :: "'b bochs_api \<Rightarrow> bochs_oracle \<Rightarrow> 'b bochs_process \<Rightarrow> 'b bochs_process" where
  "bochs_free api x p = p\<lparr>bp_core := ba_free api (bx_handle x) (bp_core p)\<rparr>"

definition bochs_drop :: "'b bochs_api \<Rightarrow> bochs_oracle \<Rightarrow> 'b bochs_process \<Rightarrow> 'b bochs_process" where
  "bochs_drop api x p = release_instance (bochs_free api x p)"

section \<open>Faults\<close>

definition bochs_cpu_mode :: "'b bochs_api \<Rightarrow> 'b bochs_state \<Rightarrow> u32" where
  "bochs_cpu_mode api s = ba_cpu_mode api (core s)"

definition bochs_last_vector :: "'b bochs_state \<Rightarrow> u32 option" where
  "bochs_last_vector s = map_option fst (bx_last_fault (bs_self s))"

definition bochs_last_error_code :: "'b bochs_state \<Rightarrow> u32 option" where
  "bochs_last_error_code s = map_option snd (bx_last_fault (bs_self s))"

definition bochs_classify :: "u32 \<Rightarrow> fault_kind" where
  "bochs_classify vector =
     (if vector = 0 then DivideError
      else if vector = 6 then UndefinedOpcode
      else if vector = 13 then GeneralProtection
      else if vector = 14 then PageFault
      else if vector = 17 then AlignmentCheck
      else if vector = 21 then ControlProtection
      else OtherException)"

definition bochs_vector_name :: "u32 \<Rightarrow> string" where
  "bochs_vector_name vector =
     (if vector = 0 then ''#DE divide error''
      else if vector = 1 then ''#DB debug''
      else if vector = 3 then ''#BP breakpoint''
      else if vector = 4 then ''#OF overflow''
      else if vector = 5 then ''#BR bound range''
      else if vector = 6 then ''#UD invalid opcode''
      else if vector = 7 then ''#NM device not available''
      else if vector = 8 then ''#DF double fault''
      else if vector = 10 then ''#TS invalid TSS''
      else if vector = 11 then ''#NP segment not present''
      else if vector = 12 then ''#SS stack fault''
      else if vector = 13 then ''#GP general protection''
      else if vector = 14 then ''#PF page fault''
      else if vector = 16 then ''#MF x87 FP''
      else if vector = 17 then ''#AC alignment check''
      else if vector = 18 then ''#MC machine check''
      else if vector = 19 then ''#XM SIMD FP''
      else if vector = 21 then ''#CP control protection''
      else ''exception'')"

definition bochs_fault_msg :: "'b bochs_state \<Rightarrow> string" where
  "bochs_fault_msg s =
     (case bx_last_fault (bs_self s) of
        None \<Rightarrow> ''''
      | Some (v, e) \<Rightarrow>
          if e = 0 then bochs_vector_name v @ '' (vector '' @ fmt_dec (unat v) @ '')''
          else bochs_vector_name v @ '' (vector '' @ fmt_dec (unat v) @ '', error code '' @ fmt_hex (unat e) @ '')'')"

section \<open>\<open>X86Oracle\<close> for \<open>BochsOracle\<close>\<close>

definition bochs_set_gpr :: "profile \<Rightarrow> 'b bochs_api \<Rightarrow> u32 \<Rightarrow> u64 \<Rightarrow> 'b bochs_state \<Rightarrow> 'b bochs_state panics" where
  "bochs_set_gpr prof api n value s = do {
     _ \<leftarrow> debug_assert prof (n \<le> 15);
     Some (set_core (ba_set_gpr api n value (core s)) s) }"

definition bochs_get_gpr :: "profile \<Rightarrow> 'b bochs_api \<Rightarrow> u32 \<Rightarrow> 'b bochs_state \<Rightarrow> u64 panics" where
  "bochs_get_gpr prof api n s = do {
     _ \<leftarrow> debug_assert prof (n \<le> 15);
     Some (ba_get_gpr api n (core s)) }"

definition bochs_set_rip :: "'b bochs_api \<Rightarrow> u64 \<Rightarrow> 'b bochs_state \<Rightarrow> 'b bochs_state panics" where
  "bochs_set_rip api value s = Some (set_core (ba_set_rip api value (core s)) s)"

definition bochs_get_rip :: "'b bochs_api \<Rightarrow> 'b bochs_state \<Rightarrow> u64 panics" where
  "bochs_get_rip api s = Some (ba_get_rip api (core s))"

definition bochs_set_rflags :: "'b bochs_api \<Rightarrow> u64 \<Rightarrow> 'b bochs_state \<Rightarrow> 'b bochs_state panics" where
  "bochs_set_rflags api value s = Some (set_core (ba_set_rflags api value (core s)) s)"

definition bochs_get_rflags :: "'b bochs_api \<Rightarrow> 'b bochs_state \<Rightarrow> u64 panics" where
  "bochs_get_rflags api s = Some (ba_get_rflags api (core s))"

definition bochs_set_zmm :: "profile \<Rightarrow> 'b bochs_api \<Rightarrow> u32 \<Rightarrow> u64 list \<Rightarrow> 'b bochs_state \<Rightarrow> 'b bochs_state panics" where
  "bochs_set_zmm prof api n data s = do {
     _ \<leftarrow> debug_assert prof (unat n < ZMM_REGS \<and> length data \<le> ZMM_CHUNKS);
     Some (set_core (fold (\<lambda>i. ba_set_zmm api n (of_nat i) (if i < length data then data ! i else 0))
                      [0..<ZMM_CHUNKS] (core s)) s) }"

definition bochs_get_zmm :: "profile \<Rightarrow> 'b bochs_api \<Rightarrow> u32 \<Rightarrow> 'b bochs_state \<Rightarrow> u64 list panics" where
  "bochs_get_zmm prof api n s = do {
     _ \<leftarrow> debug_assert prof (unat n < ZMM_REGS);
     Some (map (\<lambda>i. ba_get_zmm api n (of_nat i) (core s)) [0..<ZMM_CHUNKS]) }"

definition bochs_set_msr :: "'b bochs_api \<Rightarrow> u32 \<Rightarrow> u64 \<Rightarrow> 'b bochs_state \<Rightarrow> 'b bochs_state panics" where
  "bochs_set_msr api msr value s = Some (set_core (ba_set_msr api msr value (core s)) s)"

definition bochs_get_msr :: "'b bochs_api \<Rightarrow> u32 \<Rightarrow> 'b bochs_state \<Rightarrow> u64 panics" where
  "bochs_get_msr api msr s =
     Some (if msr \<in> {IA32_EFER, IA32_STAR, IA32_LSTAR, IA32_FMASK, IA32_FS_BASE, IA32_GS_BASE,
                     IA32_KERNEL_GS_BASE, IA32_U_CET, IA32_S_CET}
           then ba_get_msr api msr (core s) else 0)"

definition bochs_set_cr :: "'b bochs_api \<Rightarrow> u32 \<Rightarrow> u64 \<Rightarrow> 'b bochs_state \<Rightarrow> 'b bochs_state panics" where
  "bochs_set_cr api n value s = Some (set_core (ba_set_cr api n value (core s)) s)"

definition bochs_get_cr :: "'b bochs_api \<Rightarrow> u32 \<Rightarrow> 'b bochs_state \<Rightarrow> u64 panics" where
  "bochs_get_cr api n s = Some (ba_get_cr api n (core s))"

definition bochs_enable_shadow_stack ::
    "'b bochs_api \<Rightarrow> u64 \<Rightarrow> u64 \<Rightarrow> 'b bochs_state \<Rightarrow> ((shadow_stack_error + unit) \<times> 'b bochs_state) panics" where
  "bochs_enable_shadow_stack api base len s =
     (let (status, c) = ba_enable_shadow_stack api base len (core s) in
      Some (if status = 0 then Inr () else if status = 2 then Inl BadRange else Inl Unsupported, set_core c s))"

definition bochs_set_ssp :: "'b bochs_api \<Rightarrow> u64 \<Rightarrow> 'b bochs_state \<Rightarrow> 'b bochs_state panics" where
  "bochs_set_ssp api value s = Some (set_core (ba_set_ssp api value (core s)) s)"

definition bochs_get_ssp :: "'b bochs_api \<Rightarrow> 'b bochs_state \<Rightarrow> u64 panics" where
  "bochs_get_ssp api s = Some (ba_get_ssp api (core s))"

definition bochs_set_seg_selector ::
    "profile \<Rightarrow> 'b bochs_api \<Rightarrow> u32 \<Rightarrow> u16 \<Rightarrow> 'b bochs_state \<Rightarrow> 'b bochs_state panics" where
  "bochs_set_seg_selector prof api n value s = do {
     _ \<leftarrow> debug_assert prof (unat n < SEG_COUNT);
     Some (set_core (ba_set_seg_selector api n (ucast value) (core s)) s) }"

definition bochs_get_seg_selector :: "profile \<Rightarrow> 'b bochs_api \<Rightarrow> u32 \<Rightarrow> 'b bochs_state \<Rightarrow> u16 panics" where
  "bochs_get_seg_selector prof api n s = do {
     _ \<leftarrow> debug_assert prof (unat n < SEG_COUNT);
     Some (ucast (ba_get_seg_selector api n (core s))) }"

definition bochs_set_seg_base ::
    "profile \<Rightarrow> 'b bochs_api \<Rightarrow> u32 \<Rightarrow> u64 \<Rightarrow> 'b bochs_state \<Rightarrow> 'b bochs_state panics" where
  "bochs_set_seg_base prof api n value s = do {
     _ \<leftarrow> debug_assert prof (unat n < SEG_COUNT);
     Some (set_core (ba_set_seg_base api n value (core s)) s) }"

definition bochs_get_seg_base :: "profile \<Rightarrow> 'b bochs_api \<Rightarrow> u32 \<Rightarrow> 'b bochs_state \<Rightarrow> u64 panics" where
  "bochs_get_seg_base prof api n s = do {
     _ \<leftarrow> debug_assert prof (unat n < SEG_COUNT);
     Some (ba_get_seg_base api n (core s)) }"

definition bochs_set_seg_limit ::
    "profile \<Rightarrow> 'b bochs_api \<Rightarrow> u32 \<Rightarrow> u32 \<Rightarrow> 'b bochs_state \<Rightarrow> 'b bochs_state panics" where
  "bochs_set_seg_limit prof api n value s = do {
     _ \<leftarrow> debug_assert prof (unat n < SEG_COUNT);
     Some (set_core (ba_set_seg_limit api n (ucast value) (core s)) s) }"

definition bochs_get_seg_limit :: "profile \<Rightarrow> 'b bochs_api \<Rightarrow> u32 \<Rightarrow> 'b bochs_state \<Rightarrow> u32 panics" where
  "bochs_get_seg_limit prof api n s = do {
     _ \<leftarrow> debug_assert prof (unat n < SEG_COUNT);
     Some (ucast (ba_get_seg_limit api n (core s))) }"

definition bochs_read_mem_byte :: "'b bochs_api \<Rightarrow> u64 \<Rightarrow> 'b bochs_state \<Rightarrow> u8 panics" where
  "bochs_read_mem_byte api addr s = Some (ba_read_mem api addr (core s))"

definition bochs_write_mem_byte :: "'b bochs_api \<Rightarrow> u64 \<Rightarrow> u8 \<Rightarrow> 'b bochs_state \<Rightarrow> 'b bochs_state panics" where
  "bochs_write_mem_byte api addr byte s = Some (set_core (ba_write_mem api addr byte (core s)) s)"

definition bochs_read_mem :: "'b bochs_api \<Rightarrow> u64 \<Rightarrow> nat \<Rightarrow> 'b bochs_state \<Rightarrow> u8 list panics" where
  "bochs_read_mem api addr len s = Some (ba_read_mem_slice api addr len (core s))"

definition bochs_write_mem :: "'b bochs_api \<Rightarrow> u64 \<Rightarrow> u8 list \<Rightarrow> 'b bochs_state \<Rightarrow> 'b bochs_state panics" where
  "bochs_write_mem api addr data s = Some (set_core (ba_write_mem_slice api addr data (core s)) s)"

definition bochs_is_mapped :: "'b bochs_api \<Rightarrow> u64 \<Rightarrow> 'b bochs_state \<Rightarrow> bool" where
  "bochs_is_mapped api addr s \<longleftrightarrow> ba_is_mapped api addr (core s) \<noteq> 0"

definition bochs_set_fault :: "(u32 \<times> u32) option \<Rightarrow> 'b bochs_state \<Rightarrow> 'b bochs_state" where
  "bochs_set_fault f s = s\<lparr>bs_self := (bs_self s)\<lparr>bx_last_fault := f\<rparr>\<rparr>"

definition bochs_step :: "'b bochs_api \<Rightarrow> 'b bochs_state \<Rightarrow> (step_outcome \<times> 'b bochs_state) panics" where
  "bochs_step api s =
     (let (status, vector, error, c) = ba_step api 0 0 (core s);
          s = set_core c s
      in if status = 0 then Some (Retired, bochs_set_fault None s)
         else if status = 2 then Some (Retired, bochs_set_fault None s)
         else (let s = bochs_set_fault (Some (vector, error)) s
               in Some (Fault (bochs_classify vector) (bochs_fault_msg s), s)))"

definition bochs_ops :: "profile \<Rightarrow> 'b bochs_api \<Rightarrow> 'b bochs_state oracle_ops" where
  "bochs_ops prof api =
     \<lparr>op_backend_name = (\<lambda>_. ''bochs''),
      op_set_gpr = bochs_set_gpr prof api, op_get_gpr = bochs_get_gpr prof api,
      op_set_rip = bochs_set_rip api, op_get_rip = bochs_get_rip api,
      op_set_rflags = bochs_set_rflags api, op_get_rflags = bochs_get_rflags api,
      op_set_zmm = bochs_set_zmm prof api, op_get_zmm = bochs_get_zmm prof api,
      op_vector_chunks = default_vector_chunks, op_vector_regs = default_vector_regs,
      op_set_msr = bochs_set_msr api, op_get_msr = bochs_get_msr api,
      op_set_cr = bochs_set_cr api, op_get_cr = bochs_get_cr api,
      op_enable_shadow_stack = bochs_enable_shadow_stack api,
      op_set_ssp = bochs_set_ssp api, op_get_ssp = bochs_get_ssp api,
      op_set_seg_selector = bochs_set_seg_selector prof api,
      op_get_seg_selector = bochs_get_seg_selector prof api,
      op_set_seg_base = bochs_set_seg_base prof api, op_get_seg_base = bochs_get_seg_base prof api,
      op_set_seg_limit = bochs_set_seg_limit prof api, op_get_seg_limit = bochs_get_seg_limit prof api,
      op_read_mem_byte = bochs_read_mem_byte api, op_write_mem_byte = bochs_write_mem_byte api,
      op_read_mem = bochs_read_mem api, op_write_mem = bochs_write_mem api,
      op_is_mapped = bochs_is_mapped api, op_step = bochs_step api,
      op_fault_msg = (\<lambda>s. Some (bochs_fault_msg s))\<rparr>"

end
