(* ===== verification/Bochs_Occupancy.thy ===== *)
theory Bochs_Occupancy
  imports Bochs_Oracle
begin

text \<open>
  Many callers, one CPU: \<open>new\<close>, \<open>try_new\<close> and \<open>drop\<close> of \<open>BochsOracle\<close> as steps of a
  concurrent system. Each call in progress is a number; the mutex around \<open>OCCUPIED\<close> makes every
  test of the flag, with what follows it under the lock, one step. Waiting on the condition
  variable ends by \<open>notify_one\<close>, by the time limit, or spuriously.
\<close>

section \<open>The system\<close>

text \<open>
  A call of \<open>new\<close> that found the CPU taken is \<open>Waiting\<close> until the condition variable returns; one
  picked by \<open>notify_one\<close> is \<open>Woken\<close>. \<open>Claimed\<close> holds the flag and is about to run \<open>init\<close>, \<open>Owner\<close>
  holds an oracle, \<open>Freed\<close> is a drop that has freed the core and not yet the flag, \<open>Stuck\<close> is a
  construction whose mode assertion panicked. \<open>Idle\<close> is any other caller, a panicked one included.
\<close>

datatype bochs_call = Idle | Waiting | Woken | Claimed | Owner bochs_oracle | Freed | Stuck

record 'b bochs_system =
  sy_proc :: "'b bochs_process"
  sy_calls :: "nat \<Rightarrow> bochs_call"

definition holds_flag :: "bochs_call \<Rightarrow> bool" where
  "holds_flag k \<longleftrightarrow> (case k of Claimed \<Rightarrow> True | Owner x \<Rightarrow> True | Freed \<Rightarrow> True | Stuck \<Rightarrow> True | _ \<Rightarrow> False)"

definition set_call :: "nat \<Rightarrow> bochs_call \<Rightarrow> 'b bochs_system \<Rightarrow> 'b bochs_system" where
  "set_call i k s = s\<lparr>sy_calls := (sy_calls s)(i := k)\<rparr>"

text \<open>Acting on a decision of \<open>claim_instance\<close>.\<close>

definition act_on_claim :: "nat \<Rightarrow> claim_decision \<Rightarrow> 'b bochs_system \<Rightarrow> 'b bochs_system" where
  "act_on_claim i d s =
     (case d of
        Claim \<Rightarrow> set_call i Claimed (s\<lparr>sy_proc := (sy_proc s)\<lparr>bp_occupied := True\<rparr>\<rparr>)
      | Wait_released \<Rightarrow> set_call i Waiting s
      | Timed_out \<Rightarrow> set_call i Idle s)"

text \<open>\<open>notify_one\<close>: one waiting caller, any of them, or none if none waits.\<close>

inductive notify_one :: "(nat \<Rightarrow> bochs_call) \<Rightarrow> (nat \<Rightarrow> bochs_call) \<Rightarrow> bool" where
  wake: "calls j = Waiting \<Longrightarrow> notify_one calls (calls(j := Woken))"
| nobody: "\<forall>j. calls j \<noteq> Waiting \<Longrightarrow> notify_one calls calls"

inductive bochs_event :: "'b bochs_api \<Rightarrow> 'b bochs_system \<Rightarrow> 'b bochs_system \<Rightarrow> bool"
  for api where
  Enter: "sy_calls s i = Idle \<Longrightarrow> s' = act_on_claim i (claim_enter (bp_occupied (sy_proc s))) s \<Longrightarrow>
    bochs_event api s s'"
| Resume: "sy_calls s i = Waiting \<or> sy_calls s i = Woken \<Longrightarrow>
    s' = act_on_claim i (claim_resume timed_out (bp_occupied (sy_proc s))) s \<Longrightarrow> bochs_event api s s'"
| Try: "sy_calls s i = Idle \<Longrightarrow> try_claim_instance (sy_proc s) = (claimed, p) \<Longrightarrow>
    s' = (if claimed then set_call i Claimed (s\<lparr>sy_proc := p\<rparr>) else s) \<Longrightarrow> bochs_event api s s'"
| Init_ok: "sy_calls s i = Claimed \<Longrightarrow> bochs_init api (bp_core (sy_proc s)) = (Some (Some x), c) \<Longrightarrow>
    s' = set_call i (Owner x) (s\<lparr>sy_proc := (sy_proc s)\<lparr>bp_core := c\<rparr>\<rparr>) \<Longrightarrow> bochs_event api s s'"
| Init_panic: "sy_calls s i = Claimed \<Longrightarrow> bochs_init api (bp_core (sy_proc s)) = (None, c) \<Longrightarrow>
    s' = set_call i Stuck (s\<lparr>sy_proc := (sy_proc s)\<lparr>bp_core := c\<rparr>\<rparr>) \<Longrightarrow> bochs_event api s s'"
| Init_null: "sy_calls s i = Claimed \<Longrightarrow> bochs_init api (bp_core (sy_proc s)) = (Some None, c) \<Longrightarrow>
    notify_one ((sy_calls s)(i := Idle)) calls \<Longrightarrow>
    s' = \<lparr>sy_proc = release_instance ((sy_proc s)\<lparr>bp_core := c\<rparr>), sy_calls = calls\<rparr> \<Longrightarrow> bochs_event api s s'"
| Drop_core: "sy_calls s i = Owner x \<Longrightarrow>
    s' = set_call i Freed (s\<lparr>sy_proc := bochs_free api x (sy_proc s)\<rparr>) \<Longrightarrow> bochs_event api s s'"
| Drop_flag: "sy_calls s i = Freed \<Longrightarrow> notify_one ((sy_calls s)(i := Idle)) calls \<Longrightarrow>
    s' = \<lparr>sy_proc = release_instance (sy_proc s), sy_calls = calls\<rparr> \<Longrightarrow> bochs_event api s s'"

text \<open>Using an oracle (a method of the trait) changes the core and the oracle's own record.\<close>

inductive bochs_use :: "'b bochs_api \<Rightarrow> ('b \<Rightarrow> bool) \<Rightarrow> 'b bochs_system \<Rightarrow> 'b bochs_system \<Rightarrow> bool"
  for api alive where
  "sy_calls s i = Owner x \<Longrightarrow> alive c \<longleftrightarrow> alive (bp_core (sy_proc s)) \<Longrightarrow>
   s' = set_call i (Owner (x\<lparr>bx_last_fault := f\<rparr>)) (s\<lparr>sy_proc := (sy_proc s)\<lparr>bp_core := c\<rparr>\<rparr>) \<Longrightarrow>
   bochs_use api alive s s'"

inductive bochs_reachable :: "'b bochs_api \<Rightarrow> ('b \<Rightarrow> bool) \<Rightarrow> 'b \<Rightarrow> 'b bochs_system \<Rightarrow> bool"
  for api alive c0 where
  start: "bochs_reachable api alive c0 \<lparr>sy_proc = \<lparr>bp_core = c0, bp_occupied = False\<rparr>, sy_calls = (\<lambda>_. Idle)\<rparr>"
| event: "bochs_reachable api alive c0 s \<Longrightarrow> bochs_event api s s' \<Longrightarrow> bochs_reachable api alive c0 s'"
| use: "bochs_reachable api alive c0 s \<Longrightarrow> bochs_use api alive s s' \<Longrightarrow> bochs_reachable api alive c0 s'"

inductive_cases notify_oneE: "notify_one calls calls'"
inductive_cases bochs_eventE: "bochs_event api s s'"
inductive_cases bochs_useE: "bochs_use api alive s s'"

section \<open>The invariant\<close>

definition bochs_inv :: "('b \<Rightarrow> bool) \<Rightarrow> 'b bochs_system \<Rightarrow> bool" where
  "bochs_inv alive s \<longleftrightarrow>
     (bp_occupied (sy_proc s) \<longleftrightarrow> (\<exists>i. holds_flag (sy_calls s i))) \<and>
     (\<forall>i j. holds_flag (sy_calls s i) \<and> holds_flag (sy_calls s j) \<longrightarrow> i = j) \<and>
     (alive (bp_core (sy_proc s)) \<longleftrightarrow> (\<exists>i. sy_calls s i = Stuck \<or> (\<exists>x. sy_calls s i = Owner x))) \<and>
     (\<not> bp_occupied (sy_proc s) \<and> (\<exists>i. sy_calls s i = Waiting) \<longrightarrow> (\<exists>j. sy_calls s j = Woken))"

text \<open>
  What the shim does with its \<open>g_alive\<close>: construction refuses while a core is alive and makes one
  otherwise, freeing ends it, the register writes of \<open>init\<close> leave it.
\<close>

definition bochs_alive_law :: "'b bochs_api \<Rightarrow> ('b \<Rightarrow> bool) \<Rightarrow> bool" where
  "bochs_alive_law api alive \<longleftrightarrow>
     (\<forall>c. case ba_new api c of (h, c') \<Rightarrow> (h = 0 \<longleftrightarrow> alive c) \<and> alive c') \<and>
     (\<forall>h c. \<not> alive (ba_free api h c)) \<and>
     (\<forall>n b l c. alive (ba_set_dtr api n b l c) = alive c) \<and>
     (\<forall>v c. alive (ba_set_tr_selector api v c) = alive c)"

lemma holds_flag_simps [simp]:
  "\<not> holds_flag Idle" "\<not> holds_flag Waiting" "\<not> holds_flag Woken"
  "holds_flag Claimed" "holds_flag (Owner x)" "holds_flag Freed" "holds_flag Stuck"
  by (simp_all add: holds_flag_def)

lemma set_call_simps [simp]:
  "sy_calls (set_call i k s) = (sy_calls s)(i := k)" "sy_proc (set_call i k s) = sy_proc s"
  by (simp_all add: set_call_def)

lemma alive_law:
  assumes "bochs_alive_law api alive"
  shows "ba_new api c = (h, c') \<Longrightarrow> (h = 0 \<longleftrightarrow> alive c) \<and> alive c'"
    and "\<not> alive (ba_free api h c)"
    and "alive (ba_set_dtr api n b l c) = alive c"
    and "alive (ba_set_tr_selector api v c) = alive c"
proof -
  note law = assms [unfolded bochs_alive_law_def]
  show "ba_new api c = (h, c') \<Longrightarrow> (h = 0 \<longleftrightarrow> alive c) \<and> alive c'"
    using law [THEN conjunct1, rule_format, of c] by simp
  show "\<not> alive (ba_free api h c)"
    and "alive (ba_set_dtr api n b l c) = alive c"
    and "alive (ba_set_tr_selector api v c) = alive c"
    using law by simp_all
qed

lemma init_alive:
  assumes "bochs_alive_law api alive" and "bochs_init api c = (r, c')"
  shows "alive c'" and "r = Some None \<longleftrightarrow> alive c"
  using assms(2) alive_law [OF assms(1)]
  by (auto simp: bochs_init_def Let_def split: prod.splits if_splits)

text \<open>The four parts of the invariant, as facts a step can be checked against.\<close>

lemma bochs_invD:
  assumes "bochs_inv alive s"
  shows "bp_occupied (sy_proc s) \<longleftrightarrow> (\<exists>i. holds_flag (sy_calls s i))"
    and "holds_flag (sy_calls s i) \<Longrightarrow> holds_flag (sy_calls s j) \<Longrightarrow> i = j"
    and "alive (bp_core (sy_proc s)) \<longleftrightarrow> (\<exists>i. sy_calls s i = Stuck \<or> (\<exists>x. sy_calls s i = Owner x))"
    and "\<not> bp_occupied (sy_proc s) \<Longrightarrow> sy_calls s i = Waiting \<Longrightarrow> \<exists>j. sy_calls s j = Woken"
  using assms unfolding bochs_inv_def by blast+

text \<open>One call changing its state without touching the flag.\<close>

lemma inv_claim:
  assumes "bochs_inv alive s" and "\<not> bp_occupied (sy_proc s)"
  shows "bochs_inv alive (set_call i Claimed (s\<lparr>sy_proc := (sy_proc s)\<lparr>bp_occupied := True\<rparr>\<rparr>))"
proof -
  have none: "\<not> holds_flag (sy_calls s j)" for j using bochs_invD(1) [OF assms(1)] assms(2) by blast
  then have "sy_calls s j \<noteq> Stuck \<and> sy_calls s j \<noteq> Owner x" for j x by (metis holds_flag_simps(5,7))
  with none bochs_invD(3) [OF assms(1)] show ?thesis
    by (auto simp: bochs_inv_def)
qed

lemma holder_not:
  "\<not> holds_flag k \<Longrightarrow> k \<noteq> Stuck \<and> k \<noteq> Owner x \<and> k \<noteq> Claimed \<and> k \<noteq> Freed"
  by (cases k) simp_all

lemma inv_same_holder:
  assumes "bochs_inv alive s" and "holds_flag (sy_calls s i)" and "holds_flag k"
    and "alive c \<longleftrightarrow> k = Stuck \<or> (\<exists>x. k = Owner x)"
  shows "bochs_inv alive (set_call i k (s\<lparr>sy_proc := (sy_proc s)\<lparr>bp_core := c\<rparr>\<rparr>))"
proof -
  have only: "\<not> holds_flag (sy_calls s j)" if "j \<noteq> i" for j
    using bochs_invD(2) [OF assms(1) _ assms(2)] that by blast
  have occ: "bp_occupied (sy_proc s)" using bochs_invD(1) [OF assms(1)] assms(2) by blast
  have "(\<exists>j. ((sy_calls s)(i := k)) j = Stuck \<or> (\<exists>x. ((sy_calls s)(i := k)) j = Owner x)) \<longleftrightarrow>
      k = Stuck \<or> (\<exists>x. k = Owner x)"
    using holder_not [OF only] by (metis fun_upd_apply)
  with occ only assms(3,4) show ?thesis
    unfolding bochs_inv_def by (simp del: fun_upd_apply) (metis fun_upd_apply)
qed

lemma notify_one_facts:
  assumes "notify_one calls calls'"
  shows "holds_flag (calls' j) \<longleftrightarrow> holds_flag (calls j)"
    and "calls' i = Waiting \<Longrightarrow> \<exists>j. calls' j = Woken"
  using assms by (cases; force)+

lemma inv_release:
  assumes "bochs_inv alive s" and "holds_flag (sy_calls s i)" and "\<not> alive (bp_core p)"
    and "notify_one ((sy_calls s)(i := Idle)) calls"
  shows "bochs_inv alive \<lparr>sy_proc = release_instance p, sy_calls = calls\<rparr>"
proof -
  have "\<not> holds_flag (((sy_calls s)(i := Idle)) j)" for j
    using bochs_invD(2) [OF assms(1) _ assms(2)] by auto
  then have none: "\<not> holds_flag (calls j)" for j
    using notify_one_facts(1) [OF assms(4)] by blast
  with holder_not [OF none] notify_one_facts(2) [OF assms(4)] assms(3) show ?thesis
    unfolding bochs_inv_def by (simp add: release_instance_def) blast
qed

text \<open>A call that does not hold the flag, moving between the states that do not either.\<close>

lemma inv_waiting:
  assumes "bochs_inv alive s" and "\<not> holds_flag (sy_calls s i)" and "\<not> holds_flag k"
    and "bp_occupied (sy_proc s) \<or> sy_calls s i = Idle \<and> k = Idle"
  shows "bochs_inv alive (set_call i k s)"
proof -
  have hold: "holds_flag (((sy_calls s)(i := k)) j) \<longleftrightarrow> holds_flag (sy_calls s j)" for j
    using assms(2,3) by simp
  have "((sy_calls s)(i := k)) j = Stuck \<or> (\<exists>x. ((sy_calls s)(i := k)) j = Owner x) \<longleftrightarrow>
      sy_calls s j = Stuck \<or> (\<exists>x. sy_calls s j = Owner x)" for j
    using holder_not [OF assms(2)] holder_not [OF assms(3)] by simp
  moreover have "sy_calls s i = Idle \<Longrightarrow> k = Idle \<Longrightarrow> (sy_calls s)(i := k) = sy_calls s"
    by (simp add: fun_upd_idem)
  ultimately show ?thesis
    using assms(1,4) hold unfolding bochs_inv_def by (simp del: fun_upd_apply) metis
qed

lemma event_bochs_inv:
  assumes "bochs_alive_law api alive" and "bochs_event api s s'" and "bochs_inv alive s"
  shows "bochs_inv alive s'"
  using assms(2)
proof cases
  case (Enter i)
  then show ?thesis
    using inv_claim [OF assms(3)] inv_waiting [OF assms(3), of i Waiting]
    by (simp add: claim_enter_def act_on_claim_def)
next
  case (Resume i timed_out)
  then show ?thesis
    using inv_claim [OF assms(3)] inv_waiting [OF assms(3), of i Waiting] inv_waiting [OF assms(3), of i Idle]
    by (auto simp: claim_resume_def claim_enter_def act_on_claim_def)
next
  case (Try i claimed p)
  then show ?thesis
    using inv_claim [OF assms(3)] assms(3) by (auto simp: try_claim_instance_def split: if_splits)
next
  case (Init_ok i x c)
  then show ?thesis
    using inv_same_holder [OF assms(3), of i "Owner x" c] init_alive(1) [OF assms(1) Init_ok(2)] by simp
next
  case (Init_panic i c)
  then show ?thesis
    using inv_same_holder [OF assms(3), of i Stuck c] init_alive(1) [OF assms(1) Init_panic(2)] by simp
next
  case (Init_null i c calls)
  have "alive (bp_core (sy_proc s))" using init_alive(2) [OF assms(1) Init_null(2)] by simp
  then obtain j where "sy_calls s j = Stuck \<or> (\<exists>x. sy_calls s j = Owner x)"
    using bochs_invD(3) [OF assms(3)] by blast
  with bochs_invD(2) [OF assms(3), of i j] Init_null(1) show ?thesis by auto
next
  case (Drop_core i x)
  then show ?thesis
    using inv_same_holder [OF assms(3), of i Freed "ba_free api (bx_handle x) (bp_core (sy_proc s))"]
      alive_law(2) [OF assms(1)]
    by (simp add: bochs_free_def)
next
  case (Drop_flag i calls)
  have "\<not> alive (bp_core (sy_proc s))"
  proof
    assume "alive (bp_core (sy_proc s))"
    then obtain j where "sy_calls s j = Stuck \<or> (\<exists>x. sy_calls s j = Owner x)"
      using bochs_invD(3) [OF assms(3)] by blast
    with bochs_invD(2) [OF assms(3), of i j] Drop_flag(1) show False by auto
  qed
  with Drop_flag inv_release [OF assms(3), of i "sy_proc s" calls] show ?thesis by simp
qed

lemma reachable_bochs_inv:
  assumes "bochs_reachable api alive c0 s" and "bochs_alive_law api alive" and "\<not> alive c0"
  shows "bochs_inv alive s"
  using assms(1)
proof induction
  case start
  show ?case using assms(3) by (simp add: bochs_inv_def)
next
  case (event s s')
  then show ?case using event_bochs_inv [OF assms(2)] by blast
next
  case (use s s')
  from use(2) show ?case
  proof cases
    case (1 i x c f)
    have "alive (bp_core (sy_proc s))" using bochs_invD(3) [OF use(3)] 1(1) by blast
    with 1 inv_same_holder [OF use(3), of i "Owner (x\<lparr>bx_last_fault := f\<rparr>)" c] show ?thesis by simp
  qed
qed

end
