(* ===== verification/Core_Registers.thy ===== *)
theory Core_Registers
  imports Hw_Guest
begin

text \<open>
  A processor core behind a C interface, as the two emulator backends use one: functions that
  get and set a register, a 64-bit chunk of a vector register, RIP and RFLAGS. The law says they
  are a register file; the lemmas are what the two backends' contracts need of it.
\<close>

definition core_regs ::
    "(u32 \<Rightarrow> 'b \<Rightarrow> u64) \<Rightarrow> ('b \<Rightarrow> u64) \<Rightarrow> ('b \<Rightarrow> u64) \<Rightarrow> (u32 \<Rightarrow> u32 \<Rightarrow> 'b \<Rightarrow> u64) \<Rightarrow> 'b \<Rightarrow> cpu_state" where
  "core_regs get_gpr get_rip get_rflags get_zmm c =
     \<lparr>cs_gpr = map (\<lambda>n. get_gpr (of_nat n) c) [0..<16], cs_rip = get_rip c, cs_rflags = get_rflags c,
      cs_zmm = map (\<lambda>n. map (\<lambda>i. get_zmm (of_nat n) (of_nat i) c) [0..<8]) [0..<32]\<rparr>"

text \<open>\<open>norm\<close> is what the core makes of a flags value.\<close>

definition core_reg_law ::
    "('b \<Rightarrow> cpu_state) \<Rightarrow> (u32 \<Rightarrow> u64 \<Rightarrow> 'b \<Rightarrow> 'b) \<Rightarrow> (u64 \<Rightarrow> 'b \<Rightarrow> 'b) \<Rightarrow> (u64 \<Rightarrow> 'b \<Rightarrow> 'b) \<Rightarrow>
     (u32 \<Rightarrow> u32 \<Rightarrow> u64 \<Rightarrow> 'b \<Rightarrow> 'b) \<Rightarrow> (u64 \<Rightarrow> u64) \<Rightarrow> bool" where
  "core_reg_law regs set_gpr set_rip set_rflags set_zmm norm \<longleftrightarrow>
     (\<forall>c n v. n < 16 \<longrightarrow> regs (set_gpr (of_nat n) v c) = (regs c)\<lparr>cs_gpr := (cs_gpr (regs c))[n := v]\<rparr>) \<and>
     (\<forall>c v. regs (set_rip v c) = (regs c)\<lparr>cs_rip := v\<rparr>) \<and>
     (\<forall>c v. regs (set_rflags v c) = (regs c)\<lparr>cs_rflags := norm v\<rparr>) \<and>
     (\<forall>c n i v. n < 32 \<and> i < 8 \<longrightarrow> regs (set_zmm (of_nat n) (of_nat i) v c) =
        (regs c)\<lparr>cs_zmm := (cs_zmm (regs c))[n := (cs_zmm (regs c) ! n)[i := v]]\<rparr>) \<and>
     (\<forall>c. norm (cs_rflags (regs c)) = cs_rflags (regs c))"

lemma core_reg_lawD:
  assumes "core_reg_law regs set_gpr set_rip set_rflags set_zmm norm"
  shows "n < 16 \<Longrightarrow> regs (set_gpr (of_nat n) v c) = (regs c)\<lparr>cs_gpr := (cs_gpr (regs c))[n := v]\<rparr>"
    and "regs (set_rip v c) = (regs c)\<lparr>cs_rip := v\<rparr>"
    and "regs (set_rflags v c) = (regs c)\<lparr>cs_rflags := norm v\<rparr>"
    and "n < 32 \<Longrightarrow> i < 8 \<Longrightarrow> regs (set_zmm (of_nat n) (of_nat i) v c) =
      (regs c)\<lparr>cs_zmm := (cs_zmm (regs c))[n := (cs_zmm (regs c) ! n)[i := v]]\<rparr>"
    and "norm (cs_rflags (regs c)) = cs_rflags (regs c)"
  using assms unfolding core_reg_law_def by blast+

lemma core_regs_wf [simp]: "wf_cpu_state (core_regs gg gr gf gz c)"
  by (simp add: core_regs_def wf_cpu_state_def list_all_iff)

lemma small_u32 [simp]: "n < 16 \<Longrightarrow> (of_nat n :: u32) \<le> 15" "n < 32 \<Longrightarrow> unat (of_nat n :: u32) = n"
  by (simp_all add: word_le_nat_alt unat_of_nat_u32)

lemma u32_small_eq: "n < 32 \<Longrightarrow> m < 32 \<Longrightarrow> (of_nat n :: u32) = of_nat m \<longleftrightarrow> n = m"
  by (metis small_u32(2))

text \<open>The eight chunk writes of \<open>set_zmm\<close> replace the register; missing chunks are zero.\<close>

definition zmm_writes :: "(u32 \<Rightarrow> u32 \<Rightarrow> u64 \<Rightarrow> 'b \<Rightarrow> 'b) \<Rightarrow> u32 \<Rightarrow> u64 list \<Rightarrow> 'b \<Rightarrow> 'b" where
  "zmm_writes set_zmm n data =
     fold (\<lambda>i. set_zmm n (of_nat i) (if i < length data then data ! i else 0)) [0..<ZMM_CHUNKS]"

lemma zmm_written:
  assumes "core_reg_law regs set_gpr set_rip set_rflags set_zmm norm" and "wf_cpu_state (regs c)"
    and "n < 32" and "length d = 8"
  shows "regs (zmm_writes set_zmm (of_nat n) d c) = (regs c)\<lparr>cs_zmm := (cs_zmm (regs c))[n := d]\<rparr>"
proof -
  let ?step = "\<lambda>i. set_zmm (of_nat n) (of_nat i) (if i < length d then d ! i else 0)"
  have len: "length (cs_zmm (regs c)) = 32" "length (cs_zmm (regs c) ! n) = 8"
    using assms(2,3) by (auto simp: wf_cpu_state_def list_all_length)
  have "k \<le> 8 \<Longrightarrow> regs (fold ?step [0..<k] c) =
      (regs c)\<lparr>cs_zmm := (cs_zmm (regs c))[n := take k d @ drop k (cs_zmm (regs c) ! n)]\<rparr>" for k
  proof (induction k)
    case (Suc k)
    have "(take k d @ drop k (cs_zmm (regs c) ! n))[k := d ! k] = take (Suc k) d @ drop (Suc k) (cs_zmm (regs c) ! n)"
      using Suc.prems assms(4) len
      by (simp add: list_update_append take_Suc_conv_app_nth Cons_nth_drop_Suc [symmetric])
    with Suc assms(3,4) len core_reg_lawD(4) [OF assms(1,3), of k "d ! k" "fold ?step [0..<k] c"]
    show ?case by simp
  qed simp
  from this [of 8] len assms(4) show ?thesis by (simp add: zmm_writes_def)
qed

section \<open>Memory\<close>

definition core_mem_law :: "(u64 \<Rightarrow> 'b \<Rightarrow> u8) \<Rightarrow> (u64 \<Rightarrow> u8 \<Rightarrow> 'b \<Rightarrow> 'b) \<Rightarrow> bool" where
  "core_mem_law rd wr \<longleftrightarrow> (\<forall>a b v c. rd a (wr b v c) = (if a = b then v else rd a c))"

definition core_bytes :: "(u64 \<Rightarrow> 'b \<Rightarrow> u8) \<Rightarrow> 'b \<Rightarrow> nat \<Rightarrow> u8" where
  "core_bytes rd c a = (if a < 2 ^ 64 then rd (of_nat a) c else 0)"

lemma of_nat_u64_eq: "n < 2 ^ 64 \<Longrightarrow> (of_nat n :: u64) = a \<longleftrightarrow> n = unat a"
  by (auto simp: word_unat_eq_iff unat_of_nat_small)

lemma core_bytes_read: "unat a + i < 2 ^ 64 \<Longrightarrow> core_bytes rd c (unat a + i) = rd (a + of_nat i) c"
  by (simp add: core_bytes_def)

lemma core_bytes_written:
  assumes "core_mem_law rd wr" and "unat a + length d < 2 ^ 64"
  shows "core_bytes rd (fold (\<lambda>i. wr (a + of_nat i) (d ! i)) [0..<length d] c) =
    (\<lambda>x. if unat a \<le> x \<and> x < unat a + length d then d ! (x - unat a) else core_bytes rd c x)"
proof -
  have "rd (of_nat x) (fold (\<lambda>i. wr (a + of_nat i) (d ! i)) [0..<k] c) =
      (if unat a \<le> x \<and> x < unat a + k then d ! (x - unat a) else rd (of_nat x) c)"
    if "x < 2 ^ 64" "unat a + k < 2 ^ 64" for x k
    using that(2)
  proof (induction k)
    case 0
    show ?case by auto
  next
    case (Suc k)
    then have "unat (a + of_nat k) = unat a + k"
      by (simp add: unat_add_u64 unat_of_nat_small)
    then have "(of_nat x = a + of_nat k) \<longleftrightarrow> x = unat a + k"
      using of_nat_u64_eq [OF that(1)] by simp
    with Suc assms(1) show ?case by (auto simp: core_mem_law_def)
  qed
  with assms(2) show ?thesis by (auto simp: core_bytes_def fun_eq_iff)
qed

lemma core_byte_written:
  "core_mem_law rd wr \<Longrightarrow> unat a + 1 < 2 ^ 64 \<Longrightarrow> core_bytes rd (wr a b c) = (core_bytes rd c)(unat a := b)"
  using core_bytes_written [of rd wr a "[b]" c] by (auto simp: fun_eq_iff)

end
