(* ===== verification/Bochs_Contract.thy ===== *)
theory Bochs_Contract
  imports Bochs_Occupancy Core_Registers
begin

text \<open>
  What the code relies on of the Bochs core's registers and memory, the three contracts of
  \<open>Oracle_Trait\<close> interpreted on the methods of \<open>BochsOracle\<close>, and a simulated core for the
  witnesses.
\<close>

section \<open>The laws of the core\<close>

definition bochs_regs :: "'b bochs_api \<Rightarrow> 'b \<Rightarrow> cpu_state" where
  "bochs_regs api = core_regs (ba_get_gpr api) (ba_get_rip api) (ba_get_rflags api) (ba_get_zmm api)"

definition bochs_reg_law :: "'b bochs_api \<Rightarrow> (u64 \<Rightarrow> u64) \<Rightarrow> bool" where
  "bochs_reg_law api norm \<longleftrightarrow>
     core_reg_law (bochs_regs api) (ba_set_gpr api) (ba_set_rip api) (ba_set_rflags api) (ba_set_zmm api) norm"

definition bochs_mem_law :: "'b bochs_api \<Rightarrow> bool" where
  "bochs_mem_law api \<longleftrightarrow> core_mem_law (ba_read_mem api) (ba_write_mem api) \<and>
     (\<forall>a n c. ba_read_mem_slice api a n c = map (\<lambda>i. ba_read_mem api (a + of_nat i) c) [0..<n]) \<and>
     (\<forall>a d c. ba_write_mem_slice api a d c =
        fold (\<lambda>i. ba_write_mem api (a + of_nat i) (d ! i)) [0..<length d] c)"

definition bochs_seg_law :: "'b bochs_api \<Rightarrow> bool" where
  "bochs_seg_law api \<longleftrightarrow>
     (\<forall>c. ba_get_msr api IA32_FS_BASE c = ba_get_seg_base api SEG_FS c \<and>
          ba_get_msr api IA32_GS_BASE c = ba_get_seg_base api SEG_GS c) \<and>
     (\<forall>c v. ba_set_msr api IA32_FS_BASE v c = ba_set_seg_base api SEG_FS v c \<and>
          ba_set_msr api IA32_GS_BASE v c = ba_set_seg_base api SEG_GS v c) \<and>
     (\<forall>c m n v. unat m < 6 \<and> unat n < 6 \<longrightarrow> ba_get_seg_base api m (ba_set_seg_base api n v c) =
        (if m = n then v else ba_get_seg_base api m c))"

definition bochs_view :: "'b bochs_api \<Rightarrow> 'b bochs_state \<Rightarrow> cpu_state" where
  "bochs_view api s = bochs_regs api (core s)"

definition bochs_ok :: "'b bochs_api \<Rightarrow> (u64 \<Rightarrow> u64) \<Rightarrow> 'b bochs_state \<Rightarrow> bool" where
  "bochs_ok api norm s \<longleftrightarrow> bochs_reg_law api norm \<and> bochs_mem_law api \<and> bochs_seg_law api"

lemma core_simps [simp]:
  "core (set_core c s) = c" "bs_self (set_core c s) = bs_self s"
  by (simp_all add: set_core_def)

section \<open>Registers\<close>

interpretation bochs: oracle_registers "bochs_ops prof api" "bochs_ok api norm" "bochs_view api" norm "\<lambda>n d. d"
  for prof api norm
proof
  fix s :: "'a bochs_state" and n v d
  have wf: "wf_cpu_state (bochs_regs api c)" for c by (simp add: bochs_regs_def)
  show "wf_cpu_state (bochs_view api s)" by (simp add: bochs_view_def wf)
  show "op_get_gpr (bochs_ops prof api) (of_nat n) s = Some (cs_gpr (bochs_view api s) ! n)" if "n < 16"
    using that by (simp add: bochs_ops_def bochs_get_gpr_def bochs_view_def bochs_regs_def core_regs_def)
  show "op_get_rip (bochs_ops prof api) s = Some (cs_rip (bochs_view api s))"
    and "op_get_rflags (bochs_ops prof api) s = Some (cs_rflags (bochs_view api s))"
    by (simp_all add: bochs_ops_def bochs_get_rip_def bochs_get_rflags_def bochs_view_def bochs_regs_def core_regs_def)
  show "op_get_zmm (bochs_ops prof api) (of_nat n) s = Some (cs_zmm (bochs_view api s) ! n)" if "n < 32"
    using that by (simp add: bochs_ops_def bochs_get_zmm_def bochs_view_def bochs_regs_def core_regs_def)
  assume ok: "bochs_ok api norm s"
  then have kept: "bochs_ok api norm (set_core c s)" for c by (simp add: bochs_ok_def)
  have law: "core_reg_law (bochs_regs api) (ba_set_gpr api) (ba_set_rip api) (ba_set_rflags api) (ba_set_zmm api) norm"
    using ok by (simp add: bochs_ok_def bochs_reg_law_def)
  note reg = core_reg_lawD [OF law]
  show "\<exists>s'. op_set_gpr (bochs_ops prof api) (of_nat n) v s = Some s' \<and> bochs_ok api norm s' \<and>
      bochs_view api s' = (bochs_view api s)\<lparr>cs_gpr := (cs_gpr (bochs_view api s))[n := v]\<rparr>" if "n < 16"
    using that kept reg(1) by (simp add: bochs_ops_def bochs_set_gpr_def bochs_view_def)
  show "\<exists>s'. op_set_rip (bochs_ops prof api) v s = Some s' \<and> bochs_ok api norm s' \<and>
      bochs_view api s' = (bochs_view api s)\<lparr>cs_rip := v\<rparr>"
    and "\<exists>s'. op_set_rflags (bochs_ops prof api) v s = Some s' \<and> bochs_ok api norm s' \<and>
      bochs_view api s' = (bochs_view api s)\<lparr>cs_rflags := norm v\<rparr>"
    using kept reg(2,3) by (simp_all add: bochs_ops_def bochs_set_rip_def bochs_set_rflags_def bochs_view_def)
  show "\<exists>s'. op_set_zmm (bochs_ops prof api) (of_nat n) d s = Some s' \<and> bochs_ok api norm s' \<and>
      bochs_view api s' = (bochs_view api s)\<lparr>cs_zmm := (cs_zmm (bochs_view api s))[n := d]\<rparr>"
    if "n < 32" "length d = 8"
    using that kept zmm_written [OF law wf that]
    by (simp add: bochs_ops_def bochs_set_zmm_def bochs_view_def zmm_writes_def)
  show "norm (cs_rflags (bochs_view api s)) = cs_rflags (bochs_view api s)"
    using reg(5) by (simp add: bochs_view_def)
qed simp

section \<open>Memory\<close>

definition bochs_bytes :: "'b bochs_api \<Rightarrow> 'b bochs_state \<Rightarrow> nat \<Rightarrow> u8" where
  "bochs_bytes api s = core_bytes (ba_read_mem api) (core s)"

lemma unat_BOCHS_ADDRESS_LIMIT: "unat BOCHS_ADDRESS_LIMIT = 2 ^ 39"
  by (simp add: BOCHS_ADDRESS_LIMIT_def push_bit_eq_mult)

interpretation bochs_memory: oracle_memory "bochs_ops prof api" "bochs_ok api norm" "bochs_bytes api"
    "unat BOCHS_ADDRESS_LIMIT"
  for prof api norm
proof
  fix s :: "'a bochs_state" and a :: u64 and n b d
  show "unat BOCHS_ADDRESS_LIMIT < 2 ^ 64" by (simp add: unat_BOCHS_ADDRESS_LIMIT)
  assume ok: "bochs_ok api norm s"
  then have law: "core_mem_law (ba_read_mem api) (ba_write_mem api)"
    and slices: "\<And>a n c. ba_read_mem_slice api a n c = map (\<lambda>i. ba_read_mem api (a + of_nat i) c) [0..<n]"
      "\<And>a d c. ba_write_mem_slice api a d c = fold (\<lambda>i. ba_write_mem api (a + of_nat i) (d ! i)) [0..<length d] c"
    and kept: "\<And>c. bochs_ok api norm (set_core c s)"
    by (simp_all add: bochs_ok_def bochs_mem_law_def)
  show "op_read_mem_byte (bochs_ops prof api) a s = Some (bochs_bytes api s (unat a))"
    using core_bytes_read [of a 0 "ba_read_mem api" "core s"] by (simp add: bochs_ops_def bochs_read_mem_byte_def bochs_bytes_def)
  show "op_read_mem (bochs_ops prof api) a n s = Some (map (\<lambda>i. bochs_bytes api s (unat a + i)) [0..<n])"
    if "unat a + n \<le> unat BOCHS_ADDRESS_LIMIT"
    using that
    by (simp add: bochs_ops_def bochs_read_mem_def bochs_bytes_def slices core_bytes_read unat_BOCHS_ADDRESS_LIMIT)
  show "\<exists>s'. op_write_mem_byte (bochs_ops prof api) a b s = Some s' \<and> bochs_ok api norm s' \<and>
      bochs_bytes api s' = (bochs_bytes api s)(unat a := b)" if "unat a < unat BOCHS_ADDRESS_LIMIT"
    using that kept core_byte_written [OF law]
    by (simp add: bochs_ops_def bochs_write_mem_byte_def bochs_bytes_def unat_BOCHS_ADDRESS_LIMIT)
  show "\<exists>s'. op_write_mem (bochs_ops prof api) a d s = Some s' \<and> bochs_ok api norm s' \<and>
      bochs_bytes api s' = (\<lambda>x. if unat a \<le> x \<and> x < unat a + length d then d ! (x - unat a) else bochs_bytes api s x)"
    if "unat a + length d \<le> unat BOCHS_ADDRESS_LIMIT"
    unfolding bochs_bytes_def using that kept core_bytes_written [OF law, of a d]
    by (simp add: bochs_ops_def bochs_write_mem_def slices unat_BOCHS_ADDRESS_LIMIT)
qed

section \<open>FS and GS\<close>

lemma seg_law:
  assumes "bochs_seg_law api"
  shows "ba_get_msr api IA32_FS_BASE c = ba_get_seg_base api SEG_FS c"
    and "ba_get_msr api IA32_GS_BASE c = ba_get_seg_base api SEG_GS c"
    and "ba_set_msr api IA32_FS_BASE v c = ba_set_seg_base api SEG_FS v c"
    and "ba_set_msr api IA32_GS_BASE v c = ba_set_seg_base api SEG_GS v c"
    and "ba_get_seg_base api SEG_FS (ba_set_seg_base api SEG_FS v c) = v"
    and "ba_get_seg_base api SEG_GS (ba_set_seg_base api SEG_GS v c) = v"
    and "ba_get_seg_base api SEG_FS (ba_set_seg_base api SEG_GS v c) = ba_get_seg_base api SEG_FS c"
    and "ba_get_seg_base api SEG_GS (ba_set_seg_base api SEG_FS v c) = ba_get_seg_base api SEG_GS c"
  using assms by (auto simp: bochs_seg_law_def SEG_FS_def SEG_GS_def)

interpretation bochs_segments: oracle_segments "bochs_ops prof api" "bochs_ok api norm"
    "\<lambda>s. ba_get_seg_base api SEG_FS (core s)" "\<lambda>s. ba_get_seg_base api SEG_GS (core s)"
  for prof api norm
proof
  fix s :: "'a bochs_state" and v
  have seg: "unat SEG_FS < 6" "unat SEG_GS < 6" by (simp_all add: SEG_FS_def SEG_GS_def)
  assume ok: "bochs_ok api norm s"
  then have kept: "bochs_ok api norm (set_core c s)" for c by (simp add: bochs_ok_def)
  have law: "bochs_seg_law api" using ok by (simp add: bochs_ok_def)
  note defs = bochs_ops_def bochs_get_seg_base_def bochs_set_seg_base_def bochs_get_msr_def bochs_set_msr_def
    seg seg_law [OF law] kept
  show "op_get_seg_base (bochs_ops prof api) SEG_FS s = Some (ba_get_seg_base api SEG_FS (core s))"
    and "op_get_seg_base (bochs_ops prof api) SEG_GS s = Some (ba_get_seg_base api SEG_GS (core s))"
    and "op_get_msr (bochs_ops prof api) IA32_FS_BASE s = Some (ba_get_seg_base api SEG_FS (core s))"
    and "op_get_msr (bochs_ops prof api) IA32_GS_BASE s = Some (ba_get_seg_base api SEG_GS (core s))"
    by (simp_all add: defs)
  show "\<exists>s'. op_set_seg_base (bochs_ops prof api) SEG_FS v s = Some s' \<and> bochs_ok api norm s' \<and>
      ba_get_seg_base api SEG_FS (core s') = v \<and> ba_get_seg_base api SEG_GS (core s') = ba_get_seg_base api SEG_GS (core s)"
    and "\<exists>s'. op_set_seg_base (bochs_ops prof api) SEG_GS v s = Some s' \<and> bochs_ok api norm s' \<and>
      ba_get_seg_base api SEG_GS (core s') = v \<and> ba_get_seg_base api SEG_FS (core s') = ba_get_seg_base api SEG_FS (core s)"
    and "\<exists>s'. op_set_msr (bochs_ops prof api) IA32_FS_BASE v s = Some s' \<and> bochs_ok api norm s' \<and>
      ba_get_seg_base api SEG_FS (core s') = v \<and> ba_get_seg_base api SEG_GS (core s') = ba_get_seg_base api SEG_GS (core s)"
    and "\<exists>s'. op_set_msr (bochs_ops prof api) IA32_GS_BASE v s = Some s' \<and> bochs_ok api norm s' \<and>
      ba_get_seg_base api SEG_GS (core s') = v \<and> ba_get_seg_base api SEG_FS (core s') = ba_get_seg_base api SEG_FS (core s)"
    by (simp_all add: defs)
qed

section \<open>A simulated core\<close>

text \<open>Used by the witnesses only: it stores what is set and reports a script of steps.\<close>

record sim_core =
  sc_gpr :: "u32 \<Rightarrow> u64"
  sc_rip :: u64
  sc_flags :: u64
  sc_zmm :: "u32 \<Rightarrow> u32 \<Rightarrow> u64"
  sc_msr :: "u32 \<Rightarrow> u64"
  sc_seg :: "u32 \<Rightarrow> u64"
  sc_mem :: "u64 \<Rightarrow> u8"
  sc_mode :: u32
  sc_alive :: bool
  sc_script :: "(u32 \<times> u32 \<times> u32) list"

definition sim_flags :: "u64 \<Rightarrow> u64" where
  "sim_flags v = (v AND 0xFFFEFEFF) OR 2"

definition sim_core_new :: "u32 \<Rightarrow> (u32 \<times> u32 \<times> u32) list \<Rightarrow> sim_core" where
  "sim_core_new mode script =
     \<lparr>sc_gpr = (\<lambda>_. 0), sc_rip = 0, sc_flags = 2, sc_zmm = (\<lambda>_ _. 0), sc_msr = (\<lambda>_. 0), sc_seg = (\<lambda>_. 0),
      sc_mem = (\<lambda>_. 0), sc_mode = mode, sc_alive = False, sc_script = script\<rparr>"

definition sim_bochs :: "sim_core bochs_api" where
  "sim_bochs =
     \<lparr>ba_new = (\<lambda>c. if sc_alive c then (0, c) else (1, c\<lparr>sc_alive := True\<rparr>)),
      ba_free = (\<lambda>h c. c\<lparr>sc_alive := False\<rparr>),
      ba_cpu_mode = sc_mode,
      ba_set_gpr = (\<lambda>n v c. c\<lparr>sc_gpr := (sc_gpr c)(n := v)\<rparr>), ba_get_gpr = (\<lambda>n c. sc_gpr c n),
      ba_set_rip = (\<lambda>v c. c\<lparr>sc_rip := v\<rparr>), ba_get_rip = sc_rip,
      ba_set_rflags = (\<lambda>v c. c\<lparr>sc_flags := v\<rparr>), ba_get_rflags = (\<lambda>c. sim_flags (sc_flags c)),
      ba_set_zmm = (\<lambda>n i v c. c\<lparr>sc_zmm := (sc_zmm c)(n := (sc_zmm c n)(i := v))\<rparr>),
      ba_get_zmm = (\<lambda>n i c. sc_zmm c n i),
      ba_set_msr = (\<lambda>m v c. if m = IA32_FS_BASE then c\<lparr>sc_seg := (sc_seg c)(SEG_FS := v)\<rparr>
        else if m = IA32_GS_BASE then c\<lparr>sc_seg := (sc_seg c)(SEG_GS := v)\<rparr> else c\<lparr>sc_msr := (sc_msr c)(m := v)\<rparr>),
      ba_get_msr = (\<lambda>m c. if m = IA32_FS_BASE then sc_seg c SEG_FS else if m = IA32_GS_BASE then sc_seg c SEG_GS
        else sc_msr c m),
      ba_set_cr = (\<lambda>n v c. c), ba_get_cr = (\<lambda>n c. 0),
      ba_set_ssp = (\<lambda>v c. c), ba_get_ssp = (\<lambda>c. 0),
      ba_enable_shadow_stack = (\<lambda>b l c. (1, c)),
      ba_set_dtr = (\<lambda>w b l c. c), ba_set_tr_selector = (\<lambda>v c. c),
      ba_set_seg_selector = (\<lambda>n v c. c), ba_get_seg_selector = (\<lambda>n c. 0),
      ba_set_seg_base = (\<lambda>n v c. c\<lparr>sc_seg := (sc_seg c)(n := v)\<rparr>), ba_get_seg_base = (\<lambda>n c. sc_seg c n),
      ba_set_seg_limit = (\<lambda>n v c. c), ba_get_seg_limit = (\<lambda>n c. 0),
      ba_read_mem = (\<lambda>a c. sc_mem c a), ba_write_mem = (\<lambda>a b c. c\<lparr>sc_mem := (sc_mem c)(a := b)\<rparr>),
      ba_read_mem_slice = (\<lambda>a n c. map (\<lambda>i. sc_mem c (a + of_nat i)) [0..<n]),
      ba_write_mem_slice = (\<lambda>a d c.
        fold (\<lambda>i c. c\<lparr>sc_mem := (sc_mem c)(a + of_nat i := d ! i)\<rparr>) [0..<length d] c),
      ba_is_mapped = (\<lambda>a c. 0),
      ba_step = (\<lambda>v e c. case sc_script c of [] \<Rightarrow> (0, v, e, c)
        | (status, vec, err) # rest \<Rightarrow> (status, vec, err, c\<lparr>sc_script := rest\<rparr>))\<rparr>"

lemma sim_flags_idem [simp]: "sim_flags (sim_flags v) = sim_flags v"
  unfolding sim_flags_def by (rule bit_word_eqI) (auto simp: bit_and_iff bit_or_iff)

lemma sim_reg_law: "bochs_reg_law sim_bochs sim_flags"
  unfolding bochs_reg_law_def core_reg_law_def
  by (auto simp: bochs_regs_def core_regs_def sim_bochs_def u32_small_eq intro!: nth_equalityI simp: nth_list_update)

lemma sim_bochs_ok: "bochs_ok sim_bochs sim_flags s"
proof -
  have "bochs_mem_law sim_bochs" by (auto simp: bochs_mem_law_def core_mem_law_def sim_bochs_def)
  moreover have "bochs_seg_law sim_bochs"
    by (auto simp: bochs_seg_law_def sim_bochs_def SEG_FS_def SEG_GS_def IA32_FS_BASE_def IA32_GS_BASE_def)
  ultimately show ?thesis by (simp add: bochs_ok_def sim_reg_law)
qed

lemma sim_alive_law: "bochs_alive_law sim_bochs sc_alive"
  by (auto simp: bochs_alive_law_def sim_bochs_def)

lemma sim_core_dead: "\<not> sc_alive (sim_core_new mode script)"
  by (simp add: sim_core_new_def)

end
