(* ===== verification/Rust_Strings.thy ===== *)
theory Rust_Strings
  imports Prelude
begin

text \<open>
  What the code uses of Rust's strings. A \<open>str\<close> is the list of its UTF-8 bytes, as Isabelle
  characters; \<open>from_utf8\<close> and \<open>from_utf8_lossy\<close> scan bytes the way the standard library does, one
  well-formed sequence or one ill-formed prefix at a time.
\<close>

section \<open>Substrings\<close>

definition starts_with :: "string \<Rightarrow> string \<Rightarrow> bool" where
  "starts_with pat s \<longleftrightarrow> take (length pat) s = pat"

definition ends_with :: "string \<Rightarrow> string \<Rightarrow> bool" where
  "ends_with pat s \<longleftrightarrow> starts_with (rev pat) (rev s)"

fun str_contains :: "string \<Rightarrow> string \<Rightarrow> bool" where
  "str_contains pat [] \<longleftrightarrow> pat = []"
| "str_contains pat (c # s) \<longleftrightarrow> starts_with pat (c # s) \<or> str_contains pat s"

text \<open>
  \<open>split\<close> and \<open>replace\<close> with a nonempty pattern: leftmost matches, not overlapping. \<open>cur\<close> is the
  piece read so far.
\<close>

function split_from :: "string \<Rightarrow> string \<Rightarrow> string \<Rightarrow> string list" where
  "split_from pat cur [] = [cur]"
| "split_from pat cur (c # s) =
     (if starts_with pat (c # s) then cur # split_from pat [] (drop (length pat - 1) s)
      else split_from pat (cur @ [c]) s)"
  by pat_completeness auto
termination by (relation "measure (\<lambda>(_, _, s). length s)") auto

definition str_split :: "string \<Rightarrow> string \<Rightarrow> string list" where
  "str_split pat s = split_from pat [] s"

function str_replace :: "string \<Rightarrow> string \<Rightarrow> string \<Rightarrow> string" where
  "str_replace pat to [] = []"
| "str_replace pat to (c # s) =
     (if starts_with pat (c # s) then to @ str_replace pat to (drop (length pat - 1) s)
      else c # str_replace pat to s)"
  by pat_completeness auto
termination by (relation "measure (\<lambda>(_, _, s). length s)") auto

lemma starts_with_iff: "starts_with pat s \<longleftrightarrow> (\<exists>t. s = pat @ t)"
  by (auto simp: starts_with_def) (metis append_take_drop_id)

lemma starts_with_append [simp]: "starts_with pat (pat @ s)"
  by (simp add: starts_with_def)

lemma str_contains_iff: "str_contains pat s \<longleftrightarrow> (\<exists>u t. s = u @ pat @ t)"
proof (induction s)
  case (Cons c s)
  have "(\<exists>u t. c # s = u @ pat @ t) \<longleftrightarrow> starts_with pat (c # s) \<or> (\<exists>u t. s = u @ pat @ t)"
    (is "?lhs \<longleftrightarrow> ?rhs")
  proof
    assume ?lhs
    then obtain u t where "c # s = u @ pat @ t" by blast
    then show ?rhs by (cases u) (auto simp: starts_with_iff)
  next
    assume ?rhs
    then show ?lhs by (metis append_Cons append_Nil starts_with_iff)
  qed
  with Cons show ?case by simp
qed simp

text \<open>Putting the pattern back between the pieces gives the string; no piece was split too late.\<close>

fun join_with :: "string \<Rightarrow> string list \<Rightarrow> string" where
  "join_with sep [] = []"
| "join_with sep [p] = p"
| "join_with sep (p # ps) = p @ sep @ join_with sep ps"

lemma split_from_nonempty [simp]: "split_from pat cur s \<noteq> []"
  by (induction pat cur s rule: split_from.induct) auto

lemma join_with_Cons: "ps \<noteq> [] \<Longrightarrow> join_with sep (p # ps) = p @ sep @ join_with sep ps"
  by (cases ps) auto

lemma starts_with_Cons:
  "pat \<noteq> [] \<Longrightarrow> starts_with pat (c # s) \<Longrightarrow> c # s = pat @ drop (length pat - 1) s"
  by (cases pat) (auto simp: starts_with_iff)

lemma join_split_from: "pat \<noteq> [] \<Longrightarrow> join_with pat (split_from pat cur s) = cur @ s"
proof (induction pat cur s rule: split_from.induct)
  case (2 pat cur c s)
  show ?case
  proof (cases "starts_with pat (c # s)")
    case True
    have "join_with pat (split_from pat cur (c # s)) = cur @ pat @ drop (length pat - 1) s"
      using 2 True by (simp add: join_with_Cons)
    also have "\<dots> = cur @ c # s" using starts_with_Cons [OF 2(3) True] by simp
    finally show ?thesis .
  next
    case False
    with 2 show ?thesis by simp
  qed
qed simp

lemma replace_is_join: "pat \<noteq> [] \<Longrightarrow> cur @ str_replace pat to s = join_with to (split_from pat cur s)"
  by (induction pat cur s rule: split_from.induct) (simp_all add: join_with_Cons)

section \<open>UTF-8\<close>

definition byte_in :: "u8 list \<Rightarrow> nat \<Rightarrow> u8 \<Rightarrow> u8 \<Rightarrow> bool" where
  "byte_in bs i lo hi \<longleftrightarrow> i < length bs \<and> lo \<le> bs ! i \<and> bs ! i \<le> hi"

text \<open>
  The sequence at the head of the bytes: whether it is well-formed, and its length or that of the
  longest prefix of one.
\<close>

definition utf8_head :: "u8 \<Rightarrow> u8 list \<Rightarrow> bool \<times> nat" where
  "utf8_head b rest =
     (if b < 0x80 then (True, 1)
      else if 0xC2 \<le> b \<and> b \<le> 0xDF then (if byte_in rest 0 0x80 0xBF then (True, 2) else (False, 1))
      else if 0xE0 \<le> b \<and> b \<le> 0xEF then
        (if \<not> byte_in rest 0 (if b = 0xE0 then 0xA0 else 0x80) (if b = 0xED then 0x9F else 0xBF) then (False, 1)
         else if \<not> byte_in rest 1 0x80 0xBF then (False, 2) else (True, 3))
      else if 0xF0 \<le> b \<and> b \<le> 0xF4 then
        (if \<not> byte_in rest 0 (if b = 0xF0 then 0x90 else 0x80) (if b = 0xF4 then 0x8F else 0xBF) then (False, 1)
         else if \<not> byte_in rest 1 0x80 0xBF then (False, 2)
         else if \<not> byte_in rest 2 0x80 0xBF then (False, 3) else (True, 4))
      else (False, 1))"

function utf8_chunks :: "u8 list \<Rightarrow> (bool \<times> u8 list) list" where
  "utf8_chunks [] = []"
| "utf8_chunks (b # rest) =
     (let (ok, n) = utf8_head b rest
      in (ok, b # take (n - 1) rest) # utf8_chunks (drop (n - 1) rest))"
  by pat_completeness auto
termination by (relation "measure length") auto

definition utf8_valid :: "u8 list \<Rightarrow> bool" where
  "utf8_valid bs \<longleftrightarrow> list_all fst (utf8_chunks bs)"

definition REPLACEMENT :: "u8 list" where "REPLACEMENT = [0xEF, 0xBF, 0xBD]"

definition from_utf8_lossy :: "u8 list \<Rightarrow> u8 list" where
  "from_utf8_lossy bs = concat (map (\<lambda>(ok, chunk). if ok then chunk else REPLACEMENT) (utf8_chunks bs))"

definition bytes_to_str :: "u8 list \<Rightarrow> string" where
  "bytes_to_str = map (\<lambda>b. char_of (unat b))"

lemma concat_chunks: "concat (map snd (utf8_chunks bs)) = bs"
  by (induction bs rule: utf8_chunks.induct) (simp_all split: prod.splits)

lemma lossy_valid: "utf8_valid bs \<Longrightarrow> from_utf8_lossy bs = bs"
proof -
  assume "utf8_valid bs"
  then have "map (\<lambda>(ok, chunk). if ok then chunk else REPLACEMENT) (utf8_chunks bs) = map snd (utf8_chunks bs)"
    by (auto simp: utf8_valid_def list_all_iff)
  then show ?thesis by (simp only: from_utf8_lossy_def concat_chunks)
qed

lemma ascii_valid: "list_all (\<lambda>b. b < 0x80) bs \<Longrightarrow> utf8_valid bs"
  by (induction bs) (auto simp: utf8_valid_def utf8_head_def)

text \<open>The bytes of a string, back.\<close>

definition str_bytes :: "string \<Rightarrow> u8 list" where
  "str_bytes = map (\<lambda>c. of_nat (of_char c))"

lemma of_char_u8 [simp]: "unat (of_nat (of_char c) :: u8) = of_char c"
proof -
  have "(of_char c :: nat) < 256" by (metis range_eqI range_nat_of_char atLeastLessThan_iff)
  then show ?thesis by (simp add: unat_of_nat take_bit_eq_mod)
qed

lemma str_bytes_inverse [simp]: "bytes_to_str (str_bytes s) = s"
  by (simp add: bytes_to_str_def str_bytes_def comp_def)

end
