(* ===== verification/Sail_Oracle.thy ===== *)
theory Sail_Oracle
  imports Oracle_Trait Rust_Strings
begin

text \<open>
  The Sail backend, \<open>src/sail.rs\<close>: \<open>SailOracle\<close> and its implementation of \<open>X86Oracle\<close>.

  The C functions of \<open>csrc/shim.cpp\<close>, glue over the generated model, are a parameter: a record of
  functions on the state \<open>'m\<close> of one model instance. The lock around every call (\<open>MODEL_LOCK\<close>) only
  serialises them and keeps no state; instances are independent, so an oracle is its instance.
\<close>

section \<open>The C interface\<close>

record 'm sail_api =
  sa_new :: "'m option"
  sa_set_gpr :: "u32 \<Rightarrow> u64 \<Rightarrow> 'm \<Rightarrow> 'm"
  sa_get_gpr :: "u32 \<Rightarrow> 'm \<Rightarrow> u64"
  sa_set_rip :: "u64 \<Rightarrow> 'm \<Rightarrow> 'm"
  sa_get_rip :: "'m \<Rightarrow> u64"
  sa_set_rflags :: "u64 \<Rightarrow> 'm \<Rightarrow> 'm"
  sa_get_rflags :: "'m \<Rightarrow> u64"
  sa_step :: "'m \<Rightarrow> u64 \<times> 'm"
  sa_set_zmm :: "u32 \<Rightarrow> u32 \<Rightarrow> u64 \<Rightarrow> 'm \<Rightarrow> 'm"
  sa_get_zmm :: "u32 \<Rightarrow> u32 \<Rightarrow> 'm \<Rightarrow> u64"
  sa_set_msr :: "u32 \<Rightarrow> u64 \<Rightarrow> 'm \<Rightarrow> 'm"
  sa_get_msr :: "u32 \<Rightarrow> 'm \<Rightarrow> u64"
  sa_set_ctr :: "u32 \<Rightarrow> u64 \<Rightarrow> 'm \<Rightarrow> 'm"
  sa_get_ctr :: "u32 \<Rightarrow> 'm \<Rightarrow> u64"
  sa_set_seg_visible :: "u32 \<Rightarrow> u64 \<Rightarrow> 'm \<Rightarrow> 'm"
  sa_get_seg_visible :: "u32 \<Rightarrow> 'm \<Rightarrow> u64"
  sa_set_seg_base :: "u32 \<Rightarrow> u64 \<Rightarrow> 'm \<Rightarrow> 'm"
  sa_get_seg_base :: "u32 \<Rightarrow> 'm \<Rightarrow> u64"
  sa_set_seg_limit :: "u32 \<Rightarrow> u64 \<Rightarrow> 'm \<Rightarrow> 'm"
  sa_get_seg_limit :: "u32 \<Rightarrow> 'm \<Rightarrow> u64"
  sa_set_seg_attr :: "u32 \<Rightarrow> u64 \<Rightarrow> 'm \<Rightarrow> 'm"
  sa_get_seg_attr :: "u32 \<Rightarrow> 'm \<Rightarrow> u64"
  sa_get_fault_msg :: "'m \<Rightarrow> u8 list \<Rightarrow> u8 list \<times> nat"
  sa_read_byte :: "u64 \<Rightarrow> 'm \<Rightarrow> u8"
  sa_write_byte :: "u64 \<Rightarrow> u8 \<Rightarrow> 'm \<Rightarrow> 'm"
  sa_is_mapped :: "u64 \<Rightarrow> 'm \<Rightarrow> bool"

text \<open>
  \<open>sa_new\<close> is \<open>None\<close> for a null handle. \<open>sa_get_fault_msg m buf\<close> is the call with a buffer that
  holds \<open>buf\<close> (the null pointer with capacity 0 is the empty one): what the buffer holds
  afterwards, and the length returned.
\<close>

section \<open>The model's MSR file\<close>

definition msr_slot :: "u32 \<Rightarrow> u32 option" where
  "msr_slot msr =
     (if msr = IA32_EFER then Some 0
      else if msr = IA32_FS_BASE then Some 1
      else if msr = IA32_GS_BASE then Some 2
      else if msr = IA32_KERNEL_GS_BASE then Some 3
      else if msr = IA32_STAR then Some 4
      else if msr = IA32_LSTAR then Some 5
      else if msr = IA32_FMASK then Some 6
      else None)"

section \<open>The oracle\<close>

definition sail_new :: "'m sail_api \<Rightarrow> 'm panics" where
  "sail_new api = sa_new api"

definition sail_set_seg_attr :: "profile \<Rightarrow> 'm sail_api \<Rightarrow> u32 \<Rightarrow> u16 \<Rightarrow> 'm \<Rightarrow> 'm panics" where
  "sail_set_seg_attr prof api n value m = do {
     _ \<leftarrow> debug_assert prof (unat n < SEG_COUNT);
     Some (sa_set_seg_attr api n (ucast value) m) }"

definition sail_get_seg_attr :: "profile \<Rightarrow> 'm sail_api \<Rightarrow> u32 \<Rightarrow> 'm \<Rightarrow> u16 panics" where
  "sail_get_seg_attr prof api n m = do {
     _ \<leftarrow> debug_assert prof (unat n < SEG_COUNT);
     Some (ucast (sa_get_seg_attr api n m)) }"

definition sail_classify :: "string \<Rightarrow> fault_kind" where
  "sail_classify msg =
     (if starts_with ''Model error'' msg \<or> starts_with ''Translation error'' msg then Unimplemented
      else if str_contains '':UD'' msg \<or> str_contains ''ILLEGAL-INSTRUCTION'' msg \<or> str_contains ''UD2'' msg
        then UndefinedOpcode
      else if str_contains '':DE'' msg then DivideError
      else if str_contains '':GP'' msg \<or> str_contains ''NON-CANONICAL'' msg then GeneralProtection
      else if str_contains '':PF'' msg \<or> str_contains ''PAGE-FAULT'' msg then PageFault
      else if str_contains ''UNALIGNED'' msg \<or> str_contains '':AC'' msg then AlignmentCheck
      else OtherException)"

text \<open>The message in two calls: one for its length, one into a buffer with room for the NUL.\<close>

definition sail_fault_msg :: "'m sail_api \<Rightarrow> 'm \<Rightarrow> string" where
  "sail_fault_msg api m =
     (let len = snd (sa_get_fault_msg api m []);
          buf = replicate (len + 1) 0;
          buf = fst (sa_get_fault_msg api m buf);
          buf = take len buf
      in bytes_to_str (from_utf8_lossy buf))"

section \<open>\<open>X86Oracle\<close> for \<open>SailOracle\<close>\<close>

definition sail_set_gpr :: "profile \<Rightarrow> 'm sail_api \<Rightarrow> u32 \<Rightarrow> u64 \<Rightarrow> 'm \<Rightarrow> 'm panics" where
  "sail_set_gpr prof api n value m = do {
     _ \<leftarrow> debug_assert prof (n \<le> 15);
     Some (sa_set_gpr api n value m) }"

definition sail_get_gpr :: "profile \<Rightarrow> 'm sail_api \<Rightarrow> u32 \<Rightarrow> 'm \<Rightarrow> u64 panics" where
  "sail_get_gpr prof api n m = do {
     _ \<leftarrow> debug_assert prof (n \<le> 15);
     Some (sa_get_gpr api n m) }"

definition sail_set_rip :: "'m sail_api \<Rightarrow> u64 \<Rightarrow> 'm \<Rightarrow> 'm panics" where
  "sail_set_rip api value m = Some (sa_set_rip api value m)"

definition sail_get_rip :: "'m sail_api \<Rightarrow> 'm \<Rightarrow> u64 panics" where
  "sail_get_rip api m = Some (sa_get_rip api m)"

definition sail_set_rflags :: "'m sail_api \<Rightarrow> u64 \<Rightarrow> 'm \<Rightarrow> 'm panics" where
  "sail_set_rflags api value m = Some (sa_set_rflags api value m)"

definition sail_get_rflags :: "'m sail_api \<Rightarrow> 'm \<Rightarrow> u64 panics" where
  "sail_get_rflags api m = Some (sa_get_rflags api m)"

definition sail_set_zmm :: "profile \<Rightarrow> 'm sail_api \<Rightarrow> u32 \<Rightarrow> u64 list \<Rightarrow> 'm \<Rightarrow> 'm panics" where
  "sail_set_zmm prof api n data m = do {
     _ \<leftarrow> debug_assert prof (unat n < ZMM_REGS \<and> length data \<le> ZMM_CHUNKS);
     Some (fold (\<lambda>i. sa_set_zmm api n (of_nat i) (if i < length data then data ! i else 0)) [0..<ZMM_CHUNKS] m) }"

definition sail_get_zmm :: "profile \<Rightarrow> 'm sail_api \<Rightarrow> u32 \<Rightarrow> 'm \<Rightarrow> u64 list panics" where
  "sail_get_zmm prof api n m = do {
     _ \<leftarrow> debug_assert prof (unat n < ZMM_REGS);
     Some (map (\<lambda>i. sa_get_zmm api n (of_nat i) m) [0..<ZMM_CHUNKS]) }"

definition sail_set_msr :: "'m sail_api \<Rightarrow> u32 \<Rightarrow> u64 \<Rightarrow> 'm \<Rightarrow> 'm panics" where
  "sail_set_msr api msr value m =
     (case msr_slot msr of Some idx \<Rightarrow> Some (sa_set_msr api idx value m) | None \<Rightarrow> Some m)"

definition sail_get_msr :: "'m sail_api \<Rightarrow> u32 \<Rightarrow> 'm \<Rightarrow> u64 panics" where
  "sail_get_msr api msr m =
     (case msr_slot msr of Some idx \<Rightarrow> Some (sa_get_msr api idx m) | None \<Rightarrow> Some 0)"

definition sail_set_cr :: "profile \<Rightarrow> 'm sail_api \<Rightarrow> u32 \<Rightarrow> u64 \<Rightarrow> 'm \<Rightarrow> 'm panics" where
  "sail_set_cr prof api n value m = do {
     _ \<leftarrow> debug_assert prof (n \<le> 16);
     Some (sa_set_ctr api n value m) }"

definition sail_get_cr :: "profile \<Rightarrow> 'm sail_api \<Rightarrow> u32 \<Rightarrow> 'm \<Rightarrow> u64 panics" where
  "sail_get_cr prof api n m = do {
     _ \<leftarrow> debug_assert prof (n \<le> 16);
     Some (sa_get_ctr api n m) }"

definition sail_set_seg_selector :: "profile \<Rightarrow> 'm sail_api \<Rightarrow> u32 \<Rightarrow> u16 \<Rightarrow> 'm \<Rightarrow> 'm panics" where
  "sail_set_seg_selector prof api n value m = do {
     _ \<leftarrow> debug_assert prof (unat n < SEG_COUNT);
     Some (sa_set_seg_visible api n (ucast value) m) }"

definition sail_get_seg_selector :: "profile \<Rightarrow> 'm sail_api \<Rightarrow> u32 \<Rightarrow> 'm \<Rightarrow> u16 panics" where
  "sail_get_seg_selector prof api n m = do {
     _ \<leftarrow> debug_assert prof (unat n < SEG_COUNT);
     Some (ucast (sa_get_seg_visible api n m)) }"

definition sail_set_seg_base :: "profile \<Rightarrow> 'm sail_api \<Rightarrow> u32 \<Rightarrow> u64 \<Rightarrow> 'm \<Rightarrow> 'm panics" where
  "sail_set_seg_base prof api n value m = do {
     _ \<leftarrow> debug_assert prof (unat n < SEG_COUNT);
     let m = sa_set_seg_base api n value m;
     if n = SEG_FS then sail_set_msr api IA32_FS_BASE value m
     else if n = SEG_GS then sail_set_msr api IA32_GS_BASE value m
     else Some m }"

definition sail_get_seg_base :: "profile \<Rightarrow> 'm sail_api \<Rightarrow> u32 \<Rightarrow> 'm \<Rightarrow> u64 panics" where
  "sail_get_seg_base prof api n m = do {
     _ \<leftarrow> debug_assert prof (unat n < SEG_COUNT);
     if n = SEG_FS then sail_get_msr api IA32_FS_BASE m
     else if n = SEG_GS then sail_get_msr api IA32_GS_BASE m
     else Some (sa_get_seg_base api n m) }"

definition sail_set_seg_limit :: "profile \<Rightarrow> 'm sail_api \<Rightarrow> u32 \<Rightarrow> u32 \<Rightarrow> 'm \<Rightarrow> 'm panics" where
  "sail_set_seg_limit prof api n value m = do {
     _ \<leftarrow> debug_assert prof (unat n < SEG_COUNT);
     Some (sa_set_seg_limit api n (ucast value) m) }"

definition sail_get_seg_limit :: "profile \<Rightarrow> 'm sail_api \<Rightarrow> u32 \<Rightarrow> 'm \<Rightarrow> u32 panics" where
  "sail_get_seg_limit prof api n m = do {
     _ \<leftarrow> debug_assert prof (unat n < SEG_COUNT);
     Some (ucast (sa_get_seg_limit api n m)) }"

definition sail_read_mem_byte :: "'m sail_api \<Rightarrow> u64 \<Rightarrow> 'm \<Rightarrow> u8 panics" where
  "sail_read_mem_byte api addr m = Some (sa_read_byte api addr m)"

definition sail_write_mem_byte :: "'m sail_api \<Rightarrow> u64 \<Rightarrow> u8 \<Rightarrow> 'm \<Rightarrow> 'm panics" where
  "sail_write_mem_byte api addr byte m = Some (sa_write_byte api addr byte m)"

definition sail_read_mem :: "'m sail_api \<Rightarrow> u64 \<Rightarrow> nat \<Rightarrow> 'm \<Rightarrow> u8 list panics" where
  "sail_read_mem api addr len m = Some (map (\<lambda>i. sa_read_byte api (addr + of_nat i) m) [0..<len])"

definition sail_write_mem :: "'m sail_api \<Rightarrow> u64 \<Rightarrow> u8 list \<Rightarrow> 'm \<Rightarrow> 'm panics" where
  "sail_write_mem api addr data m =
     Some (fold (\<lambda>i. sa_write_byte api (addr + of_nat i) (data ! i)) [0..<length data] m)"

definition sail_is_mapped :: "'m sail_api \<Rightarrow> u64 \<Rightarrow> 'm \<Rightarrow> bool" where
  "sail_is_mapped api addr m = sa_is_mapped api addr m"

definition sail_step :: "'m sail_api \<Rightarrow> 'm \<Rightarrow> (step_outcome \<times> 'm) panics" where
  "sail_step api m =
     (let (status, m) = sa_step api m in
      Some (if status = 0 then Retired
            else if status = 2 then Syscall
            else (let msg = sail_fault_msg api m in Fault (sail_classify msg) msg), m))"

definition sail_ops :: "profile \<Rightarrow> 'm sail_api \<Rightarrow> 'm oracle_ops" where
  "sail_ops prof api =
     \<lparr>op_backend_name = (\<lambda>_. ''sail''),
      op_set_gpr = sail_set_gpr prof api, op_get_gpr = sail_get_gpr prof api,
      op_set_rip = sail_set_rip api, op_get_rip = sail_get_rip api,
      op_set_rflags = sail_set_rflags api, op_get_rflags = sail_get_rflags api,
      op_set_zmm = sail_set_zmm prof api, op_get_zmm = sail_get_zmm prof api,
      op_vector_chunks = default_vector_chunks, op_vector_regs = default_vector_regs,
      op_set_msr = sail_set_msr api, op_get_msr = sail_get_msr api,
      op_set_cr = sail_set_cr prof api, op_get_cr = sail_get_cr prof api,
      op_enable_shadow_stack = default_enable_shadow_stack,
      op_set_ssp = default_set_ssp, op_get_ssp = default_get_ssp,
      op_set_seg_selector = sail_set_seg_selector prof api,
      op_get_seg_selector = sail_get_seg_selector prof api,
      op_set_seg_base = sail_set_seg_base prof api, op_get_seg_base = sail_get_seg_base prof api,
      op_set_seg_limit = sail_set_seg_limit prof api, op_get_seg_limit = sail_get_seg_limit prof api,
      op_read_mem_byte = sail_read_mem_byte api, op_write_mem_byte = sail_write_mem_byte api,
      op_read_mem = sail_read_mem api, op_write_mem = sail_write_mem api,
      op_is_mapped = sail_is_mapped api, op_step = sail_step api,
      op_fault_msg = (\<lambda>m. Some (sail_fault_msg api m))\<rparr>"

end
