(* ===== verification/Sail_Contract.thy ===== *)
theory Sail_Contract
  imports Sail_Oracle Core_Registers
begin

text \<open>
  What the code relies on of a model instance's registers, MSR file and memory, the three
  contracts of \<open>Oracle_Trait\<close> interpreted on the methods of \<open>SailOracle\<close>, what the backend
  reports of a step, and a simulated instance for the witnesses.
\<close>

section \<open>The laws of an instance\<close>

definition sail_view :: "'m sail_api \<Rightarrow> 'm \<Rightarrow> cpu_state" where
  "sail_view api = core_regs (sa_get_gpr api) (sa_get_rip api) (sa_get_rflags api) (sa_get_zmm api)"

definition sail_reg_law :: "'m sail_api \<Rightarrow> (u64 \<Rightarrow> u64) \<Rightarrow> bool" where
  "sail_reg_law api norm \<longleftrightarrow>
     core_reg_law (sail_view api) (sa_set_gpr api) (sa_set_rip api) (sa_set_rflags api) (sa_set_zmm api) norm"

text \<open>The MSR file is indexed storage, apart from the hidden segment bases.\<close>

definition sail_msr_law :: "'m sail_api \<Rightarrow> bool" where
  "sail_msr_law api \<longleftrightarrow>
     (\<forall>i j v m. sa_get_msr api i (sa_set_msr api j v m) = (if i = j then v else sa_get_msr api i m)) \<and>
     (\<forall>i n v m. sa_get_msr api i (sa_set_seg_base api n v m) = sa_get_msr api i m)"

definition sail_ok :: "'m sail_api \<Rightarrow> (u64 \<Rightarrow> u64) \<Rightarrow> 'm \<Rightarrow> bool" where
  "sail_ok api norm m \<longleftrightarrow> sail_reg_law api norm \<and> core_mem_law (sa_read_byte api) (sa_write_byte api) \<and> sail_msr_law api"

text \<open>
  The message call: it returns the whole length, and copies as much as fits before a NUL. \<open>text\<close>
  is the message, without a NUL as a C string is.
\<close>

definition sail_msg_law :: "'m sail_api \<Rightarrow> ('m \<Rightarrow> u8 list) \<Rightarrow> bool" where
  "sail_msg_law api msg \<longleftrightarrow>
     (\<forall>m buf. sa_get_fault_msg api m buf =
        (if buf = [] then []
         else (let n = min (length (msg m)) (length buf - 1) in take n (msg m) @ [0] @ drop (n + 1) buf),
         length (msg m)))"

section \<open>Registers\<close>

interpretation sail: oracle_registers "sail_ops prof api" "sail_ok api norm" "sail_view api" norm "\<lambda>n d. d"
  for prof api norm
proof
  fix s :: 'a and n v d
  have wf: "wf_cpu_state (sail_view api c)" for c :: 'a by (simp add: sail_view_def)
  show "wf_cpu_state (sail_view api s)" by (rule wf)
  show "op_get_gpr (sail_ops prof api) (of_nat n) s = Some (cs_gpr (sail_view api s) ! n)" if "n < 16"
    using that by (simp add: sail_ops_def sail_get_gpr_def sail_view_def core_regs_def)
  show "op_get_rip (sail_ops prof api) s = Some (cs_rip (sail_view api s))"
    and "op_get_rflags (sail_ops prof api) s = Some (cs_rflags (sail_view api s))"
    by (simp_all add: sail_ops_def sail_get_rip_def sail_get_rflags_def sail_view_def core_regs_def)
  show "op_get_zmm (sail_ops prof api) (of_nat n) s = Some (cs_zmm (sail_view api s) ! n)" if "n < 32"
    using that by (simp add: sail_ops_def sail_get_zmm_def sail_view_def core_regs_def)
  assume ok: "sail_ok api norm s"
  then have kept: "sail_ok api norm m" for m by (simp add: sail_ok_def)
  have law: "core_reg_law (sail_view api) (sa_set_gpr api) (sa_set_rip api) (sa_set_rflags api) (sa_set_zmm api) norm"
    using ok by (simp add: sail_ok_def sail_reg_law_def)
  note reg = core_reg_lawD [OF law]
  show "\<exists>s'. op_set_gpr (sail_ops prof api) (of_nat n) v s = Some s' \<and> sail_ok api norm s' \<and>
      sail_view api s' = (sail_view api s)\<lparr>cs_gpr := (cs_gpr (sail_view api s))[n := v]\<rparr>" if "n < 16"
    using that kept reg(1) by (simp add: sail_ops_def sail_set_gpr_def)
  show "\<exists>s'. op_set_rip (sail_ops prof api) v s = Some s' \<and> sail_ok api norm s' \<and>
      sail_view api s' = (sail_view api s)\<lparr>cs_rip := v\<rparr>"
    and "\<exists>s'. op_set_rflags (sail_ops prof api) v s = Some s' \<and> sail_ok api norm s' \<and>
      sail_view api s' = (sail_view api s)\<lparr>cs_rflags := norm v\<rparr>"
    using kept reg(2,3) by (simp_all add: sail_ops_def sail_set_rip_def sail_set_rflags_def)
  show "\<exists>s'. op_set_zmm (sail_ops prof api) (of_nat n) d s = Some s' \<and> sail_ok api norm s' \<and>
      sail_view api s' = (sail_view api s)\<lparr>cs_zmm := (cs_zmm (sail_view api s))[n := d]\<rparr>"
    if "n < 32" "length d = 8"
    using that kept zmm_written [OF law wf that] by (simp add: sail_ops_def sail_set_zmm_def zmm_writes_def)
  show "norm (cs_rflags (sail_view api s)) = cs_rflags (sail_view api s)" by (rule reg(5))
qed simp

section \<open>Memory\<close>

interpretation sail_memory: oracle_memory "sail_ops prof api" "sail_ok api norm" "core_bytes (sa_read_byte api)"
    "2 ^ 64 - 1"
  for prof api norm
proof
  fix s :: 'a and a :: u64 and n b d
  show "(2 ^ 64 - 1 :: nat) < 2 ^ 64" by simp
  assume ok: "sail_ok api norm s"
  then have law: "core_mem_law (sa_read_byte api) (sa_write_byte api)" and kept: "\<And>m. sail_ok api norm m"
    by (simp_all add: sail_ok_def)
  show "op_read_mem_byte (sail_ops prof api) a s = Some (core_bytes (sa_read_byte api) s (unat a))"
    using core_bytes_read [of a 0 "sa_read_byte api" s] by (simp add: sail_ops_def sail_read_mem_byte_def)
  show "op_read_mem (sail_ops prof api) a n s = Some (map (\<lambda>i. core_bytes (sa_read_byte api) s (unat a + i)) [0..<n])"
    if "unat a + n \<le> 2 ^ 64 - 1"
    using that by (simp add: sail_ops_def sail_read_mem_def core_bytes_read)
  show "\<exists>s'. op_write_mem_byte (sail_ops prof api) a b s = Some s' \<and> sail_ok api norm s' \<and>
      core_bytes (sa_read_byte api) s' = (core_bytes (sa_read_byte api) s)(unat a := b)" if "unat a < 2 ^ 64 - 1"
    using that kept core_byte_written [OF law, of a b s] by (simp add: sail_ops_def sail_write_mem_byte_def)
  show "\<exists>s'. op_write_mem (sail_ops prof api) a d s = Some s' \<and> sail_ok api norm s' \<and>
      core_bytes (sa_read_byte api) s' =
        (\<lambda>x. if unat a \<le> x \<and> x < unat a + length d then d ! (x - unat a) else core_bytes (sa_read_byte api) s x)"
    if "unat a + length d \<le> 2 ^ 64 - 1"
    using that kept core_bytes_written [OF law, of a d s] by (simp add: sail_ops_def sail_write_mem_def)
qed

section \<open>FS and GS\<close>

lemma msr_slots:
  "msr_slot IA32_FS_BASE = Some 1" "msr_slot IA32_GS_BASE = Some 2"
  by (simp_all add: msr_slot_def IA32_EFER_def IA32_FS_BASE_def IA32_GS_BASE_def)

interpretation sail_segments: oracle_segments "sail_ops prof api" "sail_ok api norm" "sa_get_msr api 1" "sa_get_msr api 2"
  for prof api norm
proof
  fix s :: 'a and v
  have seg: "unat SEG_FS < 6" "unat SEG_GS < 6" "SEG_GS \<noteq> SEG_FS" by (simp_all add: SEG_FS_def SEG_GS_def)
  note defs = sail_ops_def sail_get_seg_base_def sail_set_seg_base_def sail_get_msr_def sail_set_msr_def msr_slots seg
  show "op_get_seg_base (sail_ops prof api) SEG_FS s = Some (sa_get_msr api 1 s)"
    and "op_get_seg_base (sail_ops prof api) SEG_GS s = Some (sa_get_msr api 2 s)"
    and "op_get_msr (sail_ops prof api) IA32_FS_BASE s = Some (sa_get_msr api 1 s)"
    and "op_get_msr (sail_ops prof api) IA32_GS_BASE s = Some (sa_get_msr api 2 s)"
    by (simp_all add: defs)
  assume ok: "sail_ok api norm s"
  then have kept: "sail_ok api norm m" for m by (simp add: sail_ok_def)
  have law: "sa_get_msr api i (sa_set_msr api j v m) = (if i = j then v else sa_get_msr api i m)"
    "sa_get_msr api i (sa_set_seg_base api n v m) = sa_get_msr api i m" for i j n m
    using ok by (simp_all add: sail_ok_def sail_msr_law_def)
  show "\<exists>s'. op_set_seg_base (sail_ops prof api) SEG_FS v s = Some s' \<and> sail_ok api norm s' \<and>
      sa_get_msr api 1 s' = v \<and> sa_get_msr api 2 s' = sa_get_msr api 2 s"
    and "\<exists>s'. op_set_seg_base (sail_ops prof api) SEG_GS v s = Some s' \<and> sail_ok api norm s' \<and>
      sa_get_msr api 2 s' = v \<and> sa_get_msr api 1 s' = sa_get_msr api 1 s"
    and "\<exists>s'. op_set_msr (sail_ops prof api) IA32_FS_BASE v s = Some s' \<and> sail_ok api norm s' \<and>
      sa_get_msr api 1 s' = v \<and> sa_get_msr api 2 s' = sa_get_msr api 2 s"
    and "\<exists>s'. op_set_msr (sail_ops prof api) IA32_GS_BASE v s = Some s' \<and> sail_ok api norm s' \<and>
      sa_get_msr api 2 s' = v \<and> sa_get_msr api 1 s' = sa_get_msr api 1 s"
    by (simp_all add: defs kept law)
qed

end
