(* ===== verification/Any_Oracle.thy ===== *)
theory Any_Oracle
  imports Kvm_Contract Whp_Contract Bochs_Contract Sail_Contract
begin

text \<open>
  Runtime backend selection, \<open>src/any.rs\<close>: \<open>Backend\<close>, and \<open>AnyOracle\<close> forwarding every trait
  method to the backend it holds.

  A value of \<open>any_oracle\<close> is the backend's object together with the process state its backend
  keeps. The \<open>cfg\<close> attributes are a record of flags. The variant \<open>Never\<close> has no values and no
  counterpart.
\<close>

section \<open>\<open>Backend\<close>\<close>

datatype backend = Sail | Bochs | Kvm | Whp

fun backend_name_of :: "backend \<Rightarrow> string" where
  "backend_name_of Sail = ''sail''"
| "backend_name_of Bochs = ''bochs''"
| "backend_name_of Kvm = ''kvm''"
| "backend_name_of Whp = ''whp''"

record build_cfg =
  bc_sail :: bool
  bc_bochs :: bool
  bc_kvm :: bool
  bc_whp :: bool

definition available :: "build_cfg \<Rightarrow> bool \<Rightarrow> bool \<Rightarrow> backend list" where
  "available cfg kvm_usable whp_usable =
     (if bc_sail cfg then [Sail] else []) @
     (if bc_bochs cfg then [Bochs] else []) @
     (if bc_kvm cfg \<and> kvm_usable then [Kvm] else []) @
     (if bc_whp cfg \<and> whp_usable then [Whp] else [])"

definition hardware_backend :: "build_cfg \<Rightarrow> bool \<Rightarrow> bool \<Rightarrow> backend option" where
  "hardware_backend cfg kvm_usable whp_usable =
     List.find (\<lambda>b. b = Kvm \<or> b = Whp) (available cfg kvm_usable whp_usable)"

text \<open>\<open>pairs\<close>: each element with every later one.\<close>

fun pairs_of :: "'a list \<Rightarrow> ('a \<times> 'a) list" where
  "pairs_of [] = []"
| "pairs_of (a # rest) = map (\<lambda>b. (a, b)) rest @ pairs_of rest"

definition backend_pairs :: "build_cfg \<Rightarrow> bool \<Rightarrow> bool \<Rightarrow> (backend \<times> backend) list" where
  "backend_pairs cfg kvm_usable whp_usable = pairs_of (available cfg kvm_usable whp_usable)"

section \<open>\<open>AnyOracle\<close>\<close>

text \<open>The interfaces of the four backends.\<close>

record ('m, 'b, 'v, 'w) backends =
  be_sail :: "'m sail_api"
  be_bochs :: "'b bochs_api"
  be_kvm :: "'v kvm_api"
  be_whp :: "'w whp_api"

datatype ('m, 'b, 'v, 'w) any_oracle =
    AnySail 'm
  | AnyBochs "'b bochs_state"
  | AnyKvm "'v kvm_oracle"
  | AnyWhp "'w whp_state"

fun any_backend :: "('m, 'b, 'v, 'w) any_oracle \<Rightarrow> backend" where
  "any_backend (AnySail _) = Sail"
| "any_backend (AnyBochs _) = Bochs"
| "any_backend (AnyKvm _) = Kvm"
| "any_backend (AnyWhp _) = Whp"

section \<open>Construction\<close>

text \<open>
  The host a constructor runs on: the hypervisors, whether the WHP library loads, the allocator and
  CPUID, and what other threads do to the Bochs process while \<open>claim_instance\<close> waits for it
  (\<open>None\<close> when the wait times out).
\<close>

record ('b, 'v) host =
  ho_kvm :: "'v kvm_host"
  ho_whp_loads :: bool
  ho_alloc :: "nat \<Rightarrow> io_error + unit"
  ho_cpuid :: cpuid
  ho_bochs_wait :: "'b bochs_process \<Rightarrow> 'b bochs_process option"

record ('b, 'w) process =
  pr_bochs :: "'b bochs_process"
  pr_whp :: "'w whp_process"

text \<open>
  \<open>io::Error\<close>: the error \<open>try_new\<close> makes itself, whose kind is \<open>Unsupported\<close>, or the one a backend
  returned.
\<close>

datatype new_error =
    Not_compiled_in string
  | Kvm_error errno
  | Whp_error io_error

definition not_compiled_in :: "backend \<Rightarrow> new_error" where
  "not_compiled_in b =
     Not_compiled_in (''not compiled in; enable the `'' @ backend_name_of b @ ''` cargo feature'')"

definition bochs_new :: "'b bochs_api \<Rightarrow> ('b bochs_process \<Rightarrow> 'b bochs_process option) \<Rightarrow> 'b bochs_process \<Rightarrow>
    (bochs_oracle \<times> 'b bochs_process) panics" where
  "bochs_new api wait p = do {
     p \<leftarrow> (case claim_enter (bp_occupied p) of Claim \<Rightarrow> Some p | _ \<Rightarrow> wait p);
     (case bochs_new_claimed api (p\<lparr>bp_occupied := True\<rparr>) of
        (None, _) \<Rightarrow> None
      | (Some cpu, p) \<Rightarrow> Some (cpu, p)) }"

definition any_try_new :: "profile \<Rightarrow> build_cfg \<Rightarrow> ('m, 'b, 'v, 'w) backends \<Rightarrow> ('b, 'v) host \<Rightarrow> backend \<Rightarrow>
    ('b, 'w) process \<Rightarrow> ((new_error + ('m, 'b, 'v, 'w) any_oracle) \<times> ('b, 'w) process) panics" where
  "any_try_new prof cfg B host backend p =
     (if backend = Sail \<and> bc_sail cfg then
        map_option (\<lambda>m. (Inr (AnySail m), p)) (sail_new (be_sail B))
      else if backend = Bochs \<and> bc_bochs cfg then
        map_option (\<lambda>(cpu, q). (Inr (AnyBochs \<lparr>bs_proc = q, bs_self = cpu\<rparr>), p\<lparr>pr_bochs := q\<rparr>))
          (bochs_new (be_bochs B) (ho_bochs_wait host) (pr_bochs p))
      else if backend = Kvm \<and> bc_kvm cfg then
        map_option (\<lambda>r. (case r of Inl e \<Rightarrow> Inl (Kvm_error e) | Inr o' \<Rightarrow> Inr (AnyKvm o'), p))
          (kvm_try_new (ho_kvm host) (be_kvm B) (ho_cpuid host))
      else if backend = Whp \<and> bc_whp cfg then
        map_option (\<lambda>(r, q). (case r of Inl e \<Rightarrow> Inl (Whp_error e)
            | Inr o' \<Rightarrow> Inr (AnyWhp \<lparr>ws_proc = q, ws_self = o'\<rparr>), p\<lparr>pr_whp := q\<rparr>))
          (whp_try_new prof (if ho_whp_loads host then Some (be_whp B) else None) (ho_alloc host)
            (ho_cpuid host) (pr_whp p))
      else Some (Inl (not_compiled_in backend), p))"

definition any_new :: "profile \<Rightarrow> build_cfg \<Rightarrow> ('m, 'b, 'v, 'w) backends \<Rightarrow> ('b, 'v) host \<Rightarrow> backend \<Rightarrow>
    ('b, 'w) process \<Rightarrow> (('m, 'b, 'v, 'w) any_oracle \<times> ('b, 'w) process) panics" where
  "any_new prof cfg B host backend p = do {
     (r, p) \<leftarrow> any_try_new prof cfg B host backend p;
     oracle \<leftarrow> expect r;
     Some (oracle, p) }"

section \<open>Forwarding\<close>

text \<open>The macro \<open>dispatch!\<close>: of a method on \<open>&self\<close>, of one on \<open>&mut self\<close>, of one that returns too.\<close>

definition on_ref :: "profile \<Rightarrow> ('m, 'b, 'v, 'w) backends \<Rightarrow> ('m oracle_ops \<Rightarrow> 'm \<Rightarrow> 'r) \<Rightarrow>
    ('b bochs_state oracle_ops \<Rightarrow> 'b bochs_state \<Rightarrow> 'r) \<Rightarrow> ('v kvm_oracle oracle_ops \<Rightarrow> 'v kvm_oracle \<Rightarrow> 'r) \<Rightarrow>
    ('w whp_state oracle_ops \<Rightarrow> 'w whp_state \<Rightarrow> 'r) \<Rightarrow> ('m, 'b, 'v, 'w) any_oracle \<Rightarrow> 'r" where
  "on_ref prof B f g h k s =
     (case s of
        AnySail m \<Rightarrow> f (sail_ops prof (be_sail B)) m
      | AnyBochs b \<Rightarrow> g (bochs_ops prof (be_bochs B)) b
      | AnyKvm v \<Rightarrow> h (kvm_ops prof (be_kvm B)) v
      | AnyWhp w \<Rightarrow> k (whp_ops prof (be_whp B)) w)"

definition on_mut :: "profile \<Rightarrow> ('m, 'b, 'v, 'w) backends \<Rightarrow> ('m oracle_ops \<Rightarrow> 'm \<Rightarrow> 'm panics) \<Rightarrow>
    ('b bochs_state oracle_ops \<Rightarrow> 'b bochs_state \<Rightarrow> 'b bochs_state panics) \<Rightarrow>
    ('v kvm_oracle oracle_ops \<Rightarrow> 'v kvm_oracle \<Rightarrow> 'v kvm_oracle panics) \<Rightarrow>
    ('w whp_state oracle_ops \<Rightarrow> 'w whp_state \<Rightarrow> 'w whp_state panics) \<Rightarrow>
    ('m, 'b, 'v, 'w) any_oracle \<Rightarrow> ('m, 'b, 'v, 'w) any_oracle panics" where
  "on_mut prof B f g h k s =
     (case s of
        AnySail m \<Rightarrow> map_option AnySail (f (sail_ops prof (be_sail B)) m)
      | AnyBochs b \<Rightarrow> map_option AnyBochs (g (bochs_ops prof (be_bochs B)) b)
      | AnyKvm v \<Rightarrow> map_option AnyKvm (h (kvm_ops prof (be_kvm B)) v)
      | AnyWhp w \<Rightarrow> map_option AnyWhp (k (whp_ops prof (be_whp B)) w))"

definition on_mut_ret :: "profile \<Rightarrow> ('m, 'b, 'v, 'w) backends \<Rightarrow> ('m oracle_ops \<Rightarrow> 'm \<Rightarrow> ('r \<times> 'm) panics) \<Rightarrow>
    ('b bochs_state oracle_ops \<Rightarrow> 'b bochs_state \<Rightarrow> ('r \<times> 'b bochs_state) panics) \<Rightarrow>
    ('v kvm_oracle oracle_ops \<Rightarrow> 'v kvm_oracle \<Rightarrow> ('r \<times> 'v kvm_oracle) panics) \<Rightarrow>
    ('w whp_state oracle_ops \<Rightarrow> 'w whp_state \<Rightarrow> ('r \<times> 'w whp_state) panics) \<Rightarrow>
    ('m, 'b, 'v, 'w) any_oracle \<Rightarrow> ('r \<times> ('m, 'b, 'v, 'w) any_oracle) panics" where
  "on_mut_ret prof B f g h k s =
     (case s of
        AnySail m \<Rightarrow> map_option (apsnd AnySail) (f (sail_ops prof (be_sail B)) m)
      | AnyBochs b \<Rightarrow> map_option (apsnd AnyBochs) (g (bochs_ops prof (be_bochs B)) b)
      | AnyKvm v \<Rightarrow> map_option (apsnd AnyKvm) (h (kvm_ops prof (be_kvm B)) v)
      | AnyWhp w \<Rightarrow> map_option (apsnd AnyWhp) (k (whp_ops prof (be_whp B)) w))"

definition any_ops :: "profile \<Rightarrow> ('m, 'b, 'v, 'w) backends \<Rightarrow> ('m, 'b, 'v, 'w) any_oracle oracle_ops" where
  "any_ops prof B =
     \<lparr>op_backend_name = on_ref prof B op_backend_name op_backend_name op_backend_name op_backend_name,
      op_set_gpr = (\<lambda>n v. on_mut prof B (\<lambda>ops. op_set_gpr ops n v) (\<lambda>ops. op_set_gpr ops n v) (\<lambda>ops. op_set_gpr ops n v) (\<lambda>ops. op_set_gpr ops n v)),
      op_get_gpr = (\<lambda>n. on_ref prof B (\<lambda>ops. op_get_gpr ops n) (\<lambda>ops. op_get_gpr ops n) (\<lambda>ops. op_get_gpr ops n) (\<lambda>ops. op_get_gpr ops n)),
      op_set_rip = (\<lambda>v. on_mut prof B (\<lambda>ops. op_set_rip ops v) (\<lambda>ops. op_set_rip ops v) (\<lambda>ops. op_set_rip ops v) (\<lambda>ops. op_set_rip ops v)),
      op_get_rip = on_ref prof B op_get_rip op_get_rip op_get_rip op_get_rip,
      op_set_rflags = (\<lambda>v. on_mut prof B (\<lambda>ops. op_set_rflags ops v) (\<lambda>ops. op_set_rflags ops v) (\<lambda>ops. op_set_rflags ops v) (\<lambda>ops. op_set_rflags ops v)),
      op_get_rflags = on_ref prof B op_get_rflags op_get_rflags op_get_rflags op_get_rflags,
      op_set_zmm = (\<lambda>n d. on_mut prof B (\<lambda>ops. op_set_zmm ops n d) (\<lambda>ops. op_set_zmm ops n d) (\<lambda>ops. op_set_zmm ops n d) (\<lambda>ops. op_set_zmm ops n d)),
      op_get_zmm = (\<lambda>n. on_ref prof B (\<lambda>ops. op_get_zmm ops n) (\<lambda>ops. op_get_zmm ops n) (\<lambda>ops. op_get_zmm ops n) (\<lambda>ops. op_get_zmm ops n)),
      op_vector_chunks = on_ref prof B op_vector_chunks op_vector_chunks op_vector_chunks op_vector_chunks,
      op_vector_regs = on_ref prof B op_vector_regs op_vector_regs op_vector_regs op_vector_regs,
      op_set_msr = (\<lambda>i v. on_mut prof B (\<lambda>ops. op_set_msr ops i v) (\<lambda>ops. op_set_msr ops i v) (\<lambda>ops. op_set_msr ops i v) (\<lambda>ops. op_set_msr ops i v)),
      op_get_msr = (\<lambda>i. on_ref prof B (\<lambda>ops. op_get_msr ops i) (\<lambda>ops. op_get_msr ops i) (\<lambda>ops. op_get_msr ops i) (\<lambda>ops. op_get_msr ops i)),
      op_set_cr = (\<lambda>n v. on_mut prof B (\<lambda>ops. op_set_cr ops n v) (\<lambda>ops. op_set_cr ops n v) (\<lambda>ops. op_set_cr ops n v) (\<lambda>ops. op_set_cr ops n v)),
      op_get_cr = (\<lambda>n. on_ref prof B (\<lambda>ops. op_get_cr ops n) (\<lambda>ops. op_get_cr ops n) (\<lambda>ops. op_get_cr ops n) (\<lambda>ops. op_get_cr ops n)),
      op_enable_shadow_stack = (\<lambda>a n. on_mut_ret prof B (\<lambda>ops. op_enable_shadow_stack ops a n) (\<lambda>ops. op_enable_shadow_stack ops a n) (\<lambda>ops. op_enable_shadow_stack ops a n) (\<lambda>ops. op_enable_shadow_stack ops a n)),
      op_set_ssp = (\<lambda>v. on_mut prof B (\<lambda>ops. op_set_ssp ops v) (\<lambda>ops. op_set_ssp ops v) (\<lambda>ops. op_set_ssp ops v) (\<lambda>ops. op_set_ssp ops v)),
      op_get_ssp = on_ref prof B op_get_ssp op_get_ssp op_get_ssp op_get_ssp,
      op_set_seg_selector = (\<lambda>n v. on_mut prof B (\<lambda>ops. op_set_seg_selector ops n v) (\<lambda>ops. op_set_seg_selector ops n v) (\<lambda>ops. op_set_seg_selector ops n v) (\<lambda>ops. op_set_seg_selector ops n v)),
      op_get_seg_selector = (\<lambda>n. on_ref prof B (\<lambda>ops. op_get_seg_selector ops n) (\<lambda>ops. op_get_seg_selector ops n) (\<lambda>ops. op_get_seg_selector ops n) (\<lambda>ops. op_get_seg_selector ops n)),
      op_set_seg_base = (\<lambda>n v. on_mut prof B (\<lambda>ops. op_set_seg_base ops n v) (\<lambda>ops. op_set_seg_base ops n v) (\<lambda>ops. op_set_seg_base ops n v) (\<lambda>ops. op_set_seg_base ops n v)),
      op_get_seg_base = (\<lambda>n. on_ref prof B (\<lambda>ops. op_get_seg_base ops n) (\<lambda>ops. op_get_seg_base ops n) (\<lambda>ops. op_get_seg_base ops n) (\<lambda>ops. op_get_seg_base ops n)),
      op_set_seg_limit = (\<lambda>n v. on_mut prof B (\<lambda>ops. op_set_seg_limit ops n v) (\<lambda>ops. op_set_seg_limit ops n v) (\<lambda>ops. op_set_seg_limit ops n v) (\<lambda>ops. op_set_seg_limit ops n v)),
      op_get_seg_limit = (\<lambda>n. on_ref prof B (\<lambda>ops. op_get_seg_limit ops n) (\<lambda>ops. op_get_seg_limit ops n) (\<lambda>ops. op_get_seg_limit ops n) (\<lambda>ops. op_get_seg_limit ops n)),
      op_read_mem_byte = (\<lambda>a. on_ref prof B (\<lambda>ops. op_read_mem_byte ops a) (\<lambda>ops. op_read_mem_byte ops a) (\<lambda>ops. op_read_mem_byte ops a) (\<lambda>ops. op_read_mem_byte ops a)),
      op_write_mem_byte = (\<lambda>a b. on_mut prof B (\<lambda>ops. op_write_mem_byte ops a b) (\<lambda>ops. op_write_mem_byte ops a b) (\<lambda>ops. op_write_mem_byte ops a b) (\<lambda>ops. op_write_mem_byte ops a b)),
      op_read_mem = (\<lambda>a n. on_ref prof B (\<lambda>ops. op_read_mem ops a n) (\<lambda>ops. op_read_mem ops a n) (\<lambda>ops. op_read_mem ops a n) (\<lambda>ops. op_read_mem ops a n)),
      op_write_mem = (\<lambda>a d. on_mut prof B (\<lambda>ops. op_write_mem ops a d) (\<lambda>ops. op_write_mem ops a d) (\<lambda>ops. op_write_mem ops a d) (\<lambda>ops. op_write_mem ops a d)),
      op_is_mapped = (\<lambda>a. on_ref prof B (\<lambda>ops. op_is_mapped ops a) (\<lambda>ops. op_is_mapped ops a) (\<lambda>ops. op_is_mapped ops a) (\<lambda>ops. op_is_mapped ops a)),
      op_step = on_mut_ret prof B op_step op_step op_step op_step,
      op_fault_msg = on_ref prof B op_fault_msg op_fault_msg op_fault_msg op_fault_msg\<rparr>"

text \<open>The two provided methods that are forwarded as well.\<close>

definition any_snapshot :: "profile \<Rightarrow> ('m, 'b, 'v, 'w) backends \<Rightarrow> ('m, 'b, 'v, 'w) any_oracle \<Rightarrow> cpu_state panics" where
  "any_snapshot prof B = on_ref prof B snapshot snapshot snapshot snapshot"

definition any_restore :: "profile \<Rightarrow> ('m, 'b, 'v, 'w) backends \<Rightarrow> cpu_state \<Rightarrow> ('m, 'b, 'v, 'w) any_oracle \<Rightarrow>
    ('m, 'b, 'v, 'w) any_oracle panics" where
  "any_restore prof B snap =
     on_mut prof B (\<lambda>ops. restore ops snap) (\<lambda>ops. restore ops snap) (\<lambda>ops. restore ops snap) (\<lambda>ops. restore ops snap)"

end
