(* ===== verification/Kvm_Step.thy ===== *)
theory Kvm_Step
  imports Kvm_Contract
begin

text \<open>
  Stepping and starting the KVM oracle. \<open>kvm_interrupted\<close> is a run of \<open>EINTR\<close> results, which
  the loop of \<open>step\<close> absorbs up to its bound; the step lemmas follow one \<open>KVM_RUN\<close> result
  each; the boot lemmas follow \<open>try_new\<close> call by call.
\<close>

section \<open>Retries\<close>

fun kvm_interrupted :: "'v kvm_api \<Rightarrow> nat \<Rightarrow> 'v \<Rightarrow> guest_ram \<Rightarrow> ('v \<times> guest_ram) option" where
  "kvm_interrupted api 0 v ram = Some (v, ram)"
| "kvm_interrupted api (Suc k) v ram =
     (case kv_run api v ram of
        (Inl e, v', ram') \<Rightarrow> if e = EINTR then kvm_interrupted api k v' ram' else None
      | (Inr _, _, _) \<Rightarrow> None)"

lemma kvm_loop_interrupted:
  "kvm_interrupted api k (ko_vcpu s) (ko_ram s) = Some (v, ram) \<Longrightarrow>
   kvm_run_loop (k + n) prof api s = kvm_run_loop n prof api (s\<lparr>ko_vcpu := v, ko_ram := ram\<rparr>)"
proof (induction k arbitrary: s)
  case (Suc k)
  then obtain v1 ram1 where r: "kv_run api (ko_vcpu s) (ko_ram s) = (Inl EINTR, v1, ram1)"
    and k: "kvm_interrupted api k v1 ram1 = Some (v, ram)"
    by (auto split: prod.splits sum.splits if_splits)
  from Suc.IH [of "s\<lparr>ko_vcpu := v1, ko_ram := ram1\<rparr>"] k r show ?case by simp
next
  case 0
  then show ?case by (cases s) simp
qed

section \<open>Outcomes and messages\<close>

text \<open>What a finished loop says: the outcome, and what \<open>fault_msg\<close> will say about it.\<close>

definition message_agrees :: "step_outcome \<Rightarrow> 'v kvm_oracle \<Rightarrow> bool" where
  "message_agrees oc s \<longleftrightarrow>
     (case oc of
        Retired \<Rightarrow> kvm_fault_msg s = '''' \<and> kvm_last_vector s = None
      | Fault k msg \<Rightarrow> (kvm_fault_msg s = msg \<and> kvm_last_vector s \<noteq> None) \<or>
                       (kvm_fault_msg s = '''' \<and> kvm_last_vector s = None)
      | Syscall \<Rightarrow> False)"

lemma kvm_put_regs_fault: "kvm_put_regs api r s = Some s' \<Longrightarrow> ko_last_fault s' = ko_last_fault s"
  by (auto simp: kvm_put_regs_def split: bind_splits)

lemma kvm_loop_message:
  "ko_last_fault s = None \<Longrightarrow> kvm_run_loop n prof api s = Some (oc, s') \<Longrightarrow> message_agrees oc s'"
proof (induction n arbitrary: s)
  case 0
  then show ?case by (auto simp: message_agrees_def kvm_fault_msg_def kvm_last_vector_def)
next
  case (Suc n)
  obtain r v ram where run: "kv_run api (ko_vcpu s) (ko_ram s) = (r, v, ram)"
    by (cases "kv_run api (ko_vcpu s) (ko_ram s)") auto
  show ?case
  proof (cases r)
    case (Inl e)
    show ?thesis
    proof (cases "e = EINTR")
      case True
      with Inl run Suc.prems Suc.IH [of "s\<lparr>ko_vcpu := v, ko_ram := ram\<rparr>"] show ?thesis
        by (simp add: Let_def)
    next
      case False
      with Inl run Suc.prems show ?thesis
        by (auto simp: Let_def message_agrees_def kvm_fault_msg_def kvm_last_vector_def)
    qed
  next
    case (Inr x)
    with run Suc.prems show ?thesis
      by (cases x)
         (auto simp: Let_def message_agrees_def kvm_fault_msg_def kvm_last_vector_def
           split: bind_splits option.splits prod.splits)
  qed
qed

lemma kvm_loop_comparable: "kvm_run_loop n prof api s = Some (oc, s') \<Longrightarrow> is_comparable oc"
proof (induction n arbitrary: s)
  case 0
  then show ?case by auto
next
  case (Suc n)
  obtain r v ram where run: "kv_run api (ko_vcpu s) (ko_ram s) = (r, v, ram)"
    by (metis surj_pair)
  show ?case
  proof (cases r)
    case (Inl e)
    with run Suc.prems Suc.IH [of "s\<lparr>ko_vcpu := v, ko_ram := ram\<rparr>"] show ?thesis
      by (cases "e = EINTR") (auto simp: Let_def)
  next
    case (Inr x)
    with run Suc.prems show ?thesis
      by (cases x)
         (auto simp: Let_def classify_comparable split: bind_splits option.splits prod.splits)
  qed
qed

section \<open>A fault, unwound\<close>

lemma kvm_hlt_fault:
  assumes "kvm_regs_of api (s\<lparr>ko_vcpu := v, ko_ram := ram\<rparr>) = Some r" and "stub_vector (kr_rip r) = Some vec"
    and "kv_run api (ko_vcpu s) (ko_ram s) = (Inr VcpuHlt, v, ram)"
    and "unwind_frame prof ram (kr_rsp r) vec = Some u"
    and "kvm_put_regs api (r\<lparr>kr_rip := uw_rip u, kr_rsp := uw_rsp u, kr_rflags := uw_rflags u\<rparr>)
           (s\<lparr>ko_vcpu := v, ko_ram := ram\<rparr>) = Some s'"
  shows "kvm_run_loop (Suc n) prof api s =
    Some (Fault (classify vec) (fault_message vec (uw_error_code u)),
          s'\<lparr>ko_last_fault := Some (vec, uw_error_code u)\<rparr>)"
  using assms by (simp add: kvm_unwind_fault_def kvm_fault_msg_def)

text \<open>The same from the start of \<open>step\<close>, with interrupted runs before.\<close>

lemma kvm_step_vector:
  assumes "kv_set_guest_debug api (ko_vcpu s) = Inr v0"
    and "kvm_interrupted api k v0 (ko_ram s) = Some (v1, ram1)" and "k < 64"
    and "kv_run api v1 ram1 = (Inr VcpuHlt, v2, ram2)" and "kv_get_regs api v2 = Inr rg"
    and "stub_vector (kr_rip rg) = Some vec" and "unwind_frame prof ram2 (kr_rsp rg) vec = Some u"
    and "kvm_put_regs api (rg\<lparr>kr_rip := uw_rip u, kr_rsp := uw_rsp u, kr_rflags := uw_rflags u\<rparr>)
      (s\<lparr>ko_last_fault := None, ko_vcpu := v2, ko_ram := ram2\<rparr>) = Some s3"
  shows "kvm_step prof api s =
    Some (Fault (classify vec) (fault_message vec (uw_error_code u)), s3\<lparr>ko_last_fault := Some (vec, uw_error_code u)\<rparr>)"
proof -
  let ?s0 = "s\<lparr>ko_last_fault := None, ko_vcpu := v0\<rparr>" and ?s1 = "s\<lparr>ko_last_fault := None, ko_vcpu := v1, ko_ram := ram1\<rparr>"
  have "kvm_run_loop (Suc (63 - k)) prof api ?s1 =
      Some (Fault (classify vec) (fault_message vec (uw_error_code u)), s3\<lparr>ko_last_fault := Some (vec, uw_error_code u)\<rparr>)"
    by (rule kvm_hlt_fault [where v = v2 and ram = ram2 and r = rg]) (use assms(4-8) in \<open>simp_all add: kvm_regs_of_def\<close>)
  moreover have "kvm_run_loop (k + (64 - k)) prof api ?s0 = kvm_run_loop (64 - k) prof api ?s1"
    using kvm_loop_interrupted [of api k ?s0 v1 ram1 "64 - k" prof] assms(2) by simp
  moreover have "64 - k = Suc (63 - k)" and "k + (64 - k) = 64" using assms(3) by simp_all
  ultimately show ?thesis by (simp add: kvm_step_def kvm_arm_singlestep_def assms(1) del: kvm_run_loop.simps)
qed

section \<open>The step never panics in a release build\<close>

text \<open>Running keeps a vCPU alive and its memory the same size; single-stepping can be armed.\<close>

definition kvm_run_law :: "'v kvm_api \<Rightarrow> ('v \<Rightarrow> bool) \<Rightarrow> bool" where
  "kvm_run_law api live \<longleftrightarrow>
     (\<forall>v. live v \<longrightarrow> (\<exists>v'. kv_set_guest_debug api v = Inr v' \<and> live v')) \<and>
     (\<forall>v ram. live v \<longrightarrow> (case kv_run api v ram of (r, v', ram') \<Rightarrow> live v' \<and> ram_len ram' = ram_len ram))"

lemma kvm_ok_run:
  assumes "kvm_ok api live accepts lay s" and "kvm_run_law api live"
    and "kv_run api (ko_vcpu s) (ko_ram s) = (r, v, ram)"
  shows "kvm_ok api live accepts lay (s\<lparr>ko_vcpu := v, ko_ram := ram\<rparr>)"
proof -
  have "live (ko_vcpu s)" by (rule kvm_okD(4) [OF assms(1)])
  with conjunct2 [OF assms(2) [unfolded kvm_run_law_def]]
  have "case kv_run api (ko_vcpu s) (ko_ram s) of (r, v', ram') \<Rightarrow>
      live v' \<and> ram_len ram' = ram_len (ko_ram s)"
    by simp
  with assms(1,3) show ?thesis by (simp add: kvm_ok_def ram_ok_def)
qed

lemma kvm_ok_last_fault [simp]:
  "kvm_ok api live accepts lay (s\<lparr>ko_last_fault := f\<rparr>) = kvm_ok api live accepts lay s"
  by (simp add: kvm_ok_def)

lemma kvm_loop_error:
  "kv_run api (ko_vcpu s) (ko_ram s) = (Inl e, v, ram) \<Longrightarrow>
   kvm_run_loop (Suc n) prof api s =
     (if e = EINTR then kvm_run_loop n prof api (s\<lparr>ko_vcpu := v, ko_ram := ram\<rparr>)
      else Some (Fault OtherException (''KVM_RUN failed: '' @ kv_display api e),
                 s\<lparr>ko_vcpu := v, ko_ram := ram, ko_last_fault := None\<rparr>))"
  by (simp add: Let_def)

lemma kvm_loop_exit:
  "kv_run api (ko_vcpu s) (ko_ram s) = (Inr x, v, ram) \<Longrightarrow> x \<noteq> VcpuHlt \<Longrightarrow>
   \<exists>oc. kvm_run_loop (Suc n) prof api s = Some (oc, s\<lparr>ko_vcpu := v, ko_ram := ram\<rparr>)"
  by (cases x) (simp_all add: Let_def del: One_nat_def)

lemma kvm_loop_own_hlt:
  "kv_run api (ko_vcpu s) (ko_ram s) = (Inr VcpuHlt, v, ram) \<Longrightarrow>
   kvm_regs_of api (s\<lparr>ko_vcpu := v, ko_ram := ram\<rparr>) = Some r \<Longrightarrow> stub_vector (kr_rip r) = None \<Longrightarrow>
   kvm_run_loop (Suc n) prof api s = Some (Retired, s\<lparr>ko_vcpu := v, ko_ram := ram\<rparr>)"
  by simp

lemma kvm_loop_total:
  "kvm_ok api live accepts lay s \<Longrightarrow> kvm_run_law api live \<Longrightarrow>
   \<exists>oc s'. kvm_run_loop n Release api s = Some (oc, s') \<and> kvm_ok api live accepts lay s'"
proof (induction n arbitrary: s)
  case 0
  then show ?case by simp
next
  case (Suc n)
  obtain r v ram where run: "kv_run api (ko_vcpu s) (ko_ram s) = (r, v, ram)"
    by (metis surj_pair)
  let ?s = "s\<lparr>ko_vcpu := v, ko_ram := ram\<rparr>"
  have ok: "kvm_ok api live accepts lay ?s" by (rule kvm_ok_run [OF Suc.prems run])
  show ?case
  proof (cases r)
    case (Inl e)
    with run have e: "kv_run api (ko_vcpu s) (ko_ram s) = (Inl e, v, ram)" by simp
    show ?thesis
      using Suc.IH [OF ok Suc.prems(2)] ok unfolding kvm_loop_error [OF e] by simp
  next
    case (Inr x)
    with run have x: "kv_run api (ko_vcpu s) (ko_ram s) = (Inr x, v, ram)" by simp
    show ?thesis
    proof (cases "x = VcpuHlt")
      case True
      with x have h: "kv_run api (ko_vcpu s) (ko_ram s) = (Inr VcpuHlt, v, ram)" by simp
      obtain g where g: "kvm_regs_of api ?s = Some g" by (rule kvm_regs_got [OF ok]) blast
      show ?thesis
      proof (cases "stub_vector (kr_rip g)")
        case None
        with kvm_loop_own_hlt [OF h g] ok show ?thesis by blast
      next
        case (Some vec)
        obtain u where u: "unwind_frame Release ram (kr_rsp g) vec = Some u"
          using unwind_frame_release by blast
        obtain s' where s': "kvm_put_regs api (g\<lparr>kr_rip := uw_rip u, kr_rsp := uw_rsp u, kr_rflags := uw_rflags u\<rparr>) ?s = Some s'"
          "kvm_ok api live accepts lay s'" by (rule kvm_regs_put [OF ok]) blast
        show ?thesis
          using kvm_hlt_fault [OF g Some h u s'(1), of n] s'(2) by (auto simp del: kvm_run_loop.simps)
      qed
    next
      case False
      with kvm_loop_exit [OF x] ok show ?thesis by blast
    qed
  qed
qed

lemma kvm_step_total:
  assumes "kvm_ok api live accepts lay s" and "kvm_run_law api live"
  shows "\<exists>oc s'. kvm_step Release api s = Some (oc, s') \<and> kvm_ok api live accepts lay s'"
proof -
  obtain v where v: "kv_set_guest_debug api (ko_vcpu s) = Inr v" "live v"
    using assms unfolding kvm_ok_def kvm_run_law_def by blast
  have "kvm_ok api live accepts lay (s\<lparr>ko_last_fault := None, ko_vcpu := v\<rparr>)"
    using assms(1) v(2) by (simp add: kvm_ok_def)
  from kvm_loop_total [OF this assms(2), of 64] v show ?thesis
    by (simp add: kvm_step_def kvm_arm_singlestep_def del: kvm_run_loop.simps)
qed

section \<open>Starting up\<close>

text \<open>
  What \<open>try_new\<close> meets on a working host: the VM is created, the special registers of long mode
  are accepted, XCR0 is read back as some value \<open>xcr0\<close>, images are in the standard format, and
  an image got and then reset may be set.
\<close>

definition kvm_xcrs_law :: "'v kvm_api \<Rightarrow> ('v \<Rightarrow> bool) \<Rightarrow> cpuid \<Rightarrow> u64 \<Rightarrow> bool" where
  "kvm_xcrs_law api live cpuid xcr0 \<longleftrightarrow>
     (\<forall>v. live v \<longrightarrow> (\<exists>x. kv_get_xcrs api v = Inr x \<and>
        (\<exists>v'. kv_set_xcrs api (x\<lparr>kx_nr := 1, kx_xcrs := (kx_xcrs x)[0 := (0, host_xcr0 cpuid)]\<rparr>) v = Inr v' \<and>
           live v' \<and> effective_xcr0 (kv_get_xcrs api v') (host_xcr0 cpuid) = xcr0 \<and>
           kv_get_regs api v' = kv_get_regs api v \<and> kv_get_sregs api v' = kv_get_sregs api v \<and>
           kv_get_xsave api v' = kv_get_xsave api v)))"

definition kvm_reset_law :: "'v kvm_api \<Rightarrow> ('v \<Rightarrow> bool) \<Rightarrow> xsave_layout \<Rightarrow> bool" where
  "kvm_reset_law api live lay \<longleftrightarrow>
     (\<forall>v b0. live v \<and> kv_get_xsave api v = Inr b0 \<longrightarrow> xsave_xcomp_bv b0 = Some 0) \<and>
     (\<forall>v b0 b. live v \<and> kv_get_xsave api v = Inr b0 \<and> xsave_reset_vectors b0 lay = Some b \<longrightarrow>
        (\<exists>v' b'. kv_set_xsave api b v = Inr v' \<and> live v' \<and> kv_get_xsave api v' = Inr b' \<and>
           length b' = XSAVE_BYTES \<and> settled b' lay \<and>
           (\<forall>m<32. \<forall>i<8. xrstor_chunk b' lay m i = xrstor_chunk b lay m i) \<and>
           kv_get_regs api v' = kv_get_regs api v \<and> kv_get_sregs api v' = kv_get_sregs api v))"

definition kvm_host_law :: "'v kvm_host \<Rightarrow> ('v \<Rightarrow> bool) \<Rightarrow> bool" where
  "kvm_host_law host live \<longleftrightarrow>
     kh_open host = Inr () \<and> kh_create_vm host = Inr () \<and> kh_host_alloc host (unat RAM_SIZE) = Inr () \<and>
     kh_set_user_memory_region host RAM_SIZE = Inr () \<and>
     (\<exists>v v'. kh_create_vcpu host = Inr v \<and> kh_set_supported_cpuid host v = Inr v' \<and> live v')"

lemma kvm_long_mode:
  assumes "kvm_ok api live accepts lay s0" and "s0 = s\<lparr>ko_xsave := lay\<rparr>" and "lay = probe cpuid xcr0 0"
    and "kvm_xcrs_law api live cpuid xcr0" and "kvm_reset_law api live lay"
    and "\<And>g. accepts g \<Longrightarrow> accepts (long_mode_sregs g)"
  shows "\<exists>s' g. kvm_enter_long_mode api cpuid s = Some (Inr s') \<and> kvm_ok api live accepts lay s' \<and>
    kvm_view api lay s' = default_cpu_state\<lparr>cs_rflags := 2\<rparr> \<and>
    kv_get_sregs api (ko_vcpu s') = Inr (long_mode_sregs g) \<and>
    s' = s\<lparr>ko_vcpu := ko_vcpu s', ko_xsave := lay\<rparr>"
proof -
  have v0: "ko_vcpu s0 = ko_vcpu s" by (simp add: assms(2))
  obtain g where g: "kv_get_sregs api (ko_vcpu s) = Inr g" "accepts g"
    using kvm_sregs_got [OF assms(1)] v0 by metis
  obtain v1 where v1: "kv_set_sregs api (long_mode_sregs g) (ko_vcpu s) = Inr v1"
    "kvm_ok api live accepts lay (s0\<lparr>ko_vcpu := v1\<rparr>)" "kv_get_sregs api v1 = Inr (long_mode_sregs g)"
    using kvm_sregs_put [OF assms(1) assms(6) [OF g(2)]] v0 by metis
  have "live v1" using kvm_okD(4) [OF v1(2)] by simp
  then obtain x v2 where x: "kv_get_xcrs api v1 = Inr x"
    and v2: "kv_set_xcrs api (x\<lparr>kx_nr := 1, kx_xcrs := (kx_xcrs x)[0 := (0, host_xcr0 cpuid)]\<rparr>) v1 = Inr v2"
      "live v2" "effective_xcr0 (kv_get_xcrs api v2) (host_xcr0 cpuid) = xcr0"
      "kv_get_sregs api v2 = kv_get_sregs api v1"
    using assms(4) unfolding kvm_xcrs_law_def by metis
  have ok2: "kvm_ok api live accepts lay (s0\<lparr>ko_vcpu := v2\<rparr>)"
    using kvm_ok_vcpu [OF assms(1) v2(2)] .
  let ?r = "default_regs\<lparr>kr_rflags := 2\<rparr>"
  obtain v3 r3 where v3: "kv_set_regs api ?r v2 = Inr v3" "live v3" "kv_get_regs api v3 = Inr r3"
    "regs_match r3 ?r" "kv_get_sregs api v3 = kv_get_sregs api v2"
    by (rule set_regs_live [OF kvm_okD(1) [OF ok2] v2(2), of ?r]) blast
  have ok3: "kvm_ok api live accepts lay (s0\<lparr>ko_vcpu := v3\<rparr>)"
    using kvm_ok_vcpu [OF assms(1) v3(2)] .
  obtain b0 where b0: "kv_get_xsave api v3 = Inr b0" "length b0 = XSAVE_BYTES" "settled b0 lay"
    using kvm_xsave_got [OF ok3] by auto
  have xc: "xsave_xcomp_bv b0 = Some 0"
    using assms(5) v3(2) b0(1) unfolding kvm_reset_law_def by blast
  have lok: "layout_ok (length b0) lay" using kvm_okD(8) [OF assms(1)] b0(2) by simp
  obtain b where b: "xsave_reset_vectors b0 lay = Some b" "length b = length b0"
    and loaded: "\<And>b'. length b' = length b0 \<Longrightarrow> settled b' lay \<Longrightarrow>
      \<forall>m<32. \<forall>i<8. xrstor_chunk b' lay m i = xrstor_chunk b lay m i \<Longrightarrow>
      zmm_values (length b0) lay b' = replicate 32 (replicate 8 0)"
    by (rule reset_loaded [OF lok]) blast
  obtain v4 b4 where v4: "kv_set_xsave api b v3 = Inr v4" "live v4" "kv_get_xsave api v4 = Inr b4"
    "length b4 = XSAVE_BYTES" "settled b4 lay" "\<forall>m<32. \<forall>i<8. xrstor_chunk b4 lay m i = xrstor_chunk b lay m i"
    "kv_get_regs api v4 = kv_get_regs api v3" "kv_get_sregs api v4 = kv_get_sregs api v3"
    using assms(5) v3(2) b0(1) b(1) unfolding kvm_reset_law_def by metis
  have z: "zmm_values XSAVE_BYTES lay b4 = replicate 32 (replicate 8 0)"
    using loaded [of b4] v4(4,5,6) b0(2) by simp
  let ?s' = "s\<lparr>ko_vcpu := v4, ko_xsave := lay\<rparr>"
  have e: "kvm_enter_long_mode api cpuid s = Some (Inr ?s')"
    by (simp add: kvm_enter_long_mode_def g(1) v1(1) x v2(1,3) v3(1) b0(1) xc assms(3) [symmetric] b(1) v4(1))
  have "kvm_ok api live accepts lay ?s'"
    using kvm_ok_vcpu [OF assms(1) v4(2)] by (simp add: assms(2) kvm_ok_def)
  moreover have "gprs r3 = replicate 16 0" "kr_rip r3 = 0" "kr_rflags r3 AND NOT STEP_FLAGS = 2"
    using regs_matchD [OF v3(4)] by (simp_all add: gprs_def default_regs_def numeral_eq_Suc STEP_FLAGS_val)
  then have "kvm_view api lay ?s' = default_cpu_state\<lparr>cs_rflags := 2\<rparr>"
    using kvm_view_eq [of api ?s' r3 b4 lay] v4(3,7) v3(3) z by (simp add: default_cpu_state_def)
  moreover have "kv_get_sregs api (ko_vcpu ?s') = Inr (long_mode_sregs g)"
    using v4(8) v3(5) v2(4) v1(3) by simp
  ultimately show ?thesis using e by (intro exI [of _ ?s'] exI [of _ g]) simp
qed

end
