(* ===== verification/Kvm_Properties.thy ===== *)
theory Kvm_Properties
  imports Kvm_Step
begin

text \<open>
  What the KVM backend guarantees. The first section is a simulated kernel, used only by the
  witnesses: a vCPU that stores what is set and whose \<open>KVM_RUN\<close> follows a script.
\<close>

section \<open>A simulated vCPU\<close>

record sim_vcpu =
  sv_regs :: kvm_regs
  sv_sregs :: kvm_sregs
  sv_xcrs :: kvm_xcrs
  sv_xsave :: "u8 list"
  sv_script :: "((errno + vcpu_exit) \<times> kvm_regs \<times> (guest_ram \<Rightarrow> guest_ram)) list"

definition sim_run :: "sim_vcpu \<Rightarrow> guest_ram \<Rightarrow> (errno + vcpu_exit) \<times> sim_vcpu \<times> guest_ram" where
  "sim_run v ram =
     (case sv_script v of [] \<Rightarrow> (Inr VcpuShutdown, v, ram)
      | (x, r, f) # sc \<Rightarrow> (x, v\<lparr>sv_regs := r\<lparr>kr_rflags := kr_rflags r OR 2\<rparr>, sv_script := sc\<rparr>,
                             (let ram' = f ram in if ram_len ram' = ram_len ram then ram' else ram)))"

definition sim_api :: "sim_vcpu kvm_api" where
  "sim_api =
     \<lparr>kv_get_regs = (\<lambda>v. Inr (sv_regs v)),
      kv_set_regs = (\<lambda>r v. Inr (v\<lparr>sv_regs := r\<lparr>kr_rflags := kr_rflags r OR 2\<rparr>\<rparr>)),
      kv_get_sregs = (\<lambda>v. Inr (sv_sregs v)),
      kv_set_sregs = (\<lambda>g v. Inr (v\<lparr>sv_sregs := g\<rparr>)),
      kv_get_xcrs = (\<lambda>v. Inr (sv_xcrs v)),
      kv_set_xcrs = (\<lambda>x v. Inr (v\<lparr>sv_xcrs := x\<rparr>)),
      kv_get_xsave = (\<lambda>v. Inr (sv_xsave v)),
      kv_set_xsave = (\<lambda>b v. Inr (v\<lparr>sv_xsave := b\<rparr>)),
      kv_get_msrs = (\<lambda>i v. Inr (0, 0)),
      kv_set_msrs = (\<lambda>i x v. (Inr 0, v)),
      kv_set_guest_debug = (\<lambda>v. Inr v),
      kv_run = sim_run,
      kv_display = (\<lambda>e. ''errno '' @ fmt_dec e)\<rparr>"

definition sim_host :: "sim_vcpu \<Rightarrow> sim_vcpu kvm_host" where
  "sim_host v =
     \<lparr>kh_open = Inr (), kh_create_vm = Inr (), kh_host_alloc = (\<lambda>_. Inr ()),
      kh_set_user_memory_region = (\<lambda>_. Inr ()), kh_create_vcpu = Inr v,
      kh_set_supported_cpuid = (\<lambda>v. Inr v)\<rparr>"

definition sim_live :: "xsave_layout \<Rightarrow> sim_vcpu \<Rightarrow> bool" where
  "sim_live lay v \<longleftrightarrow> bit (kr_rflags (sv_regs v)) 1 \<and> length (sv_xsave v) = XSAVE_BYTES \<and>
     settled (sv_xsave v) lay \<and> xsave_xcomp_bv (sv_xsave v) = Some 0 \<and>
     kx_nr (sv_xcrs v) = 1 \<and> (\<exists>x xs. kx_xcrs (sv_xcrs v) = (0, x) # xs)"

definition sim_accepts :: "kvm_sregs \<Rightarrow> bool" where
  "sim_accepts g = True"

lemma sim_live_regs [simp]: "sim_live lay v \<Longrightarrow> sim_live lay (v\<lparr>sv_regs := r\<lparr>kr_rflags := x OR 2\<rparr>\<rparr>)"
  by (simp add: sim_live_def bit_or_2 del: One_nat_def)

lemma sim_live_sregs [simp]: "sim_live lay (v\<lparr>sv_sregs := g\<rparr>) = sim_live lay v"
  by (simp add: sim_live_def)

lemma sim_live_script [simp]: "sim_live lay (v\<lparr>sv_script := x\<rparr>) = sim_live lay v"
  by (simp add: sim_live_def)

lemma xcomp_after_set:
  assumes "layout_ok (length b0) lay" and "settled b0 lay" and "unat n < 32"
    and "xsave_set_zmm b0 lay n d = Some b"
  shows "length b = length b0 \<and> settled b lay \<and> xsave_xcomp_bv b = xsave_xcomp_bv b0"
  using xsave_set_zmm_result [OF assms(1-3), of d] assms(4) by auto

lemma sim_laws:
  assumes "layout_ok XSAVE_BYTES lay"
  shows "kvm_laws sim_api (sim_live lay) sim_accepts lay"
  unfolding kvm_laws_def
proof (intro conjI)
  show "kvm_regs_law sim_api (sim_live lay)"
    by (auto simp: kvm_regs_law_def sim_api_def regs_match_def) (simp add: sim_live_def)
  show "kvm_sregs_law sim_api (sim_live lay) sim_accepts"
    by (auto simp: kvm_sregs_law_def sim_api_def sim_accepts_def)
  show "kvm_xsave_law sim_api (sim_live lay) lay"
    unfolding kvm_xsave_law_def
  proof (intro conjI allI impI)
    show "layout_ok XSAVE_BYTES lay" by (rule assms)
    show "\<exists>b. kv_get_xsave sim_api v = Inr b \<and> length b = XSAVE_BYTES \<and> settled b lay"
      if "sim_live lay v" for v
      using that by (simp add: sim_api_def sim_live_def)
  next
    fix v b0 n d b
    assume a: "sim_live lay v \<and> kv_get_xsave sim_api v = Inr b0 \<and> unat n < 32 \<and> xsave_set_zmm b0 lay n d = Some b"
    then have b0: "b0 = sv_xsave v" by (simp add: sim_api_def)
    have "length b = length b0 \<and> settled b lay \<and> xsave_xcomp_bv b = xsave_xcomp_bv b0"
      by (rule xcomp_after_set [of b0 lay n d]) (use a assms in \<open>simp_all add: b0 sim_live_def\<close>)
    with a b0 show "\<exists>v' b'. kv_set_xsave sim_api b v = Inr v' \<and> sim_live lay v' \<and> kv_get_xsave sim_api v' = Inr b' \<and>
         length b' = XSAVE_BYTES \<and> settled b' lay \<and>
         (\<forall>m<32. \<forall>i<8. xrstor_chunk b' lay m i = xrstor_chunk b lay m i) \<and>
         kv_get_regs sim_api v' = kv_get_regs sim_api v \<and> kv_get_sregs sim_api v' = kv_get_sregs sim_api v"
      by (auto simp: sim_api_def sim_live_def)
  qed
qed

lemma sim_run_law: "kvm_run_law sim_api (sim_live lay)"
  unfolding kvm_run_law_def
  by (auto simp: sim_api_def sim_run_def Let_def sim_live_def bit_or_2 split: list.splits prod.splits simp del: One_nat_def)

text \<open>A fresh vCPU and an oracle on it.\<close>

definition zero_segment :: kvm_segment where
  "zero_segment =
     \<lparr>ks_base = 0, ks_limit = 0, ks_selector = 0, ks_type = 0, ks_present = 0, ks_dpl = 0, ks_db = 0,
      ks_s = 0, ks_l = 0, ks_g = 0, ks_avl = 0, ks_unusable = 0\<rparr>"

definition sim_vcpu_new :: "((errno + vcpu_exit) \<times> kvm_regs \<times> (guest_ram \<Rightarrow> guest_ram)) list \<Rightarrow> sim_vcpu" where
  "sim_vcpu_new script =
     \<lparr>sv_regs = default_regs\<lparr>kr_rflags := 2\<rparr>,
      sv_sregs = \<lparr>sr_cs = zero_segment, sr_ds = zero_segment, sr_es = zero_segment, sr_fs = zero_segment,
        sr_gs = zero_segment, sr_ss = zero_segment, sr_tr = zero_segment, sr_ldt = zero_segment,
        sr_gdt = \<lparr>kd_base = 0, kd_limit = 0\<rparr>, sr_idt = \<lparr>kd_base = 0, kd_limit = 0\<rparr>,
        sr_cr0 = 0, sr_cr2 = 0, sr_cr3 = 0, sr_cr4 = 0, sr_cr8 = 0, sr_efer = 0\<rparr>,
      sv_xcrs = \<lparr>kx_nr = 1, kx_xcrs = [(0, 1)]\<rparr>, sv_xsave = replicate XSAVE_BYTES 0, sv_script = script\<rparr>"

lemma sim_live_new: "sim_live lay (sim_vcpu_new script)"
proof -
  have "xsave_xcomp_bv (replicate XSAVE_BYTES 0) = Some 0"
    by (simp add: xsave_xcomp_bv_def read_u64_at_in XSAVE_XCOMP_BV_def XSAVE_BYTES_def u64_at_zeros)
  moreover have "bit (2 :: u64) 1" using bit_or_2 [of 0] by simp
  ultimately show ?thesis by (simp add: sim_live_def sim_vcpu_new_def settled_zeros del: One_nat_def)
qed

definition sim_oracle :: "((errno + vcpu_exit) \<times> kvm_regs \<times> (guest_ram \<Rightarrow> guest_ram)) list \<Rightarrow> sim_vcpu kvm_oracle" where
  "sim_oracle script =
     \<lparr>ko_vcpu = sim_vcpu_new script, ko_ram = build_control_structures (ram_new (unat RAM_SIZE)),
      ko_xsave = avx512_layout, ko_last_fault = None, ko_touched = {}\<rparr>"

lemma sim_oracle_ok: "kvm_ok sim_api (sim_live avx512_layout) sim_accepts avx512_layout (sim_oracle script)"
  using build_vectors_intact
  by (simp add: kvm_ok_def sim_laws avx512_layout_ok XSAVE_BYTES_def sim_oracle_def sim_live_new vectors_intact_def)

lemma sim_oracle_unmapped: "\<not> kvm_is_mapped x (sim_oracle script)"
  by (simp add: kvm_is_mapped_def sim_oracle_def)

section \<open>Properties\<close>

text \<open>
  A snapshot of one KVM oracle, restored into another in any other state, reproduces it: the
  restored oracle shows the same snapshot.
\<close>

theorem kvm_restore_snapshot:
  assumes "kvm_ok api live accepts lay s" and "kvm_ok api live accepts lay t"
    and "snapshot (kvm_ops prof api) s = Some snap"
  shows "\<exists>t'. restore (kvm_ops prof api) snap t = Some t' \<and> kvm_ok api live accepts lay t' \<and>
    snapshot (kvm_ops prof api) t' = Some snap"
  using assms by (rule kvm.restore_snapshot)

text \<open>
  C7: restoring any well-formed snapshot succeeds and the oracle then shows it, with the
  single-step flags dropped, flag bit 1 set and the vector chunks the host cannot hold read as
  zero: this is the state both sides of a differential test start from.
\<close>

theorem kvm_restore_loads:
  assumes "kvm_ok api live accepts lay s" and "wf_cpu_state snap"
  shows "\<exists>s'. restore (kvm_ops prof api) snap s = Some s' \<and> kvm_ok api live accepts lay s' \<and>
    snapshot (kvm_ops prof api) s' =
      Some \<lparr>cs_gpr = cs_gpr snap, cs_rip = cs_rip snap,
        cs_rflags = (cs_rflags snap AND NOT (FLAG_TF OR FLAG_RF)) OR 2,
        cs_zmm = map (\<lambda>n. zmm_norm XSAVE_BYTES lay n (cs_zmm snap ! n)) [0..<32]\<rparr>"
  using kvm.restore_view [OF assms, of prof] kvm.snapshot_view
  by (fastforce simp: norm_step_flags_def STEP_FLAGS_def)

theorem kvm_restore_loads_witness:
  "\<exists>s'. restore (kvm_ops Debug sim_api) (default_cpu_state\<lparr>cs_rip := 0x400000, cs_rflags := 0x101\<rparr>) (sim_oracle []) = Some s' \<and>
     op_get_rflags (kvm_ops Debug sim_api) s' = Some 3"
proof -
  let ?snap = "default_cpu_state\<lparr>cs_rip := 0x400000, cs_rflags := 0x101\<rparr>"
  have wf: "wf_cpu_state ?snap" using wf_default_cpu_state by (simp add: wf_cpu_state_def)
  obtain s' where s': "restore (kvm_ops Debug sim_api) ?snap (sim_oracle []) = Some s'"
    "kvm_ok sim_api (sim_live avx512_layout) sim_accepts avx512_layout s'"
    "snapshot (kvm_ops Debug sim_api) s' =
      Some \<lparr>cs_gpr = cs_gpr ?snap, cs_rip = cs_rip ?snap,
        cs_rflags = (cs_rflags ?snap AND NOT (FLAG_TF OR FLAG_RF)) OR 2,
        cs_zmm = map (\<lambda>n. zmm_norm XSAVE_BYTES avx512_layout n (cs_zmm ?snap ! n)) [0..<32]\<rparr>"
    using kvm_restore_loads [OF sim_oracle_ok wf, of Debug "[]"] by blast
  have "cs_rflags (kvm_view sim_api avx512_layout s') = 3"
    using s'(3) kvm.snapshot_view [OF s'(2), of Debug] by (simp add: FLAG_TF_def FLAG_RF_def)
  with s' show ?thesis using kvm.get_rflags [OF s'(2), of Debug] by auto
qed



text \<open>
  C10: the FS and GS bases are one register each, whichever API writes them: after a write
  through the segment or the MSR interface both read the value back, and the other base is
  unchanged.
\<close>

theorem kvm_fs_gs_in_sync:
  assumes "kvm_ok api live accepts lay s"
    and "w = kvm_set_seg_base prof api SEG_FS x s \<or> w = kvm_set_msr api IA32_FS_BASE x s"
    and "u = kvm_set_seg_base prof api SEG_GS y s \<or> u = kvm_set_msr api IA32_GS_BASE y s"
  shows "(\<exists>s'. w = Some s' \<and> kvm_get_seg_base api SEG_FS s' = Some x \<and> kvm_get_msr api IA32_FS_BASE s' = Some x \<and>
            kvm_get_seg_base api SEG_GS s' = kvm_get_seg_base api SEG_GS s)
    \<and> (\<exists>s'. u = Some s' \<and> kvm_get_seg_base api SEG_GS s' = Some y \<and> kvm_get_msr api IA32_GS_BASE s' = Some y \<and>
            kvm_get_seg_base api SEG_FS s' = kvm_get_seg_base api SEG_FS s)"
proof -
  have o: "op_set_seg_base (kvm_ops prof api) = kvm_set_seg_base prof api"
    "op_set_msr (kvm_ops prof api) = kvm_set_msr api" "op_get_seg_base (kvm_ops prof api) = kvm_get_seg_base api"
    "op_get_msr (kvm_ops prof api) = kvm_get_msr api"
    by (simp_all add: kvm_ops_def)
  show ?thesis
    using kvm_segments.fs_in_sync [OF assms(1), of w prof x] kvm_segments.gs_in_sync [OF assms(1), of u prof y]
      assms(2,3) unfolding o by blast
qed

theorem kvm_fs_gs_in_sync_witness:
  "\<exists>s'. kvm_set_msr sim_api IA32_FS_BASE 0x7000 (sim_oracle []) = Some s' \<and>
     kvm_get_seg_base sim_api SEG_FS s' = Some 0x7000"
  using kvm_fs_gs_in_sync [OF sim_oracle_ok, of "kvm_set_msr sim_api IA32_FS_BASE 0x7000 (sim_oracle [])" Debug "0x7000" "[]"
      "kvm_set_msr sim_api IA32_GS_BASE 0 (sim_oracle [])" 0]
  by blast

text \<open>
  C5: faults do not vector. Let the processor, at a state whose RIP, RSP and flags image are
  those of \<open>c\<close> and \<open>saved\<close>, deliver vector \<open>vec\<close> through the built tables and halt in the
  stub, after at most 63 interrupted runs. Then \<open>step\<close> reports the vector's classification and
  message, and the oracle shows RIP, RSP and flags of the faulting instruction, every other
  register as the processor left it, the error code, and guest memory as it was outside the 48
  bytes under the IST top; the vectors stay intact for the next fault.
\<close>

theorem kvm_fault_does_not_vector:
  assumes ok: "kvm_ok api live accepts lay s"
    and arm: "kv_set_guest_debug api (ko_vcpu s) = Inr v0"
    and retries: "kvm_interrupted api k v0 (ko_ram s) = Some (v1, ram1)" "k < 64"
    and intact: "vectors_intact ram1'"
    and deliver: "arch_deliver IDT_ADDR GDT_ADDR SEL_TSS vec ec saved ram1' c = Some (ram2, c2)"
    and run: "kv_run api v1 ram1 = (Inr VcpuHlt, v2, ram2)" "live v2"
    and regs: "kv_get_regs api v2 = Inr rg" "kr_rip rg = ac_rip c2 + 1" "kr_rsp rg = ac_rsp c2"
    and fpu: "kv_get_xsave api v2 = Inr b2"
  shows "\<exists>s'. kvm_step prof api s =
        Some (Fault (classify vec) (fault_message vec (if has_error_code vec then ec else 0)), s') \<and>
    kvm_ok api live accepts lay s' \<and>
    snapshot (kvm_ops prof api) s' =
      Some \<lparr>cs_gpr = (gprs rg)[4 := ac_rsp c], cs_rip = ac_rip c,
            cs_rflags = (saved AND NOT (FLAG_TF OR FLAG_RF)) OR 2, cs_zmm = zmm_values XSAVE_BYTES lay b2\<rparr> \<and>
    kvm_fault_msg s' = fault_message vec (if has_error_code vec then ec else 0) \<and>
    kvm_last_vector s' = Some vec \<and> kvm_last_error_code s' = (if has_error_code vec then Some ec else None) \<and>
    vectors_intact (ko_ram s') \<and>
    (\<forall>x. x < unat IST_STACK_TOP - 48 \<or> unat IST_STACK_TOP \<le> x \<longrightarrow> ram_byte (ko_ram s') x = ram_byte ram1' x)"
proof -
  let ?ec = "if has_error_code vec then ec else 0"
  have d: "ram2 = frame_ram vec ec saved ram1' c" "ac_rip c2 = stub_addr (unat vec)" "ac_rsp c2 = frame_base vec"
    using deliver_vector [OF intact, of vec ec saved c] deliver by simp_all
  have frame: "\<forall>x. x < unat IST_STACK_TOP - 48 \<or> unat IST_STACK_TOP \<le> x \<longrightarrow> ram_byte ram2 x = ram_byte ram1' x"
    unfolding d(1) by (auto simp: frame_ram_frame layout_simps)
  have vi: "vectors_intact ram2" unfolding d(1) by (rule deliver_intact [OF intact])
  let ?s2 = "s\<lparr>ko_last_fault := None, ko_vcpu := v2, ko_ram := ram2\<rparr>"
  have len: "ram_len ram2 = unat RAM_SIZE" "ram_ok ram2" using vi by (simp_all add: vectors_intact_def)
  have ok2: "kvm_ok api live accepts lay ?s2"
    using ok run(2) len by (simp add: kvm_ok_def)
  let ?u = "\<lparr>uw_rip = ac_rip c, uw_rsp = ac_rsp c, uw_rflags = saved, uw_error_code = ?ec\<rparr>"
  have u: "unwind_frame prof ram2 (kr_rsp rg) vec = Some ?u"
    unfolding regs(3) d(1,3) by (rule frame_unwinds [OF intact])
  let ?r = "rg\<lparr>kr_rip := ac_rip c, kr_rsp := ac_rsp c, kr_rflags := saved\<rparr>"
  obtain s3 r3 where s3: "kvm_put_regs api ?r ?s2 = Some s3" "kvm_ok api live accepts lay s3"
    "kv_get_regs api (ko_vcpu s3) = Inr r3" "regs_match r3 ?r"
    "kv_get_xsave api (ko_vcpu s3) = kv_get_xsave api (ko_vcpu ?s2)" "s3 = ?s2\<lparr>ko_vcpu := ko_vcpu s3\<rparr>"
    by (rule kvm_regs_put [OF ok2, of ?r]) blast
  let ?s' = "s3\<lparr>ko_last_fault := Some (vec, ?ec)\<rparr>"
  have stub: "stub_vector (kr_rip rg) = Some vec" unfolding regs(2) d(2) by (rule stub_vector_stub)
  have step: "kvm_step prof api s = Some (Fault (classify vec) (fault_message vec ?ec), ?s')"
    using kvm_step_vector [OF arm retries run(1) regs(1) stub u, of s3] s3(1) by simp
  have ok': "kvm_ok api live accepts lay ?s'" using s3(2) by simp
  have "gprs ?r = (gprs rg)[4 := ac_rsp c]" by (simp add: gprs_def)
  then have view: "kvm_view api lay ?s' = \<lparr>cs_gpr = (gprs rg)[4 := ac_rsp c], cs_rip = ac_rip c,
            cs_rflags = norm_step_flags saved, cs_zmm = zmm_values XSAVE_BYTES lay b2\<rparr>"
    using kvm_view_eq [of api ?s' r3 b2 lay] s3(3,5) fpu regs_matchD [OF s3(4)]
    by (simp add: norm_step_flags_eq)
  have ram: "ko_ram ?s' = ram2"
    using arg_cong [OF s3(6), of ko_ram] by simp
  show ?thesis
    using step ok' kvm.snapshot_view [OF ok', of prof] view ram vi frame
    by (intro exI [of _ ?s'])
       (simp add: norm_step_flags_def STEP_FLAGS_def kvm_fault_msg_def kvm_last_vector_def kvm_last_error_code_def)
qed

text \<open>
  The witness: one interrupted run, then a page fault (vector 14, error code 2) at RIP 400000H
  with RSP 0.
\<close>

definition pf_cpu :: arch_cpu where
  "pf_cpu = \<lparr>ac_rip = 0x400000, ac_rsp = 0, ac_rflags = 0x46, ac_cs = 8, ac_ss = 16\<rparr>"

definition pf_script :: "((errno + vcpu_exit) \<times> kvm_regs \<times> (guest_ram \<Rightarrow> guest_ram)) list" where
  "pf_script =
     [(Inl EINTR, default_regs, \<lambda>r. r),
      (Inr VcpuHlt, default_regs\<lparr>kr_rip := stub_addr 14 + 1, kr_rsp := frame_base 14\<rparr>,
       \<lambda>r. frame_ram 14 2 0x10046 r pf_cpu)]"

theorem kvm_fault_does_not_vector_witness:
  "\<exists>s'. kvm_step Debug sim_api (sim_oracle pf_script) =
      Some (Fault PageFault ''#PF page fault (vector 14, error code 0x2)'', s') \<and>
     kvm_last_vector s' = Some 14 \<and> kvm_last_error_code s' = Some 2"
proof -
  let ?img = "build_control_structures (ram_new (unat RAM_SIZE))"
  let ?r0 = "default_regs\<lparr>kr_rflags := 2\<rparr>" and ?v0 = "sim_vcpu_new pf_script"
  let ?v1 = "?v0\<lparr>sv_regs := ?r0, sv_script := tl pf_script\<rparr>"
  let ?r2 = "default_regs\<lparr>kr_rip := stub_addr 14 + 1, kr_rsp := frame_base 14, kr_rflags := 2\<rparr>"
  let ?v2 = "?v0\<lparr>sv_regs := ?r2, sv_script := []\<rparr>"
  let ?ram2 = "frame_ram 14 2 0x10046 ?img pf_cpu"
  have f0: "kr_rflags default_regs = 0" by (simp add: default_regs_def)
  have interrupted: "kvm_interrupted sim_api 1 (ko_vcpu (sim_oracle pf_script)) (ko_ram (sim_oracle pf_script)) = Some (?v1, ?img)"
    by (simp add: sim_oracle_def sim_api_def sim_run_def pf_script_def sim_vcpu_new_def f0)
  have run: "kv_run sim_api ?v1 ?img = (Inr VcpuHlt, ?v2, ?ram2)"
    by (simp add: sim_api_def sim_run_def pf_script_def f0 sim_vcpu_new_def)
  have live: "sim_live avx512_layout ?v2"
    using sim_live_new [of avx512_layout pf_script] bit_or_2 [of 0]
    by (simp add: sim_live_def del: One_nat_def)
  have deliver: "arch_deliver IDT_ADDR GDT_ADDR SEL_TSS 14 2 0x10046 ?img pf_cpu =
      Some (?ram2, pf_cpu\<lparr>ac_rip := stub_addr 14, ac_cs := SEL_CODE64, ac_rsp := frame_base 14,
            ac_rflags := ac_rflags pf_cpu AND NOT 0x34300\<rparr>)"
    using deliver_vector [OF build_vectors_intact, of 14 2 "0x10046" pf_cpu] by simp
  have "\<exists>s'. kvm_step Debug sim_api (sim_oracle pf_script) =
        Some (Fault (classify 14) (fault_message 14 (if has_error_code 14 then 2 else 0)), s') \<and>
      kvm_last_vector s' = Some 14 \<and> kvm_last_error_code s' = (if has_error_code 14 then Some 2 else None)"
    using kvm_fault_does_not_vector [OF sim_oracle_ok _ interrupted _ build_vectors_intact deliver run live,
        where prof = Debug and rg = ?r2]
    by (auto simp: sim_api_def sim_oracle_def)
  then show ?thesis
    by (simp add: has_error_code_def classify_def fault_message_def vector_name_def fmt_dec_def fmt_hex_def
        digits_in.simps digit_char_def)
qed

text \<open>
  C8: in a release build \<open>step\<close> always returns, whatever the guest and the kernel do: it makes at
  most 64 runs, reports a comparable outcome that is never a \<open>Syscall\<close>, keeps the oracle
  usable, and 64 interrupted runs are reported as no progress. \<open>fault_msg\<close> is empty after a
  retirement; after a fault it is the outcome's message exactly when a vector was recorded, and
  empty for the faults that have no vector (an access outside RAM, a triple fault, a failed
  run), although the outcome carries a message.
\<close>

theorem kvm_step_returns:
  assumes "kvm_ok api live accepts lay s" and "kvm_run_law api live"
  shows "\<exists>oc s'. kvm_step Release api s = Some (oc, s') \<and> kvm_ok api live accepts lay s' \<and> is_comparable oc \<and>
    (oc = Retired \<and> kvm_fault_msg s' = '''' \<or>
     (\<exists>k msg. oc = Fault k msg \<and>
        kvm_fault_msg s' = (if kvm_last_vector s' = None then '''' else msg)))
    \<and> (\<forall>v0 v1 ram1. kv_set_guest_debug api (ko_vcpu s) = Inr v0 \<and>
         kvm_interrupted api 64 v0 (ko_ram s) = Some (v1, ram1) \<longrightarrow>
         oc = Fault OtherException ''KVM_RUN did not make progress'')"
proof -
  obtain oc s' where step: "kvm_step Release api s = Some (oc, s')" and ok: "kvm_ok api live accepts lay s'"
    using kvm_step_total [OF assms] by blast
  obtain v0 where arm: "kv_set_guest_debug api (ko_vcpu s) = Inr v0"
    using assms unfolding kvm_ok_def kvm_run_law_def by blast
  let ?s0 = "s\<lparr>ko_last_fault := None, ko_vcpu := v0\<rparr>"
  have loop: "kvm_run_loop 64 Release api ?s0 = Some (oc, s')"
    using step by (simp add: kvm_step_def kvm_arm_singlestep_def arm del: kvm_run_loop.simps)
  have agrees: "message_agrees oc s'"
    by (rule kvm_loop_message [OF _ loop]) simp
  have "oc = Fault OtherException ''KVM_RUN did not make progress''"
    if "kvm_interrupted api 64 v0 (ko_ram s) = Some (v1, ram1)" for v1 ram1
    using kvm_loop_interrupted [of api 64 ?s0 v1 ram1 0 Release] that loop by simp
  moreover have "is_comparable oc"
    using kvm_loop_comparable [OF loop] .
  ultimately show ?thesis
    using step ok agrees arm
    by (intro exI [of _ oc] exI [of _ s'])
       (auto simp: message_agrees_def split: step_outcome.splits)
qed

theorem kvm_step_returns_witness:
  "\<exists>oc s'. kvm_step Release sim_api (sim_oracle [(Inr (VcpuMmioRead 0x20000000), default_regs, \<lambda>r. r)]) = Some (oc, s') \<and>
     is_comparable oc"
  using kvm_step_returns [OF sim_oracle_ok sim_run_law] by blast



text \<open>
  C6: on a working host \<open>try_new\<close> succeeds and the new oracle is in the reset state every
  backend promises: all registers, RIP and vector registers zero, flags 2, long-mode special
  registers over the tables in guest RAM, memory below the control region zero and unmapped, no
  fault recorded.
\<close>

theorem kvm_try_new_resets:
  assumes "kvm_host_law host live" and "kvm_laws api live accepts lay" and "lay = probe cpuid xcr0 0"
    and "kvm_xcrs_law api live cpuid xcr0" and "kvm_reset_law api live lay"
    and "\<And>g. accepts g \<Longrightarrow> accepts (long_mode_sregs g)"
  shows "\<exists>s g. kvm_try_new host api cpuid = Some (Inr s) \<and> kvm_new host api cpuid = Some s \<and>
    kvm_ok api live accepts lay s \<and>
    snapshot (kvm_ops prof api) s = Some (default_cpu_state\<lparr>cs_rflags := 2\<rparr>) \<and>
    kv_get_sregs api (ko_vcpu s) = Inr (long_mode_sregs g) \<and> vectors_intact (ko_ram s) \<and>
    (\<forall>a. unat a < unat CTRL_BASE \<longrightarrow> kvm_read_mem_byte a s = Some 0 \<and> \<not> kvm_is_mapped a s) \<and>
    kvm_fault_msg s = ''''"
proof -
  obtain v v' where host: "kh_open host = Inr ()" "kh_create_vm host = Inr ()"
    "kh_host_alloc host (unat RAM_SIZE) = Inr ()" "kh_set_user_memory_region host RAM_SIZE = Inr ()"
    "kh_create_vcpu host = Inr v" "kh_set_supported_cpuid host v = Inr v'" "live v'"
    using assms(1) unfolding kvm_host_law_def by blast
  let ?ram = "build_control_structures (ram_new (unat RAM_SIZE))"
  let ?s = "\<lparr>ko_vcpu = v', ko_ram = ?ram, ko_xsave = probe cpuid 0 0, ko_last_fault = None, ko_touched = {}\<rparr>"
  have len: "ram_len ?ram = unat RAM_SIZE" "ram_ok ?ram"
    using build_vectors_intact by (simp_all add: vectors_intact_def)
  have ok0: "kvm_ok api live accepts lay (?s\<lparr>ko_xsave := lay\<rparr>)"
    using assms(2) host(7) len by (simp add: kvm_ok_def)
  obtain s' g where s': "kvm_enter_long_mode api cpuid ?s = Some (Inr s')" "kvm_ok api live accepts lay s'"
    "kvm_view api lay s' = default_cpu_state\<lparr>cs_rflags := 2\<rparr>"
    "kv_get_sregs api (ko_vcpu s') = Inr (long_mode_sregs g)" "s' = ?s\<lparr>ko_vcpu := ko_vcpu s', ko_xsave := lay\<rparr>"
    using kvm_long_mode [OF ok0 refl assms(3-6)] by blast
  have new: "kvm_try_new host api cpuid = Some (Inr s')"
    using host s'(1) by (simp add: kvm_try_new_def Let_def)
  have f: "ko_ram s' = ?ram" "ko_touched s' = {}" "ko_last_fault s' = None"
    by (subst s'(5), simp)+
  have "kvm_read_mem_byte a s' = Some 0" if "unat a < unat CTRL_BASE" for a
    using built_ram_zero [OF that] by (simp add: kvm_read_mem_byte_def f)
  then show ?thesis
    using new s'(2,4) kvm.snapshot_view [OF s'(2), of prof] s'(3) f build_vectors_intact
    by (intro exI [of _ s'] exI [of _ g]) (simp add: kvm_new_def kvm_is_mapped_def kvm_fault_msg_def)
qed

lemma sim_host_law: "kvm_host_law (sim_host (sim_vcpu_new script)) (sim_live lay)"
  by (simp add: kvm_host_law_def sim_host_def sim_live_new)

lemma host_xcr0_avx512: "host_xcr0 avx512_cpuid = 0xE7"
  by (simp add: host_xcr0_def avx512_cpuid_def)

lemma sim_xcrs_law: "kvm_xcrs_law sim_api (sim_live lay) avx512_cpuid 0xE7"
  unfolding kvm_xcrs_law_def
  by (auto simp: sim_api_def sim_live_def effective_xcr0_def host_xcr0_avx512)

lemma sim_reset_law:
  assumes "layout_ok XSAVE_BYTES lay"
  shows "kvm_reset_law sim_api (sim_live lay) lay"
  unfolding kvm_reset_law_def
proof (intro conjI allI impI)
  show "xsave_xcomp_bv b0 = Some 0" if "sim_live lay v \<and> kv_get_xsave sim_api v = Inr b0" for v b0
    using that by (auto simp: sim_api_def sim_live_def)
next
  fix v b0 b
  assume a: "sim_live lay v \<and> kv_get_xsave sim_api v = Inr b0 \<and> xsave_reset_vectors b0 lay = Some b"
  then have b0: "b0 = sv_xsave v" by (simp add: sim_api_def)
  with a have "layout_ok (length b0) lay" using assms by (simp add: sim_live_def)
  from xsave_reset_result [OF this] a
  have "length b = length b0" "settled b lay" "xsave_xcomp_bv b = xsave_xcomp_bv b0" by auto
  with a b0 show "\<exists>v' b'. kv_set_xsave sim_api b v = Inr v' \<and> sim_live lay v' \<and> kv_get_xsave sim_api v' = Inr b' \<and>
       length b' = XSAVE_BYTES \<and> settled b' lay \<and>
       (\<forall>m<32. \<forall>i<8. xrstor_chunk b' lay m i = xrstor_chunk b lay m i) \<and>
       kv_get_regs sim_api v' = kv_get_regs sim_api v \<and> kv_get_sregs sim_api v' = kv_get_sregs sim_api v"
    by (auto simp: sim_api_def sim_live_def)
qed

theorem kvm_try_new_resets_witness:
  "\<exists>s. kvm_try_new (sim_host (sim_vcpu_new [])) sim_api avx512_cpuid = Some (Inr s) \<and>
     snapshot (kvm_ops Debug sim_api) s = Some (default_cpu_state\<lparr>cs_rflags := 2\<rparr>)"
proof -
  have lok: "layout_ok XSAVE_BYTES avx512_layout" by (simp add: avx512_layout_ok XSAVE_BYTES_def)
  show ?thesis
    using kvm_try_new_resets [OF sim_host_law sim_laws [OF lok] probe_avx512 [symmetric] sim_xcrs_law
        sim_reset_law [OF lok], of "[]" Debug]
    by (auto simp: sim_accepts_def)
qed

end
