(* ===== verification/Whp_Step.thy ===== *)
theory Whp_Step
  imports Whp_Contract
begin

text \<open>
  Stepping the WHP oracle: what the two ways of seeing an exception do to the registers, the
  loop of \<open>step\<close> up to its bound, and that a release build always comes back.
\<close>

section \<open>Undoing what single-stepping left behind\<close>

lemma and_not_step_idem [simp]: "(x AND NOT STEP_FLAGS) AND NOT STEP_FLAGS = x AND NOT STEP_FLAGS"
  by (simp add: and.assoc)

lemma rflags_shown:
  "(((x AND NOT STEP_FLAGS) OR 2) AND NOT STEP_FLAGS) = norm_step_flags x"
  unfolding norm_step_flags_eq [symmetric]
  by (rule bit_word_eqI) (auto simp: bit_simps)

lemma whp_disarm:
  assumes "whp_ok api G s"
  shows "\<exists>s'. whp_disarm_singlestep prof api s = Some s' \<and> whp_ok api G s' \<and>
    whp_view api G s' = whp_view api G s \<and> ws_self s' = ws_self s"
proof -
  let ?f = "as_reg64 (whp_regs api s WRflags)"
  have "wh_accepts G (whp_regs api s) [WRflags] [Reg64 (?f AND NOT STEP_FLAGS)]"
    by (rule accepts_program [OF assms]) (simp add: program_regs_def)
  from whp_set_reg [OF assms this, of prof] obtain hr s' where s':
    "whp_set_regs prof api [WRflags] [Reg64 (?f AND NOT STEP_FLAGS)] s = Some (hr, s')" "whp_ok api G s'"
    "whp_regs api s' = (whp_regs api s)(WRflags := stored WRflags (Reg64 (?f AND NOT STEP_FLAGS)))"
    "whp_image api G s' = whp_image api G s" "ws_self s' = ws_self s" by metis
  have "norm_step_flags ?f = ?f AND NOT STEP_FLAGS"
    by (rule norm_step_flags_keeps [OF whp_rflags_fixed [OF assms]])
  then have "whp_view api G s' = whp_view api G s"
    using gpr_view_other [OF gpr_not_special(2)]
    by (simp add: whp_view_def s'(3,4) stored_def rflags_shown)
  with s' show ?thesis
    by (intro exI [of _ s'])
       (simp add: whp_disarm_singlestep_def whp_get_reg [OF assms] whp_set_reg64_def STEP_FLAGS_def [symmetric])
qed

lemma gpr_rsp: "GPR_NAMES ! 4 = WRsp"
  by (simp add: GPR_NAMES_def)

lemma whp_unwind:
  assumes "whp_ok api G s" and "unwind_frame prof (wo_ram (ws_self s)) (cs_gpr (whp_view api G s) ! 4) vec = Some u"
  shows "\<exists>s'. whp_unwind_fault prof api vec s = Some (uw_error_code u, s') \<and> whp_ok api G s' \<and>
    whp_view api G s' = (whp_view api G s)\<lparr>cs_gpr := (cs_gpr (whp_view api G s))[4 := uw_rsp u],
      cs_rip := uw_rip u, cs_rflags := norm_step_flags (uw_rflags u)\<rparr> \<and> ws_self s' = ws_self s"
proof -
  let ?f = "uw_rflags u AND NOT STEP_FLAGS"
  have rsp: "as_reg64 (whp_regs api s WRsp) = cs_gpr (whp_view api G s) ! 4"
    by (simp add: whp_view_def gpr_rsp)
  have "wh_accepts G (whp_regs api s) [WRip, WRsp, WRflags] [Reg64 (uw_rip u), Reg64 (uw_rsp u), Reg64 ?f]"
    using whp_okD(3) [OF assms(1)] unfolding whp_accepts_law_def by blast
  from whp_set [OF assms(1) _ this, of prof] obtain hr s' where s':
    "whp_set_regs prof api [WRip, WRsp, WRflags] [Reg64 (uw_rip u), Reg64 (uw_rsp u), Reg64 ?f] s = Some (hr, s')"
    "whp_ok api G s'"
    "whp_regs api s' = (whp_regs api s)(WRip := Reg64 (uw_rip u), WRsp := Reg64 (uw_rsp u), WRflags := Reg64 (?f OR 2))"
    "whp_image api G s' = whp_image api G s" "ws_self s' = ws_self s"
    by (simp add: stored_def) metis
  have "map (\<lambda>m. as_reg64 (whp_regs api s' m)) GPR_NAMES =
      (map (\<lambda>m. as_reg64 (whp_regs api s m)) GPR_NAMES)[4 := uw_rsp u]"
    using gpr_view_update [of 4 "(whp_regs api s)(WRip := Reg64 (uw_rip u))" "uw_rsp u"]
      gpr_view_other [OF gpr_not_special(1)] gpr_view_other [OF gpr_not_special(2)]
    by (simp only: s'(3) gpr_rsp)
  then have "whp_view api G s' = (whp_view api G s)\<lparr>cs_gpr := (cs_gpr (whp_view api G s))[4 := uw_rsp u],
      cs_rip := uw_rip u, cs_rflags := norm_step_flags (uw_rflags u)\<rparr>"
    by (simp add: whp_view_def s'(3,4) rflags_shown)
  with s' assms(2) show ?thesis
    by (intro exI [of _ s'])
       (simp add: whp_unwind_fault_def whp_get_reg [OF assms(1)] rsp STEP_FLAGS_def [symmetric])
qed

section \<open>Retries\<close>

fun whp_cancelled :: "'w whp_api \<Rightarrow> nat \<Rightarrow> 'w whp_state \<Rightarrow> 'w whp_state option" where
  "whp_cancelled api 0 s = Some s"
| "whp_cancelled api (Suc k) s =
     (case wa_run_vp api (wo_handle (ws_self s)) (world s) (wo_ram (ws_self s)) of
        (hr, ExitCanceled, w, ram) \<Rightarrow>
          if hr_ok hr then whp_cancelled api k ((set_world w s)\<lparr>ws_self := (ws_self s)\<lparr>wo_ram := ram\<rparr>\<rparr>) else None
      | _ \<Rightarrow> None)"

lemma whp_loop_cancelled:
  "whp_cancelled api k s = Some t \<Longrightarrow> whp_run_loop (k + n) prof api s = whp_run_loop n prof api t"
proof (induction k arbitrary: s)
  case (Suc k)
  then obtain hr w ram where r: "wa_run_vp api (wo_handle (ws_self s)) (world s) (wo_ram (ws_self s)) = (hr, ExitCanceled, w, ram)"
    and k: "hr_ok hr" "whp_cancelled api k ((set_world w s)\<lparr>ws_self := (ws_self s)\<lparr>wo_ram := ram\<rparr>\<rparr>) = Some t"
    by (auto split: prod.splits whp_exit.splits if_splits)
  from Suc.IH [OF k(2)] r k(1) show ?case by simp
qed simp

section \<open>Outcomes and messages\<close>

definition whp_message_agrees :: "step_outcome \<Rightarrow> 'w whp_state \<Rightarrow> bool" where
  "whp_message_agrees oc s \<longleftrightarrow>
     (case oc of
        Retired \<Rightarrow> whp_fault_msg s = '''' \<and> whp_last_vector s = None
      | Fault k msg \<Rightarrow> whp_fault_msg s = (if whp_last_vector s = None then '''' else msg)
      | Syscall \<Rightarrow> False)"

lemma silent_agrees:
  "wo_last_fault (ws_self s) = None \<Longrightarrow> whp_message_agrees Retired s \<and> whp_message_agrees (Fault k msg) s"
  by (simp add: whp_message_agrees_def whp_fault_msg_def whp_last_vector_def)

lemma fault_agrees: "whp_message_agrees (fst (whp_fault vec e s)) (snd (whp_fault vec e s))"
  by (simp add: whp_message_agrees_def whp_fault_def whp_fault_msg_def whp_last_vector_def)

lemma whp_set_regs_self: "whp_set_regs prof api ns vs s = Some (hr, t) \<Longrightarrow> ws_self t = ws_self s"
  by (auto simp: whp_set_regs_def split: bind_splits prod.splits)

lemma whp_unwind_self: "whp_unwind_fault prof api vec s = Some (e, t) \<Longrightarrow> ws_self t = ws_self s"
  by (auto simp: whp_unwind_fault_def split: bind_splits dest: whp_set_regs_self)

lemma whp_disarm_self: "whp_disarm_singlestep prof api s = Some t \<Longrightarrow> ws_self t = ws_self s"
  by (auto simp: whp_disarm_singlestep_def whp_set_reg64_def split: bind_splits dest: whp_set_regs_self)

lemma whp_exits_agree:
  assumes "wo_last_fault (ws_self s) = None"
  shows "whp_on_exception prof api ty hc ec s = Some (oc, t) \<Longrightarrow> whp_message_agrees oc t \<and> is_comparable oc"
    and "whp_on_halt prof api rip s = Some (oc, t) \<Longrightarrow> whp_message_agrees oc t \<and> is_comparable oc"
  using assms fault_agrees classify_comparable silent_agrees
  by (auto simp: whp_on_exception_def whp_on_halt_def whp_fault_def split: bind_splits if_splits option.splits
      dest!: whp_disarm_self whp_unwind_self)
     (simp_all add: whp_message_agrees_def whp_fault_msg_def whp_last_vector_def)

lemma whp_loop_agrees:
  "wo_last_fault (ws_self s) = None \<Longrightarrow> whp_run_loop n prof api s = Some (oc, t) \<Longrightarrow>
   whp_message_agrees oc t \<and> is_comparable oc"
proof (induction n arbitrary: s)
  case 0
  then show ?case using silent_agrees by auto
next
  case (Suc n)
  obtain hr exit w ram where run: "wa_run_vp api (wo_handle (ws_self s)) (world s) (wo_ram (ws_self s)) = (hr, exit, w, ram)"
    by (metis surj_pair)
  let ?s = "(set_world w s)\<lparr>ws_self := (ws_self s)\<lparr>wo_ram := ram\<rparr>\<rparr>"
  have f: "wo_last_fault (ws_self ?s) = None" using Suc.prems(1) by simp
  show ?case
    using Suc.prems(2) run Suc.IH [OF f] silent_agrees [OF f] whp_exits_agree [OF f]
    by (cases exit) (auto simp: Let_def split: if_splits)
qed

section \<open>The step never panics in a release build\<close>

text \<open>Running keeps a partition serving calls and its memory the same size; so does a mapping call.\<close>

definition whp_run_law :: "'w whp_api \<Rightarrow> 'w whp_guest \<Rightarrow> bool" where
  "whp_run_law api G \<longleftrightarrow>
     (\<forall>h w ram. wh_live G h w \<longrightarrow> (case wa_run_vp api h w ram of (hr, x, w', ram') \<Rightarrow>
        wh_live G h w' \<and> ram_len ram' = ram_len ram)) \<and>
     (\<forall>h k w. wh_live G h w \<longrightarrow> wh_live G h (snd (wa_map_gpa_range api k 0 RAM_SIZE w))) \<and>
     (\<forall>h k w. wh_live G h w \<longrightarrow> wh_live G h (snd (wa_unmap_gpa_range api k 0 RAM_SIZE w)))"

lemma whp_ok_run:
  assumes "whp_ok api G s" and "whp_run_law api G"
    and "wa_run_vp api (wo_handle (ws_self s)) (world s) (wo_ram (ws_self s)) = (hr, x, w, ram)"
  shows "whp_ok api G ((set_world w s)\<lparr>ws_self := (ws_self s)\<lparr>wo_ram := ram\<rparr>\<rparr>)"
proof -
  have "case wa_run_vp api (wo_handle (ws_self s)) (world s) (wo_ram (ws_self s)) of (hr, x, w', ram') \<Rightarrow>
      wh_live G (wo_handle (ws_self s)) w' \<and> ram_len ram' = ram_len (wo_ram (ws_self s))"
    by (rule conjunct1 [OF assms(2) [unfolded whp_run_law_def], rule_format, OF whp_okD(5) [OF assms(1)]])
  with assms(1,3) show ?thesis by (simp add: whp_ok_def ram_ok_def)
qed

lemma whp_ok_fault: "whp_ok api G s \<Longrightarrow> whp_ok api G (snd (whp_fault vec e s))"
  by (simp add: whp_fault_def whp_ok_def)

lemma whp_exits_total:
  assumes "whp_ok api G s"
  shows "\<exists>oc t. whp_on_exception Release api ty hc ec s = Some (oc, t) \<and> whp_ok api G t"
    and "\<exists>oc t. whp_on_halt Release api rip s = Some (oc, t) \<and> whp_ok api G t"
proof -
  obtain s1 where s1: "whp_disarm_singlestep Release api s = Some s1" "whp_ok api G s1"
    using whp_disarm [OF assms] by blast
  then show "\<exists>oc t. whp_on_exception Release api ty hc ec s = Some (oc, t) \<and> whp_ok api G t"
    using whp_ok_fault [OF s1(2)] by (cases "ty = 1") (auto simp: whp_on_exception_def prod_eq_iff)
  show "\<exists>oc t. whp_on_halt Release api rip s = Some (oc, t) \<and> whp_ok api G t"
  proof (cases "stub_vector rip")
    case None
    with s1 show ?thesis by (simp add: whp_on_halt_def)
  next
    case (Some vec)
    obtain u where u: "unwind_frame Release (wo_ram (ws_self s)) (cs_gpr (whp_view api G s) ! 4) vec = Some u"
      using unwind_frame_release by blast
    obtain t where t: "whp_unwind_fault Release api vec s = Some (uw_error_code u, t)" "whp_ok api G t"
      using whp_unwind [OF assms u] by blast
    with Some whp_ok_fault [OF t(2)] show ?thesis
      by (cases "vec = 1") (auto simp: whp_on_halt_def prod_eq_iff)
  qed
qed

lemma whp_loop_total:
  "whp_ok api G s \<Longrightarrow> whp_run_law api G \<Longrightarrow> \<exists>oc t. whp_run_loop n Release api s = Some (oc, t) \<and> whp_ok api G t"
proof (induction n arbitrary: s)
  case (Suc n)
  obtain hr exit w ram where run: "wa_run_vp api (wo_handle (ws_self s)) (world s) (wo_ram (ws_self s)) = (hr, exit, w, ram)"
    by (metis surj_pair)
  note ok = whp_ok_run [OF Suc.prems run]
  note exits = whp_exits_total [OF ok] and ih = Suc.IH [OF ok Suc.prems(2)]
  show ?case
    using run ok exits ih by (cases exit) (simp_all add: Let_def)
qed simp

lemma whp_claim_ok:
  assumes "whp_ok api G s" and "whp_run_law api G" and "claim_mapping api (wo_handle (ws_self s)) (ws_proc s) = (r, p)"
  shows "whp_ok api G (s\<lparr>ws_proc := p\<rparr>)"
proof -
  have law: "wh_live G h w \<Longrightarrow> wh_live G h (snd (wa_map_gpa_range api k 0 RAM_SIZE w))"
    "wh_live G h w \<Longrightarrow> wh_live G h (snd (wa_unmap_gpa_range api k 0 RAM_SIZE w))" for h k w
    using assms(2) unfolding whp_run_law_def by blast+
  obtain r1 p1 where r1: "release_previous api (ws_proc s) = (r1, p1)" by (metis surj_pair)
  have l1: "wh_live G (wo_handle (ws_self s)) (wp_world p1)"
    using r1 law(2) [OF whp_okD(5) [OF assms(1)]] whp_okD(5) [OF assms(1)]
    by (auto simp: release_previous_def split: option.splits prod.splits sum.splits) (metis snd_conv)+
  have "wh_live G (wo_handle (ws_self s)) (wp_world p)"
    using assms(3) r1 l1 law(1) [OF l1] whp_okD(5) [OF assms(1)]
    by (auto simp: claim_mapping_def split: if_splits prod.splits sum.splits) (metis snd_conv)+
  with assms(1) show ?thesis by (simp add: whp_ok_def)
qed

lemma whp_arm:
  assumes "whp_ok api G s"
  shows "\<exists>hr s'. whp_arm_singlestep prof api s = Some (hr, s') \<and> hr_ok hr \<and> whp_ok api G s' \<and> ws_self s' = ws_self s \<and>
    bit (as_reg64 (whp_regs api s' WRflags)) 8 \<and> whp_view api G s' = whp_view api G s"
proof -
  let ?f = "as_reg64 (whp_regs api s WRflags)"
  let ?g = "(?f OR FLAG_TF) AND NOT FLAG_RF"
  have "wh_accepts G (whp_regs api s) [WRflags] [Reg64 ?g]"
    by (rule accepts_program [OF assms]) (simp add: program_regs_def)
  from whp_set_reg [OF assms this, of prof] obtain hr s' where s':
    "whp_set_regs prof api [WRflags] [Reg64 ?g] s = Some (hr, s')" "hr_ok hr" "whp_ok api G s'"
    "whp_regs api s' = (whp_regs api s)(WRflags := stored WRflags (Reg64 ?g))"
    "whp_image api G s' = whp_image api G s" "ws_self s' = ws_self s" by metis
  have tf: "FLAG_TF = push_bit 8 1" "FLAG_RF = push_bit 16 1"
    by (simp_all add: FLAG_TF_def FLAG_RF_def push_bit_eq_mult)
  have "bit (?g OR 2) 8"
    unfolding tf bit_or_iff bit_and_iff bit_not_iff bit_push_one by simp
  moreover have "?g AND NOT STEP_FLAGS = ?f AND NOT STEP_FLAGS"
    unfolding STEP_FLAGS_def by (rule bit_word_eqI) (auto simp: bit_simps)
  then have "(?g OR 2) AND NOT STEP_FLAGS = ?f AND NOT STEP_FLAGS"
    using norm_step_flags_keeps [OF whp_rflags_fixed [OF assms]]
    by (simp add: norm_step_flags_eq) (simp add: norm_step_flags_def)
  then have "whp_view api G s' = whp_view api G s"
    using gpr_view_other [OF gpr_not_special(2)]
    by (simp add: whp_view_def s'(4,5) stored_def)
  ultimately show ?thesis
    using s' by (intro exI [of _ hr] exI [of _ s'])
      (simp add: whp_arm_singlestep_def whp_get_reg [OF assms] whp_set_reg64_def stored_def)
qed

lemma whp_ok_last_fault [simp]:
  "whp_ok api G (s\<lparr>ws_self := (ws_self s)\<lparr>wo_last_fault := f\<rparr>\<rparr>) = whp_ok api G s"
  by (simp add: whp_ok_def)

lemma whp_step_total:
  assumes "whp_ok api G s" and "whp_run_law api G"
  shows "\<exists>oc s'. whp_step Release api s = Some (oc, s') \<and> whp_ok api G s' \<and>
    whp_message_agrees oc s' \<and> is_comparable oc"
proof -
  let ?s = "s\<lparr>ws_self := (ws_self s)\<lparr>wo_last_fault := None\<rparr>\<rparr>"
  obtain r p where c: "claim_mapping api (wo_handle (ws_self s)) (ws_proc s) = (r, p)" by (metis surj_pair)
  have ok: "whp_ok api G (?s\<lparr>ws_proc := p\<rparr>)"
    using whp_claim_ok [OF assms c] by (simp add: whp_ok_def)
  show ?thesis
  proof (cases r)
    case (Inl e)
    with c ok silent_agrees [of "?s\<lparr>ws_proc := p\<rparr>"] show ?thesis
      by (simp add: whp_step_def is_comparable_iff is_architectural_def)
  next
    case (Inr u)
    obtain hr t where t: "whp_arm_singlestep Release api (?s\<lparr>ws_proc := p\<rparr>) = Some (hr, t)" "hr_ok hr"
      "whp_ok api G t" "ws_self t = ws_self ?s"
      using whp_arm [OF ok, of Release] by auto
    obtain oc s' where s': "whp_run_loop 64 Release api t = Some (oc, s')" "whp_ok api G s'"
      using whp_loop_total [OF t(3) assms(2)] by blast
    have "whp_message_agrees oc s' \<and> is_comparable oc"
      by (rule whp_loop_agrees [OF _ s'(1)]) (simp add: t(4))
    with s' t c Inr show ?thesis by (simp add: whp_step_def)
  qed
qed

section \<open>Two ways to see the same exception\<close>

text \<open>
  Two oracles in which the same instruction raises the same vector: in one it is intercepted, in
  the other delivered through the tables the code built. \<open>same_program\<close> is equality of what
  they show apart from RIP, RSP and the flags, which delivery changes.
\<close>

definition same_program :: "cpu_state \<Rightarrow> cpu_state \<Rightarrow> bool" where
  "same_program v w \<longleftrightarrow> (cs_gpr v)[4 := 0] = (cs_gpr w)[4 := 0] \<and> cs_zmm v = cs_zmm w"

lemma same_program_gpr:
  assumes "same_program v w" and "length (cs_gpr v) = 16" and "length (cs_gpr w) = 16"
  shows "(cs_gpr w)[4 := cs_gpr v ! 4] = cs_gpr v"
proof (rule nth_equalityI)
  fix i assume i: "i < length ((cs_gpr w)[4 := cs_gpr v ! 4])"
  have "(cs_gpr v)[4 := 0] ! i = (cs_gpr w)[4 := 0] ! i"
    using assms(1) by (simp only: same_program_def)
  with i assms(2,3) show "(cs_gpr w)[4 := cs_gpr v ! 4] ! i = cs_gpr v ! i"
    by (cases "i = 4") simp_all
qed (simp add: assms)

lemma whp_fault_eq:
  "whp_fault vec e s = (Fault (classify vec) (fault_message vec e), snd (whp_fault vec e s))"
  "whp_view api G (snd (whp_fault vec e s)) = whp_view api G s"
  "wo_last_fault (ws_self (snd (whp_fault vec e s))) = Some (vec, e)"
  by (simp_all add: whp_fault_def whp_view_def whp_regs_def whp_image_def)

lemma whp_paths:
  assumes ok: "whp_ok api G s1" "whp_ok api G s2"
    and silent: "wo_last_fault (ws_self s1) = None" "wo_last_fault (ws_self s2) = None"
    and intact: "vectors_intact ram"
    and deliver: "arch_deliver IDT_ADDR GDT_ADDR SEL_TSS vec (ucast ec) saved ram c = Some (wo_ram (ws_self s2), c2)"
    and at1: "cs_gpr (whp_view api G s1) ! 4 = ac_rsp c" "cs_rip (whp_view api G s1) = ac_rip c"
      "cs_rflags (whp_view api G s1) = norm_step_flags saved"
    and at2: "cs_gpr (whp_view api G s2) ! 4 = ac_rsp c2"
    and same: "same_program (whp_view api G s1) (whp_view api G s2)"
  shows "\<exists>oc s1' s2'. whp_on_exception prof api vec (has_error_code vec) ec s1 = Some (oc, s1') \<and>
    whp_on_halt prof api (ac_rip c2 + 1) s2 = Some (oc, s2') \<and>
    oc = (if vec = 1 then Retired else Fault (classify vec) (fault_message vec (if has_error_code vec then ucast ec else 0))) \<and>
    whp_view api G s1' = whp_view api G s1 \<and> whp_view api G s2' = whp_view api G s1 \<and>
    wo_last_fault (ws_self s1') = wo_last_fault (ws_self s2') \<and> whp_ok api G s1' \<and> whp_ok api G s2'"
proof -
  let ?ec = "if has_error_code vec then ucast ec else 0"
  have d: "wo_ram (ws_self s2) = frame_ram vec (ucast ec) saved ram c" "ac_rip c2 = stub_addr (unat vec)" "ac_rsp c2 = frame_base vec"
    using deliver_vector [OF intact, of vec "ucast ec" saved c] deliver by simp_all
  obtain s1' where s1': "whp_disarm_singlestep prof api s1 = Some s1'" "whp_ok api G s1'"
    "whp_view api G s1' = whp_view api G s1" "ws_self s1' = ws_self s1"
    using whp_disarm [OF ok(1)] by blast
  let ?u = "\<lparr>uw_rip = ac_rip c, uw_rsp = ac_rsp c, uw_rflags = saved, uw_error_code = ?ec\<rparr>"
  have "unwind_frame prof (wo_ram (ws_self s2)) (cs_gpr (whp_view api G s2) ! 4) vec = Some ?u"
    unfolding at2 d(1,3) by (rule frame_unwinds [OF intact])
  from whp_unwind [OF ok(2) this] obtain s2' where s2': "whp_unwind_fault prof api vec s2 = Some (?ec, s2')"
    "whp_ok api G s2'" "whp_view api G s2' = (whp_view api G s2)\<lparr>cs_gpr := (cs_gpr (whp_view api G s2))[4 := ac_rsp c],
      cs_rip := ac_rip c, cs_rflags := norm_step_flags saved\<rparr>" "ws_self s2' = ws_self s2"
    by auto
  have v2: "whp_view api G s2' = whp_view api G s1"
  proof -
    have "(cs_gpr (whp_view api G s2))[4 := ac_rsp c] = cs_gpr (whp_view api G s1)"
      using same_program_gpr [OF same] at1(1) by (simp add: whp_view_def)
    moreover have "cs_zmm (whp_view api G s2) = cs_zmm (whp_view api G s1)"
      using same by (simp add: same_program_def)
    ultimately show ?thesis using at1 by (simp add: s2'(3))
  qed
  have stub: "stub_vector (ac_rip c2 + 1) = Some vec" unfolding d(2) by (rule stub_vector_stub)
  show ?thesis
  proof (cases "vec = 1")
    case True
    with s1' s2' v2 stub silent show ?thesis
      by (simp add: whp_on_exception_def whp_on_halt_def del: One_nat_def)
  next
    case False
    let ?oc = "Fault (classify vec) (fault_message vec ?ec)"
    let ?t1 = "snd (whp_fault vec ?ec s1')" and ?t2 = "snd (whp_fault vec ?ec s2')"
    have "whp_on_exception prof api vec (has_error_code vec) ec s1 = Some (whp_fault vec ?ec s1')"
      using False s1'(1) by (simp add: whp_on_exception_def)
    then have e1: "whp_on_exception prof api vec (has_error_code vec) ec s1 = Some (?oc, ?t1)"
      by (rule trans) (rule arg_cong [OF whp_fault_eq(1)])
    have "whp_on_halt prof api (ac_rip c2 + 1) s2 = Some (whp_fault vec ?ec s2')"
      using False s2'(1) stub by (simp add: whp_on_halt_def)
    then have e2: "whp_on_halt prof api (ac_rip c2 + 1) s2 = Some (?oc, ?t2)"
      by (rule trans) (rule arg_cong [OF whp_fault_eq(1)])
    have "?oc = (if vec = 1 then Retired else ?oc)" using False by simp
    moreover have "whp_view api G ?t1 = whp_view api G s1" "whp_view api G ?t2 = whp_view api G s1"
      "wo_last_fault (ws_self ?t1) = wo_last_fault (ws_self ?t2)"
      by (simp_all only: whp_fault_eq(2,3) s1'(3) v2)
    ultimately show ?thesis
      using whp_ok_fault [OF s1'(2)] whp_ok_fault [OF s2'(2)]
      by - (rule exI [where x = ?oc], rule exI [where x = ?t1], rule exI [where x = ?t2], intro conjI e1 e2)
  qed
qed

end
