(* ===== verification/Whp_Boot.thy ===== *)
theory Whp_Boot
  imports Whp_Step
begin

text \<open>
  \<open>enter_long_mode\<close>: the order of its register writes, which XCR0 it settles on, and the vector
  registers it leaves. \<open>long_mode_order\<close> is what a platform that checks each write asks for: PAE
  and long-mode enable before paging, paging before long mode is active, and long mode active
  before a 64-bit code segment.
\<close>

section \<open>XCR0\<close>

text \<open>
  The architecture's rule for XCR0: x87 and SSE are always there, AVX needs SSE, and the three
  AVX-512 components come together and need AVX.
\<close>

definition xcr0_valid :: "u64 \<Rightarrow> bool" where
  "xcr0_valid x \<longleftrightarrow> bit x 0 \<and> bit x 1 \<and>
     (bit x 5 \<or> bit x 6 \<or> bit x 7 \<longrightarrow> bit x 5 \<and> bit x 6 \<and> bit x 7 \<and> bit x 2)"

lemma xcr0_bits:
  "bit XCR0_X87_SSE n \<longleftrightarrow> n = 0 \<or> n = 1"
  "bit XCR0_AVX n \<longleftrightarrow> n = 2"
  "bit XCR0_AVX512 n \<longleftrightarrow> n = 5 \<or> n = 6 \<or> n = 7"
  "bit XCR0_OPTIONAL n \<longleftrightarrow> n = 3 \<or> n = 4 \<or> n = 9"
proof -
  have three: "(3 :: u64) = push_bit 0 1 OR push_bit 1 1" by (simp add: push_bit_eq_mult)
  show "bit XCR0_X87_SSE n \<longleftrightarrow> n = 0 \<or> n = 1"
    unfolding XCR0_X87_SSE_def three bit_or_iff bit_push_one by auto
  show "bit XCR0_AVX n \<longleftrightarrow> n = 2" "bit XCR0_AVX512 n \<longleftrightarrow> n = 5 \<or> n = 6 \<or> n = 7"
    "bit XCR0_OPTIONAL n \<longleftrightarrow> n = 3 \<or> n = 4 \<or> n = 9"
    unfolding XCR0_AVX_def XCR0_AVX512_def XCR0_OPTIONAL_def bit_or_iff bit_push_one by auto
qed

lemma bit_u64_less: "bit (x :: u64) n \<Longrightarrow> n < 64"
  using bit_imp_le_length [of x n] by simp

lemma and_all_iff: "x AND m = m \<longleftrightarrow> (\<forall>n. bit m n \<longrightarrow> bit x n)" for x m :: u64
  by (auto simp: bit_eq_iff bit_and_iff dest: bit_u64_less)

lemma and_none_iff: "x AND m = 0 \<longleftrightarrow> (\<forall>n. bit m n \<longrightarrow> \<not> bit x n)" for x m :: u64
  by (auto simp: bit_eq_iff bit_and_iff dest: bit_u64_less)

lemma x87_sse_iff: "x AND XCR0_X87_SSE = XCR0_X87_SSE \<longleftrightarrow> bit x 0 \<and> bit x 1"
  by (auto simp: and_all_iff xcr0_bits)

lemma avx512_iff: "x AND XCR0_AVX512 = XCR0_AVX512 \<longleftrightarrow> bit x 5 \<and> bit x 6 \<and> bit x 7"
  by (auto simp: and_all_iff xcr0_bits)

lemma avx_iff: "x AND XCR0_AVX = 0 \<longleftrightarrow> \<not> bit x 2"
  by (auto simp: and_none_iff xcr0_bits)

lemma bit_and_not: "bit (x AND NOT m) n \<longleftrightarrow> bit x n \<and> \<not> bit m n" for x m :: u64
  by (auto simp: bit_and_iff bit_not_iff dest: bit_u64_less)

lemma xcr0_want_valid: "xcr0_valid (xcr0_want c)"
  by (auto simp: xcr0_want_def xcr0_valid_def Let_def avx512_iff avx_iff bit_and_not bit_or_iff xcr0_bits)

text \<open>A wanted value asks for nothing the candidate does not have, apart from x87 and SSE.\<close>

lemma xcr0_want_within: "bit (xcr0_want c) n \<Longrightarrow> bit c n \<or> n < 2"
  by (auto simp: xcr0_want_def Let_def bit_and_not bit_or_iff xcr0_bits split: if_splits)

lemma xcr0_want_id:
  assumes "xcr0_valid c"
  shows "xcr0_want c = c"
proof -
  note v = assms [unfolded xcr0_valid_def]
  have o: "c OR XCR0_X87_SSE = c"
    by (rule bit_word_eqI) (use v in \<open>auto simp only: bit_or_iff xcr0_bits\<close>)
  show ?thesis
  proof (cases "bit c 5")
    case True
    with v show ?thesis by (simp add: xcr0_want_def o avx512_iff avx_iff)
  next
    case False
    with v have "c AND NOT XCR0_AVX512 = c"
      by (intro bit_word_eqI) (auto simp only: bit_and_not xcr0_bits)
    with False show ?thesis by (simp add: xcr0_want_def o avx512_iff)
  qed
qed

text \<open>Whatever the platform does with the writes, the value reported has x87 and SSE.\<close>

lemma try_xcr0_sse:
  "try_xcr0 prof api cs s = Some (x, t) \<Longrightarrow> bit x 0 \<and> bit x 1"
proof (induction cs arbitrary: s)
  case Nil
  then show ?case by (auto simp: xcr0_bits)
next
  case (Cons c cs)
  then show ?case by (auto split: bind_splits if_splits simp: x87_sse_iff)
qed

section \<open>The order of the writes\<close>

definition paging :: "(reg_name \<Rightarrow> reg_value) \<Rightarrow> bool" where
  "paging f \<longleftrightarrow> bit (as_reg64 (f WCr0)) 31"

definition long_mode_order ::
    "((reg_name \<Rightarrow> reg_value) \<Rightarrow> reg_name list \<Rightarrow> reg_value list \<Rightarrow> bool) \<Rightarrow> bool" where
  "long_mode_order acc \<longleftrightarrow>
     (\<forall>f x. \<not> paging f \<longrightarrow> acc f [WCr4] [Reg64 x]) \<and>
     (\<forall>f x. \<not> paging f \<longrightarrow> acc f [WCr3] [Reg64 x]) \<and>
     (\<forall>f x. \<not> paging f \<and> bit (as_reg64 (f WCr4)) 5 \<and> \<not> bit x 10 \<longrightarrow> acc f [WEfer] [Reg64 x]) \<and>
     (\<forall>f x. bit (as_reg64 (f WCr4)) 5 \<and> bit (as_reg64 (f WEfer)) 8 \<and> as_reg64 (f WCr3) = PML4_ADDR \<and> bit x 0 \<longrightarrow>
        acc f [WCr0] [Reg64 x]) \<and>
     (\<forall>f x. paging f \<and> bit x 8 \<and> bit x 10 \<longrightarrow> acc f [WEfer] [Reg64 x]) \<and>
     (\<forall>f n g. bit (as_reg64 (f WEfer)) 10 \<and> n \<in> {WDs, WEs, WSs, WFs, WGs, WCs, WTr, WLdtr} \<longrightarrow>
        acc f [n] [Segment g]) \<and>
     (\<forall>f n t. n \<in> {WGdtr, WIdtr} \<longrightarrow> acc f [n] [Table t]) \<and>
     (\<forall>f x. xcr0_valid x \<longrightarrow> acc f [WXCr0] [Reg64 x]) \<and>
     (\<forall>f vs. length vs = 18 \<longrightarrow> acc f (GPR_NAMES @ [WRip, WRflags]) vs)"

lemma checked_write:
  assumes "whp_serving api G s" and "length ns = length vs" and "wh_accepts G (whp_regs api s) ns vs"
  obtains s' where "checked what (whp_set_regs prof api ns vs s) = Some (Inr (), s')" and "whp_serving api G s'"
    and "whp_regs api s' = written ns vs (whp_regs api s)" and "whp_image api G s' = whp_image api G s"
    and "ws_self s' = ws_self s"
proof -
  obtain hr s' where s': "whp_set_regs prof api ns vs s = Some (hr, s')" "hr_ok hr" "whp_serving api G s'"
    "whp_regs api s' = written ns vs (whp_regs api s)" "whp_image api G s' = whp_image api G s" "ws_self s' = ws_self s"
    by (rule serving_set [OF assms, of prof])
  then show thesis by (intro that [of s']) (simp_all add: checked_def check_def)
qed

lemma data_segments_written:
  assumes "long_mode_order (wh_accepts G)"
  shows "whp_serving api G s \<Longrightarrow> bit (as_reg64 (whp_regs api s WEfer)) 10 \<Longrightarrow>
    set ns \<subseteq> {WDs, WEs, WSs, WFs, WGs} \<Longrightarrow> distinct ns \<Longrightarrow>
    \<exists>s'. set_data_segments prof api ns s = Some (Inr (), s') \<and> whp_serving api G s' \<and>
      whp_regs api s' = (\<lambda>n. if n \<in> set ns then Segment (whp_segment_value 0 0xFFFFFFFF SEL_DATA ATTR_DATA) else whp_regs api s n) \<and>
      whp_image api G s' = whp_image api G s \<and> ws_self s' = ws_self s"
proof (induction ns arbitrary: s)
  case (Cons n ns)
  let ?g = "whp_segment_value 0 0xFFFFFFFF SEL_DATA ATTR_DATA"
  have n: "n \<in> {WDs, WEs, WSs, WFs, WGs, WCs, WTr, WLdtr}" "n \<noteq> WRflags" "n \<noteq> WEfer"
    using Cons.prems(3) by auto
  have "wh_accepts G (whp_regs api s) [n] [Segment ?g]"
    using assms Cons.prems(2) n(1) unfolding long_mode_order_def by blast
  then obtain s1 where s1: "checked ''set data segment'' (whp_set_regs prof api [n] [Segment ?g] s) = Some (Inr (), s1)"
    "whp_serving api G s1" "whp_regs api s1 = (whp_regs api s)(n := Segment ?g)"
    "whp_image api G s1 = whp_image api G s" "ws_self s1 = ws_self s"
    using checked_write [OF Cons.prems(1), of "[n]" "[Segment ?g]" "''set data segment''" prof] n(2) by auto
  obtain s2 where s2: "set_data_segments prof api ns s1 = Some (Inr (), s2)" "whp_serving api G s2"
    "whp_regs api s2 = (\<lambda>n. if n \<in> set ns then Segment ?g else whp_regs api s1 n)"
    "whp_image api G s2 = whp_image api G s1" "ws_self s2 = ws_self s1"
    using Cons.IH [OF s1(2)] Cons.prems n(3) s1(3) by auto
  show ?case
    using s1 s2 Cons.prems(4)
    by (intro exI [of _ s2]) (auto simp: whp_set_seg_def fun_eq_iff)
qed simp

section \<open>Entering long mode\<close>

text \<open>The guest's CPUID, the image format, and an image got and reset may be set.\<close>

definition whp_boot_law ::
    "'w whp_api \<Rightarrow> 'w whp_guest \<Rightarrow> cpuid \<Rightarrow> cpuid \<Rightarrow> u64 \<Rightarrow> bool" where
  "whp_boot_law api G host_cpuid gc xcomp \<longleftrightarrow>
     long_mode_order (wh_accepts G) \<and> xcr0_valid (whp_host_xcr0 gc) \<and>
     wh_capacity G = max (unat (cpuid_ecx (gc 0x0D 0))) 4096 \<and>
     wh_layout G = probe gc (whp_host_xcr0 gc) xcomp \<and>
     (\<forall>s. wh_live G (wo_handle (ws_self s)) (world s) \<longrightarrow> whp_cpuid api host_cpuid s = gc) \<and>
     (\<forall>h w. wh_live G h w \<longrightarrow> xsave_xcomp_bv (image_in api (wh_capacity G) h w) = Some xcomp) \<and>
     (\<forall>h w b. wh_live G h w \<and> xsave_reset_vectors (image_in api (wh_capacity G) h w) (wh_layout G) = Some b \<longrightarrow>
        (case wa_set_xsave api h b w of (hr, w') \<Rightarrow> hr_ok hr \<and> wh_live G h w' \<and>
           reg_in api h w' = reg_in api h w \<and>
           (\<forall>m<32. \<forall>i<8. xrstor_chunk (image_in api (wh_capacity G) h w') (wh_layout G) m i =
              xrstor_chunk b (wh_layout G) m i)))"

lemma boot_lawD:
  assumes "whp_boot_law api G hc gc xcomp"
  shows "long_mode_order (wh_accepts G)" and "xcr0_valid (whp_host_xcr0 gc)"
    and "wh_capacity G = max (unat (cpuid_ecx (gc 0x0D 0))) 4096"
    and "wh_layout G = probe gc (whp_host_xcr0 gc) xcomp"
    and "\<And>s. wh_live G (wo_handle (ws_self s)) (world s) \<Longrightarrow> whp_cpuid api hc s = gc"
    and "\<And>h w. wh_live G h w \<Longrightarrow> xsave_xcomp_bv (image_in api (wh_capacity G) h w) = Some xcomp"
  using assms unfolding whp_boot_law_def by blast+

lemma boot_law_reset:
  assumes "whp_boot_law api G hc gc xcomp" and "wh_live G h w"
    and "xsave_reset_vectors (image_in api (wh_capacity G) h w) (wh_layout G) = Some b"
    and "wa_set_xsave api h b w = (hr, w')"
  shows "hr_ok hr" and "wh_live G h w'" and "reg_in api h w' = reg_in api h w"
    and "\<And>m i. m < 32 \<Longrightarrow> i < 8 \<Longrightarrow> xrstor_chunk (image_in api (wh_capacity G) h w') (wh_layout G) m i =
              xrstor_chunk b (wh_layout G) m i"
proof -
  have "\<forall>h w b. wh_live G h w \<and> xsave_reset_vectors (image_in api (wh_capacity G) h w) (wh_layout G) = Some b \<longrightarrow>
      (case wa_set_xsave api h b w of (hr, w') \<Rightarrow> hr_ok hr \<and> wh_live G h w' \<and>
         reg_in api h w' = reg_in api h w \<and>
         (\<forall>m<32. \<forall>i<8. xrstor_chunk (image_in api (wh_capacity G) h w') (wh_layout G) m i =
            xrstor_chunk b (wh_layout G) m i))"
    using assms(1) unfolding whp_boot_law_def by (elim conjE)
  from this [rule_format, OF conjI [OF assms(2,3)]] assms(4)
  show "hr_ok hr" and "wh_live G h w'" and "reg_in api h w' = reg_in api h w"
    and "\<And>m i. m < 32 \<Longrightarrow> i < 8 \<Longrightarrow> xrstor_chunk (image_in api (wh_capacity G) h w') (wh_layout G) m i =
              xrstor_chunk b (wh_layout G) m i"
    by simp_all
qed

lemma reset_vectors_boot:
  assumes "whp_boot_law api G hc gc xcomp" and "whp_serving api G s"
    and "ram_ok (wo_ram (ws_self s))" and "ram_len (wo_ram (ws_self s)) = unat RAM_SIZE"
  shows "\<exists>s'. whp_reset_vectors prof api hc (whp_host_xcr0 gc) s = Some (Inr (), s') \<and> whp_ok api G s' \<and>
    whp_regs api s' = whp_regs api s \<and> cs_zmm (whp_view api G s') = replicate 32 (replicate 8 0) \<and>
    ws_self s' = (ws_self s)\<lparr>wo_xsave := wh_layout G, wo_xsave_capacity := wh_capacity G\<rparr>"
proof -
  note boot = boot_lawD [OF assms(1)] and live = whp_servingD(5) [OF assms(2)]
  let ?s = "s\<lparr>ws_self := (ws_self s)\<lparr>wo_xsave_capacity := wh_capacity G\<rparr>\<rparr>"
  let ?t = "?s\<lparr>ws_self := (ws_self ?s)\<lparr>wo_xsave := wh_layout G\<rparr>\<rparr>"
  let ?h = "wo_handle (ws_self s)"
  have serving: "whp_serving api G ?s" using assms(2) by (simp add: whp_serving_def)
  have cp: "whp_cpuid api hc s = gc" "whp_cpuid api hc ?s = gc"
    using boot(5) [of s] boot(5) [of ?s] live by simp_all
  let ?b0 = "whp_image api G s"
  have img: "whp_image api G ?s = ?b0" by (simp add: whp_image_def)
  note b0 = serving_image [OF assms(2)]
  have read: "whp_read_xsave api ?s = Inr ?b0"
    using serving_read_image [OF serving] by (simp add: img)
  have xc: "xsave_xcomp_bv ?b0 = Some xcomp" using boot(6) [OF live] by (simp add: whp_image_def)
  have lok: "layout_ok (length ?b0) (wh_layout G)"
    using whp_servingD(4) [OF assms(2)] b0(1) by (simp add: whp_xsave_law_def)
  obtain b where b: "xsave_reset_vectors ?b0 (wh_layout G) = Some b" "length b = length ?b0"
    and loaded: "\<And>b'. length b' = length ?b0 \<Longrightarrow> settled b' (wh_layout G) \<Longrightarrow>
      \<forall>m<32. \<forall>i<8. xrstor_chunk b' (wh_layout G) m i = xrstor_chunk b (wh_layout G) m i \<Longrightarrow>
      zmm_values (length ?b0) (wh_layout G) b' = replicate 32 (replicate 8 0)"
    by (rule reset_loaded [OF lok]) blast
  obtain hr w where w: "wa_set_xsave api ?h b (world s) = (hr, w)" by (metis surj_pair)
  note law = boot_law_reset [OF assms(1) live b(1) [unfolded whp_image_def] w]
  let ?u = "set_world w ?t"
  have run: "whp_reset_vectors prof api hc (whp_host_xcr0 gc) s = Some (Inr (), ?u)"
    using w law(1) boot(3,4) b(1) read xc cp
    by (simp add: whp_reset_vectors_def Let_def whp_write_xsave_def check_def)
  have ok: "whp_ok api G ?u"
    using assms(2-4) law(2) by (simp add: whp_ok_def whp_serving_def)
  have "cs_zmm (whp_view api G ?u) = replicate 32 (replicate 8 0)"
    using loaded [OF _ whp_image_length(2) [OF ok]] whp_image_length(1) [OF ok] law(4) b0
    by (simp add: whp_view_def whp_image_def)
  moreover have "whp_regs api ?u = whp_regs api s" using law(3) by (simp add: whp_regs_def)
  ultimately show ?thesis using run ok by (intro exI [of _ ?u]) simp
qed

text \<open>The registers the guest runs with, apart from the program's.\<close>

definition long_mode_regs :: "(reg_name \<Rightarrow> reg_value) \<Rightarrow> bool" where
  "long_mode_regs f \<longleftrightarrow>
     f WCr0 = Reg64 CR0_INIT \<and> f WCr3 = Reg64 PML4_ADDR \<and> f WCr4 = Reg64 CR4_INIT \<and> f WEfer = Reg64 EFER_INIT \<and>
     (\<forall>n \<in> {WDs, WEs, WSs, WFs, WGs}. f n = Segment (whp_segment_value 0 0xFFFFFFFF SEL_DATA ATTR_DATA)) \<and>
     f WCs = Segment (whp_segment_value 0 0xFFFFFFFF SEL_CODE64 ATTR_CODE64) \<and>
     f WTr = Segment (whp_segment_value TSS_ADDR TSS_LIMIT SEL_TSS ATTR_TSS64) \<and>
     f WGdtr = Table (whp_table_value GDT_ADDR GDT_LIMIT) \<and> f WIdtr = Table (whp_table_value IDT_ADDR IDT_LIMIT)"

lemma init_bits:
  "\<not> bit (EFER_INIT AND NOT (push_bit 10 1)) 10" "bit (EFER_INIT AND NOT (push_bit 10 1)) 8"
  "bit EFER_INIT 8" "bit EFER_INIT 10" "bit CR4_INIT 5" "bit CR0_INIT 31" "bit CR0_INIT 0"
  by (simp_all add: EFER_INIT_def CR4_INIT_def CR0_INIT_def bit_and_not bit_push_one bit_or_iff
      bit_numeral_word_iff)


lemma orderD:
  assumes "long_mode_order acc"
  shows "\<not> paging f \<Longrightarrow> acc f [WCr4] [Reg64 x]" and "\<not> paging f \<Longrightarrow> acc f [WCr3] [Reg64 x]"
    and "\<not> paging f \<Longrightarrow> bit (as_reg64 (f WCr4)) 5 \<Longrightarrow> \<not> bit x 10 \<Longrightarrow> acc f [WEfer] [Reg64 x]"
    and "bit (as_reg64 (f WCr4)) 5 \<Longrightarrow> bit (as_reg64 (f WEfer)) 8 \<Longrightarrow> as_reg64 (f WCr3) = PML4_ADDR \<Longrightarrow>
           bit x 0 \<Longrightarrow> acc f [WCr0] [Reg64 x]"
    and "paging f \<Longrightarrow> bit x 8 \<Longrightarrow> bit x 10 \<Longrightarrow> acc f [WEfer] [Reg64 x]"
    and "bit (as_reg64 (f WEfer)) 10 \<Longrightarrow> n \<in> {WDs, WEs, WSs, WFs, WGs, WCs, WTr, WLdtr} \<Longrightarrow> acc f [n] [Segment g]"
    and "n \<in> {WGdtr, WIdtr} \<Longrightarrow> acc f [n] [Table t]"
    and "xcr0_valid x \<Longrightarrow> acc f [WXCr0] [Reg64 x]"
    and "length vs = 18 \<Longrightarrow> acc f (GPR_NAMES @ [WRip, WRflags]) vs"
  using assms by (simp_all add: long_mode_order_def) blast

lemma checked_single:
  assumes "whp_serving api G t" and "wh_accepts G (whp_regs api t) [n] [v]" and "n \<noteq> WRflags"
  shows "\<exists>t'. checked what (whp_set_regs prof api [n] [v] t) = Some (Inr (), t') \<and> whp_serving api G t' \<and>
    whp_regs api t' = (whp_regs api t)(n := v) \<and> whp_image api G t' = whp_image api G t \<and> ws_self t' = ws_self t"
proof -
  obtain t' where "checked what (whp_set_regs prof api [n] [v] t) = Some (Inr (), t')" "whp_serving api G t'"
    "whp_regs api t' = written [n] [v] (whp_regs api t)" "whp_image api G t' = whp_image api G t" "ws_self t' = ws_self t"
    by (rule checked_write [OF assms(1) _ assms(2), of what prof]) simp
  with assms(3) show ?thesis by auto
qed

text \<open>The five writes that reach long mode, each on the state the one before left.\<close>

lemma long_mode_control:
  assumes "long_mode_order (wh_accepts G)" and "whp_serving api G s" and "\<not> paging (whp_regs api s)"
  obtains s1 s2 s3 s4 s5 where
    "checked ''set CR4'' (whp_set_reg64 prof api WCr4 CR4_INIT s) = Some (Inr (), s1)"
    and "checked ''set CR3'' (whp_set_reg64 prof api WCr3 PML4_ADDR s1) = Some (Inr (), s2)"
    and "checked ''set EFER.LME'' (whp_set_reg64 prof api WEfer (EFER_INIT AND NOT (push_bit 10 1)) s2) = Some (Inr (), s3)"
    and "checked ''set CR0.PG'' (whp_set_reg64 prof api WCr0 CR0_INIT s3) = Some (Inr (), s4)"
    and "checked ''set EFER.LMA'' (whp_set_reg64 prof api WEfer EFER_INIT s4) = Some (Inr (), s5)"
    and "whp_serving api G s5" and "whp_image api G s5 = whp_image api G s" and "ws_self s5 = ws_self s"
    and "whp_regs api s5 = (whp_regs api s)(WCr4 := Reg64 CR4_INIT, WCr3 := Reg64 PML4_ADDR,
       WCr0 := Reg64 CR0_INIT, WEfer := Reg64 EFER_INIT)"
proof -
  note ord = orderD [OF assms(1)]
  have wr: "\<exists>t'. checked what (whp_set_reg64 prof api n x t) = Some (Inr (), t') \<and> whp_serving api G t' \<and>
      whp_regs api t' = (whp_regs api t)(n := Reg64 x) \<and> whp_image api G t' = whp_image api G t \<and> ws_self t' = ws_self t"
    if "whp_serving api G t" "wh_accepts G (whp_regs api t) [n] [Reg64 x]" "n \<noteq> WRflags" for what n x t
    using checked_single [OF that, of what prof] by (simp add: whp_set_reg64_def)
  obtain s1 where s1: "checked ''set CR4'' (whp_set_reg64 prof api WCr4 CR4_INIT s) = Some (Inr (), s1)"
    "whp_serving api G s1" "whp_regs api s1 = (whp_regs api s)(WCr4 := Reg64 CR4_INIT)"
    "whp_image api G s1 = whp_image api G s" "ws_self s1 = ws_self s"
    using wr [OF assms(2) ord(1) [OF assms(3)]] by blast
  have p1: "\<not> paging (whp_regs api s1)" using assms(3) by (simp add: s1(3) paging_def)
  obtain s2 where s2: "checked ''set CR3'' (whp_set_reg64 prof api WCr3 PML4_ADDR s1) = Some (Inr (), s2)"
    "whp_serving api G s2" "whp_regs api s2 = (whp_regs api s1)(WCr3 := Reg64 PML4_ADDR)"
    "whp_image api G s2 = whp_image api G s1" "ws_self s2 = ws_self s1"
    using wr [OF s1(2) ord(2) [OF p1]] by blast
  have p2: "\<not> paging (whp_regs api s2)" "bit (as_reg64 (whp_regs api s2 WCr4)) 5"
    using p1 by (simp_all add: s1(3) s2(3) paging_def init_bits)
  obtain s3 where s3: "checked ''set EFER.LME'' (whp_set_reg64 prof api WEfer (EFER_INIT AND NOT (push_bit 10 1)) s2) = Some (Inr (), s3)"
    "whp_serving api G s3" "whp_regs api s3 = (whp_regs api s2)(WEfer := Reg64 (EFER_INIT AND NOT (push_bit 10 1)))"
    "whp_image api G s3 = whp_image api G s2" "ws_self s3 = ws_self s2"
    using wr [OF s2(2) ord(3) [OF p2 init_bits(1)]] by blast
  have p3: "bit (as_reg64 (whp_regs api s3 WCr4)) 5" "bit (as_reg64 (whp_regs api s3 WEfer)) 8"
    "as_reg64 (whp_regs api s3 WCr3) = PML4_ADDR"
    using p2(2) init_bits(2) by (simp_all add: s2(3) s3(3))
  obtain s4 where s4: "checked ''set CR0.PG'' (whp_set_reg64 prof api WCr0 CR0_INIT s3) = Some (Inr (), s4)"
    "whp_serving api G s4" "whp_regs api s4 = (whp_regs api s3)(WCr0 := Reg64 CR0_INIT)"
    "whp_image api G s4 = whp_image api G s3" "ws_self s4 = ws_self s3"
    using wr [OF s3(2) ord(4) [OF p3 init_bits(7)]] by blast
  have p4: "paging (whp_regs api s4)" using init_bits(6) by (simp add: s4(3) paging_def)
  obtain s5 where s5: "checked ''set EFER.LMA'' (whp_set_reg64 prof api WEfer EFER_INIT s4) = Some (Inr (), s5)"
    "whp_serving api G s5" "whp_regs api s5 = (whp_regs api s4)(WEfer := Reg64 EFER_INIT)"
    "whp_image api G s5 = whp_image api G s4" "ws_self s5 = ws_self s4"
    using wr [OF s4(2) ord(5) [OF p4 init_bits(3,4)]] by blast
  show thesis
    by (rule that [OF s1(1) s2(1) s3(1) s4(1) s5(1,2)])
       (auto simp: s1 s2 s3 s4 s5 fun_eq_iff)
qed

lemma xcr0_settled:
  assumes "long_mode_order (wh_accepts G)" and "whp_serving api G s" and "whp_cpuid api hc s = gc"
    and "xcr0_valid (whp_host_xcr0 gc)"
  shows "\<exists>s'. enable_widest_xcr0 prof api hc s = Some (whp_host_xcr0 gc, s') \<and> whp_serving api G s' \<and>
    whp_regs api s' = (whp_regs api s)(WXCr0 := Reg64 (whp_host_xcr0 gc)) \<and>
    whp_image api G s' = whp_image api G s \<and> ws_self s' = ws_self s"
proof -
  let ?x = "whp_host_xcr0 gc"
  have acc: "wh_accepts G (whp_regs api s) [WXCr0] [Reg64 ?x]" by (rule orderD(8) [OF assms(1,4)])
  obtain hr s' where s': "whp_set_regs prof api [WXCr0] [Reg64 ?x] s = Some (hr, s')" "hr_ok hr" "whp_serving api G s'"
    "whp_regs api s' = written [WXCr0] [Reg64 ?x] (whp_regs api s)" "whp_image api G s' = whp_image api G s"
    "ws_self s' = ws_self s"
    by (rule serving_set [OF assms(2) _ acc, of prof]) auto
  have "?x AND XCR0_X87_SSE = XCR0_X87_SSE" using assms(4) by (simp only: x87_sse_iff xcr0_valid_def)
  with s' show ?thesis
    by (intro exI [of _ s'])
       (simp add: enable_widest_xcr0_def assms(3) xcr0_candidates_def xcr0_want_id [OF assms(4)]
         whp_set_reg64_def whp_get_reg64_def serving_get [OF s'(3)])
qed

lemma zeroed_regs:
  "written (GPR_NAMES @ [WRip, WRflags]) (replicate (length GPR_NAMES + 1) (Reg64 0) @ [Reg64 2]) f =
     (\<lambda>n. if n \<in> set GPR_NAMES \<or> n = WRip then Reg64 0 else if n = WRflags then Reg64 2 else f n)"
proof -
  have r: "replicate (length GPR_NAMES + 1) (Reg64 0) = [Reg64 0, Reg64 0, Reg64 0, Reg64 0, Reg64 0, Reg64 0,
      Reg64 0, Reg64 0, Reg64 0, Reg64 0, Reg64 0, Reg64 0, Reg64 0, Reg64 0, Reg64 0, Reg64 0, Reg64 0]"
    by (simp add: GPR_NAMES_def numeral_eq_Suc)
  show ?thesis
    unfolding r
  proof (rule ext)
    fix n
    show "written (GPR_NAMES @ [WRip, WRflags]) ([Reg64 0, Reg64 0, Reg64 0, Reg64 0, Reg64 0, Reg64 0,
        Reg64 0, Reg64 0, Reg64 0, Reg64 0, Reg64 0, Reg64 0, Reg64 0, Reg64 0, Reg64 0, Reg64 0, Reg64 0] @ [Reg64 2]) f n =
       (if n \<in> set GPR_NAMES \<or> n = WRip then Reg64 0 else if n = WRflags then Reg64 2 else f n)"
      by (cases n) (simp_all add: GPR_NAMES_def stored_def)
  qed
qed

text \<open>The segments and tables that come after the data segments.\<close>

lemma long_mode_tables:
  assumes "long_mode_order (wh_accepts G)" and "whp_serving api G s6" and "bit (as_reg64 (whp_regs api s6 WEfer)) 10"
  obtains s7 s8 s9 s10 s11 where
    "checked ''set CS'' (whp_set_seg prof api WCs (whp_segment_value 0 0xFFFFFFFF SEL_CODE64 ATTR_CODE64) s6) = Some (Inr (), s7)"
    and "checked ''set TR'' (whp_set_seg prof api WTr (whp_segment_value TSS_ADDR TSS_LIMIT SEL_TSS ATTR_TSS64) s7) = Some (Inr (), s8)"
    and "checked ''set LDTR'' (whp_set_seg prof api WLdtr (whp_segment_value 0 0 0 0) s8) = Some (Inr (), s9)"
    and "checked ''set GDTR'' (whp_set_regs prof api [WGdtr] [Table (whp_table_value GDT_ADDR GDT_LIMIT)] s9) = Some (Inr (), s10)"
    and "checked ''set IDTR'' (whp_set_regs prof api [WIdtr] [Table (whp_table_value IDT_ADDR IDT_LIMIT)] s10) = Some (Inr (), s11)"
    and "whp_serving api G s11" and "ws_self s11 = ws_self s6"
    and "whp_regs api s11 = (whp_regs api s6)(
       WCs := Segment (whp_segment_value 0 0xFFFFFFFF SEL_CODE64 ATTR_CODE64),
       WTr := Segment (whp_segment_value TSS_ADDR TSS_LIMIT SEL_TSS ATTR_TSS64),
       WLdtr := Segment (whp_segment_value 0 0 0 0),
       WGdtr := Table (whp_table_value GDT_ADDR GDT_LIMIT), WIdtr := Table (whp_table_value IDT_ADDR IDT_LIMIT))"
proof -
  note ord = orderD [OF assms(1)]
  have seg: "\<exists>t'. checked what (whp_set_seg prof api n g t) = Some (Inr (), t') \<and> whp_serving api G t' \<and>
      whp_regs api t' = (whp_regs api t)(n := Segment g) \<and> ws_self t' = ws_self t"
    if "whp_serving api G t" "bit (as_reg64 (whp_regs api t WEfer)) 10" "n \<in> {WCs, WTr, WLdtr}" for what n g t
    using checked_single [OF that(1) ord(6) [where f = "whp_regs api t" and n = n and g = g, OF that(2)], of what prof] that(3)
    by (auto simp: whp_set_seg_def)
  have tab: "\<exists>t'. checked what (whp_set_regs prof api [n] [Table x] t) = Some (Inr (), t') \<and> whp_serving api G t' \<and>
      whp_regs api t' = (whp_regs api t)(n := Table x) \<and> ws_self t' = ws_self t"
    if "whp_serving api G t" "n \<in> {WGdtr, WIdtr}" for what n x t
    using checked_single [OF that(1) ord(7) [where f = "whp_regs api t" and n = n and t = x, OF that(2)], of what prof] that(2) by auto
  obtain s7 where s7: "checked ''set CS'' (whp_set_seg prof api WCs (whp_segment_value 0 0xFFFFFFFF SEL_CODE64 ATTR_CODE64) s6) = Some (Inr (), s7)"
    "whp_serving api G s7" "whp_regs api s7 = (whp_regs api s6)(WCs := Segment (whp_segment_value 0 0xFFFFFFFF SEL_CODE64 ATTR_CODE64))"
    "ws_self s7 = ws_self s6"
    using seg [OF assms(2,3), of WCs] by auto
  obtain s8 where s8: "checked ''set TR'' (whp_set_seg prof api WTr (whp_segment_value TSS_ADDR TSS_LIMIT SEL_TSS ATTR_TSS64) s7) = Some (Inr (), s8)"
    "whp_serving api G s8" "whp_regs api s8 = (whp_regs api s7)(WTr := Segment (whp_segment_value TSS_ADDR TSS_LIMIT SEL_TSS ATTR_TSS64))"
    "ws_self s8 = ws_self s7"
    using seg [OF s7(2), of WTr] assms(3) s7(3) by auto
  obtain s9 where s9: "checked ''set LDTR'' (whp_set_seg prof api WLdtr (whp_segment_value 0 0 0 0) s8) = Some (Inr (), s9)"
    "whp_serving api G s9" "whp_regs api s9 = (whp_regs api s8)(WLdtr := Segment (whp_segment_value 0 0 0 0))"
    "ws_self s9 = ws_self s8"
    using seg [OF s8(2), of WLdtr] assms(3) s7(3) s8(3) by auto
  obtain s10 where s10: "checked ''set GDTR'' (whp_set_regs prof api [WGdtr] [Table (whp_table_value GDT_ADDR GDT_LIMIT)] s9) = Some (Inr (), s10)"
    "whp_serving api G s10" "whp_regs api s10 = (whp_regs api s9)(WGdtr := Table (whp_table_value GDT_ADDR GDT_LIMIT))"
    "ws_self s10 = ws_self s9"
    using tab [OF s9(2), of WGdtr] by blast
  obtain s11 where s11: "checked ''set IDTR'' (whp_set_regs prof api [WIdtr] [Table (whp_table_value IDT_ADDR IDT_LIMIT)] s10) = Some (Inr (), s11)"
    "whp_serving api G s11" "whp_regs api s11 = (whp_regs api s10)(WIdtr := Table (whp_table_value IDT_ADDR IDT_LIMIT))"
    "ws_self s11 = ws_self s10"
    using tab [OF s10(2), of WIdtr] by blast
  show thesis
    by (rule that [OF s7(1) s8(1) s9(1) s10(1) s11(1,2)])
      (simp_all add: s7(3,4) s8(3,4) s9(3,4) s10(3,4) s11(3,4))
qed

lemma whp_long_mode:
  assumes boot: "whp_boot_law api G hc gc xcomp" and "whp_serving api G s" and "\<not> paging (whp_regs api s)"
    and "ram_ok (wo_ram (ws_self s))" and "ram_len (wo_ram (ws_self s)) = unat RAM_SIZE"
  shows "\<exists>s'. whp_enter_long_mode prof api hc s = Some (Inr (), s') \<and> whp_ok api G s' \<and>
    whp_view api G s' = default_cpu_state\<lparr>cs_rflags := 2\<rparr> \<and> long_mode_regs (whp_regs api s') \<and>
    whp_regs api s' WXCr0 = Reg64 (whp_host_xcr0 gc) \<and>
    ws_self s' = (ws_self s)\<lparr>wo_xsave := wh_layout G, wo_xsave_capacity := wh_capacity G\<rparr>"
proof -
  note law = boot_lawD [OF boot] note ord = orderD [OF law(1)]
  obtain s1 s2 s3 s4 s5 where c: "checked ''set CR4'' (whp_set_reg64 prof api WCr4 CR4_INIT s) = Some (Inr (), s1)"
    "checked ''set CR3'' (whp_set_reg64 prof api WCr3 PML4_ADDR s1) = Some (Inr (), s2)"
    "checked ''set EFER.LME'' (whp_set_reg64 prof api WEfer (EFER_INIT AND NOT (push_bit 10 1)) s2) = Some (Inr (), s3)"
    "checked ''set CR0.PG'' (whp_set_reg64 prof api WCr0 CR0_INIT s3) = Some (Inr (), s4)"
    "checked ''set EFER.LMA'' (whp_set_reg64 prof api WEfer EFER_INIT s4) = Some (Inr (), s5)"
    and s5: "whp_serving api G s5" "ws_self s5 = ws_self s"
    "whp_regs api s5 = (whp_regs api s)(WCr4 := Reg64 CR4_INIT, WCr3 := Reg64 PML4_ADDR,
       WCr0 := Reg64 CR0_INIT, WEfer := Reg64 EFER_INIT)"
    by (rule long_mode_control [OF law(1) assms(2,3), of prof])
  have lma: "bit (as_reg64 (whp_regs api s5 WEfer)) 10" by (simp add: s5(3) init_bits)
  obtain s6 where s6: "set_data_segments prof api [WDs, WEs, WSs, WFs, WGs] s5 = Some (Inr (), s6)" "whp_serving api G s6"
    "whp_regs api s6 = (\<lambda>n. if n \<in> set [WDs, WEs, WSs, WFs, WGs]
       then Segment (whp_segment_value 0 0xFFFFFFFF SEL_DATA ATTR_DATA) else whp_regs api s5 n)" "ws_self s6 = ws_self s5"
    using data_segments_written [OF law(1) s5(1) lma, of "[WDs, WEs, WSs, WFs, WGs]" prof] by auto
  have lma6: "bit (as_reg64 (whp_regs api s6 WEfer)) 10" using lma by (simp add: s6(3))
  obtain s7 s8 s9 s10 s11 where t:
    "checked ''set CS'' (whp_set_seg prof api WCs (whp_segment_value 0 0xFFFFFFFF SEL_CODE64 ATTR_CODE64) s6) = Some (Inr (), s7)"
    "checked ''set TR'' (whp_set_seg prof api WTr (whp_segment_value TSS_ADDR TSS_LIMIT SEL_TSS ATTR_TSS64) s7) = Some (Inr (), s8)"
    "checked ''set LDTR'' (whp_set_seg prof api WLdtr (whp_segment_value 0 0 0 0) s8) = Some (Inr (), s9)"
    "checked ''set GDTR'' (whp_set_regs prof api [WGdtr] [Table (whp_table_value GDT_ADDR GDT_LIMIT)] s9) = Some (Inr (), s10)"
    "checked ''set IDTR'' (whp_set_regs prof api [WIdtr] [Table (whp_table_value IDT_ADDR IDT_LIMIT)] s10) = Some (Inr (), s11)"
    and s11: "whp_serving api G s11" "ws_self s11 = ws_self s6" "whp_regs api s11 = (whp_regs api s6)(
       WCs := Segment (whp_segment_value 0 0xFFFFFFFF SEL_CODE64 ATTR_CODE64),
       WTr := Segment (whp_segment_value TSS_ADDR TSS_LIMIT SEL_TSS ATTR_TSS64),
       WLdtr := Segment (whp_segment_value 0 0 0 0),
       WGdtr := Table (whp_table_value GDT_ADDR GDT_LIMIT), WIdtr := Table (whp_table_value IDT_ADDR IDT_LIMIT))"
    by (rule long_mode_tables [OF law(1) s6(2) lma6, of prof])
  have gc: "whp_cpuid api hc s11 = gc" by (rule law(5) [OF whp_servingD(5) [OF s11(1)]])
  obtain s12 where s12: "enable_widest_xcr0 prof api hc s11 = Some (whp_host_xcr0 gc, s12)" "whp_serving api G s12"
    "whp_regs api s12 = (whp_regs api s11)(WXCr0 := Reg64 (whp_host_xcr0 gc))" "ws_self s12 = ws_self s11"
    using xcr0_settled [OF law(1) s11(1) gc law(2)] by blast
  let ?z = "replicate (length GPR_NAMES + 1) (Reg64 0) @ [Reg64 2]"
  obtain s13 where s13: "checked ''zero registers'' (whp_set_regs prof api (GPR_NAMES @ [WRip, WRflags]) ?z s12) = Some (Inr (), s13)"
    "whp_serving api G s13" "whp_regs api s13 = written (GPR_NAMES @ [WRip, WRflags]) ?z (whp_regs api s12)"
    "ws_self s13 = ws_self s12"
    by (rule checked_write [OF s12(2) _ ord(9), of ?z "''zero registers''" prof]) simp_all
  note selfs = s13(4) s12(4) s11(2) s6(4) s5(2)
  obtain s14 where s14: "whp_reset_vectors prof api hc (whp_host_xcr0 gc) s13 = Some (Inr (), s14)" "whp_ok api G s14"
    "whp_regs api s14 = whp_regs api s13" "cs_zmm (whp_view api G s14) = replicate 32 (replicate 8 0)"
    "ws_self s14 = (ws_self s)\<lparr>wo_xsave := wh_layout G, wo_xsave_capacity := wh_capacity G\<rparr>"
    using reset_vectors_boot [OF boot s13(2)] assms(4,5) by (auto simp: selfs)
  have "whp_enter_long_mode prof api hc s = Some (Inr (), s14)"
    unfolding whp_enter_long_mode_def
    by (simp only: c s6(1) t s12(1) s13(1) s14(1) on_ok_simps Option.bind.bind_lunit prod.case)
  moreover have regs: "whp_regs api s14 n = (if n \<in> set GPR_NAMES \<or> n = WRip then Reg64 0
      else if n = WRflags then Reg64 2 else whp_regs api s12 n)" for n
    by (simp only: s14(3) s13(3) zeroed_regs)
  then have "whp_view api G s14 = default_cpu_state\<lparr>cs_rflags := 2\<rparr>"
    using s14(4) gpr_not_special
    by (simp add: whp_view_def default_cpu_state_def STEP_FLAGS_val map_replicate_const cong: map_cong)
  moreover have "long_mode_regs (whp_regs api s14)"
    by (simp add: long_mode_regs_def regs s12(3) s11(3) s6(3) s5(3) GPR_NAMES_def)
  moreover have "whp_regs api s14 WXCr0 = Reg64 (whp_host_xcr0 gc)"
    by (simp add: regs s12(3) GPR_NAMES_def)
  ultimately show ?thesis using s14(2,5) by blast
qed

end
