(* ===== verification/Whp_Mapping.thy ===== *)
theory Whp_Mapping
  imports Whp_Oracle
begin

text \<open>
  Who holds the one guest-RAM mapping of a process. The world is observed through two functions:
  \<open>alive w\<close>, the partitions that exist, and \<open>mapped w\<close>, those that have a range mapped.
  \<open>whp_slot_law\<close> is the documented behaviour of the platform: only the calls that map, unmap,
  create and delete change either, and a range maps only while no other partition has one.

  A process is then a state machine: oracles are created, stepped, written to and dropped in any
  order. Its reachable states satisfy \<open>slot_inv\<close>: \<open>MAPPING_OWNER\<close> is the truth about the
  mapping, and names an oracle that still exists.
\<close>

section \<open>The platform\<close>

definition whp_slot_law ::
    "'w whp_api \<Rightarrow> ('w \<Rightarrow> whp_handle set) \<Rightarrow> ('w \<Rightarrow> whp_handle set) \<Rightarrow> bool" where
  "whp_slot_law api mapped alive \<longleftrightarrow>
     (\<forall>w. case wa_create_partition api w of (hr, h, w') \<Rightarrow> mapped w' = mapped w \<and>
        (if hr_ok hr then h \<notin> alive w \<and> alive w' = insert h (alive w) else alive w' = alive w)) \<and>
     (\<forall>h w. case wa_map_gpa_range api h 0 RAM_SIZE w of (hr, w') \<Rightarrow> alive w' = alive w \<and>
        (if hr_ok hr then mapped w \<subseteq> {h} \<and> mapped w' = {h} else mapped w' = mapped w)) \<and>
     (\<forall>h w. case wa_unmap_gpa_range api h 0 RAM_SIZE w of (hr, w') \<Rightarrow> alive w' = alive w \<and>
        mapped w' = (if hr_ok hr then mapped w - {h} else mapped w)) \<and>
     (\<forall>h w. case wa_delete_partition api h w of (hr, w') \<Rightarrow>
        mapped w' = mapped w - {h} \<and> alive w' = alive w - {h})"

definition whp_quiet_law ::
    "'w whp_api \<Rightarrow> ('w \<Rightarrow> whp_handle set) \<Rightarrow> ('w \<Rightarrow> whp_handle set) \<Rightarrow> bool" where
  "whp_quiet_law api mapped alive \<longleftrightarrow>
     (\<forall>h w. let w' = snd (wa_setup_partition api h w) in mapped w' = mapped w \<and> alive w' = alive w) \<and>
     (\<forall>h w. let w' = snd (wa_create_vp api h w) in mapped w' = mapped w \<and> alive w' = alive w) \<and>
     (\<forall>h w. let w' = snd (wa_delete_vp api h w) in mapped w' = mapped w \<and> alive w' = alive w) \<and>
     (\<forall>h c v w. let w' = snd (wa_set_property api h c v w) in mapped w' = mapped w \<and> alive w' = alive w) \<and>
     (\<forall>h ns vs w. let w' = snd (wa_set_registers api h ns vs w) in mapped w' = mapped w \<and> alive w' = alive w) \<and>
     (\<forall>h b w. let w' = snd (wa_set_xsave api h b w) in mapped w' = mapped w \<and> alive w' = alive w) \<and>
     (\<forall>h w ram. let w' = fst (snd (snd (wa_run_vp api h w ram))) in mapped w' = mapped w \<and> alive w' = alive w)"

definition whp_laws ::
    "'w whp_api \<Rightarrow> ('w \<Rightarrow> whp_handle set) \<Rightarrow> ('w \<Rightarrow> whp_handle set) \<Rightarrow> bool" where
  "whp_laws api mapped alive \<longleftrightarrow> whp_slot_law api mapped alive \<and> whp_quiet_law api mapped alive"

section \<open>Operations that leave the slot alone\<close>

definition same_world ::
    "('w \<Rightarrow> whp_handle set) \<Rightarrow> ('w \<Rightarrow> whp_handle set) \<Rightarrow> 'w \<Rightarrow> 'w \<Rightarrow> bool" where
  "same_world mapped alive w w' \<longleftrightarrow> mapped w' = mapped w \<and> alive w' = alive w"

definition quiet ::
    "('w \<Rightarrow> whp_handle set) \<Rightarrow> ('w \<Rightarrow> whp_handle set) \<Rightarrow> 'w whp_state \<Rightarrow> 'w whp_state \<Rightarrow> bool" where
  "quiet mapped alive s s' \<longleftrightarrow> same_world mapped alive (world s) (world s') \<and>
     wp_owner (ws_proc s') = wp_owner (ws_proc s) \<and> wo_handle (ws_self s') = wo_handle (ws_self s)"

lemma same_world_trans [trans]:
  "same_world m a w w1 \<Longrightarrow> same_world m a w1 w2 \<Longrightarrow> same_world m a w w2"
  by (simp add: same_world_def)

lemma same_world_refl [simp]: "same_world m a w w"
  by (simp add: same_world_def)

lemma quiet_refl [simp]: "quiet m a s s"
  by (simp add: quiet_def)

lemma quiet_trans [trans]: "quiet m a s s1 \<Longrightarrow> quiet m a s1 s2 \<Longrightarrow> quiet m a s s2"
  by (auto simp: quiet_def same_world_def)

lemma quiet_set_world [simp]: "quiet m a s (set_world w s) = same_world m a (world s) w"
  by (simp add: quiet_def set_world_def)

lemma quiet_self [simp]:
  "wo_handle o' = wo_handle (ws_self s) \<Longrightarrow> quiet m a s (s\<lparr>ws_self := o'\<rparr>)"
  by (simp add: quiet_def)

lemma quiet_law_calls:
  assumes "whp_quiet_law api m a"
  shows "same_world m a w (snd (wa_setup_partition api h w))"
    and "same_world m a w (snd (wa_create_vp api h w))"
    and "same_world m a w (snd (wa_delete_vp api h w))"
    and "same_world m a w (snd (wa_set_property api h c v w))"
    and "same_world m a w (snd (wa_set_registers api h ns vs w))"
    and "same_world m a w (snd (wa_set_xsave api h b w))"
    and "same_world m a w (fst (snd (snd (wa_run_vp api h w ram))))"
  using assms unfolding whp_quiet_law_def same_world_def Let_def by simp_all

lemma quiet_set_regs:
  "whp_quiet_law api m a \<Longrightarrow> whp_set_regs prof api ns vs s = Some (hr, s') \<Longrightarrow> quiet m a s s'"
  using quiet_law_calls(5) [of api m a "world s" "wo_handle (ws_self s)" ns vs]
  by (auto simp: whp_set_regs_def split: bind_splits prod.splits)

lemma quiet_set_reg64:
  "whp_quiet_law api m a \<Longrightarrow> whp_set_reg64 prof api n v s = Some (hr, s') \<Longrightarrow> quiet m a s s'"
  by (simp add: whp_set_reg64_def quiet_set_regs)

lemma quiet_set_seg:
  "whp_quiet_law api m a \<Longrightarrow> whp_set_seg prof api n g s = Some (hr, s') \<Longrightarrow> quiet m a s s'"
  by (simp add: whp_set_seg_def quiet_set_regs)

lemma quiet_modify_seg:
  "whp_quiet_law api m a \<Longrightarrow> whp_modify_seg prof api n f s = Some s' \<Longrightarrow> quiet m a s s'"
  by (auto simp: whp_modify_seg_def split: bind_splits dest: quiet_set_seg)

lemma quiet_write_xsave:
  "whp_quiet_law api m a \<Longrightarrow> whp_write_xsave api b s = (r, s') \<Longrightarrow> quiet m a s s'"
  using quiet_law_calls(6) [of api m a "world s" "wo_handle (ws_self s)" b]
  by (auto simp: whp_write_xsave_def split: prod.splits)

lemmas quiet_calls = quiet_set_regs quiet_set_reg64 quiet_set_seg quiet_modify_seg quiet_write_xsave

lemma quiet_checked:
  "whp_quiet_law api m a \<Longrightarrow> checked what (whp_set_reg64 prof api n v s) = Some (r, s') \<Longrightarrow> quiet m a s s'"
  "whp_quiet_law api m a \<Longrightarrow> checked what (whp_set_seg prof api n g s) = Some (r, s') \<Longrightarrow> quiet m a s s'"
  "whp_quiet_law api m a \<Longrightarrow> checked what (whp_set_regs prof api ns vs s) = Some (r, s') \<Longrightarrow> quiet m a s s'"
  by (auto simp: checked_def dest: quiet_calls)

text \<open>A chain of steps each of which is quiet is quiet, errors included.\<close>

lemma quiet_on_ok:
  assumes "on_ok c k = Some (r, t)"
    and "\<And>r' s'. c = Some (r', s') \<Longrightarrow> quiet m a s s'"
    and "\<And>x s'. c = Some (Inr x, s') \<Longrightarrow> k x s' = Some (r, t) \<Longrightarrow> quiet m a s' t"
  shows "quiet m a s t"
  using assms(1) unfolding on_ok_eq_Some
proof (elim disjE exE conjE)
  show "quiet m a s t" if "c = Some (Inl e, t)" for e using assms(2) [OF that] .
  show "quiet m a s t" if "c = Some (Inr x, s')" and "k x s' = Some (r, t)" for x s'
    using quiet_trans [OF assms(2) [OF that(1)] assms(3) [OF that]] .
qed

section \<open>The oracle's operations\<close>

lemma quiet_data_segments:
  "whp_quiet_law api m a \<Longrightarrow> set_data_segments prof api names s = Some (r, t) \<Longrightarrow> quiet m a s t"
proof (induction names arbitrary: s)
  case (Cons n names)
  from Cons.prems(2) show ?case
    unfolding set_data_segments.simps
    by (rule quiet_on_ok) (use Cons in \<open>auto dest: quiet_checked\<close>)
qed simp

lemma quiet_xcr0:
  "whp_quiet_law api m a \<Longrightarrow> try_xcr0 prof api cs s = Some (x, t) \<Longrightarrow> quiet m a s t"
proof (induction cs arbitrary: s)
  case (Cons c cs)
  then show ?case
    by (auto split: bind_splits if_splits dest: quiet_set_reg64 intro: quiet_trans)
qed simp

lemma quiet_reset_vectors:
  assumes "whp_quiet_law api m a" and "whp_reset_vectors prof api hc x s = Some (r, t)"
  shows "quiet m a s t"
proof -
  have q: "quiet m a (s\<lparr>ws_self := o'\<rparr>) t \<Longrightarrow> wo_handle o' = wo_handle (ws_self s) \<Longrightarrow> quiet m a s t" for o'
    using quiet_trans [OF quiet_self] by metis
  show ?thesis
    using assms(2)
    by (auto simp: whp_reset_vectors_def Let_def split: sum.splits bind_splits
        intro!: q [of "(ws_self s)\<lparr>wo_xsave_capacity := c, wo_xsave := l\<rparr>" for c l]
        dest!: quiet_write_xsave [OF assms(1)])
qed

lemma quiet_long_mode:
  assumes "whp_quiet_law api m a" and "whp_enter_long_mode prof api hc s = Some (r, t)"
  shows "quiet m a s t"
  using assms(2) unfolding whp_enter_long_mode_def enable_widest_xcr0_def
  apply (elim quiet_on_ok)
                      apply (erule quiet_checked [OF assms(1)] quiet_data_segments [OF assms(1)])+
  apply (auto split: bind_splits dest!: quiet_xcr0 [OF assms(1)] elim!: quiet_trans)
  apply (erule quiet_on_ok, erule quiet_checked [OF assms(1)], erule quiet_reset_vectors [OF assms(1)])
  done

text \<open>The trait's setters, as the partial updates of a state they are.\<close>

inductive whp_setter :: "profile \<Rightarrow> 'w whp_api \<Rightarrow> ('w whp_state \<Rightarrow> 'w whp_state panics) \<Rightarrow> bool"
  for prof api where
  "whp_setter prof api (whp_set_gpr prof api n v)"
| "whp_setter prof api (whp_set_rip prof api v)"
| "whp_setter prof api (whp_set_rflags prof api v)"
| "whp_setter prof api (whp_set_zmm prof api n d)"
| "whp_setter prof api (whp_set_msr prof api n v)"
| "whp_setter prof api (whp_set_cr prof api n v)"
| "whp_setter prof api (whp_set_seg_selector prof api n sel)"
| "whp_setter prof api (whp_set_seg_base prof api n v)"
| "whp_setter prof api (whp_set_seg_limit prof api n lim)"
| "whp_setter prof api (whp_write_mem_byte addr b)"
| "whp_setter prof api (whp_write_mem prof addr d)"

lemma quiet_setter:
  assumes "whp_quiet_law api m a" and "whp_setter prof api f" and "f s = Some t"
  shows "quiet m a s t"
  using assms(2)
proof cases
  case (4 n d)
  with assms(3) show ?thesis
    by (auto simp: whp_set_zmm_def split: bind_splits sum.splits)
       (rule quiet_write_xsave [OF assms(1) prod.collapse [symmetric]])+
next
  case (5 n v)
  with assms(3) show ?thesis
    by (auto simp: whp_set_msr_def split: if_splits dest: quiet_calls [OF assms(1)])
next
  case (6 n v)
  with assms(3) show ?thesis
    by (auto simp: whp_set_cr_def split: option.splits dest: quiet_calls [OF assms(1)])
qed (use assms(3) in \<open>auto simp: whp_set_gpr_def whp_set_rip_def whp_set_rflags_def whp_set_seg_selector_def
      whp_set_seg_base_def whp_set_seg_limit_def whp_write_mem_byte_def whp_write_mem_def
      split: bind_splits dest: quiet_calls [OF assms(1)]\<close>)

lemma quiet_disarm:
  "whp_quiet_law api m a \<Longrightarrow> whp_disarm_singlestep prof api s = Some t \<Longrightarrow> quiet m a s t"
  by (auto simp: whp_disarm_singlestep_def split: bind_splits dest: quiet_calls)

lemma quiet_arm:
  "whp_quiet_law api m a \<Longrightarrow> whp_arm_singlestep prof api s = Some (hr, t) \<Longrightarrow> quiet m a s t"
  by (auto simp: whp_arm_singlestep_def split: bind_splits dest: quiet_calls)

lemma quiet_unwind:
  "whp_quiet_law api m a \<Longrightarrow> whp_unwind_fault prof api vec s = Some (e, t) \<Longrightarrow> quiet m a s t"
  by (auto simp: whp_unwind_fault_def split: bind_splits dest: quiet_calls)

lemma quiet_fault: "whp_fault vec e s = (oc, t) \<Longrightarrow> quiet m a s t"
  by (auto simp: whp_fault_def)

lemma quiet_exits:
  assumes "whp_quiet_law api m a"
  shows "whp_on_exception prof api ty hc ec s = Some (oc, t) \<Longrightarrow> quiet m a s t"
    and "whp_on_halt prof api rip s = Some (oc, t) \<Longrightarrow> quiet m a s t"
  by (auto simp: whp_on_exception_def whp_on_halt_def split: bind_splits if_splits option.splits
      dest!: quiet_disarm [OF assms] quiet_unwind [OF assms] quiet_fault [of _ _ _ oc t m a]
      intro: quiet_trans)

lemma quiet_run_loop:
  "whp_quiet_law api m a \<Longrightarrow> whp_run_loop n prof api s = Some (oc, t) \<Longrightarrow> quiet m a s t"
proof (induction n arbitrary: s)
  case (Suc n)
  obtain hr exit w ram where run: "wa_run_vp api (wo_handle (ws_self s)) (world s) (wo_ram (ws_self s)) = (hr, exit, w, ram)"
    by (metis surj_pair)
  let ?s = "(set_world w s)\<lparr>ws_self := (ws_self s)\<lparr>wo_ram := ram\<rparr>\<rparr>"
  have "same_world m a (world s) w"
    using quiet_law_calls(7) [OF Suc.prems(1), of "world s" "wo_handle (ws_self s)" "wo_ram (ws_self s)"] run by simp
  then have q: "quiet m a s ?s" by (simp add: quiet_def set_world_def)
  have "quiet m a ?s t"
    using Suc.prems(2) run Suc.IH [OF Suc.prems(1), of ?s]
    by (cases exit) (auto simp: Let_def split: if_splits dest: quiet_exits [OF Suc.prems(1)])
  with q show ?case by (rule quiet_trans)
qed simp

section \<open>The slot\<close>

definition slot_inv ::
    "('w \<Rightarrow> whp_handle set) \<Rightarrow> ('w \<Rightarrow> whp_handle set) \<Rightarrow> 'w whp_process \<Rightarrow> bool" where
  "slot_inv mapped alive p \<longleftrightarrow>
     mapped (wp_world p) = set_option (wp_owner p) \<and> set_option (wp_owner p) \<subseteq> alive (wp_world p)"

lemma quiet_slot_inv:
  "quiet m a s t \<Longrightarrow> slot_inv m a (ws_proc s) \<Longrightarrow> slot_inv m a (ws_proc t)"
  by (auto simp: quiet_def same_world_def slot_inv_def)

lemma release_previous_slot:
  assumes "whp_slot_law api m a" and "slot_inv m a p" and "release_previous api p = (r, p')"
  shows "slot_inv m a p'" and "a (wp_world p') = a (wp_world p)"
    and "wp_owner p' = (if r = Inr () then None else wp_owner p)"
proof -
  have u: "\<And>h w hr w'. wa_unmap_gpa_range api h 0 RAM_SIZE w = (hr, w') \<Longrightarrow>
      a w' = a w \<and> m w' = (if hr_ok hr then m w - {h} else m w)"
    using assms(1) unfolding whp_slot_law_def by (metis (mono_tags, lifting) case_prod_conv)
  show "slot_inv m a p'" and "a (wp_world p') = a (wp_world p)"
    and "wp_owner p' = (if r = Inr () then None else wp_owner p)"
    using assms(2,3)
    by (auto simp: release_previous_def slot_inv_def check_def split: option.splits prod.splits if_splits dest!: u)
qed

lemma map_law:
  "whp_slot_law api m a \<Longrightarrow> wa_map_gpa_range api h 0 RAM_SIZE w = (hr, w') \<Longrightarrow>
   a w' = a w \<and> (if hr_ok hr then m w \<subseteq> {h} \<and> m w' = {h} else m w' = m w)"
  unfolding whp_slot_law_def by (metis (mono_tags, lifting) case_prod_conv)

lemma claim_mapping_slot:
  assumes "whp_slot_law api m a" and "slot_inv m a p" and "h \<in> a (wp_world p)"
    and "claim_mapping api h p = (r, p')"
  shows "slot_inv m a p'" and "a (wp_world p') = a (wp_world p)"
    and "r = Inr () \<Longrightarrow> wp_owner p' = Some h"
    and "r \<noteq> Inr () \<Longrightarrow> wp_owner p' \<noteq> Some h"
    and "set_option (wp_owner p') \<subseteq> insert h (set_option (wp_owner p))"
proof -
  obtain r1 p1 where r1: "release_previous api p = (r1, p1)" by (metis surj_pair)
  obtain hr w where hw: "wa_map_gpa_range api h 0 RAM_SIZE (wp_world p1) = (hr, w)" by (metis surj_pair)
  note rel = release_previous_slot [OF assms(1,2) r1] and mp = map_law [OF assms(1) hw]
  have "slot_inv m a p' \<and> a (wp_world p') = a (wp_world p) \<and> (r = Inr () \<longrightarrow> wp_owner p' = Some h) \<and>
      (r \<noteq> Inr () \<longrightarrow> wp_owner p' \<noteq> Some h) \<and> set_option (wp_owner p') \<subseteq> insert h (set_option (wp_owner p))"
  proof (cases "wp_owner p = Some h \<or> r1 \<noteq> Inr ()")
    case True
    with assms(2-4) rel r1 show ?thesis by (auto simp: claim_mapping_def split: if_splits sum.splits)
  next
    case False
    with assms(4) r1 hw have "(r, p') = (case check ''WHvMapGpaRange'' hr of
        Inl e \<Rightarrow> (Inl e, p1\<lparr>wp_world := w\<rparr>) | Inr _ \<Rightarrow> (Inr (), p1\<lparr>wp_world := w, wp_owner := Some h\<rparr>))"
      by (auto simp: claim_mapping_def split: if_splits)
    with False rel mp assms(3) show ?thesis
      by (auto simp: check_def slot_inv_def split: if_splits)
  qed
  then show "slot_inv m a p'" and "a (wp_world p') = a (wp_world p)"
    and "r = Inr () \<Longrightarrow> wp_owner p' = Some h"
    and "r \<noteq> Inr () \<Longrightarrow> wp_owner p' \<noteq> Some h"
    and "set_option (wp_owner p') \<subseteq> insert h (set_option (wp_owner p))"
    by auto
qed

lemma claim_own: "wp_owner p = Some h \<Longrightarrow> claim_mapping api h p = (Inr (), p)"
  by (simp add: claim_mapping_def)

lemma unmap_law:
  "whp_slot_law api m a \<Longrightarrow> wa_unmap_gpa_range api h 0 RAM_SIZE w = (hr, w') \<Longrightarrow>
   a w' = a w \<and> m w' = (if hr_ok hr then m w - {h} else m w)"
  unfolding whp_slot_law_def by (metis (mono_tags, lifting) case_prod_conv)

lemma delete_law:
  "whp_slot_law api m a \<Longrightarrow> wa_delete_partition api h w = (hr, w') \<Longrightarrow>
   m w' = m w - {h} \<and> a w' = a w - {h}"
  unfolding whp_slot_law_def by (metis (mono_tags, lifting) case_prod_conv)

lemma create_law:
  "whp_slot_law api m a \<Longrightarrow> wa_create_partition api w = (hr, h, w') \<Longrightarrow> m w' = m w \<and>
   (if hr_ok hr then h \<notin> a w \<and> a w' = insert h (a w) else a w' = a w)"
  unfolding whp_slot_law_def by (metis (mono_tags, lifting) case_prod_conv)

text \<open>A failed unmap in \<open>drop\<close> is ignored: deleting the partition takes its range with it.\<close>

lemma drop_partition_slot:
  assumes "whp_laws api m a" and "slot_inv m a p"
  shows "slot_inv m a (drop_partition api h p)"
    and "a (wp_world (drop_partition api h p)) = a (wp_world p) - {h}"
    and "wp_owner (drop_partition api h p) = (if wp_owner p = Some h then None else wp_owner p)"
proof -
  have laws: "whp_slot_law api m a" "whp_quiet_law api m a" using assms(1) by (simp_all add: whp_laws_def)
  have u: "a (snd (wa_unmap_gpa_range api h 0 RAM_SIZE w)) = a w"
    "m (snd (wa_unmap_gpa_range api h 0 RAM_SIZE w)) - {h} = m w - {h}" for w
    using unmap_law [OF laws(1) prod.collapse [symmetric], of h w] by (simp_all split: if_splits)
  have d: "m (snd (wa_delete_partition api h w)) = m w - {h}"
    "a (snd (wa_delete_partition api h w)) = a w - {h}" for w
    using delete_law [OF laws(1) prod.collapse [symmetric], of h w] by simp_all
  have v: "m (snd (wa_delete_vp api h w)) = m w" "a (snd (wa_delete_vp api h w)) = a w" for w
    using quiet_law_calls(3) [OF laws(2), of w h] by (simp_all add: same_world_def)
  show "slot_inv m a (drop_partition api h p)"
    and "a (wp_world (drop_partition api h p)) = a (wp_world p) - {h}"
    and "wp_owner (drop_partition api h p) = (if wp_owner p = Some h then None else wp_owner p)"
    using assms(2) by (auto simp: drop_partition_def Let_def slot_inv_def d v u)
qed

section \<open>Construction cleans up after itself\<close>

lemma set_property_world: "whp_quiet_law api m a \<Longrightarrow> set_property api h c v w = (r, w') \<Longrightarrow> same_world m a w w'"
  using quiet_law_calls(4) [of api m a w h c v] by (auto simp: set_property_def split: prod.splits)

lemma set_property_snd: "whp_quiet_law api m a \<Longrightarrow> same_world m a w (snd (set_property api h c v w))"
  by (rule set_property_world [OF _ prod.collapse [symmetric]])

lemma copy_capability_world: "whp_quiet_law api m a \<Longrightarrow> same_world m a w (copy_capability api h c q w)"
  by (auto simp: copy_capability_def set_property_snd split: option.splits)

lemma exception_exits_world:
  assumes "whp_quiet_law api m a" and "enable_exception_exits api h w = (b, w')"
  shows "same_world m a w w'"
  using assms(2)
  by (auto simp: enable_exception_exits_def Let_def split: prod.splits if_splits
      dest!: set_property_world [OF assms(1)] intro: same_world_trans)

lemma setup_world:
  assumes "whp_quiet_law api m a" and "setup_with_fallback api h w = (hr, b, w')"
  shows "same_world m a w w'"
proof -
  obtain b1 w1 where e: "enable_exception_exits api h w = (b1, w1)" by (metis surj_pair)
  obtain hr2 w2 where s2: "wa_setup_partition api h w1 = (hr2, w2)" by (metis surj_pair)
  let ?w3 = "snd (set_property api h PropExceptionExitBitmap 0 w2)"
  let ?w4 = "snd (set_property api h PropExtendedVmExits 0 ?w3)"
  obtain hr5 w5 where s5: "wa_setup_partition api h ?w4 = (hr5, w5)" by (metis surj_pair)
  have "same_world m a w w2"
    using same_world_trans [OF exception_exits_world [OF assms(1) e] quiet_law_calls(1) [OF assms(1), of w1 h]] s2
    by simp
  moreover have "same_world m a w2 w5"
    using same_world_trans [OF same_world_trans [OF set_property_snd [OF assms(1)] set_property_snd [OF assms(1)]]
        quiet_law_calls(1) [OF assms(1), of ?w4 h]] s5
    by simp
  ultimately show ?thesis
    using assms(2) e s2 s5 same_world_trans
    by (auto simp: setup_with_fallback_def Let_def split: if_splits)
qed

definition built_slot ::
    "('w \<Rightarrow> whp_handle set) \<Rightarrow> ('w \<Rightarrow> whp_handle set) \<Rightarrow> whp_handle \<Rightarrow> 'w whp_process \<Rightarrow>
     io_error + whp_oracle \<Rightarrow> 'w whp_process \<Rightarrow> bool" where
  "built_slot m a h p r p' \<longleftrightarrow>
     slot_inv m a p' \<and> a (wp_world p') = a (wp_world p) \<and>
     set_option (wp_owner p') \<subseteq> insert h (set_option (wp_owner p)) \<and>
     (\<forall>x. r = Inr x \<longrightarrow> wo_handle x = h \<and> wp_owner p' = Some h)"

lemma built_slot_early:
  "same_world m a (wp_world p) w \<Longrightarrow> slot_inv m a p \<Longrightarrow> built_slot m a h p (Inl e) (p\<lparr>wp_world := w\<rparr>)"
  by (auto simp: built_slot_def slot_inv_def same_world_def)

lemma build_slot:
  assumes "whp_laws api m a" and "slot_inv m a p" and "h \<in> a (wp_world p)"
    and "whp_build prof api alloc hc h p = Some (r, p')"
  shows "built_slot m a h p r p'"
proof -
  have laws: "whp_slot_law api m a" "whp_quiet_law api m a" using assms(1) by (simp_all add: whp_laws_def)
  obtain r1 w1 where w1: "set_property api h PropProcessorCount 1 (wp_world p) = (r1, w1)" by (metis surj_pair)
  let ?w2 = "copy_capability api h CapXsaveFeatures PropXsaveFeatures
    (copy_capability api h CapProcessorFeatures PropProcessorFeatures w1)"
  obtain hr3 b w3 where w3: "setup_with_fallback api h ?w2 = (hr3, b, w3)" by (metis surj_pair)
  obtain hr4 w4 where w4: "wa_create_vp api h w3 = (hr4, w4)" by (metis surj_pair)
  obtain r5 p5 where p5: "claim_mapping api h (p\<lparr>wp_world := w4\<rparr>) = (r5, p5)" by (metis surj_pair)
  have q1: "same_world m a (wp_world p) w1" by (rule set_property_world [OF laws(2) w1])
  also have "same_world m a w1 ?w2"
    by (rule same_world_trans) (rule copy_capability_world [OF laws(2)])+
  also have "same_world m a ?w2 w3" by (rule setup_world [OF laws(2) w3])
  finally have q3: "same_world m a (wp_world p) w3" .
  have q4: "same_world m a (wp_world p) w4"
    using same_world_trans [OF q3] quiet_law_calls(2) [OF laws(2), of w3 h] w4 by simp
  have p4: "slot_inv m a (p\<lparr>wp_world := w4\<rparr>)" and h4: "h \<in> a (wp_world (p\<lparr>wp_world := w4\<rparr>))"
    using q4 assms(2,3) by (simp_all add: slot_inv_def same_world_def)
  note claim = claim_mapping_slot [OF laws(1) p4 h4 p5]
  have early: "built_slot m a h p (Inl e) (p\<lparr>wp_world := w\<rparr>)" if "w \<in> {w1, w3, w4}" for e w
    using built_slot_early [OF _ assms(2)] q1 q3 q4 that by blast
  have b5: "built_slot m a h p r5' p5" if "\<And>x. r5' = Inr x \<Longrightarrow> wo_handle x = h \<and> r5 = Inr ()" for r5'
    using claim that q4 by (auto simp: built_slot_def same_world_def)
  show ?thesis
  proof (cases "r1 = Inr () \<and> hr_ok hr3 \<and> (\<exists>u. alloc (unat RAM_SIZE) = Inr u) \<and> hr_ok hr4 \<and> r5 = Inr ()")
    case False
    then show ?thesis
      using assms(4) w1 w3 w4 p5 early b5
      by (auto simp: whp_build_def Let_def check_def split: if_splits sum.splits)
  next
    case True
    let ?o = "\<lparr>wo_handle = h, wo_ram = build_control_structures (ram_new (unat RAM_SIZE)),
      wo_xsave = probe hc 0 0, wo_xsave_capacity = 0, wo_exception_intercept = b,
      wo_last_fault = None, wo_touched = {}\<rparr>"
    obtain r6 t where t: "whp_enter_long_mode prof api hc \<lparr>ws_proc = p5, ws_self = ?o\<rparr> = Some (r6, t)"
      "r = (case r6 of Inl e \<Rightarrow> Inl e | Inr _ \<Rightarrow> Inr (ws_self t))" "p' = ws_proc t"
      using assms(4) w1 w3 w4 p5 True
      by (auto simp: whp_build_def Let_def check_def split: if_splits sum.splits bind_splits)
    from quiet_long_mode [OF laws(2) t(1)]
    have "quiet m a \<lparr>ws_proc = p5, ws_self = ?o\<rparr> t" .
    with b5 [of r] claim True t(2,3) show ?thesis
      by (auto simp: quiet_def built_slot_def same_world_def slot_inv_def split: sum.splits)
  qed
qed

lemma try_new_slot:
  assumes "whp_laws api m a" and "slot_inv m a p"
    and "whp_try_new prof (Some api) alloc hc p = Some (r, p')"
  shows "slot_inv m a p'"
    and "r = Inl e \<Longrightarrow> a (wp_world p') = a (wp_world p) \<and> set_option (wp_owner p') \<subseteq> set_option (wp_owner p)"
    and "r = Inr x \<Longrightarrow> wo_handle x \<notin> a (wp_world p) \<and> a (wp_world p') = insert (wo_handle x) (a (wp_world p)) \<and>
           wp_owner p' = Some (wo_handle x)"
proof -
  have laws: "whp_slot_law api m a" "whp_quiet_law api m a" using assms(1) by (simp_all add: whp_laws_def)
  obtain hr h w where c: "wa_create_partition api (wp_world p) = (hr, h, w)" by (metis surj_pair)
  note cr = create_law [OF laws(1) c]
  have "slot_inv m a p' \<and>
      (r = Inl e \<longrightarrow> a (wp_world p') = a (wp_world p) \<and> set_option (wp_owner p') \<subseteq> set_option (wp_owner p)) \<and>
      (r = Inr x \<longrightarrow> wo_handle x \<notin> a (wp_world p) \<and> a (wp_world p') = insert (wo_handle x) (a (wp_world p)) \<and>
         wp_owner p' = Some (wo_handle x))"
    proof (cases "hypervisor_present api (wp_world p) \<and> hr_ok hr")
      case False
      then show ?thesis
        using assms(2,3) c cr by (auto simp: whp_try_new_def check_def slot_inv_def split: if_splits)
    next
      case True
      then obtain r1 p1 where b: "whp_build prof api alloc hc h (p\<lparr>wp_world := w\<rparr>) = Some (r1, p1)"
        and r: "(r, p') = (case r1 of Inl e \<Rightarrow> (Inl e, drop_partition api h p1) | Inr x \<Rightarrow> (Inr x, p1))"
        using assms(3) c
        by (auto simp: whp_try_new_def check_def split: if_splits bind_splits sum.splits)
      have p1: "slot_inv m a (p\<lparr>wp_world := w\<rparr>)" "h \<in> a w" "h \<notin> a (wp_world p)"
        using assms(2) cr True by (auto simp: slot_inv_def)
      have built: "built_slot m a h (p\<lparr>wp_world := w\<rparr>) r1 p1"
        using build_slot [OF assms(1) p1(1) _ b] p1(2) by simp
      then have i1: "slot_inv m a p1" by (simp add: built_slot_def)
      show ?thesis
        using r built drop_partition_slot [OF assms(1) i1, of h] cr True p1(3)
        by (cases r1) (auto simp: built_slot_def split: if_splits)
    qed
  then show "slot_inv m a p'"
    and "r = Inl e \<Longrightarrow> a (wp_world p') = a (wp_world p) \<and> set_option (wp_owner p') \<subseteq> set_option (wp_owner p)"
    and "r = Inr x \<Longrightarrow> wo_handle x \<notin> a (wp_world p) \<and> a (wp_world p') = insert (wo_handle x) (a (wp_world p)) \<and>
           wp_owner p' = Some (wo_handle x)"
    by blast+
qed

section \<open>The process as a state machine\<close>

type_synonym 'w whp_system = "'w whp_process \<times> (whp_handle \<rightharpoonup> whp_oracle)"

text \<open>
  The oracles of a process, and what may happen to them: \<open>try_new\<close> (the host's allocation may
  succeed or not), a step, any setter of the trait, and dropping one.
\<close>

inductive whp_event :: "profile \<Rightarrow> 'w whp_api \<Rightarrow> cpuid \<Rightarrow> 'w whp_system \<Rightarrow> 'w whp_system \<Rightarrow> bool"
  for prof api hc where
  New_ok: "whp_try_new prof (Some api) alloc hc p = Some (Inr x, p') \<Longrightarrow>
    whp_event prof api hc (p, os) (p', os(wo_handle x \<mapsto> x))"
| New_err: "whp_try_new prof (Some api) alloc hc p = Some (Inl e, p') \<Longrightarrow>
    whp_event prof api hc (p, os) (p', os)"
| Step: "os h = Some x \<Longrightarrow> whp_step prof api \<lparr>ws_proc = p, ws_self = x\<rparr> = Some (oc, s) \<Longrightarrow>
    whp_event prof api hc (p, os) (ws_proc s, os(h \<mapsto> ws_self s))"
| Set: "os h = Some x \<Longrightarrow> whp_setter prof api f \<Longrightarrow> f \<lparr>ws_proc = p, ws_self = x\<rparr> = Some s \<Longrightarrow>
    whp_event prof api hc (p, os) (ws_proc s, os(h \<mapsto> ws_self s))"
| Drop: "os h = Some x \<Longrightarrow>
    whp_event prof api hc (p, os) (drop_partition api h p, os(h := None))"

inductive whp_reachable :: "profile \<Rightarrow> 'w whp_api \<Rightarrow> cpuid \<Rightarrow> 'w \<Rightarrow> 'w whp_system \<Rightarrow> bool"
  for prof api hc w0 where
  start: "whp_reachable prof api hc w0 (\<lparr>wp_world = w0, wp_owner = None\<rparr>, Map.empty)"
| event: "whp_reachable prof api hc w0 s \<Longrightarrow> whp_event prof api hc s s' \<Longrightarrow> whp_reachable prof api hc w0 s'"

definition system_inv ::
    "('w \<Rightarrow> whp_handle set) \<Rightarrow> ('w \<Rightarrow> whp_handle set) \<Rightarrow> 'w whp_system \<Rightarrow> bool" where
  "system_inv m a = (\<lambda>(p, os). slot_inv m a p \<and> dom os \<subseteq> a (wp_world p) \<and>
     set_option (wp_owner p) \<subseteq> dom os \<and> (\<forall>h x. os h = Some x \<longrightarrow> wo_handle x = h))"

lemma step_slot:
  assumes "whp_laws api m a" and "slot_inv m a p" and "wo_handle x \<in> a (wp_world p)"
    and "whp_step prof api \<lparr>ws_proc = p, ws_self = x\<rparr> = Some (oc, s)"
  shows "slot_inv m a (ws_proc s)" and "a (wp_world (ws_proc s)) = a (wp_world p)"
    and "wo_handle (ws_self s) = wo_handle x"
    and "set_option (wp_owner (ws_proc s)) \<subseteq> insert (wo_handle x) (set_option (wp_owner p))"
    and "claim_mapping api (wo_handle x) p = (Inr (), p1) \<Longrightarrow> wp_owner (ws_proc s) = Some (wo_handle x)"
proof -
  have laws: "whp_slot_law api m a" "whp_quiet_law api m a" using assms(1) by (simp_all add: whp_laws_def)
  obtain r p1 where c: "claim_mapping api (wo_handle x) p = (r, p1)" by (metis surj_pair)
  note claim = claim_mapping_slot [OF laws(1) assms(2,3) c]
  let ?s1 = "\<lparr>ws_proc = p1, ws_self = x\<lparr>wo_last_fault := None\<rparr>\<rparr>"
  have q: "quiet m a ?s1 s"
  proof (cases r)
    case (Inl e)
    with assms(4) c show ?thesis by (auto simp: whp_step_def quiet_def)
  next
    case (Inr u)
    have "Option.bind (whp_arm_singlestep prof api ?s1) (\<lambda>(hr, s).
            if \<not> hr_ok hr then
              Some (Fault OtherException (''could not arm single-stepping: hr='' @ fmt_hr hr), s)
            else whp_run_loop 64 prof api s) = Some (oc, s)"
      using assms(4) c Inr by (simp add: whp_step_def)
    then obtain hr s2 where s2: "whp_arm_singlestep prof api ?s1 = Some (hr, s2)"
      and end_state: "s = s2 \<or> whp_run_loop 64 prof api s2 = Some (oc, s)"
      by (cases "whp_arm_singlestep prof api ?s1") (auto split: if_splits)
    note q2 = quiet_arm [OF laws(2) s2]
    from end_state show ?thesis
      using q2 quiet_trans [OF q2 quiet_run_loop [OF laws(2)]] by auto
  qed
  show "slot_inv m a (ws_proc s)"
    using quiet_slot_inv [OF q] claim(1) by simp
  show "a (wp_world (ws_proc s)) = a (wp_world p)"
    and "wo_handle (ws_self s) = wo_handle x"
    and "set_option (wp_owner (ws_proc s)) \<subseteq> insert (wo_handle x) (set_option (wp_owner p))"
    using q claim(2,5) by (simp_all add: quiet_def same_world_def)
  show "claim_mapping api (wo_handle x) p = (Inr (), p1') \<Longrightarrow> wp_owner (ws_proc s) = Some (wo_handle x)" for p1'
    using q claim(3) c by (simp add: quiet_def)
qed

lemma system_inv_update:
  assumes "system_inv m a (p, os)" and "os h = Some x"
    and "slot_inv m a p'" and "a (wp_world p') = a (wp_world p)" and "wo_handle x' = h"
    and "set_option (wp_owner p') \<subseteq> insert h (set_option (wp_owner p))"
  shows "system_inv m a (p', os(h \<mapsto> x'))"
proof -
  have d: "dom os \<subseteq> a (wp_world p)" "set_option (wp_owner p) \<subseteq> dom os" "h \<in> dom os"
    and n: "\<And>k y. os k = Some y \<Longrightarrow> wo_handle y = k"
    using assms(1,2) by (auto simp: system_inv_def)
  have "dom (os(h \<mapsto> x')) = dom os" using d(3) by auto
  moreover have "set_option (wp_owner p') \<subseteq> dom os" using assms(6) d(2,3) by blast
  ultimately show ?thesis
    using assms(3-5) d n by (simp add: system_inv_def)
qed

lemma event_inv:
  assumes "whp_laws api m a" and "whp_event prof api hc s s'" and "system_inv m a s"
  shows "system_inv m a s'"
  using assms(2)
proof cases
  case (New_ok alloc p x p' os)
  have "slot_inv m a p" using assms(3) New_ok(1) by (simp add: system_inv_def)
  note n = try_new_slot [OF assms(1) this New_ok(3)]
  from assms(3) New_ok(1,2) n(1) n(3) [OF refl] show ?thesis
    by (auto simp: system_inv_def split: if_splits)
next
  case (New_err alloc p e p' os)
  have "slot_inv m a p" using assms(3) New_err(1) by (simp add: system_inv_def)
  note n = try_new_slot [OF assms(1) this New_err(3)]
  from assms(3) New_err(1,2) n(1) n(2) [OF refl] show ?thesis
    by (auto simp: system_inv_def)
next
  case (Step os h x p oc t)
  have p: "slot_inv m a p" "wo_handle x = h" "h \<in> a (wp_world p)" using assms(3) Step(1,3) by (auto simp: system_inv_def)
  note n = step_slot [OF assms(1) p(1) _ Step(4)]
  have i: "system_inv m a (p, os)" using assms(3) Step(1) by simp
  show ?thesis
    unfolding Step(2)
    by (rule system_inv_update [OF i Step(3)]) (use p n in simp_all)
next
  case (Set os h x f p t)
  have q: "quiet m a \<lparr>ws_proc = p, ws_self = x\<rparr> t"
    using quiet_setter [OF _ Set(4,5)] assms(1) by (simp add: whp_laws_def)
  have i: "system_inv m a (p, os)" using assms(3) Set(1) by simp
  have p: "slot_inv m a p" "wo_handle x = h" using i Set(3) by (auto simp: system_inv_def)
  show ?thesis
    unfolding Set(2)
    by (rule system_inv_update [OF i Set(3)])
       (use p q quiet_slot_inv [OF q] in \<open>auto simp: quiet_def same_world_def\<close>)
next
  case (Drop os h x p)
  have "slot_inv m a p" using assms(3) Drop(1) by (simp add: system_inv_def)
  note n = drop_partition_slot [OF assms(1) this, of h]
  from assms(3) Drop(1-3) n show ?thesis
    by (auto simp: system_inv_def split: if_splits)
qed

lemma reachable_inv:
  assumes "whp_reachable prof api hc w0 s" and "whp_laws api m a" and "m w0 = {}"
  shows "system_inv m a s"
  using assms(1)
proof induction
  case start
  show ?case using assms(3) by (simp add: system_inv_def slot_inv_def)
next
  case (event s s')
  then show ?case using event_inv [OF assms(2)] by blast
qed

text \<open>A platform that frees a live partition's range on request and fills an empty slot.\<close>

definition whp_serves ::
    "'w whp_api \<Rightarrow> ('w \<Rightarrow> whp_handle set) \<Rightarrow> ('w \<Rightarrow> whp_handle set) \<Rightarrow> bool" where
  "whp_serves api mapped alive \<longleftrightarrow>
     (\<forall>h w. h \<in> mapped w \<longrightarrow> hr_ok (fst (wa_unmap_gpa_range api h 0 RAM_SIZE w))) \<and>
     (\<forall>h w. h \<in> alive w \<and> mapped w = {} \<longrightarrow> hr_ok (fst (wa_map_gpa_range api h 0 RAM_SIZE w)))"

lemma claim_served:
  assumes "whp_serves api m a" and "whp_slot_law api m a" and "slot_inv m a p" and "h \<in> a (wp_world p)"
  shows "\<exists>p'. claim_mapping api h p = (Inr (), p')"
proof (cases "wp_owner p = Some h")
  case True
  then show ?thesis by (simp add: claim_own)
next
  case False
  obtain r1 p1 where r1: "release_previous api p = (r1, p1)" by (metis surj_pair)
  have r: "r1 = Inr ()"
  proof (cases "wp_owner p")
    case None
    with r1 show ?thesis by (simp add: release_previous_def)
  next
    case (Some prev)
    then have "hr_ok (fst (wa_unmap_gpa_range api prev 0 RAM_SIZE (wp_world p)))"
      using assms(1,3) by (simp add: whp_serves_def slot_inv_def)
    with Some r1 show ?thesis by (auto simp: release_previous_def check_def split: prod.splits)
  qed
  note rel = release_previous_slot [OF assms(2,3) r1]
  have "hr_ok (fst (wa_map_gpa_range api h 0 RAM_SIZE (wp_world p1)))"
    using assms(1,4) rel r by (simp add: whp_serves_def slot_inv_def)
  with False r1 r show ?thesis
    by (auto simp: claim_mapping_def check_def split: prod.splits)
qed

end
