(* ===== verification/Whp_Sim.thy ===== *)
theory Whp_Sim
  imports Whp_Boot Whp_Mapping
begin

text \<open>
  A simulated Windows Hypervisor Platform, used only by the witnesses: partitions are numbered,
  store what is set, enforce the one-mapping rule, and run a script of exits.
\<close>

section \<open>The platform\<close>

type_synonym reg_file = "reg_name \<Rightarrow> reg_value"

record sim_partition =
  sp_regs :: reg_file
  sp_xsave :: "u8 list"
  sp_bitmap :: u64
  sp_script :: "(whp_exit \<times> (reg_file \<Rightarrow> reg_file) \<times> (guest_ram \<Rightarrow> guest_ram)) list"

record sim_world =
  sw_next :: nat
  sw_part :: "nat \<Rightarrow> sim_partition"
  sw_dead :: "nat set"
  sw_mapped :: "nat set"

definition sim_partition_new :: sim_partition where
  "sim_partition_new =
     \<lparr>sp_regs = (\<lambda>n. Reg64 (if n = WRflags then 2 else 0)), sp_xsave = replicate 4096 0,
      sp_bitmap = 0, sp_script = []\<rparr>"

definition sim_world_new :: sim_world where
  "sim_world_new = \<lparr>sw_next = 0, sw_part = (\<lambda>_. sim_partition_new), sw_dead = {}, sw_mapped = {}\<rparr>"

definition sim_alive :: "sim_world \<Rightarrow> nat set" where
  "sim_alive w = {h. h < sw_next w \<and> h \<notin> sw_dead w}"

definition sw_update :: "nat \<Rightarrow> (sim_partition \<Rightarrow> sim_partition) \<Rightarrow> sim_world \<Rightarrow> sim_world" where
  "sw_update h f w = w\<lparr>sw_part := (sw_part w)(h := f (sw_part w h))\<rparr>"

definition fixed_flags :: "reg_file \<Rightarrow> reg_file" where
  "fixed_flags f = f(WRflags := stored WRflags (f WRflags))"

definition sim_run_vp :: "nat \<Rightarrow> sim_world \<Rightarrow> guest_ram \<Rightarrow> hresult \<times> whp_exit \<times> sim_world \<times> guest_ram" where
  "sim_run_vp h w ram =
     (case sp_script (sw_part w h) of
        [] \<Rightarrow> (0, ExitTripleFault, w, ram)
      | (x, f, g) # rest \<Rightarrow>
          (0, x, sw_update h (\<lambda>p. p\<lparr>sp_regs := fixed_flags (f (sp_regs p)), sp_script := rest\<rparr>) w,
           if ram_len (g ram) = ram_len ram then g ram else ram))"

definition HV_OPERATION_DENIED :: hresult where "HV_OPERATION_DENIED = 0xC0370008"

definition sim_whp :: "sim_world whp_api" where
  "sim_whp =
     \<lparr>wa_get_capability = (\<lambda>c n w. (0, case c of CapHypervisorPresent \<Rightarrow> 1
        | CapExceptionExitBitmap \<Rightarrow> 0xFFFFFFFF | CapExtendedVmExits \<Rightarrow> 7 | _ \<Rightarrow> 0, n)),
      wa_create_partition = (\<lambda>w. (0, sw_next w, w\<lparr>sw_next := Suc (sw_next w),
        sw_part := (sw_part w)(sw_next w := sim_partition_new), sw_dead := sw_dead w - {sw_next w}\<rparr>)),
      wa_setup_partition = (\<lambda>h w. (0, w)),
      wa_delete_partition = (\<lambda>h w. (0, w\<lparr>sw_dead := insert h (sw_dead w), sw_mapped := sw_mapped w - {h}\<rparr>)),
      wa_set_property = (\<lambda>h c v w. (0, if c = PropExceptionExitBitmap then sw_update h (\<lambda>p. p\<lparr>sp_bitmap := v\<rparr>) w else w)),
      wa_get_property = (\<lambda>h c w. (0, sp_bitmap (sw_part w h), 8)),
      wa_map_gpa_range = (\<lambda>h a n w. if sw_mapped w \<subseteq> {h} then (0, w\<lparr>sw_mapped := {h}\<rparr>) else (HV_OPERATION_DENIED, w)),
      wa_unmap_gpa_range = (\<lambda>h a n w. (0, w\<lparr>sw_mapped := sw_mapped w - {h}\<rparr>)),
      wa_create_vp = (\<lambda>h w. (0, w)),
      wa_delete_vp = (\<lambda>h w. (0, w)),
      wa_run_vp = sim_run_vp,
      wa_get_registers = (\<lambda>h ns w. (0, map (sp_regs (sw_part w h)) ns)),
      wa_set_registers = (\<lambda>h ns vs w. (0, sw_update h (\<lambda>p. p\<lparr>sp_regs := written ns vs (sp_regs p)\<rparr>) w)),
      wa_get_xsave = (\<lambda>h n w. (0, sp_xsave (sw_part w h), length (sp_xsave (sw_part w h)))),
      wa_set_xsave = (\<lambda>h b w. (0, sw_update h (\<lambda>p. p\<lparr>sp_xsave := b\<rparr>) w)),
      wa_cpuid_output = Some (\<lambda>h l s w. (0, avx512_cpuid l s))\<rparr>"

definition sim_part_ok :: "sim_partition \<Rightarrow> bool" where
  "sim_part_ok p \<longleftrightarrow> bit (as_reg64 (sp_regs p WRflags)) 1 \<and> length (sp_xsave p) = 4096 \<and>
     settled (sp_xsave p) avx512_layout \<and> xsave_xcomp_bv (sp_xsave p) = Some 0"

definition sim_guest :: "sim_world whp_guest" where
  "sim_guest =
     \<lparr>wh_live = (\<lambda>h w. sim_part_ok (sw_part w h)), wh_accepts = (\<lambda>_ _ _. True),
      wh_layout = avx512_layout, wh_len = 4096, wh_capacity = 4096\<rparr>"

section \<open>It is one\<close>

lemma hr_ok_0 [simp]: "hr_ok 0"
  by (simp add: hr_ok_def)

lemma hr_denied [simp]: "\<not> hr_ok HV_OPERATION_DENIED"
  by (simp add: hr_ok_def HV_OPERATION_DENIED_def)

lemma sw_update_simps [simp]:
  "sw_part (sw_update h f w) = (sw_part w)(h := f (sw_part w h))"
  "sw_dead (sw_update h f w) = sw_dead w" "sw_next (sw_update h f w) = sw_next w" "sw_mapped (sw_update h f w) = sw_mapped w"
  by (simp_all add: sw_update_def)

lemma sim_whp_simps [simp]:
  "reg_in sim_whp h w = sp_regs (sw_part w h)"
  "image_in sim_whp cap h w = sp_xsave (sw_part w h)"
  by (simp_all add: reg_in_def fun_eq_iff image_in_def sim_whp_def)

lemma flag_written:
  "bit (as_reg64 (f WRflags)) 1 \<Longrightarrow> length ns = length vs \<Longrightarrow> bit (as_reg64 (written ns vs f WRflags)) 1"
  by (induction ns vs f rule: written.induct) (auto simp: stored_def bit_or_2 simp del: One_nat_def)

lemma sim_quiet_law: "whp_quiet_law sim_whp sw_mapped sim_alive"
  by (auto simp: whp_quiet_law_def sim_whp_def sim_run_vp_def sim_alive_def split: list.splits)

lemma sim_slot_law: "whp_slot_law sim_whp sw_mapped sim_alive"
  by (auto simp: whp_slot_law_def sim_whp_def sim_alive_def less_Suc_eq)

lemma sim_slot_laws: "whp_laws sim_whp sw_mapped sim_alive"
  by (simp add: whp_laws_def sim_quiet_law sim_slot_law)

lemma sim_serves: "whp_serves sim_whp sw_mapped sim_alive"
  by (auto simp: whp_serves_def sim_whp_def)

lemma sim_part_ok_new: "sim_part_ok sim_partition_new"
proof -
  have "xsave_xcomp_bv (replicate 4096 0) = Some 0"
    by (simp add: xsave_xcomp_bv_def read_u64_at_in XSAVE_XCOMP_BV_def u64_at_zeros)
  moreover have "bit (2 :: u64) 1" using bit_or_2 [of 0] by simp
  ultimately show ?thesis by (simp add: sim_part_ok_def sim_partition_new_def settled_zeros del: One_nat_def)
qed

lemma sim_read_law: "whp_read_law sim_whp sim_guest"
  by (simp add: whp_read_law_def sim_guest_def sim_part_ok_def del: One_nat_def) (simp add: sim_whp_def)

lemma sim_write_law: "whp_write_law sim_whp sim_guest"
  by (auto simp: whp_write_law_def sim_guest_def sim_part_ok_def flag_written simp del: One_nat_def)
     (simp_all add: sim_whp_def flag_written del: One_nat_def)

lemma sim_accepts_law: "whp_accepts_law sim_guest"
  by (simp add: whp_accepts_law_def sim_guest_def)

lemma sim_xsave_law: "whp_xsave_law sim_whp sim_guest"
  unfolding whp_xsave_law_def
proof (intro conjI allI impI)
  show "layout_ok (wh_len sim_guest) (wh_layout sim_guest)" by (simp add: sim_guest_def avx512_layout_ok)
  fix h w
  show "\<exists>hr b. wa_get_xsave sim_whp h (xsave_image_capacity (wh_capacity sim_guest)) w = (hr, b, wh_len sim_guest) \<and>
      hr_ok hr \<and> length b = wh_len sim_guest \<and> settled b (wh_layout sim_guest)" if "wh_live sim_guest h w"
    using that by (simp add: sim_guest_def sim_whp_def sim_part_ok_def)
next
  fix h w n d b
  assume a: "wh_live sim_guest h w \<and> unat n < 32 \<and>
    xsave_set_zmm (image_in sim_whp (wh_capacity sim_guest) h w) (wh_layout sim_guest) n d = Some b"
  then have p: "sim_part_ok (sw_part w h)" "xsave_set_zmm (sp_xsave (sw_part w h)) avx512_layout n d = Some b"
    by (simp_all add: sim_guest_def)
  have "layout_ok (length (sp_xsave (sw_part w h))) avx512_layout"
    using p(1) by (simp add: sim_part_ok_def avx512_layout_ok)
  from xsave_set_zmm_result [OF this _ conjunct1 [OF conjunct2 [OF a]], of d] p
  have "sim_part_ok ((sw_part w h)\<lparr>sp_xsave := b\<rparr>)" by (auto simp: sim_part_ok_def)
  then show "case wa_set_xsave sim_whp h b w of (hr, w') \<Rightarrow> hr_ok hr \<and> wh_live sim_guest h w' \<and>
      reg_in sim_whp h w' = reg_in sim_whp h w \<and>
      (\<forall>m<32. \<forall>i<8. xrstor_chunk (image_in sim_whp (wh_capacity sim_guest) h w') (wh_layout sim_guest) m i =
         xrstor_chunk b (wh_layout sim_guest) m i)"
    by (simp add: sim_guest_def) (simp add: sim_whp_def)
qed (simp_all add: sim_guest_def xsave_image_capacity_def)

lemma sim_guest_laws: "whp_guest_laws sim_whp sim_guest"
  by (simp add: whp_guest_laws_def sim_read_law sim_write_law sim_accepts_law sim_xsave_law)

lemma sim_whp_run_law: "whp_run_law sim_whp sim_guest"
  by (auto simp: whp_run_law_def sim_guest_def sim_whp_def sim_run_vp_def sim_part_ok_def fixed_flags_def stored_def
      bit_or_2 split: list.splits simp del: One_nat_def)

lemma sim_boot_law: "whp_boot_law sim_whp sim_guest hc avx512_cpuid 0"
  unfolding whp_boot_law_def
proof (intro conjI allI impI)
  have x: "whp_host_xcr0 avx512_cpuid = 0xE7"
    by (simp add: whp_host_xcr0_def avx512_cpuid_def)
  show "long_mode_order (wh_accepts sim_guest)" by (simp add: long_mode_order_def sim_guest_def)
  show "xcr0_valid (whp_host_xcr0 avx512_cpuid)" by (simp add: x xcr0_valid_def bit_iff_odd)
  show "wh_capacity sim_guest = max (unat (cpuid_ecx (avx512_cpuid 0x0D 0))) 4096"
    by (simp add: sim_guest_def avx512_cpuid_def)
  show "wh_layout sim_guest = probe avx512_cpuid (whp_host_xcr0 avx512_cpuid) 0"
    by (simp add: x probe_avx512 sim_guest_def)
  show "whp_cpuid sim_whp hc s = avx512_cpuid" for s
    by (simp add: whp_cpuid_def sim_whp_def fun_eq_iff)
  show "xsave_xcomp_bv (image_in sim_whp (wh_capacity sim_guest) h w) = Some 0" if "wh_live sim_guest h w" for h w
    using that by (simp add: sim_guest_def sim_part_ok_def)
next
  fix h w b
  assume "wh_live sim_guest h w \<and>
    xsave_reset_vectors (image_in sim_whp (wh_capacity sim_guest) h w) (wh_layout sim_guest) = Some b"
  then have p: "sim_part_ok (sw_part w h)" "xsave_reset_vectors (sp_xsave (sw_part w h)) avx512_layout = Some b"
    by (simp_all add: sim_guest_def)
  have "layout_ok (length (sp_xsave (sw_part w h))) avx512_layout"
    using p(1) by (simp add: sim_part_ok_def avx512_layout_ok)
  from xsave_reset_result [OF this] p
  have "sim_part_ok ((sw_part w h)\<lparr>sp_xsave := b\<rparr>)" by (auto simp: sim_part_ok_def)
  then show "case wa_set_xsave sim_whp h b w of (hr, w') \<Rightarrow> hr_ok hr \<and> wh_live sim_guest h w' \<and>
      reg_in sim_whp h w' = reg_in sim_whp h w \<and>
      (\<forall>m<32. \<forall>i<8. xrstor_chunk (image_in sim_whp (wh_capacity sim_guest) h w') (wh_layout sim_guest) m i =
         xrstor_chunk b (wh_layout sim_guest) m i)"
    by (simp add: sim_guest_def) (simp add: sim_whp_def)
qed

end
