(* ===== verification/Sail_Properties.thy ===== *)
theory Sail_Properties
  imports Sail_Contract
begin

text \<open>
  What the Sail backend reports of a step and how its MSR file behaves, with a simulated instance
  for the witnesses.
\<close>

section \<open>A simulated instance\<close>

text \<open>Used by the witnesses only: it stores what is set, and reports a script of steps.\<close>

record sim_sail_model =
  sm_gpr :: "u32 \<Rightarrow> u64"
  sm_rip :: u64
  sm_flags :: u64
  sm_zmm :: "u32 \<Rightarrow> u32 \<Rightarrow> u64"
  sm_msr :: "u32 \<Rightarrow> u64"
  sm_mem :: "u64 \<Rightarrow> u8"
  sm_message :: "u8 list"
  sm_script :: "(u64 \<times> u8 list) list"

definition sim_sail_new :: "(u64 \<times> u8 list) list \<Rightarrow> sim_sail_model" where
  "sim_sail_new script =
     \<lparr>sm_gpr = (\<lambda>_. 0), sm_rip = 0, sm_flags = 2, sm_zmm = (\<lambda>_ _. 0), sm_msr = (\<lambda>_. 0), sm_mem = (\<lambda>_. 0),
      sm_message = [], sm_script = script\<rparr>"

definition sim_sail :: "sim_sail_model sail_api" where
  "sim_sail =
     \<lparr>sa_new = Some (sim_sail_new []),
      sa_set_gpr = (\<lambda>n v m. m\<lparr>sm_gpr := (sm_gpr m)(n := v)\<rparr>), sa_get_gpr = (\<lambda>n m. sm_gpr m n),
      sa_set_rip = (\<lambda>v m. m\<lparr>sm_rip := v\<rparr>), sa_get_rip = sm_rip,
      sa_set_rflags = (\<lambda>v m. m\<lparr>sm_flags := v\<rparr>), sa_get_rflags = sm_flags,
      sa_step = (\<lambda>m. case sm_script m of [] \<Rightarrow> (0, m)
        | (status, msg) # rest \<Rightarrow> (status, m\<lparr>sm_message := msg, sm_script := rest\<rparr>)),
      sa_set_zmm = (\<lambda>n i v m. m\<lparr>sm_zmm := (sm_zmm m)(n := (sm_zmm m n)(i := v))\<rparr>),
      sa_get_zmm = (\<lambda>n i m. sm_zmm m n i),
      sa_set_msr = (\<lambda>i v m. m\<lparr>sm_msr := (sm_msr m)(i := v)\<rparr>), sa_get_msr = (\<lambda>i m. sm_msr m i),
      sa_set_ctr = (\<lambda>n v m. m), sa_get_ctr = (\<lambda>n m. 0),
      sa_set_seg_visible = (\<lambda>n v m. m), sa_get_seg_visible = (\<lambda>n m. 0),
      sa_set_seg_base = (\<lambda>n v m. m), sa_get_seg_base = (\<lambda>n m. 0),
      sa_set_seg_limit = (\<lambda>n v m. m), sa_get_seg_limit = (\<lambda>n m. 0),
      sa_set_seg_attr = (\<lambda>n v m. m), sa_get_seg_attr = (\<lambda>n m. 0),
      sa_get_fault_msg = (\<lambda>m buf.
        (if buf = [] then []
         else (let n = min (length (sm_message m)) (length buf - 1)
               in take n (sm_message m) @ [0] @ drop (n + 1) buf),
         length (sm_message m))),
      sa_read_byte = (\<lambda>a m. sm_mem m a), sa_write_byte = (\<lambda>a b m. m\<lparr>sm_mem := (sm_mem m)(a := b)\<rparr>),
      sa_is_mapped = (\<lambda>a m. True)\<rparr>"

lemma sim_sail_regs: "sail_reg_law sim_sail (\<lambda>v. v)"
  unfolding sail_reg_law_def core_reg_law_def
  by (auto simp: sail_view_def core_regs_def sim_sail_def u32_small_eq intro!: nth_equalityI simp: nth_list_update)

lemma sim_sail_ok: "sail_ok sim_sail (\<lambda>v. v) m"
  unfolding sail_ok_def using sim_sail_regs
  by (simp add: core_mem_law_def sail_msr_law_def sim_sail_def)

lemma sim_sail_msg: "sail_msg_law sim_sail sm_message"
  by (simp add: sail_msg_law_def sim_sail_def)

section \<open>The message\<close>

text \<open>The buffer of \<open>len + 1\<close> bytes has room for all of it and the NUL, which is cut off.\<close>

lemma sail_fault_msg_whole:
  "sail_msg_law api msg \<Longrightarrow> sail_fault_msg api m = bytes_to_str (from_utf8_lossy (msg m))"
  by (simp add: sail_msg_law_def sail_fault_msg_def Let_def)

definition model_stopped :: "string \<Rightarrow> bool" where
  "model_stopped msg \<longleftrightarrow> starts_with ''Model error'' msg \<or> starts_with ''Translation error'' msg"

lemma sail_classify_unimplemented: "sail_classify msg = Unimplemented \<longleftrightarrow> model_stopped msg"
  by (simp add: sail_classify_def model_stopped_def)

section \<open>The MSR file\<close>

lemma msr_slot_inj: "msr_slot a = Some i \<Longrightarrow> msr_slot b = Some i \<Longrightarrow> a = b"
  by (auto simp: msr_slot_def split: if_splits)

definition sail_modelled_msrs :: "u32 list" where
  "sail_modelled_msrs =
     [IA32_EFER, IA32_FS_BASE, IA32_GS_BASE, IA32_KERNEL_GS_BASE, IA32_STAR, IA32_LSTAR, IA32_FMASK]"

lemma msr_slot_modelled: "(\<exists>i. msr_slot msr = Some i) \<longleftrightarrow> msr \<in> set sail_modelled_msrs"
  by (auto simp: msr_slot_def sail_modelled_msrs_def)

section \<open>Properties\<close>

text \<open>
  C27: a step on the Sail model always returns and reports what the model said. Status 0 is a
  retirement, status 2 a system call, and any other a fault whose message is the model's whole
  message, whatever its length (two calls, and ill-formed UTF-8 replaced), and whose kind is read
  from that message. A plain-ASCII message arrives byte for byte. The outcome is withheld from a
  comparison precisely when the message says that the model, not the CPU, stopped short.
\<close>

theorem sail_step_reports:
  assumes law: "sail_msg_law api msg" and run: "sa_step api m = (status, m')"
  shows "\<exists>oc. sail_step api m = Some (oc, m') \<and>
    (status = 0 \<longrightarrow> oc = Retired) \<and> (status = 2 \<longrightarrow> oc = Syscall) \<and>
    (status \<noteq> 0 \<and> status \<noteq> 2 \<longrightarrow>
       (\<exists>txt. txt = bytes_to_str (from_utf8_lossy (msg m')) \<and>
          oc = Fault (sail_classify txt) txt \<and>
          (list_all (\<lambda>b. b < 0x80) (msg m') \<longrightarrow> txt = bytes_to_str (msg m')) \<and>
          (is_comparable oc \<longleftrightarrow> \<not> model_stopped txt)))"
proof -
  let ?txt = "bytes_to_str (from_utf8_lossy (msg m'))"
  have step: "sail_step api m = Some (if status = 0 then Retired else if status = 2 then Syscall
      else Fault (sail_classify ?txt) ?txt, m')"
    by (simp add: sail_step_def run Let_def sail_fault_msg_whole [OF law])
  have "is_comparable (Fault (sail_classify ?txt) ?txt) \<longleftrightarrow> \<not> model_stopped ?txt"
    by (simp add: is_comparable_iff is_architectural_def sail_classify_unimplemented)
  with step show ?thesis
    by (cases "status = 0"; cases "status = 2") (auto simp: lossy_valid ascii_valid)
qed

text \<open>
  The Sail model's seven MSRs are independent storage. Writing a modelled MSR makes it read
  back what was written and leaves every other MSR's value alone; an MSR the model has no storage
  for ignores writes and reads as zero; and the FS and GS bases written through either interface,
  MSR or segment base, are read by both.
\<close>

theorem sail_msrs:
  assumes law: "sail_msr_law api"
  shows "(a \<in> set sail_modelled_msrs \<longrightarrow>
      (\<exists>m'. sail_set_msr api a v m = Some m' \<and> sail_get_msr api a m' = Some v \<and>
            (\<forall>b. b \<noteq> a \<longrightarrow> sail_get_msr api b m' = sail_get_msr api b m))) \<and>
    (a \<notin> set sail_modelled_msrs \<longrightarrow> sail_set_msr api a v m = Some m \<and> sail_get_msr api a m = Some 0) \<and>
    (\<forall>n msr. (n, msr) \<in> {(SEG_FS, IA32_FS_BASE), (SEG_GS, IA32_GS_BASE)} \<longrightarrow>
      (\<exists>m'. sail_set_seg_base prof api n v m = Some m' \<and> sail_get_seg_base prof api n m' = Some v \<and>
            sail_get_msr api msr m' = Some v) \<and>
      (\<exists>m'. sail_set_msr api msr v m = Some m' \<and> sail_get_seg_base prof api n m' = Some v))"
proof -
  have msrs: "sa_get_msr api i (sa_set_msr api j v m) = (if i = j then v else sa_get_msr api i m)"
    "sa_get_msr api i (sa_set_seg_base api n v m) = sa_get_msr api i m" for i j n m
    using law by (simp_all add: sail_msr_law_def)
  have modelled: "\<exists>m'. sail_set_msr api a v m = Some m' \<and> sail_get_msr api a m' = Some v \<and>
      (\<forall>b. b \<noteq> a \<longrightarrow> sail_get_msr api b m' = sail_get_msr api b m)" if "msr_slot a = Some i" for i
    using that by (auto simp: sail_set_msr_def sail_get_msr_def msrs dest: msr_slot_inj split: option.split)
  have unmodelled: "sail_set_msr api a v m = Some m \<and> sail_get_msr api a m = Some 0" if "msr_slot a = None"
    using that by (simp add: sail_set_msr_def sail_get_msr_def)
  have seg: "unat SEG_FS < 6" "unat SEG_GS < 6" "SEG_GS \<noteq> SEG_FS" by (simp_all add: SEG_FS_def SEG_GS_def)
  have bases: "\<forall>n msr. (n, msr) \<in> {(SEG_FS, IA32_FS_BASE), (SEG_GS, IA32_GS_BASE)} \<longrightarrow>
      (\<exists>m'. sail_set_seg_base prof api n v m = Some m' \<and> sail_get_seg_base prof api n m' = Some v \<and>
            sail_get_msr api msr m' = Some v) \<and>
      (\<exists>m'. sail_set_msr api msr v m = Some m' \<and> sail_get_seg_base prof api n m' = Some v)"
    by (auto simp: sail_set_seg_base_def sail_get_seg_base_def sail_get_msr_def sail_set_msr_def msr_slots seg msrs)
  show ?thesis using modelled unmodelled bases msr_slot_modelled [of a] by (cases "msr_slot a") auto
qed

section \<open>Witnesses\<close>

definition sail_demo_message :: "u8 list" where
  "sail_demo_message = str_bytes ''exception :UD''"

theorem sail_step_reports_witness:
  "\<exists>m'. sail_step sim_sail (sim_sail_new [(1, sail_demo_message)]) =
     Some (Fault UndefinedOpcode ''exception :UD'', m')"
proof -
  have "sa_step sim_sail (sim_sail_new [(1, sail_demo_message)]) =
      (1, (sim_sail_new [])\<lparr>sm_message := sail_demo_message\<rparr>)"
    by (simp add: sim_sail_def sim_sail_new_def)
  from sail_step_reports [OF sim_sail_msg this]
  have "\<exists>oc. sail_step sim_sail (sim_sail_new [(1, sail_demo_message)]) =
      Some (oc, (sim_sail_new [])\<lparr>sm_message := sail_demo_message\<rparr>) \<and>
      oc = Fault (sail_classify (bytes_to_str sail_demo_message)) (bytes_to_str sail_demo_message)"
    by (auto simp: sail_demo_message_def str_bytes_def)
  moreover have "bytes_to_str sail_demo_message = ''exception :UD''"
    by (simp add: sail_demo_message_def)
  moreover have "sail_classify ''exception :UD'' = UndefinedOpcode"
    by (simp add: sail_classify_def starts_with_def)
  ultimately show ?thesis by auto
qed

end
