(* ===== verification/Any_Properties.thy ===== *)
theory Any_Properties
  imports Any_Oracle Kvm_Properties Whp_Sim Sail_Properties
begin

text \<open>
  \<open>AnyOracle\<close> behaves as the backend it holds: the interface \<open>forwarding\<close>, interpreted for each of
  the four variants, and what follows for snapshots, restoring one backend's snapshot into another,
  the list of backends and construction.
\<close>

section \<open>A wrapper that forwards\<close>

locale forwarding =
  fixes ops :: "'s oracle_ops"
    and wops :: "'t oracle_ops"
    and wrap :: "'s \<Rightarrow> 't"
  assumes fw_get_gpr: "op_get_gpr wops n (wrap s) = op_get_gpr ops n s"
    and fw_get_rip: "op_get_rip wops (wrap s) = op_get_rip ops s"
    and fw_get_rflags: "op_get_rflags wops (wrap s) = op_get_rflags ops s"
    and fw_get_zmm: "op_get_zmm wops n (wrap s) = op_get_zmm ops n s"
    and fw_set_gpr: "op_set_gpr wops n v (wrap s) = map_option wrap (op_set_gpr ops n v s)"
    and fw_set_rip: "op_set_rip wops v (wrap s) = map_option wrap (op_set_rip ops v s)"
    and fw_set_rflags: "op_set_rflags wops v (wrap s) = map_option wrap (op_set_rflags ops v s)"
    and fw_set_zmm: "op_set_zmm wops n d (wrap s) = map_option wrap (op_set_zmm ops n d s)"
    and fw_read_mem: "op_read_mem wops a len (wrap s) = op_read_mem ops a len s"
    and fw_write_mem: "op_write_mem wops a bs (wrap s) = map_option wrap (op_write_mem ops a bs s)"
    and fw_step: "op_step wops (wrap s) = map_option (apsnd wrap) (op_step ops s)"
begin

lemma for_each_forward:
  assumes "\<And>i s. f' i (wrap s) = map_option wrap (f i s)"
  shows "for_each f' is (wrap s) = map_option wrap (for_each f is s)"
  using assms by (induction "is" arbitrary: s) (simp_all add: Option.bind_map_option comp_def map_option_bind)

lemma snapshot_forward: "snapshot wops (wrap s) = snapshot ops s"
  by (simp add: snapshot_def fw_get_gpr fw_get_zmm fw_get_rip fw_get_rflags)

lemma restore_forward: "restore wops snap (wrap s) = map_option wrap (restore ops snap s)"
proof -
  have g: "for_each (\<lambda>i. op_set_gpr wops (of_nat i) (cs_gpr snap ! i)) is (wrap t) =
      map_option wrap (for_each (\<lambda>i. op_set_gpr ops (of_nat i) (cs_gpr snap ! i)) is t)" for "is" t
    by (rule for_each_forward) (rule fw_set_gpr)
  have z: "for_each (\<lambda>i. op_set_zmm wops (of_nat i) (cs_zmm snap ! i)) is (wrap t) =
      map_option wrap (for_each (\<lambda>i. op_set_zmm ops (of_nat i) (cs_zmm snap ! i)) is t)" for "is" t
    by (rule for_each_forward) (rule fw_set_zmm)
  show ?thesis
    by (simp add: restore_def g z fw_set_rip fw_set_rflags Option.bind_map_option map_option_bind comp_def)
qed

lemma step_bytes_forward: "step_bytes wops code (wrap s) = map_option (apsnd wrap) (step_bytes ops code s)"
  by (simp add: step_bytes_def fw_get_rip fw_write_mem fw_step Option.bind_map_option map_option_bind comp_def)

lemma read_mem_u64_forward: "read_mem_u64 wops a (wrap s) = read_mem_u64 ops a s"
  by (simp add: read_mem_u64_def fw_read_mem)

lemma write_mem_u64_forward: "write_mem_u64 wops a v (wrap s) = map_option wrap (write_mem_u64 ops a v s)"
  by (simp add: write_mem_u64_def fw_write_mem)

end

interpretation any_sail: forwarding "sail_ops prof (be_sail B)" "any_ops prof B" AnySail for prof B
  by unfold_locales (simp_all add: any_ops_def on_ref_def on_mut_def on_mut_ret_def)

interpretation any_bochs: forwarding "bochs_ops prof (be_bochs B)" "any_ops prof B" AnyBochs for prof B
  by unfold_locales (simp_all add: any_ops_def on_ref_def on_mut_def on_mut_ret_def)

interpretation any_kvm: forwarding "kvm_ops prof (be_kvm B)" "any_ops prof B" AnyKvm for prof B
  by unfold_locales (simp_all add: any_ops_def on_ref_def on_mut_def on_mut_ret_def)

interpretation any_whp: forwarding "whp_ops prof (be_whp B)" "any_ops prof B" AnyWhp for prof B
  by unfold_locales (simp_all add: any_ops_def on_ref_def on_mut_def on_mut_ret_def)

lemmas snapshots_forward =
  any_sail.snapshot_forward any_bochs.snapshot_forward any_kvm.snapshot_forward any_whp.snapshot_forward

lemmas restores_forward =
  any_sail.restore_forward any_bochs.restore_forward any_kvm.restore_forward any_whp.restore_forward

lemmas step_bytes_forwards =
  any_sail.step_bytes_forward any_bochs.step_bytes_forward any_kvm.step_bytes_forward any_whp.step_bytes_forward

lemma any_snapshot_eq: "any_snapshot prof B s = snapshot (any_ops prof B) s"
  by (cases s) (simp_all add: any_snapshot_def on_ref_def snapshots_forward)

lemma any_restore_eq: "any_restore prof B snap s = restore (any_ops prof B) snap s"
  by (cases s) (simp_all add: any_restore_def on_mut_def restores_forward)

section \<open>What each backend promises\<close>

text \<open>The parameters of the four contracts, and the contract of the backend a value holds.\<close>

record ('v, 'w) any_guest =
  ag_sail_flags :: "u64 \<Rightarrow> u64"
  ag_bochs_flags :: "u64 \<Rightarrow> u64"
  ag_live :: "'v \<Rightarrow> bool"
  ag_accepts :: "kvm_sregs \<Rightarrow> bool"
  ag_layout :: xsave_layout
  ag_whp :: "'w whp_guest"

fun any_ok :: "('m, 'b, 'v, 'w) backends \<Rightarrow> ('v, 'w) any_guest \<Rightarrow> ('m, 'b, 'v, 'w) any_oracle \<Rightarrow> bool" where
  "any_ok B G (AnySail m) \<longleftrightarrow> sail_ok (be_sail B) (ag_sail_flags G) m"
| "any_ok B G (AnyBochs b) \<longleftrightarrow> bochs_ok (be_bochs B) (ag_bochs_flags G) b"
| "any_ok B G (AnyKvm v) \<longleftrightarrow> kvm_ok (be_kvm B) (ag_live G) (ag_accepts G) (ag_layout G) v"
| "any_ok B G (AnyWhp w) \<longleftrightarrow> whp_ok (be_whp B) (ag_whp G) w"

fun any_view :: "('m, 'b, 'v, 'w) backends \<Rightarrow> ('v, 'w) any_guest \<Rightarrow> ('m, 'b, 'v, 'w) any_oracle \<Rightarrow> cpu_state" where
  "any_view B G (AnySail m) = sail_view (be_sail B) m"
| "any_view B G (AnyBochs b) = bochs_view (be_bochs B) b"
| "any_view B G (AnyKvm v) = kvm_view (be_kvm B) (ag_layout G) v"
| "any_view B G (AnyWhp w) = whp_view (be_whp B) (ag_whp G) w"

text \<open>What a backend makes of flags and of a vector register that are written to it.\<close>

fun any_norm_flags :: "('v, 'w) any_guest \<Rightarrow> backend \<Rightarrow> u64 \<Rightarrow> u64" where
  "any_norm_flags G Sail = ag_sail_flags G"
| "any_norm_flags G Bochs = ag_bochs_flags G"
| "any_norm_flags G Kvm = norm_step_flags"
| "any_norm_flags G Whp = norm_step_flags"

fun any_norm_zmm :: "('v, 'w) any_guest \<Rightarrow> backend \<Rightarrow> nat \<Rightarrow> u64 list \<Rightarrow> u64 list" where
  "any_norm_zmm G Sail n d = d"
| "any_norm_zmm G Bochs n d = d"
| "any_norm_zmm G Kvm n d = zmm_norm XSAVE_BYTES (ag_layout G) n d"
| "any_norm_zmm G Whp n d = zmm_norm (wh_len (ag_whp G)) (wh_layout (ag_whp G)) n d"

definition any_normalised :: "('v, 'w) any_guest \<Rightarrow> backend \<Rightarrow> cpu_state \<Rightarrow> cpu_state" where
  "any_normalised G b snap =
     \<lparr>cs_gpr = cs_gpr snap, cs_rip = cs_rip snap, cs_rflags = any_norm_flags G b (cs_rflags snap),
      cs_zmm = map (\<lambda>i. any_norm_zmm G b i (cs_zmm snap ! i)) [0..<32]\<rparr>"

lemma any_view_wf: "any_ok B G s \<Longrightarrow> wf_cpu_state (any_view B G s)"
  by (cases s) (simp_all add: sail.view_wf bochs.view_wf kvm.view_wf whp.view_wf)

lemma any_snapshot_view: "any_ok B G s \<Longrightarrow> any_snapshot prof B s = Some (any_view B G s)"
  by (cases s) (simp_all add: any_snapshot_def on_ref_def sail.snapshot_view bochs.snapshot_view
      kvm.snapshot_view whp.snapshot_view)

lemma any_restored:
  assumes "any_ok B G s" and "wf_cpu_state snap"
  shows "\<exists>s'. any_restore prof B snap s = Some s' \<and> any_ok B G s' \<and> any_backend s' = any_backend s \<and>
    any_view B G s' = any_normalised G (any_backend s) snap"
proof (cases s)
  case (AnySail m)
  with assms sail.restore_view [of "be_sail B" "ag_sail_flags G" m snap prof] show ?thesis
    by (auto simp: any_restore_def on_mut_def any_normalised_def)
next
  case (AnyBochs b)
  with assms bochs.restore_view [of "be_bochs B" "ag_bochs_flags G" b snap prof] show ?thesis
    by (auto simp: any_restore_def on_mut_def any_normalised_def)
next
  case (AnyKvm v)
  with assms kvm.restore_view [of "be_kvm B" "ag_live G" "ag_accepts G" "ag_layout G" v snap prof] show ?thesis
    by (auto simp: any_restore_def on_mut_def any_normalised_def)
next
  case (AnyWhp w)
  with assms whp.restore_view [of "be_whp B" "ag_whp G" w snap prof] show ?thesis
    by (auto simp: any_restore_def on_mut_def any_normalised_def)
qed

section \<open>The list of backends\<close>

fun compiled_in :: "build_cfg \<Rightarrow> backend \<Rightarrow> bool" where
  "compiled_in cfg Sail = bc_sail cfg"
| "compiled_in cfg Bochs = bc_bochs cfg"
| "compiled_in cfg Kvm = bc_kvm cfg"
| "compiled_in cfg Whp = bc_whp cfg"

lemma set_pairs_of: "(a, b) \<in> set (pairs_of xs) \<longleftrightarrow> (\<exists>i j. i < j \<and> j < length xs \<and> a = xs ! i \<and> b = xs ! j)"
proof (induction xs)
  case (Cons x xs)
  have "(\<exists>i j. i < j \<and> j < length (x # xs) \<and> a = (x # xs) ! i \<and> b = (x # xs) ! j) \<longleftrightarrow>
      (a = x \<and> b \<in> set xs) \<or> (\<exists>i j. i < j \<and> j < length xs \<and> a = xs ! i \<and> b = xs ! j)" (is "?lhs \<longleftrightarrow> ?rhs")
  proof
    assume ?lhs
    then obtain i j where ij: "i < j" "j < length (x # xs)" "a = (x # xs) ! i" "b = (x # xs) ! j" by blast
    then obtain j' where j': "j = Suc j'" by (cases j) auto
    with ij show ?rhs by (cases i) auto
  next
    assume ?rhs
    then show ?lhs
    proof
      assume "a = x \<and> b \<in> set xs"
      then obtain j where "a = x" "j < length xs" "b = xs ! j" by (auto simp: in_set_conv_nth)
      then show ?lhs by (intro exI [of _ 0] exI [of _ "Suc j"]) simp
    next
      assume "\<exists>i j. i < j \<and> j < length xs \<and> a = xs ! i \<and> b = xs ! j"
      then obtain i j where "i < j" "j < length xs" "a = xs ! i" "b = xs ! j" by blast
      then show ?lhs by (intro exI [of _ "Suc i"] exI [of _ "Suc j"]) simp
    qed
  qed
  with Cons show ?case by auto
qed simp

lemma length_pairs_of: "2 * length (pairs_of xs) = length xs * (length xs - 1)"
  by (induction xs) (auto simp: algebra_simps, case_tac xs, auto)

lemma distinct_available: "distinct (available cfg k w)"
  by (auto simp: available_def)

lemma distinct_pairs_of: "distinct xs \<Longrightarrow> distinct (pairs_of xs)"
proof (induction xs)
  case (Cons x xs)
  have "a \<in> set xs" if "(a, b) \<in> set (pairs_of xs)" for a b
    using that unfolding set_pairs_of by auto
  with Cons show ?case by (auto simp: distinct_map inj_on_def)
qed simp

lemma pair_orders:
  assumes "distinct xs"
  shows "(a, b) \<in> set (pairs_of xs) \<or> (b, a) \<in> set (pairs_of xs) \<longleftrightarrow> a \<noteq> b \<and> a \<in> set xs \<and> b \<in> set xs"
    and "\<not> ((a, b) \<in> set (pairs_of xs) \<and> (b, a) \<in> set (pairs_of xs))"
proof -
  have inj: "i < length xs \<Longrightarrow> j < length xs \<Longrightarrow> xs ! i = xs ! j \<longleftrightarrow> i = j" for i j
    using assms by (rule nth_eq_iff_index_eq)
  show "\<not> ((a, b) \<in> set (pairs_of xs) \<and> (b, a) \<in> set (pairs_of xs))"
  proof
    assume "(a, b) \<in> set (pairs_of xs) \<and> (b, a) \<in> set (pairs_of xs)"
    then obtain i j k l where ij: "i < j" "j < length xs" "a = xs ! i" "b = xs ! j"
      and kl: "k < l" "l < length xs" "b = xs ! k" "a = xs ! l"
      unfolding set_pairs_of by blast
    have "i = l" by (rule inj [THEN iffD1]) (use ij kl in \<open>auto intro: less_trans\<close>)
    moreover have "j = k" by (rule inj [THEN iffD1]) (use ij kl in \<open>auto intro: less_trans\<close>)
    ultimately show False using ij(1) kl(1) by linarith
  qed
  have "a \<noteq> b \<and> a \<in> set xs \<and> b \<in> set xs" if ab: "(a, b) \<in> set (pairs_of xs)" for a b
  proof -
    obtain i j where ij: "i < j" "j < length xs" "a = xs ! i" "b = xs ! j"
      using ab unfolding set_pairs_of by blast
    have "i < length xs" using ij(1,2) by (rule less_trans)
    with inj [OF this ij(2)] ij show ?thesis by (metis nth_mem order_less_irrefl)
  qed
  moreover have "(a, b) \<in> set (pairs_of xs) \<or> (b, a) \<in> set (pairs_of xs)"
    if ab: "a \<noteq> b" "a \<in> set xs" "b \<in> set xs"
  proof -
    obtain i j where ij: "i < length xs" "a = xs ! i" "j < length xs" "b = xs ! j"
      using ab(2,3) by (auto simp: in_set_conv_nth)
    have "i \<noteq> j" using ab(1) ij(2,4) by auto
    then have "i < j \<or> j < i" by linarith
    then show ?thesis unfolding set_pairs_of using ij by metis
  qed
  ultimately show "(a, b) \<in> set (pairs_of xs) \<or> (b, a) \<in> set (pairs_of xs) \<longleftrightarrow> a \<noteq> b \<and> a \<in> set xs \<and> b \<in> set xs"
    by blast
qed

lemma result_mapped [simp]:
  "(case r of Inl e \<Rightarrow> Inl (f e) | Inr o' \<Rightarrow> Inr (g o')) = Inl x \<longleftrightarrow> (\<exists>e. r = Inl e \<and> x = f e)"
  "(case r of Inl e \<Rightarrow> Inl (f e) | Inr o' \<Rightarrow> Inr (g o')) = Inr y \<longleftrightarrow> (\<exists>o'. r = Inr o' \<and> y = g o')"
  by (cases r; auto)+

lemma set_available:
  "b \<in> set (available cfg k w) \<longleftrightarrow> compiled_in cfg b \<and> (b = Kvm \<longrightarrow> k) \<and> (b = Whp \<longrightarrow> w)"
  by (cases b) (auto simp: available_def)

section \<open>Properties\<close>





text \<open>
  A differential campaign over \<open>pairs\<close> runs every comparison once. Two backends make a pair
  exactly when both are compiled in and usable and they differ, and then in one order only; no pair
  is repeated, and \<open>n\<close> backends make \<open>n (n - 1) / 2\<close> of them. \<open>hardware\<close> is the usable hypervisor,
  KVM first, and \<open>None\<close> exactly when there is none.
\<close>

theorem backend_pairs_once:
  "((a, b) \<in> set (backend_pairs cfg k w) \<or> (b, a) \<in> set (backend_pairs cfg k w) \<longleftrightarrow>
      a \<noteq> b \<and> a \<in> set (available cfg k w) \<and> b \<in> set (available cfg k w)) \<and>
   \<not> ((a, b) \<in> set (backend_pairs cfg k w) \<and> (b, a) \<in> set (backend_pairs cfg k w)) \<and>
   distinct (backend_pairs cfg k w) \<and>
   2 * length (backend_pairs cfg k w) = length (available cfg k w) * (length (available cfg k w) - 1) \<and>
   (a \<in> set (available cfg k w) \<longleftrightarrow> compiled_in cfg a \<and> \<not> (a = Kvm \<and> \<not> k) \<and> \<not> (a = Whp \<and> \<not> w)) \<and>
   hardware_backend cfg k w =
     (if Kvm \<in> set (available cfg k w) then Some Kvm else if Whp \<in> set (available cfg k w) then Some Whp else None)"
proof (intro conjI)
  let ?all = "available cfg k w"

  show "(a, b) \<in> set (backend_pairs cfg k w) \<or> (b, a) \<in> set (backend_pairs cfg k w) \<longleftrightarrow>
      a \<noteq> b \<and> a \<in> set ?all \<and> b \<in> set ?all"
    unfolding backend_pairs_def by (rule pair_orders(1) [OF distinct_available])
  show "\<not> ((a, b) \<in> set (backend_pairs cfg k w) \<and> (b, a) \<in> set (backend_pairs cfg k w))"
    unfolding backend_pairs_def by (rule pair_orders(2) [OF distinct_available])
  show "distinct (backend_pairs cfg k w)"
    unfolding backend_pairs_def by (rule distinct_pairs_of [OF distinct_available])
  show "2 * length (backend_pairs cfg k w) = length ?all * (length ?all - 1)"
    by (simp add: backend_pairs_def length_pairs_of)
  show "a \<in> set ?all \<longleftrightarrow> compiled_in cfg a \<and> \<not> (a = Kvm \<and> \<not> k) \<and> \<not> (a = Whp \<and> \<not> w)"
    by (auto simp: set_available)
  show "hardware_backend cfg k w =
     (if Kvm \<in> set ?all then Some Kvm else if Whp \<in> set ?all then Some Whp else None)"
    by (simp add: hardware_backend_def available_def)
qed

section \<open>Witnesses\<close>

text \<open>The four simulated backends; a Sail model in a state the simulated Bochs core cannot hold, as
  that one clears the trap flag.\<close>

definition demo_backends :: "(sim_sail_model, sim_core, sim_vcpu, sim_world) backends" where
  "demo_backends = \<lparr>be_sail = sim_sail, be_bochs = sim_bochs, be_kvm = sim_api, be_whp = sim_whp\<rparr>"

definition demo_guest :: "(sim_vcpu, sim_world) any_guest" where
  "demo_guest = \<lparr>ag_sail_flags = (\<lambda>v. v), ag_bochs_flags = sim_flags, ag_live = sim_live avx512_layout,
     ag_accepts = sim_accepts, ag_layout = avx512_layout, ag_whp = sim_guest\<rparr>"

definition demo_source :: "(sim_sail_model, sim_core, sim_vcpu, sim_world) any_oracle" where
  "demo_source = AnySail ((sim_sail_new [])\<lparr>sm_rip := 7, sm_flags := 0x102\<rparr>)"

definition demo_target :: "(sim_sail_model, sim_core, sim_vcpu, sim_world) any_oracle" where
  "demo_target = AnyBochs \<lparr>bs_proc = \<lparr>bp_core = sim_core_new 4 [], bp_occupied = True\<rparr>,
     bs_self = \<lparr>bx_handle = 1, bx_last_fault = None\<rparr>\<rparr>"

lemma demo_ok: "any_ok demo_backends demo_guest demo_source" "any_ok demo_backends demo_guest demo_target"
  by (simp_all add: demo_backends_def demo_guest_def demo_source_def demo_target_def sim_sail_ok sim_bochs_ok)




end
