(* ===== verification/Bochs_Properties.thy ===== *)
theory Bochs_Properties
  imports Bochs_Contract
begin

text \<open>
  What the Bochs backend guarantees: one owner of the CPU at a time, no lost wake-up, what a
  failed construction does to the flag, and fault reports that agree with the hardware backends'.
\<close>

text \<open>
  C23: the CPU has at most one user. In every reachable state of any number of concurrent \<open>new\<close>,
  \<open>try_new\<close> and \<open>drop\<close> calls and uses, the flag is set exactly while some call holds it, at most
  one call holds it, and a call that has claimed it finds no live core: its \<open>init\<close> is never
  refused with a null handle.
\<close>

theorem bochs_one_owner:
  assumes "bochs_reachable api alive c0 s" and "bochs_alive_law api alive" and "\<not> alive c0"
  shows "(bp_occupied (sy_proc s) \<longleftrightarrow> (\<exists>i. holds_flag (sy_calls s i))) \<and>
    (holds_flag (sy_calls s i) \<and> holds_flag (sy_calls s j) \<longrightarrow> i = j) \<and>
    (sy_calls s i = Claimed \<longrightarrow> fst (bochs_init api (bp_core (sy_proc s))) \<noteq> Some None)"
proof -
  note inv = reachable_bochs_inv [OF assms]
  have "fst (bochs_init api (bp_core (sy_proc s))) \<noteq> Some None" if "sy_calls s i = Claimed"
  proof
    assume "fst (bochs_init api (bp_core (sy_proc s))) = Some None"
    then have "alive (bp_core (sy_proc s))" using init_alive(2) [OF assms(2) prod.collapse [symmetric]] by blast
    then obtain j where "sy_calls s j = Stuck \<or> (\<exists>x. sy_calls s j = Owner x)"
      using bochs_invD(3) [OF inv] by blast
    with bochs_invD(2) [OF inv, of i j] that show False by auto
  qed
  then show ?thesis using bochs_invD(1,2) [OF inv] by blast
qed

text \<open>A system in which call 0 has claimed the CPU.\<close>

lemma sim_claimed:
  "bochs_reachable sim_bochs sc_alive (sim_core_new mode script)
     \<lparr>sy_proc = \<lparr>bp_core = sim_core_new mode script, bp_occupied = True\<rparr>, sy_calls = (\<lambda>_. Idle)(0 := Claimed)\<rparr>"
  by (rule bochs_reachable.event [OF bochs_reachable.start], rule bochs_event.Enter [of _ 0])
     (simp_all add: claim_enter_def act_on_claim_def set_call_def)

theorem bochs_one_owner_witness:
  "fst (bochs_init sim_bochs (sim_core_new 4 [])) \<noteq> Some None"
  using bochs_one_owner [OF sim_claimed sim_alive_law sim_core_dead, where i = 0 and j = 0] by simp

text \<open>
  C24: no wake-up is lost. Whenever the CPU is free while a call waits for it, some call has been
  woken, and its next step claims the CPU, also if its time limit has passed; and a wait is given
  up only while the CPU is taken.
\<close>

theorem bochs_no_lost_wakeup:
  assumes "bochs_reachable api alive c0 s" and "bochs_alive_law api alive" and "\<not> alive c0"
    and "sy_calls s i = Waiting"
  shows "(\<not> bp_occupied (sy_proc s) \<longrightarrow> (\<exists>j. sy_calls s j = Woken \<and>
      (\<forall>timed_out. \<exists>s'. bochs_event api s s' \<and> s' = act_on_claim j (claim_resume timed_out False) s \<and>
         sy_calls s' j = Claimed \<and> bp_occupied (sy_proc s')))) \<and>
    (claim_resume timed_out (bp_occupied (sy_proc s)) = Timed_out \<longrightarrow> timed_out \<and> bp_occupied (sy_proc s))"
proof -
  note inv = reachable_bochs_inv [OF assms(1-3)]
  have "\<exists>s'. bochs_event api s s' \<and> s' = act_on_claim j (claim_resume t False) s \<and>
      sy_calls s' j = Claimed \<and> bp_occupied (sy_proc s')"
    if "\<not> bp_occupied (sy_proc s)" "sy_calls s j = Woken" for j t
    using that bochs_event.Resume [of s j _ t api]
    by (intro exI [of _ "act_on_claim j (claim_resume t False) s"])
       (simp add: claim_resume_def claim_enter_def act_on_claim_def)
  with bochs_invD(4) [OF inv _ assms(4)] show ?thesis
    by (auto simp: claim_resume_def claim_enter_def split: if_splits)
qed

text \<open>The witness: call 1 waits while call 0 owns the CPU; call 0 drops it.\<close>

definition sim_handover :: "sim_core bochs_system" where
  "sim_handover =
     \<lparr>sy_proc = \<lparr>bp_core = sim_core_new 4 [], bp_occupied = False\<rparr>,
      sy_calls = (\<lambda>_. Idle)(0 := Idle, 1 := Woken, 2 := Waiting)\<rparr>"

lemma sim_handover_reachable: "bochs_reachable sim_bochs sc_alive (sim_core_new 4 []) sim_handover"
proof -
  let ?c = "sim_core_new 4 []" and ?a = "(sim_core_new 4 [])\<lparr>sc_alive := True\<rparr>"
  let ?x = "\<lparr>bx_handle = 1, bx_last_fault = None\<rparr>"
  let ?sys = "\<lambda>c occ calls. \<lparr>sy_proc = \<lparr>bp_core = c, bp_occupied = occ\<rparr>, sy_calls = calls\<rparr>"
  have r: "bochs_reachable sim_bochs sc_alive ?c (?sys ?a True ((\<lambda>_. Idle)(0 := Owner ?x)))"
    by (rule bochs_reachable.event [OF sim_claimed], rule bochs_event.Init_ok [where i = 0 and x = ?x and c = ?a])
       (simp_all add: bochs_init_def sim_bochs_def sim_core_new_def MODE_LONG_64_def set_call_def)
  have r: "bochs_reachable sim_bochs sc_alive ?c (?sys ?a True ((\<lambda>_. Idle)(0 := Owner ?x, 1 := Waiting)))"
    by (rule bochs_reachable.event [OF r], rule bochs_event.Enter [of _ 1])
       (simp_all add: claim_enter_def act_on_claim_def set_call_def)
  have r: "bochs_reachable sim_bochs sc_alive ?c (?sys ?a True ((\<lambda>_. Idle)(0 := Owner ?x, 1 := Waiting, 2 := Waiting)))"
    by (rule bochs_reachable.event [OF r], rule bochs_event.Enter [of _ 2])
       (simp_all add: claim_enter_def act_on_claim_def set_call_def)
  have r: "bochs_reachable sim_bochs sc_alive ?c (?sys ?c True ((\<lambda>_. Idle)(0 := Freed, 1 := Waiting, 2 := Waiting)))"
    by (rule bochs_reachable.event [OF r], rule bochs_event.Drop_core [where i = 0 and x = ?x])
       (simp_all add: bochs_free_def sim_bochs_def sim_core_new_def set_call_def fun_upd_twist)
  have calls: "((\<lambda>_ :: nat. Idle)(0 := Freed, 1 := Waiting, 2 := Waiting))(0 := Idle, 1 := Woken) =
      (\<lambda>_ :: nat. Idle)(0 := Idle, 1 := Woken, 2 := Waiting)"
    by (auto simp: fun_eq_iff)
  show ?thesis
    by (rule bochs_reachable.event [OF r], rule bochs_event.Drop_flag [where i = 0])
       (use notify_one.wake [of "((\<lambda>_. Idle)(0 := Freed, 1 := Waiting, 2 := Waiting))(0 := Idle)" 1] calls
         in \<open>simp_all add: sim_handover_def release_instance_def\<close>)
qed

theorem bochs_no_lost_wakeup_witness:
  "\<exists>j s'. sy_calls sim_handover j = Woken \<and> bochs_event sim_bochs sim_handover s' \<and> sy_calls s' j = Claimed"
proof -
  have "sy_calls sim_handover 2 = Waiting" and free: "\<not> bp_occupied (sy_proc sim_handover)"
    by (simp_all add: sim_handover_def)
  from bochs_no_lost_wakeup [OF sim_handover_reachable sim_alive_law sim_core_dead this(1)] free
  show ?thesis by blast
qed

lemma bochs_one_holder_dead:
  assumes "bochs_inv alive s" and "sy_calls s i = Claimed"
  shows "\<not> alive (bp_core (sy_proc s))"
proof
  assume "alive (bp_core (sy_proc s))"
  then obtain j where "sy_calls s j = Stuck \<or> (\<exists>x. sy_calls s j = Owner x)"
    using bochs_invD(3) [OF assms(1)] by blast
  with bochs_invD(2) [OF assms(1), of i j] assms(2) show False by auto
qed

lemma event_keeps_stuck: "bochs_event api s t \<Longrightarrow> sy_calls s i = Stuck \<Longrightarrow> sy_calls t i = Stuck"
  by (auto elim!: bochs_eventE notify_oneE simp: act_on_claim_def split: claim_decision.splits if_splits)

lemma use_keeps_stuck: "bochs_use api alive s t \<Longrightarrow> sy_calls s i = Stuck \<Longrightarrow> sy_calls t i = Stuck"
  by (auto elim!: bochs_useE)

lemma stuck_holds:
  assumes "sy_calls t i = Stuck \<and> bochs_reachable api alive c0 t" and "bochs_alive_law api alive" and "\<not> alive c0"
  shows "sy_calls t i = Stuck \<and> bp_occupied (sy_proc t) \<and> (\<forall>j. j \<noteq> i \<longrightarrow> \<not> holds_flag (sy_calls t j)) \<and>
      bochs_try_new api (sy_proc t) = (Some None, sy_proc t) \<and>
      claim_resume timed_out (bp_occupied (sy_proc t)) = (if timed_out then Timed_out else Wait_released)"
proof -
  have inv: "bochs_inv alive t" using reachable_bochs_inv [OF _ assms(2,3)] assms(1) by blast
  have h: "holds_flag (sy_calls t i)" using assms(1) by simp
  then have "bp_occupied (sy_proc t)" using bochs_invD(1) [OF inv] by blast
  with h assms(1) bochs_invD(2) [OF inv _ h] show ?thesis
    by (auto simp: bochs_try_new_def try_claim_instance_def claim_resume_def claim_enter_def)
qed

text \<open>
  C25: a construction that finds the core in the wrong mode takes the CPU away for good. The mode
  assertion of \<open>init\<close> panics with the flag set and the core alive, and nothing gives them back:
  from then on, whatever the other calls do, no call ever holds the CPU again, every \<open>try_new\<close>
  returns \<open>None\<close>, and every \<open>new\<close> waits out its time limit.
\<close>

theorem bochs_failed_check_wedges:
  assumes "bochs_reachable api alive c0 s" and "bochs_alive_law api alive" and "\<not> alive c0"
    and "sy_calls s i = Claimed" and "snd (ba_new api (bp_core (sy_proc s))) = c"
    and "ba_cpu_mode api c \<noteq> MODE_LONG_64"
  shows "\<exists>s'. bochs_event api s s' \<and> sy_calls s' i = Stuck \<and>
    (\<forall>t. (\<lambda>u v. bochs_event api u v \<or> bochs_use api alive u v)\<^sup>*\<^sup>* s' t \<longrightarrow>
       sy_calls t i = Stuck \<and> bp_occupied (sy_proc t) \<and> (\<forall>j. j \<noteq> i \<longrightarrow> \<not> holds_flag (sy_calls t j)) \<and>
       bochs_try_new api (sy_proc t) = (Some None, sy_proc t) \<and>
       claim_resume timed_out (bp_occupied (sy_proc t)) = (if timed_out then Timed_out else Wait_released))"
proof -
  have dead: "\<not> alive (bp_core (sy_proc s))"
    using bochs_one_holder_dead [OF reachable_bochs_inv [OF assms(1-3)] assms(4)] .
  obtain h where h: "ba_new api (bp_core (sy_proc s)) = (h, c)" using assms(5) by (metis prod.collapse)
  have "bochs_init api (bp_core (sy_proc s)) = (None, c)"
    using h assms(6) dead alive_law(1) [OF assms(2) h] by (simp add: bochs_init_def)
  note panicked = bochs_event.Init_panic [OF assms(4) this refl]
  obtain s' where s': "bochs_event api s s'" "sy_calls s' i = Stuck" by (rule that [OF panicked]) simp
  have r': "bochs_reachable api alive c0 s'" by (rule bochs_reachable.event [OF assms(1) s'(1)])
  have "sy_calls t i = Stuck \<and> bochs_reachable api alive c0 t"
    if "(\<lambda>u v. bochs_event api u v \<or> bochs_use api alive u v)\<^sup>*\<^sup>* s' t" for t
    using that
  proof induction
    case (step u v)
    from step.IH have u: "sy_calls u i = Stuck" "bochs_reachable api alive c0 u" by simp_all
    from step.hyps(2) show ?case
    proof
      assume e: "bochs_event api u v"
      show ?case
        using event_keeps_stuck [OF e u(1)] bochs_reachable.event [OF u(2) e] by (rule conjI)
    next
      assume e: "bochs_use api alive u v"
      show ?case
        using use_keeps_stuck [OF e u(1)] bochs_reachable.use [OF u(2) e] by (rule conjI)
    qed
  qed (use s'(2) r' in simp)
  note stays = stuck_holds [OF this assms(2,3)]
  show ?thesis
    by (rule exI [of _ s'], rule conjI, fact s'(1), rule conjI, fact s'(2), intro allI impI) (rule stays)
qed

theorem bochs_failed_check_wedges_witness:
  "\<exists>s'. bochs_event sim_bochs
       \<lparr>sy_proc = \<lparr>bp_core = sim_core_new 2 [], bp_occupied = True\<rparr>, sy_calls = (\<lambda>_. Idle)(0 := Claimed)\<rparr> s' \<and>
     bochs_try_new sim_bochs (sy_proc s') = (Some None, sy_proc s')"
proof -
  let ?s = "\<lparr>sy_proc = \<lparr>bp_core = sim_core_new 2 [], bp_occupied = True\<rparr>, sy_calls = (\<lambda>_. Idle)(0 := Claimed)\<rparr>"
  let ?c = "(sim_core_new 2 [])\<lparr>sc_alive := True\<rparr>"
  have s: "sy_calls ?s 0 = Claimed" "snd (ba_new sim_bochs (bp_core (sy_proc ?s))) = ?c"
    "ba_cpu_mode sim_bochs ?c \<noteq> MODE_LONG_64"
    by (simp_all add: sim_bochs_def sim_core_new_def MODE_LONG_64_def)
  show ?thesis
    using bochs_failed_check_wedges [OF sim_claimed sim_alive_law sim_core_dead s] by blast
qed

text \<open>
  What a Bochs \<open>step\<close> reports. It always returns a comparable outcome that is never a
  \<open>Syscall\<close>: statuses 0 and 2 (a retired instruction, a HLT) are retirements and clear the fault,
  any other is a fault of the vector's kind; the message is the one \<open>fault_msg\<close> gives, always, and
  the vector and error code the core reported are the ones recorded.
\<close>

theorem bochs_step_reports:
  assumes "ba_step api 0 0 (core s) = (status, vector, error, c)"
  shows "\<exists>oc s'. bochs_step api s = Some (oc, s') \<and> is_comparable oc \<and> core s' = c \<and>
    (if status = 0 \<or> status = 2
     then oc = Retired \<and> bochs_fault_msg s' = '''' \<and> bochs_last_vector s' = None
     else oc = Fault (bochs_classify vector) (bochs_fault_msg s') \<and> bochs_fault_msg s' \<noteq> '''' \<and>
       bochs_last_vector s' = Some vector \<and> bochs_last_error_code s' = Some error)"
proof -
  have "bochs_classify vector \<noteq> Unimplemented" by (simp add: bochs_classify_def)
  then have "is_comparable (Fault (bochs_classify vector) msg)" for msg
    by (simp add: is_comparable_iff is_architectural_def)
  moreover have "bochs_fault_msg (bochs_set_fault (Some (vector, error)) s) \<noteq> ''''" for s :: "'a bochs_state"
    by (simp add: bochs_fault_msg_def bochs_set_fault_def)
  ultimately show ?thesis
    using assms
    by (auto simp: bochs_step_def Let_def is_comparable_iff bochs_last_vector_def bochs_last_error_code_def
        bochs_set_fault_def bochs_fault_msg_def)
qed

text \<open>
  C26: Bochs and the hardware backends describe the same fault alike. For every vector the two
  classifications and the two names agree; the messages agree exactly when an error code is
  printed by both or by neither, that is, except for a vector that pushes one when it is zero
  (Bochs leaves it out) and a nonzero one for a vector that pushes none.
\<close>

theorem bochs_agrees_with_hardware:
  assumes "bx_last_fault (bs_self s) = Some (ucast (v :: u8), e)"
  shows "bochs_classify (ucast v) = classify v \<and> bochs_vector_name (ucast v) = vector_name v \<and>
    (bochs_fault_msg s = fault_message v (ucast e) \<longleftrightarrow> (has_error_code v \<longleftrightarrow> e \<noteq> 0))"
proof -
  have "unat v < 256" using unsigned_less [of v] by simp
  then have v: "unat (ucast v :: u32) = unat v" by (simp add: unsigned_ucast_eq take_bit_nat_eq_self)
  have u: "(ucast v :: u32) = of_nat n \<longleftrightarrow> v = of_nat n" if "n < 256" for n
    using that by (simp add: word_unat_eq_iff v unsigned_of_nat take_bit_nat_eq_self)
  have eqs: "(ucast v :: u32) = 0 \<longleftrightarrow> v = 0" "(ucast v :: u32) = 1 \<longleftrightarrow> v = 1" "(ucast v :: u32) = 3 \<longleftrightarrow> v = 3"
    "(ucast v :: u32) = 4 \<longleftrightarrow> v = 4" "(ucast v :: u32) = 5 \<longleftrightarrow> v = 5" "(ucast v :: u32) = 6 \<longleftrightarrow> v = 6"
    "(ucast v :: u32) = 7 \<longleftrightarrow> v = 7" "(ucast v :: u32) = 8 \<longleftrightarrow> v = 8" "(ucast v :: u32) = 10 \<longleftrightarrow> v = 10"
    "(ucast v :: u32) = 11 \<longleftrightarrow> v = 11" "(ucast v :: u32) = 12 \<longleftrightarrow> v = 12" "(ucast v :: u32) = 13 \<longleftrightarrow> v = 13"
    "(ucast v :: u32) = 14 \<longleftrightarrow> v = 14" "(ucast v :: u32) = 16 \<longleftrightarrow> v = 16" "(ucast v :: u32) = 17 \<longleftrightarrow> v = 17"
    "(ucast v :: u32) = 18 \<longleftrightarrow> v = 18" "(ucast v :: u32) = 19 \<longleftrightarrow> v = 19" "(ucast v :: u32) = 21 \<longleftrightarrow> v = 21"
    using u [of 0] u [of 1] u [of 3] u [of 4] u [of 5] u [of 6] u [of 7] u [of 8] u [of 10] u [of 11] u [of 12]
      u [of 13] u [of 14] u [of 16] u [of 17] u [of 18] u [of 19] u [of 21] by simp_all
  have name: "bochs_vector_name (ucast v) = vector_name v"
    by (simp only: bochs_vector_name_def vector_name_def eqs)
  have "unat e < 2 ^ 32" using unsigned_less [of e] by simp
  then have "unat (ucast e :: u64) = unat e" by (simp add: unsigned_ucast_eq take_bit_nat_eq_self)
  with v have "bochs_fault_msg s = fault_message v (ucast e) \<longleftrightarrow> (has_error_code v \<longleftrightarrow> e \<noteq> 0)"
    using assms by (simp add: bochs_fault_msg_def fault_message_def name)
  moreover have "bochs_classify (ucast v) = classify v"
    by (simp only: bochs_classify_def classify_def eqs)
  ultimately show ?thesis using name by blast
qed

theorem bochs_agrees_with_hardware_witness:
  "bochs_fault_msg \<lparr>bs_proc = \<lparr>bp_core = sim_core_new 4 [], bp_occupied = True\<rparr>,
     bs_self = \<lparr>bx_handle = 1, bx_last_fault = Some (13, 0)\<rparr>\<rparr> \<noteq> fault_message 13 0"
  using bochs_agrees_with_hardware [of "\<lparr>bs_proc = \<lparr>bp_core = sim_core_new 4 [], bp_occupied = True\<rparr>,
     bs_self = \<lparr>bx_handle = 1, bx_last_fault = Some (13, 0)\<rparr>\<rparr>" 13 0]
  by (simp add: has_error_code_def)

end
