(* ===== verification/Whp_Properties.thy ===== *)
theory Whp_Properties
  imports Whp_Sim
begin

text \<open>
  What the WHP backend guarantees: the truth of the mapping slot in every reachable state of a
  process, oracles taking turns, construction that cleans up or resets, the agreement of the
  two ways to see an exception, and a step that always comes back.
\<close>

section \<open>A working platform\<close>

text \<open>
  What \<open>try_new\<close> meets on a working host: every call on a new partition succeeds, a created vCPU
  serves register calls with paging off, and mapping memory changes no register. \<open>fresh\<close> holds
  of a partition until its vCPU exists.
\<close>

definition whp_fresh_law :: "'w whp_api \<Rightarrow> 'w whp_guest \<Rightarrow> (whp_handle \<Rightarrow> 'w \<Rightarrow> bool) \<Rightarrow> bool" where
  "whp_fresh_law api G fresh \<longleftrightarrow>
     (\<forall>w. hypervisor_present api w) \<and>
     (\<forall>w. case wa_create_partition api w of (hr, h, w') \<Rightarrow> hr_ok hr \<and> fresh h w') \<and>
     (\<forall>h c v w. fresh h w \<longrightarrow> (case wa_set_property api h c v w of (hr, w') \<Rightarrow> hr_ok hr \<and> fresh h w')) \<and>
     (\<forall>h w. fresh h w \<longrightarrow> (case wa_setup_partition api h w of (hr, w') \<Rightarrow> hr_ok hr \<and> fresh h w')) \<and>
     (\<forall>h w. fresh h w \<longrightarrow> (case wa_create_vp api h w of (hr, w') \<Rightarrow>
        hr_ok hr \<and> wh_live G h w' \<and> \<not> paging (reg_in api h w'))) \<and>
     (\<forall>h k w. reg_in api h (snd (wa_map_gpa_range api k 0 RAM_SIZE w)) = reg_in api h w) \<and>
     (\<forall>h k w. reg_in api h (snd (wa_unmap_gpa_range api k 0 RAM_SIZE w)) = reg_in api h w)"

lemma fresh_law_calls:
  assumes "whp_fresh_law api G fresh"
  shows "hypervisor_present api w"
    and "wa_create_partition api w = (hr, h, w') \<Longrightarrow> hr_ok hr \<and> fresh h w'"
    and "fresh h w \<Longrightarrow> wa_set_property api h c v w = (hr, w') \<Longrightarrow> hr_ok hr \<and> fresh h w'"
    and "fresh h w \<Longrightarrow> wa_setup_partition api h w = (hr, w') \<Longrightarrow> hr_ok hr \<and> fresh h w'"
    and "fresh h w \<Longrightarrow> wa_create_vp api h w = (hr, w') \<Longrightarrow> hr_ok hr \<and> wh_live G h w' \<and> \<not> paging (reg_in api h w')"
proof -
  note law = assms [unfolded whp_fresh_law_def]
  show "hypervisor_present api w"
    by (rule law [THEN conjunct1, rule_format])
  show "wa_create_partition api w = (hr, h, w') \<Longrightarrow> hr_ok hr \<and> fresh h w'"
    using law [THEN conjunct2, THEN conjunct1, rule_format, of w] by simp
  show "fresh h w \<Longrightarrow> wa_set_property api h c v w = (hr, w') \<Longrightarrow> hr_ok hr \<and> fresh h w'"
    using law [THEN conjunct2, THEN conjunct2, THEN conjunct1, rule_format, of h w c v] by simp
  show "fresh h w \<Longrightarrow> wa_setup_partition api h w = (hr, w') \<Longrightarrow> hr_ok hr \<and> fresh h w'"
    using law [THEN conjunct2, THEN conjunct2, THEN conjunct2, THEN conjunct1, rule_format, of h w] by simp
  show "fresh h w \<Longrightarrow> wa_create_vp api h w = (hr, w') \<Longrightarrow> hr_ok hr \<and> wh_live G h w' \<and> \<not> paging (reg_in api h w')"
    using law [THEN conjunct2, THEN conjunct2, THEN conjunct2, THEN conjunct2, THEN conjunct1, rule_format, of h w] by simp
qed

lemma fresh_set_property:
  assumes "whp_fresh_law api G fresh" and "fresh h w" and "set_property api h c v w = (r, w')"
  shows "r = Inr () \<and> fresh h w'"
  using assms(3) fresh_law_calls(3) [OF assms(1,2)]
  by (auto simp: set_property_def check_def split: prod.splits)

lemma fresh_copy_capability:
  assumes "whp_fresh_law api G fresh" and "fresh h w"
  shows "fresh h (copy_capability api h c q w)"
proof (cases "capability_u64 api c w")
  case (Some v)
  then show ?thesis
    using fresh_set_property [OF assms prod.collapse [symmetric], of q v] by (simp add: copy_capability_def)
qed (use assms(2) in \<open>simp add: copy_capability_def\<close>)

lemma fresh_exception_exits:
  assumes "whp_fresh_law api G fresh" and "fresh h w" and "enable_exception_exits api h w = (b, w')"
  shows "fresh h w'"
proof -
  have keeps: "fresh h (snd (set_property api h c v u))" if "fresh h u" for c v u
    using fresh_set_property [OF assms(1) that prod.collapse [symmetric]] by blast
  show ?thesis
    using assms(2,3) keeps
    by (simp add: enable_exception_exits_def Let_def case_prod_beta split: if_splits)
      (safe, simp_all add: keeps)
qed

lemma fresh_setup:
  assumes "whp_fresh_law api G fresh" and "fresh h w" and "setup_with_fallback api h w = (hr, b, w')"
  shows "hr_ok hr \<and> fresh h w'"
proof -
  obtain b1 w1 where e: "enable_exception_exits api h w = (b1, w1)" by (metis surj_pair)
  obtain hr2 w2 where s: "wa_setup_partition api h w1 = (hr2, w2)" by (metis surj_pair)
  have "hr_ok hr2 \<and> fresh h w2"
    by (rule fresh_law_calls(4) [OF assms(1) fresh_exception_exits [OF assms(1,2) e] s])
  with assms(3) e s show ?thesis by (auto simp: setup_with_fallback_def Let_def)
qed

lemma claim_regs:
  assumes "whp_fresh_law api G fresh" and "claim_mapping api h p = (r, p')"
  shows "reg_in api k (wp_world p') = reg_in api k (wp_world p)"
proof -
  have law: "reg_in api k (snd (wa_map_gpa_range api j 0 RAM_SIZE w)) = reg_in api k w"
    "reg_in api k (snd (wa_unmap_gpa_range api j 0 RAM_SIZE w)) = reg_in api k w" for j w
    using assms(1) unfolding whp_fresh_law_def by blast+
  obtain r1 p1 where r1: "release_previous api p = (r1, p1)" by (metis surj_pair)
  have "reg_in api k (wp_world p1) = reg_in api k (wp_world p)"
    using r1 law(2) by (auto simp: release_previous_def split: option.splits prod.splits sum.splits) (metis snd_conv)+
  moreover have "reg_in api k (wp_world p') = reg_in api k (wp_world p1) \<or> p' = p"
    using assms(2) r1 law(1)
    by (auto simp: claim_mapping_def split: if_splits prod.splits sum.splits) (metis snd_conv)+
  ultimately show ?thesis by auto
qed

lemma whp_build_works:
  assumes fresh: "whp_fresh_law api G fresh" "fresh h (wp_world p)"
    and slot: "whp_laws api m a" "whp_serves api m a" "slot_inv m a p" "h \<in> a (wp_world p)"
    and guest: "whp_guest_laws api G" "whp_run_law api G" "whp_boot_law api G hc gc xcomp"
    and alloc: "host_alloc (unat RAM_SIZE) = Inr ()"
  shows "\<exists>x p'. whp_build prof api host_alloc hc h p = Some (Inr x, p') \<and>
    whp_ok api G \<lparr>ws_proc = p', ws_self = x\<rparr> \<and>
    whp_view api G \<lparr>ws_proc = p', ws_self = x\<rparr> = default_cpu_state\<lparr>cs_rflags := 2\<rparr> \<and>
    long_mode_regs (reg_in api h (wp_world p')) \<and> wo_handle x = h \<and>
    wo_ram x = build_control_structures (ram_new (unat RAM_SIZE)) \<and> wo_touched x = {} \<and> wo_last_fault x = None"
proof -
  have laws: "whp_slot_law api m a" "whp_quiet_law api m a" using slot(1) by (simp_all add: whp_laws_def)
  obtain r1 w1 where w1: "set_property api h PropProcessorCount 1 (wp_world p) = (r1, w1)" by (metis surj_pair)
  have f1: "r1 = Inr ()" "fresh h w1" using fresh_set_property [OF fresh w1] by simp_all
  let ?w2 = "copy_capability api h CapXsaveFeatures PropXsaveFeatures
    (copy_capability api h CapProcessorFeatures PropProcessorFeatures w1)"
  have f2: "fresh h ?w2" by (intro fresh_copy_capability [OF fresh(1)] f1)
  obtain hr3 b w3 where w3: "setup_with_fallback api h ?w2 = (hr3, b, w3)" by (metis surj_pair)
  have f3: "hr_ok hr3" "fresh h w3" using fresh_setup [OF fresh(1) f2 w3] by simp_all
  obtain hr4 w4 where w4: "wa_create_vp api h w3 = (hr4, w4)" by (metis surj_pair)
  have f4: "hr_ok hr4" "wh_live G h w4" "\<not> paging (reg_in api h w4)"
    using fresh_law_calls(5) [OF fresh(1) f3(2) w4] by simp_all
  have "same_world m a (wp_world p) w1" by (rule set_property_world [OF laws(2) w1])
  also have "same_world m a w1 ?w2" by (rule same_world_trans) (rule copy_capability_world [OF laws(2)])+
  also have "same_world m a ?w2 w3" by (rule setup_world [OF laws(2) w3])
  also have "same_world m a w3 w4" using quiet_law_calls(2) [OF laws(2), of w3 h] w4 by simp
  finally have q4: "same_world m a (wp_world p) w4" .
  let ?p4 = "p\<lparr>wp_world := w4\<rparr>"
  have p4: "slot_inv m a ?p4" "h \<in> a (wp_world ?p4)"
    using q4 slot(3,4) by (simp_all add: slot_inv_def same_world_def)
  obtain p5 where p5: "claim_mapping api h ?p4 = (Inr (), p5)"
    using claim_served [OF slot(2) laws(1) p4] by blast
  let ?ram = "build_control_structures (ram_new (unat RAM_SIZE))"
  let ?x = "\<lparr>wo_handle = h, wo_ram = ?ram, wo_xsave = probe hc 0 0, wo_xsave_capacity = 0,
    wo_exception_intercept = b, wo_last_fault = None, wo_touched = {}\<rparr>"
  let ?y = "?x\<lparr>wo_xsave := wh_layout G, wo_xsave_capacity := wh_capacity G\<rparr>"
  have ram: "ram_ok ?ram" "ram_len ?ram = unat RAM_SIZE"
    using build_vectors_intact by (simp_all add: vectors_intact_def)
  have "whp_ok api G \<lparr>ws_proc = ?p4, ws_self = ?y\<rparr>"
    using guest(1) f4(2) ram by (simp add: whp_ok_def)
  from whp_claim_ok [OF this guest(2), of "Inr ()" p5] p5
  have ok5: "whp_ok api G \<lparr>ws_proc = p5, ws_self = ?y\<rparr>" by simp
  have serving: "whp_serving api G \<lparr>ws_proc = p5, ws_self = ?x\<rparr>"
    using ok5 by (simp add: whp_ok_def whp_serving_def)
  have np: "\<not> paging (whp_regs api \<lparr>ws_proc = p5, ws_self = ?x\<rparr>)"
    using f4(3) claim_regs [OF fresh(1) p5, of h] by (simp add: whp_regs_def)
  obtain t where t: "whp_enter_long_mode prof api hc \<lparr>ws_proc = p5, ws_self = ?x\<rparr> = Some (Inr (), t)"
    "whp_ok api G t" "whp_view api G t = default_cpu_state\<lparr>cs_rflags := 2\<rparr>" "long_mode_regs (whp_regs api t)"
    "ws_self t = ?y"
    using whp_long_mode [OF guest(3) serving np, of prof] ram by auto
  obtain q where q: "t = \<lparr>ws_proc = q, ws_self = ?y\<rparr>" using t(5) by (cases t) simp
  have built: "whp_build prof api host_alloc hc h p = Some (Inr ?y, q)"
    using w1 f1(1) w3 f3(1) w4 f4(1) p5 alloc t(1) q by (simp add: whp_build_def Let_def check_def)
  have "long_mode_regs (reg_in api h (wp_world q))" using t(4) q by (simp add: whp_regs_def)
  with built t(2,3) show ?thesis
    unfolding q by (intro exI [of _ ?y] exI [of _ q]) simp
qed

lemma try_new_works:
  assumes fresh: "whp_fresh_law api G fresh"
    and slot: "whp_laws api m a" "whp_serves api m a" "slot_inv m a p"
    and guest: "whp_guest_laws api G" "whp_run_law api G" "whp_boot_law api G hc gc xcomp"
    and alloc: "host_alloc (unat RAM_SIZE) = Inr ()"
  obtains x p' where "whp_try_new prof (Some api) host_alloc hc p = Some (Inr x, p')"
    and "whp_ok api G \<lparr>ws_proc = p', ws_self = x\<rparr>"
    and "whp_view api G \<lparr>ws_proc = p', ws_self = x\<rparr> = default_cpu_state\<lparr>cs_rflags := 2\<rparr>"
    and "long_mode_regs (whp_regs api \<lparr>ws_proc = p', ws_self = x\<rparr>)"
    and "wo_ram x = build_control_structures (ram_new (unat RAM_SIZE))" and "wo_touched x = {}" and "wo_last_fault x = None"
proof -
  have law: "whp_slot_law api m a" using slot(1) by (simp add: whp_laws_def)
  obtain hr h w where c: "wa_create_partition api (wp_world p) = (hr, h, w)" by (metis surj_pair)
  have f: "hr_ok hr" "fresh h w" using fresh_law_calls(2) [OF fresh c] by simp_all
  let ?p = "p\<lparr>wp_world := w\<rparr>"
  have s: "slot_inv m a ?p" "h \<in> a (wp_world ?p)" "fresh h (wp_world ?p)"
    using create_law [OF law c] f slot(3) by (auto simp: slot_inv_def)
  obtain x p' where x: "whp_build prof api host_alloc hc h ?p = Some (Inr x, p')" "whp_ok api G \<lparr>ws_proc = p', ws_self = x\<rparr>"
    "whp_view api G \<lparr>ws_proc = p', ws_self = x\<rparr> = default_cpu_state\<lparr>cs_rflags := 2\<rparr>"
    "long_mode_regs (reg_in api h (wp_world p'))" "wo_handle x = h"
    "wo_ram x = build_control_structures (ram_new (unat RAM_SIZE))" "wo_touched x = {}" "wo_last_fault x = None"
    using whp_build_works [where fresh = fresh and p = ?p and h = h and m = m and a = a and host_alloc = host_alloc and api = api and G = G, OF fresh s(3) slot(1,2) s(1,2) guest alloc] by blast
  show thesis
  proof (rule that [of x p'])
    show "whp_try_new prof (Some api) host_alloc hc p = Some (Inr x, p')"
      using c f(1) x(1) fresh_law_calls(1) [OF fresh] by (simp add: whp_try_new_def check_def)
    show "long_mode_regs (whp_regs api \<lparr>ws_proc = p', ws_self = x\<rparr>)"
      using x(4,5) by (simp add: whp_regs_def)
  qed (fact x)+
qed

section \<open>The simulated platform works\<close>

definition sim_fresh :: "whp_handle \<Rightarrow> sim_world \<Rightarrow> bool" where
  "sim_fresh h w \<longleftrightarrow> sim_part_ok (sw_part w h) \<and> \<not> paging (sp_regs (sw_part w h))"

lemma sim_fresh_law: "whp_fresh_law sim_whp sim_guest sim_fresh"
proof -
  have part: "sim_part_ok (p\<lparr>sp_bitmap := v\<rparr>) = sim_part_ok p" for p v
    by (simp add: sim_part_ok_def)
  have new: "\<not> paging (sp_regs sim_partition_new)"
    by (simp add: paging_def sim_partition_new_def)
  show ?thesis
    unfolding whp_fresh_law_def
    by (intro conjI allI impI)
       (simp_all add: sim_fresh_def part new sim_part_ok_new sim_guest_def,
        simp_all add: sim_whp_def hypervisor_present_def sim_fresh_def part new sim_part_ok_new)
qed

definition sim_process :: "sim_world whp_process" where
  "sim_process = \<lparr>wp_world = sim_world_new, wp_owner = None\<rparr>"

lemma sim_slot_inv: "slot_inv sw_mapped sim_alive sim_process"
  by (simp add: slot_inv_def sim_process_def sim_world_new_def)

lemmas sim_platform = sim_fresh_law sim_slot_laws sim_serves sim_slot_inv sim_guest_laws sim_whp_run_law sim_boot_law

section \<open>Properties\<close>

text \<open>
  C11: the mapping slot tells the truth. In every state a process can reach by creating, stepping,
  setting and dropping WHP oracles, in any order and whatever fails on the way, guest RAM is
  mapped into exactly the partition the slot names, or into none; that partition belongs to an
  oracle still held, and every oracle held has its partition alive.
\<close>

theorem whp_slot_truth:
  assumes "whp_reachable prof api hc w0 (p, os)" and "whp_laws api mapped alive" and "mapped w0 = {}"
  shows "mapped (wp_world p) = set_option (wp_owner p) \<and> set_option (wp_owner p) \<subseteq> dom os \<and>
    dom os \<subseteq> alive (wp_world p) \<and> (os h = Some x \<longrightarrow> wo_handle x = h)"
  using reachable_inv [OF assms] by (simp add: system_inv_def slot_inv_def)

lemma sim_new_reachable:
  obtains x p where "whp_reachable prof sim_whp avx512_cpuid sim_world_new (p, [wo_handle x \<mapsto> x])"
    and "whp_ok sim_whp sim_guest \<lparr>ws_proc = p, ws_self = x\<rparr>"
proof -
  obtain x p where x: "whp_try_new prof (Some sim_whp) (\<lambda>_. Inr ()) avx512_cpuid sim_process = Some (Inr x, p)"
    "whp_ok sim_whp sim_guest \<lparr>ws_proc = p, ws_self = x\<rparr>"
    by (rule try_new_works [OF sim_platform, of "\<lambda>_. Inr ()" prof avx512_cpuid]) simp_all
  show thesis
    by (rule that [OF whp_reachable.event [OF whp_reachable.start] x(2)])
       (rule whp_event.New_ok [OF x(1) [unfolded sim_process_def]])
qed

theorem whp_slot_truth_witness:
  "\<exists>p x. whp_reachable Release sim_whp avx512_cpuid sim_world_new (p, [wo_handle x \<mapsto> x]) \<and>
     sw_mapped (wp_world p) = set_option (wp_owner p) \<and> wo_handle x \<in> sim_alive (wp_world p)"
proof -
  obtain x p where x: "whp_reachable Release sim_whp avx512_cpuid sim_world_new (p, [wo_handle x \<mapsto> x])"
    by (rule sim_new_reachable)
  from whp_slot_truth [OF this sim_slot_laws, of "wo_handle x" x] x show ?thesis
    by (auto simp: sim_world_new_def)
qed

lemma reachable_held:
  assumes "whp_reachable prof api hc w0 (p, os)" and "whp_laws api m a" and "m w0 = {}" and "os h = Some x"
  shows "slot_inv m a p" and "wo_handle x \<in> a (wp_world p)" and "wo_handle x = h"
  using reachable_inv [OF assms(1-3)] assms(4) by (auto simp: system_inv_def)

text \<open>
  C12: oracles take turns. On a platform that frees a live partition's range on request and fills
  an empty slot, in any reachable state any oracle held may step next: a release build's
  \<open>step\<close> returns, the slot and the mapping are then that oracle's, and the system is still a
  reachable one, so the next may follow.
\<close>

theorem whp_takes_turns:
  assumes "whp_reachable Release api hc w0 (p, os)" and "whp_laws api mapped alive" and "mapped w0 = {}"
    and "whp_serves api mapped alive" and "os h = Some x"
    and "whp_ok api G \<lparr>ws_proc = p, ws_self = x\<rparr>" and "whp_run_law api G"
  shows "\<exists>oc s. whp_step Release api \<lparr>ws_proc = p, ws_self = x\<rparr> = Some (oc, s) \<and>
    wp_owner (ws_proc s) = Some h \<and> mapped (world s) = {h} \<and>
    whp_reachable Release api hc w0 (ws_proc s, os(h \<mapsto> ws_self s))"
proof -
  note inv = reachable_held [OF assms(1-3,5)]
  have law: "whp_slot_law api mapped alive" using assms(2) by (simp add: whp_laws_def)
  obtain p1 where claim: "claim_mapping api (wo_handle x) p = (Inr (), p1)"
    using claim_served [OF assms(4) law inv(1,2)] by blast
  obtain oc s where step: "whp_step Release api \<lparr>ws_proc = p, ws_self = x\<rparr> = Some (oc, s)"
    using whp_step_total [OF assms(6,7)] by blast
  note slot = step_slot [OF assms(2) inv(1,2) step]
  have "wp_owner (ws_proc s) = Some h" using slot(5) [OF claim] inv(3) by simp
  moreover have "mapped (world s) = {h}" using slot(1) calculation by (simp add: slot_inv_def)
  ultimately show ?thesis
    using step whp_reachable.event [OF assms(1) whp_event.Step [where os = os and h = h, OF assms(5) step]] by blast
qed

theorem whp_takes_turns_witness:
  "\<exists>oc s. wp_owner (ws_proc s) = Some (wo_handle (ws_self s)) \<and> sw_mapped (world s) = {wo_handle (ws_self s)} \<and>
     (\<exists>s0. whp_step Release sim_whp s0 = Some (oc, s))"
proof -
  obtain x p where x: "whp_reachable Release sim_whp avx512_cpuid sim_world_new (p, [wo_handle x \<mapsto> x])"
    "whp_ok sim_whp sim_guest \<lparr>ws_proc = p, ws_self = x\<rparr>"
    by (rule sim_new_reachable)
  have empty: "sw_mapped sim_world_new = {}" by (simp add: sim_world_new_def)
  have "\<exists>oc s. whp_step Release sim_whp \<lparr>ws_proc = p, ws_self = x\<rparr> = Some (oc, s) \<and>
      wp_owner (ws_proc s) = Some (wo_handle x) \<and> sw_mapped (world s) = {wo_handle x} \<and>
      whp_reachable Release sim_whp avx512_cpuid sim_world_new (ws_proc s, [wo_handle x \<mapsto> x](wo_handle x \<mapsto> ws_self s))"
    by (rule whp_takes_turns [OF x(1) sim_slot_laws empty sim_serves _ x(2) sim_whp_run_law]) simp
  then obtain oc s where s: "whp_step Release sim_whp \<lparr>ws_proc = p, ws_self = x\<rparr> = Some (oc, s)"
    "wp_owner (ws_proc s) = Some (wo_handle x)" "sw_mapped (world s) = {wo_handle x}"
    by (elim exE conjE) (rule that)
  note held = reachable_held [OF x(1) sim_slot_laws empty, of "wo_handle x" x, simplified]
  have "wo_handle (ws_self s) = wo_handle x"
    by (rule step_slot(3) [OF sim_slot_laws held(1,2) s(1)])
  with s show ?thesis
    by (intro exI [of _ oc] exI [of _ s] conjI exI [of _ "\<lparr>ws_proc = p, ws_self = x\<rparr>"]) simp_all
qed

text \<open>
  C14: construction leaks nothing. When \<open>try_new\<close> fails, at whichever call and whatever the
  platform answered before, no partition is left behind, the slot names no new owner and the
  mapping agrees with it; when it succeeds, one new partition exists, it is the oracle's, and it
  owns the slot.
\<close>

theorem whp_try_new_cleans_up:
  assumes "whp_laws api mapped alive" and "slot_inv mapped alive p"
    and "whp_try_new prof (Some api) host_alloc hc p = Some (r, p')"
  shows "slot_inv mapped alive p' \<and>
    (case r of
       Inl e \<Rightarrow> alive (wp_world p') = alive (wp_world p) \<and> (wp_owner p' = None \<or> wp_owner p' = wp_owner p)
     | Inr x \<Rightarrow> wo_handle x \<notin> alive (wp_world p) \<and> alive (wp_world p') = insert (wo_handle x) (alive (wp_world p)) \<and>
         wp_owner p' = Some (wo_handle x))"
proof (cases r)
  case (Inl e)
  with try_new_slot(1,2) [OF assms] show ?thesis by (cases "wp_owner p"; cases "wp_owner p'") auto
next
  case (Inr x)
  with try_new_slot(1,3) [OF assms] show ?thesis by simp
qed

text \<open>The witness: the allocation of guest RAM fails, after the partition was created and set up.\<close>

theorem whp_try_new_cleans_up_witness:
  "\<exists>p'. whp_try_new Debug (Some sim_whp) (\<lambda>_. Inl ''out of memory'') avx512_cpuid sim_process =
      Some (Inl ''out of memory'', p') \<and> sim_alive (wp_world p') = {} \<and> wp_owner p' = None"
proof -
  obtain p' where p': "whp_try_new Debug (Some sim_whp) (\<lambda>_. Inl ''out of memory'') avx512_cpuid sim_process =
      Some (Inl ''out of memory'', p')"
    by (simp add: whp_try_new_def whp_build_def Let_def check_def case_prod_beta setup_with_fallback_def
        hypervisor_present_def set_property_def sim_whp_def)
  from whp_try_new_cleans_up [OF sim_slot_laws sim_slot_inv this] p' show ?thesis
    by (auto simp: sim_alive_def sim_process_def sim_world_new_def)
qed



text \<open>
  C16: in a release build \<open>step\<close> always returns, whatever the guest and the platform do: it reports
  a comparable outcome that is never a \<open>Syscall\<close> and keeps the oracle usable; a refused claim of
  the mapping is reported without running the guest, and 64 cancelled runs as no progress.
  \<open>fault_msg\<close> is empty after a retirement; after a fault it is the outcome's message exactly when
  a vector was recorded, and empty otherwise.
\<close>

theorem whp_step_returns:
  assumes "whp_ok api G s" and "whp_run_law api G"
  shows "\<exists>oc s'. whp_step Release api s = Some (oc, s') \<and> whp_ok api G s' \<and> is_comparable oc \<and>
    (oc = Retired \<and> whp_fault_msg s' = '''' \<or>
     (\<exists>k msg. oc = Fault k msg \<and> whp_fault_msg s' = (if whp_last_vector s' = None then '''' else msg))) \<and>
    (\<forall>e p. claim_mapping api (wo_handle (ws_self s)) (ws_proc s) = (Inl e, p) \<longrightarrow>
       oc = Fault OtherException (''could not map guest RAM: '' @ e) \<and> ws_proc s' = p) \<and>
    (\<forall>p hr s1 t. claim_mapping api (wo_handle (ws_self s)) (ws_proc s) = (Inr (), p) \<and>
       whp_arm_singlestep Release api (s\<lparr>ws_self := (ws_self s)\<lparr>wo_last_fault := None\<rparr>, ws_proc := p\<rparr>) = Some (hr, s1) \<and>
       hr_ok hr \<and> whp_cancelled api 64 s1 = Some t \<longrightarrow>
       oc = Fault OtherException ''WHvRunVirtualProcessor did not make progress'')"
proof -
  obtain oc s' where s': "whp_step Release api s = Some (oc, s')" "whp_ok api G s'"
    "whp_message_agrees oc s'" "is_comparable oc"
    using whp_step_total [OF assms] by blast
  have "oc = Fault OtherException (''could not map guest RAM: '' @ e) \<and> ws_proc s' = p"
    if "claim_mapping api (wo_handle (ws_self s)) (ws_proc s) = (Inl e, p)" for e p
    using s'(1) that by (auto simp: whp_step_def)
  moreover have "oc = Fault OtherException ''WHvRunVirtualProcessor did not make progress''"
    if c: "claim_mapping api (wo_handle (ws_self s)) (ws_proc s) = (Inr (), p)"
      and arm: "whp_arm_singlestep Release api (s\<lparr>ws_self := (ws_self s)\<lparr>wo_last_fault := None\<rparr>, ws_proc := p\<rparr>) = Some (hr, s1)"
      and hr: "hr_ok hr" and t: "whp_cancelled api 64 s1 = Some t" for p hr s1 t
  proof -
    have "whp_run_loop 64 Release api s1 = whp_run_loop 0 Release api t"
      using whp_loop_cancelled [OF t, of 0 Release] by simp
    then show ?thesis
      using s'(1) c arm hr by (simp add: whp_step_def del: whp_run_loop.simps(2))
  qed
  ultimately show ?thesis
    using s' by (intro exI [of _ oc] exI [of _ s'])
      (auto simp: whp_message_agrees_def split: step_outcome.splits)
qed

text \<open>An oracle of the simulated platform, with a script of exits.\<close>

definition sim_whp_state ::
    "(whp_exit \<times> (reg_file \<Rightarrow> reg_file) \<times> (guest_ram \<Rightarrow> guest_ram)) list \<Rightarrow> sim_world whp_state" where
  "sim_whp_state script =
     \<lparr>ws_proc = \<lparr>wp_world = sim_world_new\<lparr>sw_next := 1, sw_part := (\<lambda>_. sim_partition_new\<lparr>sp_script := script\<rparr>)\<rparr>,
        wp_owner = None\<rparr>,
      ws_self = \<lparr>wo_handle = 0, wo_ram = build_control_structures (ram_new (unat RAM_SIZE)), wo_xsave = avx512_layout,
        wo_xsave_capacity = 4096, wo_exception_intercept = True, wo_last_fault = None, wo_touched = {}\<rparr>\<rparr>"

lemma sim_state_ok: "whp_ok sim_whp sim_guest (sim_whp_state script)"
proof -
  have "sim_part_ok (sim_partition_new\<lparr>sp_script := script\<rparr>)"
    using sim_part_ok_new by (simp add: sim_part_ok_def)
  then have "wh_live sim_guest 0 (world (sim_whp_state script))"
    by (simp add: sim_whp_state_def sim_guest_def)
  with sim_guest_laws build_vectors_intact show ?thesis
    by (simp add: whp_ok_def sim_whp_state_def vectors_intact_def) (simp add: sim_guest_def)
qed

theorem whp_step_returns_witness:
  "\<exists>oc s'. whp_step Release sim_whp (sim_whp_state [(ExitCanceled, id, id), (ExitOther 0x2000, id, id)]) = Some (oc, s') \<and>
     is_comparable oc"
  using whp_step_returns [OF sim_state_ok sim_whp_run_law] by blast

text \<open>
  C13: the two ways to see an exception agree. Take two oracles stopped by the same vector at the
  same program state: in one the platform intercepts it (\<open>WHvRunVpExitReasonException\<close>), in the
  other the processor delivers it through the built tables and halts in the stub. Then \<open>step\<close>'s
  loop reports the same outcome in both, both show the same registers, RIP and flags, namely
  those of the instruction that raised it, and both record the same vector and error code; a
  trap after the step (vector 1) retires in both.
\<close>

theorem whp_paths_agree:
  assumes ok: "whp_ok api G s1" "whp_ok api G s2" and law: "whp_run_law api G"
    and silent: "wo_last_fault (ws_self s1) = None" "wo_last_fault (ws_self s2) = None"
    and run1: "wa_run_vp api (wo_handle (ws_self s1)) (world s1) (wo_ram (ws_self s1)) =
        (hr1, ExitException vec (has_error_code vec) ec, w1, ram)" "hr_ok hr1"
    and run2: "wa_run_vp api (wo_handle (ws_self s2)) (world s2) (wo_ram (ws_self s2)) =
        (hr2, ExitHalt (ac_rip c2 + 1), w2, ram2)" "hr_ok hr2"
    and t1: "t1 = (set_world w1 s1)\<lparr>ws_self := (ws_self s1)\<lparr>wo_ram := ram\<rparr>\<rparr>"
    and t2: "t2 = (set_world w2 s2)\<lparr>ws_self := (ws_self s2)\<lparr>wo_ram := ram2\<rparr>\<rparr>"
    and intact: "vectors_intact ram"
    and deliver: "arch_deliver IDT_ADDR GDT_ADDR SEL_TSS vec (ucast ec) saved ram c = Some (ram2, c2)"
    and at1: "cs_gpr (whp_view api G t1) ! 4 = ac_rsp c" "cs_rip (whp_view api G t1) = ac_rip c"
      "cs_rflags (whp_view api G t1) = norm_step_flags saved"
    and at2: "cs_gpr (whp_view api G t2) ! 4 = ac_rsp c2"
    and same: "same_program (whp_view api G t1) (whp_view api G t2)"
  shows "\<exists>oc s1' s2'. whp_run_loop (Suc n) prof api s1 = Some (oc, s1') \<and>
    whp_run_loop (Suc k) prof api s2 = Some (oc, s2') \<and>
    oc = (if vec = 1 then Retired else Fault (classify vec) (fault_message vec (if has_error_code vec then ucast ec else 0))) \<and>
    whp_view api G s1' = whp_view api G t1 \<and> whp_view api G s2' = whp_view api G t1 \<and>
    whp_last_vector s1' = whp_last_vector s2' \<and> whp_last_error_code s1' = whp_last_error_code s2' \<and>
    whp_fault_msg s1' = whp_fault_msg s2'"
proof -
  have okt: "whp_ok api G t1" "whp_ok api G t2"
    unfolding t1 t2 by (rule whp_ok_run [OF ok(1) law run1(1)], rule whp_ok_run [OF ok(2) law run2(1)])
  have quiet: "wo_last_fault (ws_self t1) = None" "wo_last_fault (ws_self t2) = None" "wo_ram (ws_self t2) = ram2"
    by (simp_all add: t1 t2 silent)
  obtain oc s1' s2' where e: "whp_on_exception prof api vec (has_error_code vec) ec t1 = Some (oc, s1')"
    "whp_on_halt prof api (ac_rip c2 + 1) t2 = Some (oc, s2')"
    "oc = (if vec = 1 then Retired else Fault (classify vec) (fault_message vec (if has_error_code vec then ucast ec else 0)))"
    "whp_view api G s1' = whp_view api G t1" "whp_view api G s2' = whp_view api G t1"
    "wo_last_fault (ws_self s1') = wo_last_fault (ws_self s2')"
    using whp_paths [where prof = prof, OF okt quiet(1,2) intact deliver [folded quiet(3)] at1 at2 same] by blast
  have "whp_run_loop (Suc n) prof api s1 = Some (oc, s1')"
    using run1 e(1) t1 by simp
  moreover have "whp_run_loop (Suc k) prof api s2 = Some (oc, s2')"
    using run2 e(2) t2 by simp
  ultimately show ?thesis
    using e(3-6) by (intro exI [of _ oc] exI [of _ s1'] exI [of _ s2'])
      (simp add: whp_last_vector_def whp_last_error_code_def whp_fault_msg_def)
qed

text \<open>
  The witness: a general protection fault with error code 32 at RIP 400000H, RSP 0, intercepted
  in the first oracle and delivered in the second.
\<close>

definition gp_cpu :: arch_cpu where
  "gp_cpu = \<lparr>ac_rip = 0x400000, ac_rsp = 0, ac_rflags = 0x46, ac_cs = 8, ac_ss = 16\<rparr>"

definition gp_intercepted :: "sim_world whp_state" where
  "gp_intercepted = sim_whp_state
     [(ExitException 13 True 32, \<lambda>f. f(WRip := Reg64 0x400000, WRflags := Reg64 0x10046), id)]"

definition gp_delivered :: "sim_world whp_state" where
  "gp_delivered = sim_whp_state
     [(ExitHalt (stub_addr 13 + 1), \<lambda>f. f(WRip := Reg64 (stub_addr 13 + 1), WRsp := Reg64 (frame_base 13)),
       \<lambda>r. frame_ram 13 32 0x10046 r gp_cpu)]"

definition sim_ran :: "sim_world whp_state \<Rightarrow> sim_world whp_state" where
  "sim_ran s = set_world (fst (snd (snd (sim_run_vp 0 (world s) (wo_ram (ws_self s)))))) s"

lemma sim_run_first:
  "wa_run_vp sim_whp 0 (world (sim_whp_state ((x, f, g) # rest))) ram =
     (0, x, world (sim_ran (sim_whp_state ((x, f, g) # rest))), if ram_len (g ram) = ram_len ram then g ram else ram)"
  by (simp add: sim_whp_def sim_run_vp_def sim_whp_state_def sim_ran_def)

lemma sim_ran_regs:
  "sp_regs (sw_part (world (sim_ran (sim_whp_state ((x, f, g) # rest)))) 0) = fixed_flags (f (\<lambda>n. Reg64 (if n = WRflags then 2 else 0)))"
  "sp_xsave (sw_part (world (sim_ran (sim_whp_state ((x, f, g) # rest)))) 0) = replicate 4096 0"
  "wo_handle (ws_self (sim_whp_state script)) = 0"
  by (simp_all add: sim_run_vp_def sim_whp_state_def sim_ran_def sim_partition_new_def)

theorem whp_paths_agree_witness:
  "\<exists>s1' s2'. whp_run_loop 64 Debug sim_whp gp_intercepted =
      Some (Fault GeneralProtection ''#GP general protection (vector 13, error code 0x20)'', s1') \<and>
     whp_run_loop 64 Debug sim_whp gp_delivered =
      Some (Fault GeneralProtection ''#GP general protection (vector 13, error code 0x20)'', s2')"
proof -
  let ?img = "build_control_structures (ram_new (unat RAM_SIZE))"
  let ?c2 = "gp_cpu\<lparr>ac_rip := stub_addr 13, ac_cs := SEL_CODE64, ac_rsp := frame_base 13,
      ac_rflags := ac_rflags gp_cpu AND NOT 0x34300\<rparr>"
  let ?ram2 = "frame_ram 13 32 0x10046 ?img gp_cpu"
  have deliver: "arch_deliver IDT_ADDR GDT_ADDR SEL_TSS 13 (ucast (32 :: u32)) 0x10046 ?img gp_cpu = Some (?ram2, ?c2)"
    using deliver_vector [OF build_vectors_intact, of 13 32 "0x10046" gp_cpu] by simp
  have len: "ram_len ?ram2 = ram_len ?img"
    using deliver_intact [OF build_vectors_intact, of 13 32 "0x10046" gp_cpu] build_vectors_intact
    by (simp add: vectors_intact_def)
  let ?w1 = "world (sim_ran gp_intercepted)" and ?w2 = "world (sim_ran gp_delivered)"
  have w1: "wa_run_vp sim_whp 0 (world gp_intercepted) ?img = (0, ExitException 13 (has_error_code 13) 32, ?w1, ?img)"
    by (simp add: gp_intercepted_def sim_run_first has_error_code_def)
  have w2: "wa_run_vp sim_whp 0 (world gp_delivered) ?img = (0, ExitHalt (ac_rip ?c2 + 1), ?w2, ?ram2)"
    by (simp add: gp_delivered_def sim_run_first len)
  let ?t1 = "(set_world ?w1 gp_intercepted)\<lparr>ws_self := (ws_self gp_intercepted)\<lparr>wo_ram := ?img\<rparr>\<rparr>"
  let ?t2 = "(set_world ?w2 gp_delivered)\<lparr>ws_self := (ws_self gp_delivered)\<lparr>wo_ram := ?ram2\<rparr>\<rparr>"
  have r1: "whp_regs sim_whp ?t1 = (\<lambda>n. Reg64 (if n = WRflags then 0x10046 else if n = WRip then 0x400000 else 0))"
    and i1: "whp_image sim_whp sim_guest ?t1 = replicate 4096 0"
    by (simp_all add: gp_intercepted_def whp_regs_def whp_image_def sim_ran_regs fixed_flags_def stored_def fun_eq_iff)
  have r2: "whp_regs sim_whp ?t2 = (\<lambda>n. Reg64 (if n = WRflags then 2 else if n = WRip then stub_addr 13 + 1
      else if n = WRsp then frame_base 13 else 0))"
    and i2: "whp_image sim_whp sim_guest ?t2 = replicate 4096 0"
    by (simp_all add: gp_delivered_def whp_regs_def whp_image_def sim_ran_regs fixed_flags_def stored_def fun_eq_iff)
  have ok: "whp_ok sim_whp sim_guest gp_intercepted" "whp_ok sim_whp sim_guest gp_delivered"
    by (simp_all add: gp_intercepted_def gp_delivered_def sim_state_ok)
  have self: "wo_handle (ws_self gp_intercepted) = 0" "wo_handle (ws_self gp_delivered) = 0"
    "wo_ram (ws_self gp_intercepted) = ?img" "wo_ram (ws_self gp_delivered) = ?img"
    "wo_last_fault (ws_self gp_intercepted) = None" "wo_last_fault (ws_self gp_delivered) = None"
    by (simp_all add: gp_intercepted_def gp_delivered_def sim_whp_state_def)
  have flags: "0x10046 AND NOT STEP_FLAGS = norm_step_flags 0x10046"
    by (simp add: norm_step_flags_def STEP_FLAGS_def FLAG_TF_def FLAG_RF_def)
  have v1: "cs_gpr (whp_view sim_whp sim_guest ?t1) ! 4 = ac_rsp gp_cpu" "cs_rip (whp_view sim_whp sim_guest ?t1) = ac_rip gp_cpu"
    "cs_rflags (whp_view sim_whp sim_guest ?t1) = norm_step_flags 0x10046"
    by (simp_all add: whp_view_def r1 GPR_NAMES_def gp_cpu_def flags)
  have v2: "cs_gpr (whp_view sim_whp sim_guest ?t2) ! 4 = ac_rsp ?c2"
    and same: "same_program (whp_view sim_whp sim_guest ?t1) (whp_view sim_whp sim_guest ?t2)"
    by (simp_all add: whp_view_def r1 r2 i1 i2 GPR_NAMES_def same_program_def)
  have "\<exists>oc s1' s2'. whp_run_loop (Suc 63) Debug sim_whp gp_intercepted = Some (oc, s1') \<and>
      whp_run_loop (Suc 63) Debug sim_whp gp_delivered = Some (oc, s2') \<and>
      oc = (if (13 :: u8) = 1 then Retired else Fault (classify 13) (fault_message 13 (if has_error_code 13 then ucast (32 :: u32) else 0)))"
    using whp_paths_agree [where prof = Debug and n = 63 and k = 63, OF ok sim_whp_run_law self(5,6) _ hr_ok_0 _ hr_ok_0 refl refl
        build_vectors_intact deliver v1 v2 same] w1 w2 unfolding self by blast
  then show ?thesis
    by (simp add: has_error_code_def classify_def fault_message_def vector_name_def fmt_dec_def fmt_hex_def
        digits_in.simps digit_char_def del: whp_run_loop.simps)
qed





end
