(* ===== verification/Rust_Bytes.thy ===== *)
theory Rust_Bytes
  imports Rust_Strings
begin

text \<open>
  What the build script uses of Rust's strings that come from files, kept as their UTF-8 bytes:
  \<open>from_utf8\<close>, trimming, \<open>parse::<usize>\<close> and ASCII case.
\<close>

section \<open>Whitespace\<close>

definition from_utf8 :: "u8 list \<Rightarrow> u8 list option" where
  "from_utf8 bs = (if utf8_valid bs then Some bs else None)"

text \<open>The UTF-8 sequences of the characters with the property \<open>White_Space\<close>.\<close>

definition is_whitespace :: "u8 list \<Rightarrow> bool" where
  "is_whitespace c \<longleftrightarrow> c \<in> set
     ([[0x20], [0x09], [0x0A], [0x0B], [0x0C], [0x0D], [0xC2, 0x85], [0xC2, 0xA0], [0xE1, 0x9A, 0x80]]
      @ map (\<lambda>b. [0xE2, 0x80, b]) [0x80, 0x81, 0x82, 0x83, 0x84, 0x85, 0x86, 0x87, 0x88, 0x89, 0x8A, 0xA8, 0xA9, 0xAF]
      @ [[0xE2, 0x81, 0x9F], [0xE3, 0x80, 0x80]])"

definition utf8_chars :: "u8 list \<Rightarrow> u8 list list" where
  "utf8_chars bs = map snd (utf8_chunks bs)"

definition trim_end :: "u8 list \<Rightarrow> u8 list" where
  "trim_end bs = concat (rev (dropWhile is_whitespace (rev (utf8_chars bs))))"

definition trim :: "u8 list \<Rightarrow> u8 list" where
  "trim bs = concat (dropWhile is_whitespace (rev (dropWhile is_whitespace (rev (utf8_chars bs)))))"

lemma utf8_chunks_ascii: "list_all (\<lambda>b. b < 0x80) bs \<Longrightarrow> utf8_chunks bs = map (\<lambda>b. (True, [b])) bs"
  by (induction bs) (simp_all add: utf8_head_def)

lemma utf8_chars_ascii: "list_all (\<lambda>b. b < 0x80) bs \<Longrightarrow> utf8_chars bs = map (\<lambda>b. [b]) bs"
  by (simp add: utf8_chars_def utf8_chunks_ascii comp_def)

lemma from_utf8_ascii: "list_all (\<lambda>b. b < 0x80) bs \<Longrightarrow> from_utf8 bs = Some bs"
  by (simp add: from_utf8_def ascii_valid)

lemma padded_ascii: "list_all (\<lambda>b. b < 0x80) bs \<Longrightarrow> list_all (\<lambda>b :: u8. b < 0x80) (bs @ replicate n 0x20)"
  by (auto simp: list_all_iff)

lemma utf8_chars_padded:
  "list_all (\<lambda>b. b < 0x80) bs \<Longrightarrow> utf8_chars (bs @ replicate n 0x20) = map (\<lambda>b. [b]) bs @ replicate n [0x20]"
  using utf8_chars_ascii [OF padded_ascii, of bs n] by (simp add: map_replicate_const)

lemma is_whitespace_space [simp]: "is_whitespace [0x20]"
  by (simp add: is_whitespace_def)

lemma dropWhile_spaces: "dropWhile is_whitespace (replicate n [0x20] @ xs) = dropWhile is_whitespace xs"
  by (induction n) simp_all

lemma concat_singletons [simp]: "concat (map (\<lambda>b. [b]) bs) = bs"
  by (induction bs) simp_all

text \<open>A field padded with spaces reads as its text, which ends in no whitespace.\<close>

lemma trim_end_padded:
  assumes "list_all (\<lambda>b. b < 0x80) bs" and "bs \<noteq> [] \<longrightarrow> \<not> is_whitespace [last bs]"
  shows "trim_end (bs @ replicate n 0x20) = bs"
proof -
  note utf8_chars_padded [OF assms(1), of n]
  moreover have "dropWhile is_whitespace (rev (map (\<lambda>b. [b]) bs)) = rev (map (\<lambda>b. [b]) bs)"
    using assms(2) by (cases bs rule: rev_cases) simp_all
  ultimately show ?thesis by (simp add: trim_end_def dropWhile_spaces rev_map [symmetric])
qed

lemma trim_padded:
  assumes "list_all (\<lambda>b. b < 0x80) bs" and "bs \<noteq> [] \<longrightarrow> \<not> is_whitespace [hd bs] \<and> \<not> is_whitespace [last bs]"
  shows "trim (bs @ replicate n 0x20) = bs"
proof -
  note utf8_chars_padded [OF assms(1), of n]
  moreover have "dropWhile is_whitespace (rev (map (\<lambda>b. [b]) bs)) = rev (map (\<lambda>b. [b]) bs)"
    using assms(2) by (cases bs rule: rev_cases) simp_all
  moreover have "dropWhile is_whitespace (map (\<lambda>b. [b]) bs) = map (\<lambda>b. [b]) bs"
    using assms(2) by (cases bs) simp_all
  ultimately show ?thesis by (simp add: trim_def dropWhile_spaces rev_map [symmetric])
qed

section \<open>Numbers\<close>

text \<open>\<open>parse::<usize>\<close>, on a host with 64-bit addresses.\<close>

fun parse_digits :: "nat \<Rightarrow> u8 list \<Rightarrow> nat option" where
  "parse_digits acc [] = Some acc"
| "parse_digits acc (b # bs) =
     (if b < 0x30 \<or> 0x39 < b then None
      else (let v = acc * 10 + (unat b - 0x30) in if v < 2 ^ 64 then parse_digits v bs else None))"

definition parse_usize :: "u8 list \<Rightarrow> nat option" where
  "parse_usize bs =
     (if bs = [] \<or> bs = [0x2B] then None
      else parse_digits 0 (if hd bs = 0x2B then tl bs else bs))"

lemma parse_digits_append:
  "parse_digits acc (xs @ ys) = Option.bind (parse_digits acc xs) (\<lambda>v. parse_digits v ys)"
  by (induction acc xs rule: parse_digits.induct) (simp_all add: Let_def)

definition digit_byte :: "nat \<Rightarrow> u8" where
  "digit_byte d = of_nat (0x30 + d)"

lemma unat_digit_byte: "d < 10 \<Longrightarrow> unat (digit_byte d) = 0x30 + d"
  by (simp only: digit_byte_def unat_of_nat take_bit_eq_mod) simp

lemma digit_byte_range: "d < 10 \<Longrightarrow> \<not> digit_byte d < 0x30 \<and> \<not> 0x39 < digit_byte d \<and> digit_byte d < 0x80"
  by (simp add: word_less_nat_alt unat_digit_byte)

lemma digit_char_byte: "d < 10 \<Longrightarrow> of_nat (of_char (digit_char d)) = digit_byte d"
proof -
  assume "d < 10"
  then have "d \<in> {0, 1, 2, 3, 4, 5, 6, 7, 8, 9}" by auto
  then show ?thesis by (auto simp: digit_char_def digit_byte_def)
qed

lemma dec_bytes:
  "str_bytes (fmt_dec n) =
     (if n < 10 then [digit_byte n] else str_bytes (fmt_dec (n div 10)) @ [digit_byte (n mod 10)])"
  by (simp add: fmt_dec_def str_bytes_def digits_in.simps [of 10 n] digit_char_byte)

lemma dec_bytes_shape: "list_all (\<lambda>b. \<exists>d < 10. b = digit_byte d) (str_bytes (fmt_dec n)) \<and> str_bytes (fmt_dec n) \<noteq> []"
proof (induction n rule: less_induct)
  case (less n)
  show ?case
  proof (cases "n < 10")
    case True
    then show ?thesis by (subst (1 2) dec_bytes) auto
  next
    case False
    have "n mod 10 < 10" by simp
    then have "\<exists>d < 10. digit_byte (n mod 10) = digit_byte d" by blast
    then show ?thesis using less [of "n div 10"] False by (subst (1 2) dec_bytes) simp
  qed
qed

lemma parse_digits_dec: "n < 2 ^ 64 \<Longrightarrow> parse_digits 0 (str_bytes (fmt_dec n)) = Some n"
proof (induction n rule: less_induct)
  case (less n)
  show ?case
  proof (cases "n < 10")
    case True
    with less.prems show ?thesis
      by (subst dec_bytes) (simp add: digit_byte_range unat_digit_byte)
  next
    case False
    moreover have "parse_digits 0 (str_bytes (fmt_dec (n div 10))) = Some (n div 10)"
      using less False by simp
    ultimately show ?thesis using less.prems
      by (subst dec_bytes) (simp add: parse_digits_append digit_byte_range unat_digit_byte Let_def)
  qed
qed

text \<open>A printed number parses back, also from a field padded with spaces.\<close>

lemma digit_byte_no_space: "d < 10 \<Longrightarrow> \<not> is_whitespace [digit_byte d] \<and> digit_byte d \<noteq> 0x2B"
proof -
  assume "d < 10"
  then have "d \<in> {0, 1, 2, 3, 4, 5, 6, 7, 8, 9}" by auto
  then show ?thesis by (auto simp: digit_byte_def is_whitespace_def)
qed

lemma parse_padded:
  assumes "n < 2 ^ 64"
  shows "from_utf8 (str_bytes (fmt_dec n) @ replicate k 0x20) = Some (str_bytes (fmt_dec n) @ replicate k 0x20)"
    and "parse_usize (trim (str_bytes (fmt_dec n) @ replicate k 0x20)) = Some n"
proof -
  let ?ds = "str_bytes (fmt_dec n)"
  have shape: "\<forall>b \<in> set ?ds. \<exists>d < 10. b = digit_byte d" "?ds \<noteq> []"
    using dec_bytes_shape [of n] by (auto simp: list_all_iff)
  then have ascii: "list_all (\<lambda>b. b < 0x80) ?ds" using digit_byte_range by (auto simp: list_all_iff)
  then show "from_utf8 (?ds @ replicate k 0x20) = Some (?ds @ replicate k 0x20)"
    by (intro from_utf8_ascii padded_ascii)
  obtain d e where d: "d < 10" "hd ?ds = digit_byte d" and e: "e < 10" "last ?ds = digit_byte e"
    using shape by (meson hd_in_set last_in_set)
  have "trim (?ds @ replicate k 0x20) = ?ds"
    by (rule trim_padded [OF ascii]) (use d e digit_byte_no_space in simp)
  moreover have "?ds \<noteq> [0x2B] \<and> hd ?ds \<noteq> 0x2B" using d digit_byte_no_space by auto
  ultimately show "parse_usize (trim (?ds @ replicate k 0x20)) = Some n"
    using shape(2) parse_digits_dec [OF assms] by (simp add: parse_usize_def)
qed

section \<open>Case\<close>

definition to_ascii_lowercase :: "u8 \<Rightarrow> u8" where
  "to_ascii_lowercase b = (if 0x41 \<le> b \<and> b \<le> 0x5A then b + 0x20 else b)"

definition bytes_end_with :: "u8 list \<Rightarrow> u8 list \<Rightarrow> bool" where
  "bytes_end_with pat bs \<longleftrightarrow> length pat \<le> length bs \<and> drop (length bs - length pat) bs = pat"

definition trim_end_matches :: "u8 \<Rightarrow> u8 list \<Rightarrow> u8 list" where
  "trim_end_matches c bs = rev (dropWhile (\<lambda>b. b = c) (rev bs))"

text \<open>\<open>windows(n).any(..)\<close>.\<close>

definition any_window :: "nat \<Rightarrow> (u8 list \<Rightarrow> bool) \<Rightarrow> u8 list \<Rightarrow> bool" where
  "any_window n P bs \<longleftrightarrow> list_ex (\<lambda>i. P (take n (drop i bs))) [0..<length bs + 1 - n]"

end
