(* ===== verification/Build_Archive.thy ===== *)
theory Build_Archive
  imports Rust_Bytes
begin

text \<open>
  \<open>archive_is_static\<close> of \<open>build.rs\<close>: whether an \<open>ar\<close> archive is a static library or the import
  library of a DLL. The file's contents are the argument; a file that cannot be read is left to the
  caller.
\<close>

section \<open>The scan\<close>

definition AR_MAGIC :: "u8 list" where
  "AR_MAGIC = str_bytes ''!<arch>'' @ [0x0A]"

definition dll_named :: "u8 list \<Rightarrow> bool" where
  "dll_named s \<longleftrightarrow> bytes_end_with (str_bytes ''.dll'') (map to_ascii_lowercase (trim_end_matches 0x2F s))"

definition mentions_dll :: "u8 list \<Rightarrow> bool" where
  "mentions_dll bytes \<longleftrightarrow>
     any_window 4 (\<lambda>w. map to_ascii_lowercase w = map to_ascii_lowercase (str_bytes ''.dll'')) bytes"

definition import_object :: "u8 list \<Rightarrow> bool" where
  "import_object bytes \<longleftrightarrow> take 4 bytes = [0x00, 0x00, 0xFF, 0xFF]"

text \<open>The fields of a header the scan reads.\<close>

definition ar_name :: "u8 list \<Rightarrow> u8 list option" where
  "ar_name header = map_option trim_end (from_utf8 (take 16 header))"

definition ar_size :: "u8 list \<Rightarrow> nat option" where
  "ar_size header = Option.bind (map_option trim (from_utf8 (take 10 (drop 48 header)))) parse_usize"

text \<open>
  The loop, from offset \<open>pos\<close>. Each pass moves at least the header's sixty bytes on. The addition
  of the size is \<open>checked_add\<close>; the others cannot overflow as the offsets are inside the file.
\<close>

function ar_scan :: "u8 list \<Rightarrow> nat \<Rightarrow> bool \<Rightarrow> bool option" where
  "ar_scan data pos saw_real_member =
     (if pos + 60 \<le> length data then
        (let header = take 60 (drop pos data) in
         case ar_name header of
           None \<Rightarrow> None
         | Some name \<Rightarrow>
             (case ar_size header of
                None \<Rightarrow> None
              | Some sz \<Rightarrow>
                  (let body = pos + 60; stop = body + sz in
                   if 2 ^ 64 \<le> stop then None
                   else if length data < stop then None
                   else (let bytes = take sz (drop body data); next_pos = stop + sz mod 2 in
                     if name = str_bytes ''//'' then
                       (if mentions_dll bytes then Some False else ar_scan data next_pos saw_real_member)
                     else if \<not> (name = [] \<or> name = str_bytes ''/'') then
                       (if import_object bytes \<or> dll_named name then Some False else ar_scan data next_pos True)
                     else ar_scan data next_pos saw_real_member))))
      else if saw_real_member then Some True else None)"
  by pat_completeness auto
termination by (relation "measure (\<lambda>(data, pos, _). length data - pos)") auto

declare ar_scan.simps [simp del]

definition archive_is_static :: "u8 list \<Rightarrow> bool option" where
  "archive_is_static data =
     (if take (length AR_MAGIC) data \<noteq> AR_MAGIC then None
      else ar_scan data (length AR_MAGIC) False)"

section \<open>Archives\<close>

text \<open>
  A member as the format has it: the name field's text, the thirty-two bytes between it and the
  size that the scan skips (date, owner, mode), and the contents.
\<close>

record ar_member =
  am_name :: "u8 list"
  am_meta :: "u8 list"
  am_body :: "u8 list"

definition pad_to :: "nat \<Rightarrow> u8 list \<Rightarrow> u8 list" where
  "pad_to n bs = bs @ replicate (n - length bs) 0x20"

definition ar_header :: "ar_member \<Rightarrow> u8 list" where
  "ar_header m =
     pad_to 16 (am_name m) @ am_meta m @ pad_to 10 (str_bytes (fmt_dec (length (am_body m)))) @ [0x60, 0x0A]"

definition ar_encode :: "ar_member \<Rightarrow> u8 list" where
  "ar_encode m = ar_header m @ am_body m @ replicate (length (am_body m) mod 2) 0x0A"

definition ar_archive :: "ar_member list \<Rightarrow> u8 list" where
  "ar_archive ms = AR_MAGIC @ concat (map ar_encode ms)"

definition ar_member_ok :: "ar_member \<Rightarrow> bool" where
  "ar_member_ok m \<longleftrightarrow>
     length (am_name m) \<le> 16 \<and> list_all (\<lambda>b. b < 0x80) (am_name m) \<and>
     (am_name m \<noteq> [] \<longrightarrow> \<not> is_whitespace [last (am_name m)]) \<and>
     length (am_meta m) = 32 \<and> length (am_body m) < 10 ^ 10"

text \<open>What a member says: a real member is an object; either kind of import library shows in one.\<close>

definition real_member :: "ar_member \<Rightarrow> bool" where
  "real_member m \<longleftrightarrow> am_name m \<notin> {[], str_bytes ''/'', str_bytes ''//''}"

definition import_member :: "ar_member \<Rightarrow> bool" where
  "import_member m \<longleftrightarrow>
     (if am_name m = str_bytes ''//'' then mentions_dll (am_body m)
      else real_member m \<and> (import_object (am_body m) \<or> dll_named (am_name m)))"

fun ar_verdict :: "ar_member list \<Rightarrow> bool \<Rightarrow> bool option" where
  "ar_verdict [] saw = (if saw then Some True else None)"
| "ar_verdict (m # ms) saw = (if import_member m then Some False else ar_verdict ms (saw \<or> real_member m))"

lemma ar_verdict_closed:
  "ar_verdict ms saw =
     (if list_ex import_member ms then Some False
      else if saw \<or> list_ex real_member ms then Some True else None)"
  by (induction ms arbitrary: saw) auto

section \<open>The scan reads what was written\<close>

lemma length_dec_bytes: "n < 10 ^ k \<Longrightarrow> 0 < k \<Longrightarrow> length (str_bytes (fmt_dec n)) \<le> k"
proof (induction k arbitrary: n)
  case (Suc k)
  show ?case
  proof (cases "n < 10")
    case True
    then show ?thesis by (subst dec_bytes) simp
  next
    case False
    with Suc.prems have "n div 10 < 10 ^ k" "0 < k" by (auto intro: ccontr simp: less_mult_imp_div_less)
    then show ?thesis using Suc.IH [of "n div 10"] False by (subst dec_bytes) simp
  qed
qed simp

lemma length_ar_header: "ar_member_ok m \<Longrightarrow> length (ar_header m) = 60"
  using length_dec_bytes [of "length (am_body m)" 10]
  by (simp add: ar_member_ok_def ar_header_def pad_to_def)

lemma ar_header_fields:
  assumes "ar_member_ok m"
  shows "ar_name (ar_header m) = Some (am_name m)"
    and "ar_size (ar_header m) = Some (length (am_body m))"
proof -
  have name: "take 16 (ar_header m) = am_name m @ replicate (16 - length (am_name m)) 0x20"
    using assms by (simp add: ar_member_ok_def ar_header_def pad_to_def)
  show "ar_name (ar_header m) = Some (am_name m)"
    using assms unfolding ar_name_def name
    by (simp add: ar_member_ok_def from_utf8_ascii [OF padded_ascii] trim_end_padded)
  let ?ds = "str_bytes (fmt_dec (length (am_body m)))"
  have digits: "length ?ds \<le> 10" using assms length_dec_bytes [of "length (am_body m)" 10] by (simp add: ar_member_ok_def)
  then have field: "take 10 (drop 48 (ar_header m)) = ?ds @ replicate (10 - length ?ds) 0x20"
    using assms by (simp add: ar_member_ok_def ar_header_def pad_to_def)
  have "length (am_body m) < 2 ^ 64" using assms by (simp add: ar_member_ok_def)
  then show "ar_size (ar_header m) = Some (length (am_body m))"
    unfolding ar_size_def field by (simp add: parse_padded)
qed

lemma ar_scan_members:
  assumes "data = pre @ concat (map ar_encode ms)" and "length pre = pos" and "list_all ar_member_ok ms"
    and "length data < 2 ^ 64"
  shows "ar_scan data pos saw = ar_verdict ms saw"
  using assms(1-3)
proof (induction ms arbitrary: pre pos saw)
  case Nil
  then show ?case by (subst ar_scan.simps) simp
next
  case (Cons m ms)
  let ?rest = "concat (map ar_encode ms)" and ?n = "length (am_body m)"
  have ok: "ar_member_ok m" using Cons.prems by simp
  note len = length_ar_header [OF ok]
  have data: "data = pre @ ar_header m @ am_body m @ replicate (?n mod 2) 0x0A @ ?rest"
    using Cons.prems(1) by (simp add: ar_encode_def [of m])
  have header: "take 60 (drop pos data) = ar_header m" and body: "take ?n (drop (pos + 60) data) = am_body m"
    using Cons.prems(2) len by (simp_all add: data)
  have fits: "pos + 60 + ?n \<le> length data" using Cons.prems(2) len by (simp add: data)
  have rest: "ar_scan data (pos + 60 + ?n + ?n mod 2) s = ar_verdict ms s" for s
    by (rule Cons.IH [of "pre @ ar_encode m"])
      (use Cons.prems len in \<open>simp_all add: ar_encode_def\<close>)
  have "\<not> 2 ^ 64 \<le> pos + 60 + ?n" using fits assms(4) by linarith
  with fits show ?case
    by (subst ar_scan.simps)
      (simp add: header ar_header_fields [OF ok] body rest Let_def import_member_def real_member_def)
qed

section \<open>Properties\<close>

text \<open>
  C36: \<open>archive_is_static\<close> tells static libraries from import libraries. On every archive of the
  format, whatever its members' names, dates and contents, it reads each member's name and size
  back, visits every member, and answers: an import library exactly when some member is an import
  object or is named after a DLL or the long-names table mentions one, a static library when there
  is none of these and some real member, and no answer when there are only index members. Anything
  that does not start with the magic has no answer.
\<close>

theorem archive_is_static_exact:
  assumes "list_all ar_member_ok ms" and "length (ar_archive ms) < 2 ^ 64"
  shows "archive_is_static (ar_archive ms) =
      (if list_ex import_member ms then Some False
       else if list_ex real_member ms then Some True else None) \<and>
    (\<forall>data. (\<nexists>rest. data = AR_MAGIC @ rest) \<longrightarrow> archive_is_static data = None)"
proof -
  have "ar_scan (ar_archive ms) (length AR_MAGIC) False = ar_verdict ms False"
    by (rule ar_scan_members [OF _ _ assms]) (simp_all add: ar_archive_def)
  moreover have "take (length AR_MAGIC) data \<noteq> AR_MAGIC" if "\<nexists>rest. data = AR_MAGIC @ rest" for data
    using that by (metis append_take_drop_id)
  ultimately show ?thesis
    by (simp add: archive_is_static_def ar_verdict_closed ar_archive_def)
qed

section \<open>Witnesses\<close>

text \<open>A static library of one object, and the import library of a DLL, in the long format.\<close>

definition demo_object :: "string \<Rightarrow> ar_member" where
  "demo_object name = \<lparr>am_name = str_bytes name, am_meta = replicate 32 0x30, am_body = [1, 2, 3]\<rparr>"

lemma demo_object_ok: "ar_member_ok (demo_object ''gmp.o/'')" "ar_member_ok (demo_object ''GMP-10.DLL/'')"
  by (simp_all add: ar_member_ok_def demo_object_def str_bytes_def is_whitespace_def)

lemma demo_static_import:
  "\<not> import_member (demo_object ''gmp.o/'')" "real_member (demo_object ''gmp.o/'')"
  "import_member (demo_object ''GMP-10.DLL/'')"
  by (simp_all add: import_member_def real_member_def demo_object_def str_bytes_def import_object_def dll_named_def
      bytes_end_with_def trim_end_matches_def to_ascii_lowercase_def)

theorem archive_is_static_exact_witness:
  "archive_is_static (ar_archive [demo_object ''gmp.o/'']) = Some True \<and>
   archive_is_static (ar_archive [demo_object ''gmp.o/'', demo_object ''GMP-10.DLL/'']) = Some False"
proof -
  have len: "length (ar_archive [demo_object ''gmp.o/'']) < 2 ^ 64"
    "length (ar_archive [demo_object ''gmp.o/'', demo_object ''GMP-10.DLL/'']) < 2 ^ 64"
    by (simp_all add: ar_archive_def ar_encode_def length_ar_header demo_object_ok)
      (simp_all add: demo_object_def AR_MAGIC_def str_bytes_def)
  show ?thesis
    using archive_is_static_exact [of "[demo_object ''gmp.o/'']"]
      archive_is_static_exact [of "[demo_object ''gmp.o/'', demo_object ''GMP-10.DLL/'']"] len
    by (simp add: demo_object_ok demo_static_import)
qed

end
