(* ===== verification/Build_Gmp.thy ===== *)
theory Build_Gmp
  imports Build_Archive
begin

text \<open>
  How \<open>build.rs\<close> finds a system GMP: the environment, the file system it looks at, the searches, and
  the order in which their results are taken.

  A path is its root, if it has one, and its components; turning the text of an environment variable
  into paths (\<open>PathBuf::from\<close>, \<open>split_paths\<close>) depends on the platform and is part of the
  environment. The file system is what can be seen of it; files are not written here.
\<close>

section \<open>Paths, files, environment\<close>

record path =
  pa_root :: string
  pa_parts :: "string list"

definition path_join :: "path \<Rightarrow> string list \<Rightarrow> path" where
  "path_join p cs = p\<lparr>pa_parts := pa_parts p @ cs\<rparr>"

definition path_parent :: "path \<Rightarrow> path option" where
  "path_parent p = (if pa_parts p = [] then None else Some (p\<lparr>pa_parts := butlast (pa_parts p)\<rparr>))"

record file_system =
  fs_is_file :: "path \<Rightarrow> bool"
  fs_is_dir :: "path \<Rightarrow> bool"
  fs_read :: "path \<Rightarrow> u8 list option"
  fs_read_dir :: "path \<Rightarrow> string list option"

text \<open>The variables, whose values are taken to be Unicode, and the platform's path syntax.\<close>

record env =
  en_var :: "string \<Rightarrow> string option"
  en_to_path :: "string \<Rightarrow> path"
  en_split_paths :: "string \<Rightarrow> path list"

definition en_path :: "env \<Rightarrow> string \<Rightarrow> path option" where
  "en_path E var = map_option (en_to_path E) (en_var E var)"

definition en_paths :: "env \<Rightarrow> string \<Rightarrow> path list option" where
  "en_paths E var = map_option (en_split_paths E) (en_var E var)"

definition en_set :: "env \<Rightarrow> string \<Rightarrow> bool" where
  "en_set E var \<longleftrightarrow> en_var E var \<noteq> None"

section \<open>Looking into a directory\<close>

definition archive_at :: "file_system \<Rightarrow> path \<Rightarrow> bool option" where
  "archive_at fs p = Option.bind (fs_read fs p) archive_is_static"

definition gmp_lib_present :: "file_system \<Rightarrow> bool \<Rightarrow> path \<Rightarrow> bool" where
  "gmp_lib_present fs static_only dir =
     (if list_ex (\<lambda>name. let p = path_join dir [name] in
           fs_is_file fs p \<and> \<not> (static_only \<and> archive_at fs p = Some False)) [''gmp.lib'', ''libgmp.a'']
      then True
      else if static_only then False
      else if list_ex (\<lambda>name. fs_is_file fs (path_join dir [name])) [''libgmp.so'', ''libgmp.dylib''] then True
      else (case fs_read_dir fs dir of None \<Rightarrow> False | Some entries \<Rightarrow> list_ex (starts_with ''libgmp.so'') entries))"

definition gmp_header_present :: "file_system \<Rightarrow> path \<Rightarrow> bool" where
  "gmp_header_present fs dir = fs_is_file fs (path_join dir [''gmp.h''])"

section \<open>The searches\<close>

definition find_dir_in_env :: "env \<Rightarrow> string \<Rightarrow> (path \<Rightarrow> bool) \<Rightarrow> path option" where
  "find_dir_in_env E var P = Option.bind (en_paths E var) (List.find P)"

text \<open>
  The loop over the entries of PATH that both scans share: what each entry gives for either half is
  kept once found, and the loop stops when both halves are.
\<close>

fun scan_dirs :: "(path \<Rightarrow> path option) \<Rightarrow> (path \<Rightarrow> path option) \<Rightarrow> path list \<Rightarrow>
    path option \<Rightarrow> path option \<Rightarrow> path option \<times> path option" where
  "scan_dirs fi fl [] inc lib = (inc, lib)"
| "scan_dirs fi fl (dir # dirs) inc lib =
     (let inc = (if inc = None then fi dir else inc);
          lib = (if lib = None then fl dir else lib)
      in if inc \<noteq> None \<and> lib \<noteq> None then (inc, lib) else scan_dirs fi fl dirs inc lib)"

definition candidates :: "string \<Rightarrow> path \<Rightarrow> path list" where
  "candidates half dir =
     path_join dir [half] # (case path_parent dir of None \<Rightarrow> [] | Some p \<Rightarrow> [path_join p [half]])"

definition scan_path_for_gmp :: "env \<Rightarrow> file_system \<Rightarrow> bool \<Rightarrow> path option \<times> path option" where
  "scan_path_for_gmp E fs static_only =
     (case en_paths E ''PATH'' of
        None \<Rightarrow> (None, None)
      | Some dirs \<Rightarrow>
          scan_dirs (\<lambda>dir. List.find (gmp_header_present fs) (candidates ''include'' dir))
            (\<lambda>dir. List.find (gmp_lib_present fs static_only) (candidates ''lib'' dir)) dirs None None)"

definition scan_path_flat :: "env \<Rightarrow> file_system \<Rightarrow> bool \<Rightarrow> path option \<times> path option" where
  "scan_path_flat E fs static_only =
     (case en_paths E ''PATH'' of
        None \<Rightarrow> (None, None)
      | Some dirs \<Rightarrow>
          scan_dirs (\<lambda>dir. if gmp_header_present fs dir then Some dir else None)
            (\<lambda>dir. if gmp_lib_present fs static_only dir then Some dir else None) dirs None None)"

definition or_else :: "'a option \<Rightarrow> 'a option \<Rightarrow> 'a option" where
  "or_else x y = (case x of None \<Rightarrow> y | Some _ \<Rightarrow> x)"

definition explicit_half :: "env \<Rightarrow> string \<Rightarrow> string \<Rightarrow> path option" where
  "explicit_half E var half =
     or_else (en_path E var) (map_option (\<lambda>p. path_join p [half]) (en_path E ''GMP_DIR''))"

definition resolve_gmp :: "env \<Rightarrow> file_system \<Rightarrow> bool \<Rightarrow> bool \<Rightarrow> path option \<times> path option" where
  "resolve_gmp E fs system_gmp gmp_static =
     (let explicit_include = explicit_half E ''GMP_INCLUDE_DIR'' ''include'';
          explicit_lib = explicit_half E ''GMP_LIB_DIR'' ''lib'' in
      if explicit_include \<noteq> None \<or> explicit_lib \<noteq> None then (explicit_include, explicit_lib)
      else if system_gmp then
        (let (s_inc, s_lib) = scan_path_for_gmp E fs gmp_static;
             (f_inc, f_lib) = scan_path_flat E fs gmp_static
         in (or_else (or_else (find_dir_in_env E ''INCLUDE'' (gmp_header_present fs)) s_inc) f_inc,
             or_else (or_else (find_dir_in_env E ''LIB'' (gmp_lib_present fs gmp_static)) s_lib) f_lib))
      else (None, None))"

text \<open>The check of a static link, before the library is named: \<open>None\<close> is its panic.\<close>

definition static_gmp_check :: "file_system \<Rightarrow> string \<Rightarrow> path option \<Rightarrow> unit panics" where
  "static_gmp_check fs gmp lib_dir =
     (case lib_dir of
        None \<Rightarrow> Some ()
      | Some dir \<Rightarrow>
          if list_ex (\<lambda>cand. let p = path_join dir [cand] in fs_is_file fs p \<and> archive_at fs p = Some False)
               [gmp @ ''.lib'', ''lib'' @ gmp @ ''.a'']
          then None else Some ())"

section \<open>What the searches find\<close>

text \<open>The two halves do not influence each other, and stopping early changes nothing.\<close>

fun first_of :: "('a \<Rightarrow> 'b option) \<Rightarrow> 'a list \<Rightarrow> 'b option" where
  "first_of f [] = None"
| "first_of f (x # xs) = (case f x of None \<Rightarrow> first_of f xs | Some y \<Rightarrow> Some y)"

lemma or_else_simps [simp]: "or_else None y = y" "or_else (Some v) y = Some v" "or_else x None = x"
  by (auto simp: or_else_def split: option.splits)

lemma or_else_eq_None [simp]: "or_else x y = None \<longleftrightarrow> x = None \<and> y = None"
  by (cases x) simp_all

lemma scan_dirs_halves: "scan_dirs fi fl dirs inc lib = (or_else inc (first_of fi dirs), or_else lib (first_of fl dirs))"
  by (induction dirs arbitrary: inc lib) (auto simp: Let_def split: option.splits)

lemma first_of_Some: "first_of f xs = Some y \<Longrightarrow> \<exists>x \<in> set xs. f x = Some y"
  by (induction xs) (auto split: option.splits)

lemma first_of_None: "first_of f xs = None \<longleftrightarrow> (\<forall>x \<in> set xs. f x = None)"
  by (induction xs) (auto split: option.splits)

lemma find_holds: "List.find P xs = Some x \<Longrightarrow> P x \<and> x \<in> set xs"
  by (auto simp: find_Some_iff)

lemma find_dir_in_env_holds: "find_dir_in_env E var P = Some d \<Longrightarrow> P d"
  by (auto simp: find_dir_in_env_def dest: find_holds split: bind_splits)

text \<open>The directories a half is looked for in, in order.\<close>

definition search_dirs :: "env \<Rightarrow> string \<Rightarrow> string \<Rightarrow> path list" where
  "search_dirs E var half =
     (case en_paths E var of None \<Rightarrow> [] | Some ds \<Rightarrow> ds) @
     (case en_paths E ''PATH'' of None \<Rightarrow> [] | Some ds \<Rightarrow> concat (map (candidates half) ds) @ ds)"

lemma find_append: "List.find P (xs @ ys) = or_else (List.find P xs) (List.find P ys)"
  by (induction xs) simp_all

lemma first_of_find: "first_of (\<lambda>x. List.find P (f x)) xs = List.find P (concat (map f xs))"
  by (induction xs) (simp_all add: find_append or_else_def split: option.splits)

lemma first_of_if: "first_of (\<lambda>x. if P x then Some x else None) xs = List.find P xs"
  by (induction xs) simp_all

lemma searched:
  "or_else (or_else (find_dir_in_env E var P)
      (case en_paths E ''PATH'' of None \<Rightarrow> None | Some ds \<Rightarrow> first_of (\<lambda>d. List.find P (candidates half d)) ds))
    (case en_paths E ''PATH'' of None \<Rightarrow> None | Some ds \<Rightarrow> first_of (\<lambda>d. if P d then Some d else None) ds)
   = List.find P (search_dirs E var half)"
  by (auto simp: search_dirs_def find_dir_in_env_def find_append first_of_find first_of_if or_else_def
      split: option.splits)

lemma resolve_gmp_search:
  assumes "explicit_half E ''GMP_INCLUDE_DIR'' ''include'' = None" and "explicit_half E ''GMP_LIB_DIR'' ''lib'' = None"
  shows "resolve_gmp E fs True st =
    (List.find (gmp_header_present fs) (search_dirs E ''INCLUDE'' ''include''),
     List.find (gmp_lib_present fs st) (search_dirs E ''LIB'' ''lib''))"
proof -
  have halves:
    "scan_path_for_gmp E fs st =
      ((case en_paths E ''PATH'' of None \<Rightarrow> None
        | Some ds \<Rightarrow> first_of (\<lambda>d. List.find (gmp_header_present fs) (candidates ''include'' d)) ds),
       (case en_paths E ''PATH'' of None \<Rightarrow> None
        | Some ds \<Rightarrow> first_of (\<lambda>d. List.find (gmp_lib_present fs st) (candidates ''lib'' d)) ds))"
    "scan_path_flat E fs st =
      ((case en_paths E ''PATH'' of None \<Rightarrow> None
        | Some ds \<Rightarrow> first_of (\<lambda>d. if gmp_header_present fs d then Some d else None) ds),
       (case en_paths E ''PATH'' of None \<Rightarrow> None
        | Some ds \<Rightarrow> first_of (\<lambda>d. if gmp_lib_present fs st d then Some d else None) ds))"
    by (auto simp: scan_path_for_gmp_def scan_path_flat_def scan_dirs_halves split: option.splits)
  show ?thesis
    unfolding searched [symmetric] by (simp add: resolve_gmp_def assms halves Let_def)
qed

section \<open>Properties\<close>

text \<open>
  C38: which GMP a build uses. Anything explicit wins and stops the search; without a system GMP
  nothing is searched; otherwise each half is the first directory that has it among INCLUDE or LIB,
  the include or lib directories in and beside the entries of PATH, and those entries themselves,
  so nothing is found only when none of them has it. A library directory found has a library, and
  for a static link one that is not the import library of a DLL.
\<close>

theorem gmp_search_exact:
  "(explicit_half E ''GMP_INCLUDE_DIR'' ''include'' \<noteq> None \<or> explicit_half E ''GMP_LIB_DIR'' ''lib'' \<noteq> None \<longrightarrow>
      resolve_gmp E fs sys st =
        (explicit_half E ''GMP_INCLUDE_DIR'' ''include'', explicit_half E ''GMP_LIB_DIR'' ''lib'')) \<and>
   (explicit_half E ''GMP_INCLUDE_DIR'' ''include'' = None \<and> explicit_half E ''GMP_LIB_DIR'' ''lib'' = None \<longrightarrow>
      resolve_gmp E fs False st = (None, None) \<and>
      resolve_gmp E fs True st =
        (List.find (gmp_header_present fs) (search_dirs E ''INCLUDE'' ''include''),
         List.find (gmp_lib_present fs st) (search_dirs E ''LIB'' ''lib'')) \<and>
      (\<forall>dir. snd (resolve_gmp E fs True True) = Some dir \<longrightarrow>
         (\<exists>name \<in> {''gmp.lib'', ''libgmp.a''}. fs_is_file fs (path_join dir [name]) \<and>
            archive_at fs (path_join dir [name]) \<noteq> Some False)))"
proof (intro conjI impI)
  let ?inc = "explicit_half E ''GMP_INCLUDE_DIR'' ''include''" and ?lib = "explicit_half E ''GMP_LIB_DIR'' ''lib''"
  show "resolve_gmp E fs sys st = (?inc, ?lib)" if "?inc \<noteq> None \<or> ?lib \<noteq> None"
    using that by (simp add: resolve_gmp_def)
  assume none: "?inc = None \<and> ?lib = None"
  then show "resolve_gmp E fs False st = (None, None)" by (simp add: resolve_gmp_def)
  have search: "resolve_gmp E fs True s =
        (List.find (gmp_header_present fs) (search_dirs E ''INCLUDE'' ''include''),
         List.find (gmp_lib_present fs s) (search_dirs E ''LIB'' ''lib''))" for s
    using none by (intro resolve_gmp_search) simp_all
  then show "resolve_gmp E fs True st =
        (List.find (gmp_header_present fs) (search_dirs E ''INCLUDE'' ''include''),
         List.find (gmp_lib_present fs st) (search_dirs E ''LIB'' ''lib''))" .
  show "\<forall>dir. snd (resolve_gmp E fs True True) = Some dir \<longrightarrow>
         (\<exists>name \<in> {''gmp.lib'', ''libgmp.a''}. fs_is_file fs (path_join dir [name]) \<and>
            archive_at fs (path_join dir [name]) \<noteq> Some False)"
  proof (intro allI impI)
    fix dir assume "snd (resolve_gmp E fs True True) = Some dir"
    then have "gmp_lib_present fs True dir" using search [of True] find_holds by fastforce
    then show "\<exists>name \<in> {''gmp.lib'', ''libgmp.a''}. fs_is_file fs (path_join dir [name]) \<and>
            archive_at fs (path_join dir [name]) \<noteq> Some False"
      by (auto simp: gmp_lib_present_def Let_def split: if_splits)
  qed
qed

section \<open>A library directory that is found and then refused\<close>

text \<open>
  A prefix on PATH with a static \<open>libgmp.a\<close> beside an import library \<open>gmp.lib\<close>, as an installation
  of both kinds has.
\<close>

definition demo_prefix :: path where
  "demo_prefix = \<lparr>pa_root = ''/'', pa_parts = [''opt'', ''gmp'']\<rparr>"

definition demo_files :: file_system where
  "demo_files =
     \<lparr>fs_is_file = (\<lambda>p. p \<in> {path_join demo_prefix [''include'', ''gmp.h''], path_join demo_prefix [''lib'', ''gmp.lib''],
        path_join demo_prefix [''lib'', ''libgmp.a'']}),
      fs_is_dir = (\<lambda>p. False),
      fs_read = (\<lambda>p. if p = path_join demo_prefix [''lib'', ''gmp.lib''] then Some (ar_archive [demo_object ''GMP-10.DLL/''])
        else if p = path_join demo_prefix [''lib'', ''libgmp.a''] then Some (ar_archive [demo_object ''gmp.o/''])
        else None),
      fs_read_dir = (\<lambda>p. None)\<rparr>"

definition demo_env :: env where
  "demo_env =
     \<lparr>en_var = [''PATH'' \<mapsto> ''/opt/gmp/bin''], en_to_path = (\<lambda>_. demo_prefix),
      en_split_paths = (\<lambda>_. [path_join demo_prefix [''bin'']])\<rparr>"

lemma demo_archives:
  "archive_is_static (ar_archive [demo_object ''gmp.o/'']) = Some True"
  "archive_is_static (ar_archive [demo_object ''GMP-10.DLL/'']) = Some False"
proof -
  have len: "length (ar_archive [m]) < 2 ^ 64" if "m = demo_object ''gmp.o/'' \<or> m = demo_object ''GMP-10.DLL/''" for m
    using that demo_object_ok
    by (elim disjE) (simp_all add: ar_archive_def ar_encode_def length_ar_header, simp_all add: demo_object_def AR_MAGIC_def str_bytes_def)
  have scan: "archive_is_static (ar_archive [m]) = ar_verdict [m] False"
    if "m = demo_object ''gmp.o/'' \<or> m = demo_object ''GMP-10.DLL/''" for m
    using ar_scan_members [of "ar_archive [m]" AR_MAGIC "[m]" "length AR_MAGIC" False] len [OF that] that demo_object_ok
    by (auto simp: archive_is_static_def ar_archive_def)
  show "archive_is_static (ar_archive [demo_object ''gmp.o/'']) = Some True"
    "archive_is_static (ar_archive [demo_object ''GMP-10.DLL/'']) = Some False"
    by (simp_all add: scan demo_static_import)
qed

lemma static_gmp_found_then_refused:
  "snd (resolve_gmp demo_env demo_files True True) = Some (path_join demo_prefix [''lib'']) \<and>
   gmp_lib_present demo_files True (path_join demo_prefix [''lib'']) \<and>
   static_gmp_check demo_files ''gmp'' (Some (path_join demo_prefix [''lib''])) = None"
  by (simp add: resolve_gmp_def explicit_half_def scan_path_for_gmp_def scan_path_flat_def demo_env_def en_path_def en_paths_def
      find_dir_in_env_def candidates_def path_parent_def path_join_def demo_prefix_def gmp_lib_present_def
      demo_files_def archive_at_def demo_archives static_gmp_check_def)

theorem gmp_search_exact_witness:
  "snd (resolve_gmp demo_env demo_files True True) = Some (path_join demo_prefix [''lib'']) \<and>
   (\<exists>name \<in> {''gmp.lib'', ''libgmp.a''}. fs_is_file demo_files (path_join demo_prefix [''lib'', name]) \<and>
      archive_at demo_files (path_join demo_prefix [''lib'', name]) \<noteq> Some False)"
proof
  show found: "snd (resolve_gmp demo_env demo_files True True) = Some (path_join demo_prefix [''lib''])"
    using static_gmp_found_then_refused by blast
  have none: "explicit_half demo_env ''GMP_INCLUDE_DIR'' ''include'' = None"
    "explicit_half demo_env ''GMP_LIB_DIR'' ''lib'' = None"
    by (simp_all add: explicit_half_def demo_env_def en_path_def)
  have "\<exists>name \<in> {''gmp.lib'', ''libgmp.a''}. fs_is_file demo_files (path_join (path_join demo_prefix [''lib'']) [name]) \<and>
      archive_at demo_files (path_join (path_join demo_prefix [''lib'']) [name]) \<noteq> Some False"
    using gmp_search_exact [of demo_env demo_files True True] none found by blast
  then show "\<exists>name \<in> {''gmp.lib'', ''libgmp.a''}. fs_is_file demo_files (path_join demo_prefix [''lib'', name]) \<and>
      archive_at demo_files (path_join demo_prefix [''lib'', name]) \<noteq> Some False"
    by (simp add: path_join_def)
qed

end
