(* ===== verification/Build_Text.thy ===== *)
theory Build_Text
  imports Rust_Strings "HOL-Library.List_Lexorder" "HOL-Library.Char_ord"
begin

text \<open>
  The text the build script reads and rewrites: the names of the functions \<open>link_dll\<close> exports, found
  in the backends' sources, and the MSVC version of the Bochs \<open>config.h\<close> that
  \<open>msvc_config_header\<close> makes. Strings of bytes are compared as Rust compares them, byte by byte.
\<close>

section \<open>Exports\<close>

definition EXPORT_MARK :: string where "EXPORT_MARK = ''fn x86oracle_''"

definition ident_char :: "char \<Rightarrow> bool" where
  "ident_char c \<longleftrightarrow>
     (let n = (of_char c :: nat) in (48 \<le> n \<and> n \<le> 57) \<or> (65 \<le> n \<and> n \<le> 90) \<or> (97 \<le> n \<and> n \<le> 122) \<or> n = 95)"

definition exports_of :: "string \<Rightarrow> string list" where
  "exports_of text =
     concat (map (\<lambda>part. let rest = takeWhile ident_char part in
                    if rest \<noteq> [] then [''x86oracle_'' @ rest] else [])
              (tl (str_split EXPORT_MARK text)))"

definition dll_exports :: "string list \<Rightarrow> string list" where
  "dll_exports sources = remdups_adj (sort (concat (map exports_of sources)))"

definition NEWLINE :: string where "NEWLINE = [char_of (10 :: nat)]"

definition def_file :: "string list \<Rightarrow> string" where
  "def_file exports =
     ''LIBRARY x86oracle'' @ NEWLINE @ ''EXPORTS'' @ NEWLINE @ join_with NEWLINE exports @ NEWLINE"

text \<open>The pieces after the first are what follows an occurrence, up to the next one.\<close>

definition upto_mark :: "string \<Rightarrow> string \<Rightarrow> string" where
  "upto_mark pat t = hd (str_split pat t)"

text \<open>A pattern that cannot overlap itself: its first character does not come again.\<close>

definition head_unique :: "string \<Rightarrow> bool" where
  "head_unique pat \<longleftrightarrow> pat \<noteq> [] \<and> hd pat \<notin> set (tl pat)"

lemma starts_with_tl_not:
  assumes "head_unique pat" and "c # s = pat @ t" and "s = u @ pat @ v"
  shows "length pat - 1 \<le> length u"
proof (rule ccontr)
  assume short: "\<not> length pat - 1 \<le> length u"
  obtain d q where pat: "pat = d # q" and "d \<notin> set q" using assms(1) by (cases pat) (auto simp: head_unique_def)
  have "q @ t = u @ d # q @ v" using assms(2,3) pat by simp
  then have "(q @ t) ! length u = d" by simp
  moreover have "length u < length q" using short pat by simp
  ultimately have "q ! length u = d" by (simp add: nth_append)
  with \<open>length u < length q\<close> \<open>d \<notin> set q\<close> show False by (metis nth_mem)
qed

lemma occurrences_Cons:
  assumes "head_unique pat"
  shows "(\<exists>u. c # s = u @ pat @ t) \<longleftrightarrow>
    (if starts_with pat (c # s)
     then (let r = drop (length pat - 1) s in t = r \<or> (\<exists>u. r = u @ pat @ t))
     else (\<exists>u. s = u @ pat @ t))"
proof (cases "starts_with pat (c # s)")
  case True
  let ?r = "drop (length pat - 1) s"
  have r: "c # s = pat @ ?r" using starts_with_Cons [OF _ True] assms by (simp add: head_unique_def)
  have "t = ?r \<or> (\<exists>u. ?r = u @ pat @ t)" if "c # s = u @ pat @ t" for u
  proof (cases u)
    case Nil
    with that r show ?thesis by simp
  next
    case (Cons d v)
    with that have s: "s = v @ pat @ t" by simp
    have "length pat - 1 \<le> length v" by (rule starts_with_tl_not [OF assms r s])
    then have "?r = drop (length pat - 1) v @ pat @ t" by (simp add: s)
    then show ?thesis by blast
  qed
  moreover have "\<exists>u. c # s = u @ pat @ t" if "t = ?r \<or> (\<exists>u. ?r = u @ pat @ t)"
    using that
  proof
    assume "t = ?r"
    with r have "c # s = [] @ pat @ t" by simp
    then show ?thesis by blast
  next
    assume "\<exists>u. ?r = u @ pat @ t"
    then obtain u where "?r = u @ pat @ t" by blast
    with r have "c # s = (pat @ u) @ pat @ t" by simp
    then show ?thesis by blast
  qed
  ultimately show ?thesis using True by (auto simp: Let_def)
next
  case False
  have "\<exists>v. s = v @ pat @ t" if "c # s = u @ pat @ t" for u
    using that False by (cases u) auto
  moreover have "\<exists>u. c # s = u @ pat @ t" if "s = v @ pat @ t" for v
    using that by (intro exI [of _ "c # v"]) simp
  ultimately show ?thesis using False by auto
qed

lemma split_tail_set:
  "head_unique pat \<Longrightarrow> set (tl (split_from pat cur s)) = {upto_mark pat t | t. \<exists>u. s = u @ pat @ t}"
proof (induction pat cur s rule: split_from.induct)
  case (1 pat cur)
  then show ?case by (auto simp: head_unique_def)
next
  case (2 pat cur c s)
  show ?case
  proof (cases "starts_with pat (c # s)")
    case True
    let ?r = "drop (length pat - 1) s"
    have "set (split_from pat [] ?r) = insert (upto_mark pat ?r) (set (tl (split_from pat [] ?r)))"
      by (metis list.exhaust_sel list.simps(15) split_from_nonempty str_split_def upto_mark_def)
    with 2 True show ?thesis
      by (auto simp: occurrences_Cons [OF 2(3)] Let_def)
  next
    case False
    with 2 show ?thesis by (simp add: occurrences_Cons [OF 2(3)])
  qed
qed

lemma distinct_sorted_remdups: "sorted xs \<Longrightarrow> distinct (remdups_adj xs)"
  by (induction xs rule: remdups_adj.induct) auto

lemma set_exports_of:
  "set (exports_of text) =
     {''x86oracle_'' @ takeWhile ident_char (upto_mark EXPORT_MARK t) | t.
        (\<exists>u. text = u @ EXPORT_MARK @ t) \<and> takeWhile ident_char (upto_mark EXPORT_MARK t) \<noteq> []}"
proof -
  have "head_unique EXPORT_MARK" by (simp add: head_unique_def EXPORT_MARK_def)
  then have "set (tl (str_split EXPORT_MARK text)) = {upto_mark EXPORT_MARK t | t. \<exists>u. text = u @ EXPORT_MARK @ t}"
    by (simp add: str_split_def split_tail_set)
  then show ?thesis by (auto simp: exports_of_def Let_def split: if_splits)
qed

section \<open>The MSVC configuration\<close>

definition MSVC_PREAMBLE :: string where
  "MSVC_PREAMBLE =
     ''/* Generated by hybrid-x86-oracle's build.rs from vendor/bochs/config.h.'' @ NEWLINE @
     ''   Do not edit: see msvc_config_header() in build.rs. */'' @ NEWLINE @
     ''#ifndef WIN32'' @ NEWLINE @
     ''#define WIN32 1'' @ NEWLINE @
     ''#endif'' @ NEWLINE"

definition MSVC_SUBS :: "(string \<times> string) list" where
  "MSVC_SUBS =
     [(''#define MSVC_TARGET 0'', ''#define MSVC_TARGET 64''),
      (''#define SIZEOF_UNSIGNED_LONG 8'', ''#define SIZEOF_UNSIGNED_LONG 4''),
      (''#define BX_HAVE_DLFCN_H 1'', ''#define BX_HAVE_DLFCN_H 0''),
      (''#define BX_HAVE_SYS_MMAN_H 1'', ''#define BX_HAVE_SYS_MMAN_H 0''),
      (''#define HAVE_SIGACTION 1'', ''#define HAVE_SIGACTION 0''),
      (''#define BX_HAVE_STRICMP 0'', ''#define BX_HAVE_STRICMP 1''),
      (''#define BX_HAVE_STRCASECMP 1'', ''#define BX_HAVE_STRCASECMP 0''),
      (''#define BX_HAVE_STRREV 0'', ''#define BX_HAVE_STRREV 1''),
      (''#define BX_HAVE_SSIZE_T 1'', ''#define BX_HAVE_SSIZE_T 0''),
      (''#define BX_HAVE_SLEEP 1'', ''#define BX_HAVE_SLEEP 0''),
      (''#define BX_HAVE_USLEEP 1'', ''#define BX_HAVE_USLEEP 0''),
      (''#define BX_HAVE_NANOSLEEP 1'', ''#define BX_HAVE_NANOSLEEP 0''),
      (''#define BX_HAVE_GETTIMEOFDAY 1'', ''#define BX_HAVE_GETTIMEOFDAY 0''),
      (''#define BX_HAVE_MKSTEMP 1'', ''#define BX_HAVE_MKSTEMP 0''),
      (''#define BX_HAVE_SETENV 1'', ''#define BX_HAVE_SETENV 0''),
      (''#define BX_HAVE___BUILTIN_BSWAP32 1'', ''#define BX_HAVE___BUILTIN_BSWAP32 0''),
      (''#define BX_HAVE___BUILTIN_BSWAP64 1'', ''#define BX_HAVE___BUILTIN_BSWAP64 0'')]"

text \<open>The loop: each text to replace must be there. \<open>None\<close> is the panic of the assertion.\<close>

fun substitute_all :: "(string \<times> string) list \<Rightarrow> string \<Rightarrow> string panics" where
  "substitute_all [] text = Some text"
| "substitute_all ((old, new) # subs) text =
     (if \<not> str_contains old text then None else substitute_all subs (str_replace old new text))"

definition msvc_config_header :: "string \<Rightarrow> string panics" where
  "msvc_config_header text = map_option (\<lambda>text. MSVC_PREAMBLE @ text) (substitute_all MSVC_SUBS text)"

text \<open>
  A text in directives: what comes before the first \<open>#\<close>, and the pieces old each \<open>#\<close> new the next.
\<close>

fun directives :: "string \<Rightarrow> string list" where
  "directives [] = [[]]"
| "directives (c # s) =
     (if c = CHR ''#'' then [] # (c # hd (directives s)) # tl (directives s)
      else (c # hd (directives s)) # tl (directives s))"

definition directive :: "string \<Rightarrow> bool" where
  "directive g \<longleftrightarrow> (\<exists>q. g = CHR ''#'' # q \<and> CHR ''#'' \<notin> set q)"

definition rewrite_one :: "string \<times> string \<Rightarrow> string \<Rightarrow> string" where
  "rewrite_one sub g = (if starts_with (fst sub) g then snd sub @ drop (length (fst sub)) g else g)"

definition rewrite_directive :: "(string \<times> string) list \<Rightarrow> string \<Rightarrow> string" where
  "rewrite_directive subs g =
     (case List.find (\<lambda>sub. starts_with (fst sub) g) subs of None \<Rightarrow> g | Some sub \<Rightarrow> rewrite_one sub g)"

lemma directives_nonempty [simp]: "directives s \<noteq> []"
  by (cases s) simp_all

lemma directives_concat: "hd (directives s) @ concat (tl (directives s)) = s"
  by (induction s) auto

lemma directives_wf: "CHR ''#'' \<notin> set (hd (directives s)) \<and> list_all directive (tl (directives s))"
  by (induction s) (auto simp: directive_def)

lemma directive_prefix:
  assumes "directive old" and "directive g" and "s = [] \<or> hd s = CHR ''#''"
  shows "starts_with old (g @ s) \<longleftrightarrow> starts_with old g"
proof
  assume "starts_with old (g @ s)"
  then obtain t where t: "g @ s = old @ t" by (auto simp: starts_with_iff)
  then consider us where "g = old @ us" | us where "old = g @ us" "s = us @ t" "us \<noteq> []"
    by (auto simp: append_eq_append_conv2) blast
  then show "starts_with old g"
  proof cases
    case 2
    then have "hd us = CHR ''#''" using assms(3) by (cases us) auto
    then have "CHR ''#'' \<in> set (tl old)" using 2 assms(2) by (cases us) (auto simp: directive_def)
    with assms(1) show ?thesis by (auto simp: directive_def)
  qed simp
next
  show "starts_with old g \<Longrightarrow> starts_with old (g @ s)" by (auto simp: starts_with_iff)
qed

lemma plain_no_start: "directive old \<Longrightarrow> c \<noteq> CHR ''#'' \<Longrightarrow> \<not> starts_with old (c # s)"
  by (auto simp: directive_def starts_with_iff)

lemma replace_plain: "directive old \<Longrightarrow> CHR ''#'' \<notin> set h \<Longrightarrow> str_replace old new (h @ s) = h @ str_replace old new s"
  by (induction h) (auto simp: plain_no_start)

lemma contains_plain: "directive old \<Longrightarrow> CHR ''#'' \<notin> set h \<Longrightarrow> str_contains old (h @ s) \<longleftrightarrow> str_contains old s"
  by (induction h) (auto simp: plain_no_start)

lemma replace_directive:
  assumes "directive old" and "directive g" and "s = [] \<or> hd s = CHR ''#''"
  shows "str_replace old new (g @ s) = rewrite_one (old, new) g @ str_replace old new s"
    and "str_contains old (g @ s) \<longleftrightarrow> starts_with old g \<or> str_contains old s"
proof -
  obtain q where g: "g = CHR ''#'' # q" "CHR ''#'' \<notin> set q" using assms(2) by (auto simp: directive_def)
  have start: "starts_with old (CHR ''#'' # q @ s) \<longleftrightarrow> starts_with old g"
    using directive_prefix [OF assms] g by simp
  show "str_contains old (g @ s) \<longleftrightarrow> starts_with old g \<or> str_contains old s"
    by (simp add: g(1) start [unfolded g(1)] contains_plain [OF assms(1) g(2)])
  show "str_replace old new (g @ s) = rewrite_one (old, new) g @ str_replace old new s"
  proof (cases "starts_with old g")
    case True
    then obtain r where r: "g = old @ r" by (auto simp: starts_with_iff)
    obtain p where p: "old = CHR ''#'' # p" using assms(1) by (auto simp: directive_def)
    have q: "q = p @ r" and "CHR ''#'' \<notin> set r" using r p g by auto
    moreover have "starts_with (CHR ''#'' # p) (CHR ''#'' # p @ t)" for t by (simp add: starts_with_def)
    ultimately show ?thesis
      by (simp add: g(1) rewrite_one_def p replace_plain [OF assms(1), unfolded p])
  next
    case False
    then show ?thesis
      by (simp add: g(1) start [unfolded g(1)] rewrite_one_def replace_plain [OF assms(1) g(2)])
  qed
qed

lemma concat_directives_hd: "list_all directive gs \<Longrightarrow> concat gs = [] \<or> hd (concat gs) = CHR ''#''"
  by (cases gs) (auto simp: directive_def)

lemma replace_directives:
  assumes "directive old" and "CHR ''#'' \<notin> set h" and "list_all directive gs"
  shows "str_replace old new (h @ concat gs) = h @ concat (map (rewrite_one (old, new)) gs)"
    and "str_contains old (h @ concat gs) \<longleftrightarrow> list_ex (starts_with old) gs"
proof -
  have "str_replace old new (concat gs) = concat (map (rewrite_one (old, new)) gs) \<and>
      (str_contains old (concat gs) \<longleftrightarrow> list_ex (starts_with old) gs)"
    using assms(3)
  proof (induction gs)
    case Nil
    show ?case using assms(1) by (auto simp: directive_def)
  next
    case (Cons g gs)
    then show ?case using replace_directive [OF assms(1) _ concat_directives_hd, of g gs] by simp
  qed
  then show "str_replace old new (h @ concat gs) = h @ concat (map (rewrite_one (old, new)) gs)"
    and "str_contains old (h @ concat gs) \<longleftrightarrow> list_ex (starts_with old) gs"
    by (simp_all add: replace_plain [OF assms(1,2)] contains_plain [OF assms(1,2)])
qed

text \<open>
  The table: every text is one directive, and no two of them, old or new, can start the same
  directive, but for an old text and itself.
\<close>

definition clash :: "string \<Rightarrow> string \<Rightarrow> bool" where
  "clash p q \<longleftrightarrow> \<not> starts_with p q \<and> \<not> starts_with q p"

fun subs_ok :: "(string \<times> string) list \<Rightarrow> bool" where
  "subs_ok [] \<longleftrightarrow> True"
| "subs_ok ((old, new) # subs) \<longleftrightarrow> directive old \<and> directive new \<and> clash old new \<and>
     list_all (\<lambda>(old', new'). clash old old' \<and> clash old new' \<and> clash new old') subs \<and> subs_ok subs"

lemma clash_append: "clash p q \<Longrightarrow> \<not> starts_with p (q @ r)"
  unfolding clash_def starts_with_iff by (auto simp: append_eq_append_conv2)

lemma clash_start: "clash p q \<Longrightarrow> starts_with q g \<Longrightarrow> \<not> starts_with p g"
  using clash_append by (auto simp: starts_with_iff [of q g])

lemma clash_sym: "clash p q \<longleftrightarrow> clash q p"
  by (auto simp: clash_def)

lemma directive_rewrite: "directive new \<Longrightarrow> directive g \<Longrightarrow> directive old \<Longrightarrow> directive (rewrite_one (old, new) g)"
  by (auto simp: rewrite_one_def directive_def dest: in_set_dropD)

text \<open>Rewriting with one entry neither makes nor removes a target of a later one.\<close>

lemma rewrite_one_starts:
  assumes "clash old old'" and "clash new old'"
  shows "starts_with old' (rewrite_one (old, new) g) \<longleftrightarrow> starts_with old' g"
proof (cases "starts_with old g")
  case True
  then have "\<not> starts_with old' g" using clash_start [of old' old g] assms(1) clash_sym by blast
  moreover have "\<not> starts_with old' (new @ drop (length old) g)"
    using clash_append [of old' new] assms(2) clash_sym by blast
  ultimately show ?thesis using True by (simp add: rewrite_one_def)
qed (simp add: rewrite_one_def)

lemma rewrite_later:
  assumes "list_all (\<lambda>(old', new'). clash old old' \<and> clash old new' \<and> clash new old') subs"
  shows "rewrite_directive subs (rewrite_one (old, new) g) = rewrite_directive ((old, new) # subs) g"
proof (cases "starts_with old g")
  case True
  have "\<not> starts_with (fst sub) (new @ drop (length old) g)" if "sub \<in> set subs" for sub
    using that assms clash_append [of "fst sub" new] clash_sym by (auto simp: list_all_iff)
  then have "List.find (\<lambda>sub. starts_with (fst sub) (new @ drop (length old) g)) subs = None"
    by (auto simp: find_None_iff)
  with True show ?thesis by (simp add: rewrite_directive_def rewrite_one_def)
qed (simp add: rewrite_directive_def rewrite_one_def)

lemma substitute_all_directives:
  assumes "subs_ok subs" and "CHR ''#'' \<notin> set h" and "list_all directive gs"
  shows "substitute_all subs (h @ concat gs) =
    (if list_all (\<lambda>sub. list_ex (starts_with (fst sub)) gs) subs
     then Some (h @ concat (map (rewrite_directive subs) gs)) else None)"
  using assms(1,3)
proof (induction subs arbitrary: gs)
  case Nil
  then show ?case by (simp add: rewrite_directive_def [abs_def])
next
  case (Cons sub subs)
  obtain old new where sub: "sub = (old, new)" by (cases sub)
  have ok: "directive old" "directive new" "subs_ok subs"
    and clashes: "list_all (\<lambda>(old', new'). clash old old' \<and> clash old new' \<and> clash new old') subs"
    using Cons.prems(1) by (simp_all add: sub)
  let ?gs = "map (rewrite_one (old, new)) gs"
  have gs: "list_all directive ?gs"
    using Cons.prems(2) directive_rewrite [OF ok(2) _ ok(1)] by (auto simp: list_all_iff)
  have later: "list_all (\<lambda>sub. list_ex (starts_with (fst sub)) ?gs) subs \<longleftrightarrow>
      list_all (\<lambda>sub. list_ex (starts_with (fst sub)) gs) subs"
    using clashes by (simp add: list_all_iff list_ex_iff) (metis (no_types, lifting) case_prodE fst_conv rewrite_one_starts)
  have both: "rewrite_directive subs \<circ> rewrite_one (old, new) = rewrite_directive ((old, new) # subs)"
    by (simp add: fun_eq_iff rewrite_later [OF clashes])
  show ?case
    using Cons.IH [OF ok(3) gs] later
    by (simp add: sub replace_directives [OF ok(1) assms(2) Cons.prems(2)] both)
qed

lemma MSVC_SUBS_ok: "subs_ok MSVC_SUBS"
  by (simp add: MSVC_SUBS_def directive_def clash_def starts_with_def)

lemma substituted_present:
  assumes "subs_ok subs" and "(old, new) \<in> set subs"
  shows "\<not> starts_with old (rewrite_directive subs g)"
    and "starts_with old g \<Longrightarrow> starts_with new (rewrite_directive subs g)"
proof -
  have "\<not> starts_with old (rewrite_directive subs g) \<and>
      (starts_with old g \<longrightarrow> starts_with new (rewrite_directive subs g))"
    using assms
  proof (induction subs)
    case (Cons sub subs)
    obtain p q where sub: "sub = (p, q)" by (cases sub)
    have clashes: "clash p q" "list_all (\<lambda>(p', q'). clash p p' \<and> clash p q' \<and> clash q p') subs" "subs_ok subs"
      using Cons.prems(1) by (simp_all add: sub)
    show ?case
    proof (cases "starts_with p g")
      case True
      then have r: "rewrite_directive (sub # subs) g = q @ drop (length p) g"
        by (simp add: rewrite_directive_def rewrite_one_def sub)
      show ?thesis
      proof (cases "(old, new) = (p, q)")
        case True
        then show ?thesis using clash_append [OF clashes(1)] by (simp add: r)
      next
        case False
        then have "clash p old" "clash q old" using Cons.prems(2) clashes(2) by (auto simp: sub list_all_iff)
        then show ?thesis using clash_append [of old q] clash_start [of old p g] True clash_sym by (auto simp: r)
      qed
    next
      case False
      then have r: "rewrite_directive (sub # subs) g = rewrite_directive subs g"
        by (simp add: rewrite_directive_def sub)
      show ?thesis
      proof (cases "(old, new) \<in> set subs")
        case True
        then show ?thesis using Cons.IH [OF clashes(3)] by (simp add: r)
      next
        case False
        with Cons.prems(2) have e: "old = p" "new = q" by (auto simp: sub)
        have "\<not> starts_with p (rewrite_directive subs g)"
        proof (cases "List.find (\<lambda>sub. starts_with (fst sub) g) subs")
          case None
          then show ?thesis using \<open>\<not> starts_with p g\<close> by (simp add: rewrite_directive_def)
        next
          case (Some s)
          then have "s \<in> set subs" "starts_with (fst s) g" by (auto simp: find_Some_iff)
          moreover from this have "clash p (snd s)" using clashes(2) by (auto simp: list_all_iff)
          ultimately show ?thesis using Some clash_append [of p "snd s"]
            by (simp add: rewrite_directive_def rewrite_one_def)
        qed
        then show ?thesis using \<open>\<not> starts_with p g\<close> by (simp add: r e)
      qed
    qed
  qed simp
  then show "\<not> starts_with old (rewrite_directive subs g)"
    and "starts_with old g \<Longrightarrow> starts_with new (rewrite_directive subs g)" by blast+
qed

lemma directive_rewrite_directive:
  assumes "subs_ok subs" and "directive g"
  shows "directive (rewrite_directive subs g)"
proof (cases "List.find (\<lambda>sub. starts_with (fst sub) g) subs")
  case (Some s)
  have "directive (fst s) \<and> directive (snd s)" if "s \<in> set subs" using assms(1) that by (induction subs) auto
  moreover have "s \<in> set subs" using Some by (auto simp: find_Some_iff)
  ultimately show ?thesis
    using Some assms(2) directive_rewrite [of "snd s" g "fst s"] by (simp add: rewrite_directive_def)
qed (use assms in \<open>simp add: rewrite_directive_def\<close>)

section \<open>Properties\<close>

text \<open>
  The DLL exports what the sources declare, once each, in a fixed order. A name is exported
  exactly when some enabled source contains the mark \<open>fn x86oracle_\<close> followed by a nonempty
  identifier, and the name is \<open>x86oracle_\<close> with that identifier; the list is sorted, free of
  duplicates, and does not depend on the order of the sources or of the declarations.
\<close>

theorem dll_exports_exact:
  "(name \<in> set (dll_exports sources) \<longleftrightarrow>
      (\<exists>text u t. text \<in> set sources \<and> text = u @ EXPORT_MARK @ t \<and>
         takeWhile ident_char (upto_mark EXPORT_MARK t) \<noteq> [] \<and>
         name = ''x86oracle_'' @ takeWhile ident_char (upto_mark EXPORT_MARK t))) \<and>
   sorted (dll_exports sources) \<and> distinct (dll_exports sources) \<and>
   (set sources = set sources' \<longrightarrow> dll_exports sources = dll_exports sources')"
proof (intro conjI impI)
  show "name \<in> set (dll_exports sources) \<longleftrightarrow>
      (\<exists>text u t. text \<in> set sources \<and> text = u @ EXPORT_MARK @ t \<and>
         takeWhile ident_char (upto_mark EXPORT_MARK t) \<noteq> [] \<and>
         name = ''x86oracle_'' @ takeWhile ident_char (upto_mark EXPORT_MARK t))"
    by (auto simp: dll_exports_def set_exports_of)
  have shape: "sorted (dll_exports ss) \<and> distinct (dll_exports ss)" for ss
    by (simp add: dll_exports_def distinct_sorted_remdups)
  then show "sorted (dll_exports sources)" "distinct (dll_exports sources)" by blast+
  assume "set sources = set sources'"
  then have "set (dll_exports sources) = set (dll_exports sources')" by (simp add: dll_exports_def)
  with shape show "dll_exports sources = dll_exports sources'" by (metis sorted_distinct_set_unique)
qed

text \<open>
  C40: the seventeen replacements in \<open>config.h\<close> do not interfere. Done one after the other on the
  whole text, each after checking that its target is still there, they give what one simultaneous
  pass over the directives of the original gives, and they panic exactly when the original lacks
  one of the targets. In the result no target is left, every replacement is there, and everything
  that is not a target is as it was.
\<close>

theorem msvc_config_exact:
  "msvc_config_header text =
     (if \<exists>sub \<in> set MSVC_SUBS. \<not> str_contains (fst sub) text then None
      else Some (MSVC_PREAMBLE @ hd (directives text) @
             concat (map (rewrite_directive MSVC_SUBS) (tl (directives text))))) \<and>
   (\<nexists>out sub. msvc_config_header text = Some (MSVC_PREAMBLE @ out) \<and> sub \<in> set MSVC_SUBS \<and>
      \<not> (\<not> str_contains (fst sub) out \<and> str_contains (snd sub) out))"
proof -
  let ?h = "hd (directives text)" and ?gs = "tl (directives text)"
  note parts = directives_wf [of "text"]
  have whole: "text = ?h @ concat ?gs" by (simp add: directives_concat)
  have old: "directive (fst sub)" "directive (snd sub)" if "sub \<in> set MSVC_SUBS" for sub
  proof -
    have "subs_ok subs \<Longrightarrow> sub \<in> set subs \<Longrightarrow> directive (fst sub) \<and> directive (snd sub)" for subs
      by (induction subs) auto
    with MSVC_SUBS_ok that show "directive (fst sub)" "directive (snd sub)" by blast+
  qed
  have contains: "str_contains (fst sub) text \<longleftrightarrow> list_ex (starts_with (fst sub)) ?gs" if "sub \<in> set MSVC_SUBS" for sub
    using replace_directives(2) [OF old(1) [OF that], of ?h ?gs] parts whole by simp
  have result: "msvc_config_header text =
     (if \<exists>sub \<in> set MSVC_SUBS. \<not> str_contains (fst sub) text then None
      else Some (MSVC_PREAMBLE @ ?h @ concat (map (rewrite_directive MSVC_SUBS) ?gs)))"
    using substitute_all_directives [OF MSVC_SUBS_ok, of ?h ?gs] parts
    unfolding whole [symmetric] by (auto simp: msvc_config_header_def list_all_iff contains)
  have "\<not> str_contains (fst sub) out \<and> str_contains (snd sub) out"
    if out: "msvc_config_header text = Some (MSVC_PREAMBLE @ out)" and sub: "sub \<in> set MSVC_SUBS" for out sub
  proof -
    let ?gs' = "map (rewrite_directive MSVC_SUBS) ?gs"
    have out': "out = ?h @ concat ?gs'" and "str_contains (fst sub) text"
      using out sub unfolding result by (auto split: if_splits)
    then have "list_ex (starts_with (fst sub)) ?gs" using contains [OF sub] by simp
    then have "list_ex (starts_with (snd sub)) ?gs'"
      using substituted_present(2) [OF MSVC_SUBS_ok, of "fst sub" "snd sub"] sub by (auto simp: list_ex_iff)
    moreover have "\<not> list_ex (starts_with (fst sub)) ?gs'"
      using substituted_present(1) [OF MSVC_SUBS_ok, of "fst sub" "snd sub"] sub by (auto simp: list_ex_iff)
    moreover have gs': "list_all directive ?gs'"
      using parts directive_rewrite_directive [OF MSVC_SUBS_ok] by (auto simp: list_all_iff)
    ultimately show ?thesis
      using replace_directives(2) [OF old(1) [OF sub] _ gs', of ?h]
        replace_directives(2) [OF old(2) [OF sub] _ gs', of ?h] parts by (simp add: out')
  qed
  with result show ?thesis by blast
qed

section \<open>Witnesses\<close>

definition demo_config :: string where
  "demo_config = concat (map (\<lambda>sub. fst sub @ NEWLINE) MSVC_SUBS)"

theorem msvc_config_exact_witness:
  "(\<exists>out. msvc_config_header demo_config = Some (MSVC_PREAMBLE @ out) \<and>
      \<not> str_contains ''#define MSVC_TARGET 0'' out \<and> str_contains ''#define MSVC_TARGET 64'' out) \<and>
   msvc_config_header ''#define MSVC_TARGET 0'' = None"
proof
  have present: "str_contains (fst sub) demo_config" if "sub \<in> set MSVC_SUBS" for sub
  proof -
    obtain xs ys where parts: "MSVC_SUBS = xs @ sub # ys" using \<open>sub \<in> set MSVC_SUBS\<close> by (meson split_list)
    have "demo_config = concat (map (\<lambda>sub. fst sub @ NEWLINE) xs) @ fst sub @ NEWLINE @ concat (map (\<lambda>sub. fst sub @ NEWLINE) ys)"
      unfolding demo_config_def parts by simp
    then show ?thesis unfolding str_contains_iff by blast
  qed
  let ?out = "hd (directives demo_config) @ concat (map (rewrite_directive MSVC_SUBS) (tl (directives demo_config)))"
  have out: "msvc_config_header demo_config = Some (MSVC_PREAMBLE @ ?out)"
    by (subst conjunct1 [OF msvc_config_exact]) (simp add: present)
  have target: "(''#define MSVC_TARGET 0'', ''#define MSVC_TARGET 64'') \<in> set MSVC_SUBS"
    unfolding MSVC_SUBS_def list.set by (rule insertI1)
  have "\<not> (\<not> (\<not> str_contains (fst sub) ?out \<and> str_contains (snd sub) ?out))" if "sub \<in> set MSVC_SUBS" for sub
    using conjunct2 [OF msvc_config_exact [of demo_config]] out that by blast
  from this [OF target] show "\<exists>out. msvc_config_header demo_config = Some (MSVC_PREAMBLE @ out) \<and>
      \<not> str_contains ''#define MSVC_TARGET 0'' out \<and> str_contains ''#define MSVC_TARGET 64'' out"
    using out by (intro exI [of _ ?out]) (simp only: fst_conv snd_conv simp_thms)
  have absent: "(''#define SIZEOF_UNSIGNED_LONG 8'', ''#define SIZEOF_UNSIGNED_LONG 4'') \<in> set MSVC_SUBS"
    unfolding MSVC_SUBS_def list.set by (rule insertI2, rule insertI1)
  have "\<not> str_contains ''#define SIZEOF_UNSIGNED_LONG 8'' ''#define MSVC_TARGET 0''"
    by (simp add: starts_with_def)
  then have "\<exists>sub \<in> set MSVC_SUBS. \<not> str_contains (fst sub) ''#define MSVC_TARGET 0''"
    by (intro bexI [OF _ absent]) (simp only: fst_conv simp_thms)
  then show "msvc_config_header ''#define MSVC_TARGET 0'' = None"
    by (subst conjunct1 [OF msvc_config_exact]) (rule if_P)
qed

end
