(* ===== verification/Build_Unpack.thy ===== *)
theory Build_Unpack
  imports Prelude
begin

text \<open>
  \<open>unpack_vendored_model\<close> of \<open>build.rs\<close>: decompressing the vendored model into \<open>OUT_DIR\<close>, unless a
  stamp says that it is there already. The two files it writes are the state; what it does to them
  is a list of effects, so that a build stopped anywhere is a prefix of the list. The decompressor
  (\<open>flate2\<close>) is a parameter: the bytes it yields, and whether it reached the end without an error.
\<close>

section \<open>The two files\<close>

record unpack_files =
  uf_out :: "u8 list option"
  uf_stamp :: "u8 list option"

datatype unpack_effect = Remove_stamp | Create_out | Append_out u8 | Create_stamp | Append_stamp u8

text \<open>
  Writing into a file that has been created appends to it; \<open>fs::write\<close> creates and then writes. The
  finest interleaving of a crash is taken: one byte at a time. Removing the stamp, whose error the
  code ignores, is taken to succeed.
\<close>

fun apply_effect :: "unpack_effect \<Rightarrow> unpack_files \<Rightarrow> unpack_files" where
  "apply_effect Remove_stamp f = f\<lparr>uf_stamp := None\<rparr>"
| "apply_effect Create_out f = f\<lparr>uf_out := Some []\<rparr>"
| "apply_effect (Append_out b) f = f\<lparr>uf_out := map_option (\<lambda>bs. bs @ [b]) (uf_out f)\<rparr>"
| "apply_effect Create_stamp f = f\<lparr>uf_stamp := Some []\<rparr>"
| "apply_effect (Append_stamp b) f = f\<lparr>uf_stamp := map_option (\<lambda>bs. bs @ [b]) (uf_stamp f)\<rparr>"

definition perform :: "unpack_effect list \<Rightarrow> unpack_files \<Rightarrow> unpack_files" where
  "perform = fold apply_effect"

section \<open>The function\<close>

definition gz_trailer :: "u8 list \<Rightarrow> u8 list" where
  "gz_trailer data = drop (length data - 8) data"

definition unpack_fresh :: "u8 list \<Rightarrow> unpack_files \<Rightarrow> bool" where
  "unpack_fresh data f \<longleftrightarrow>
     (case uf_out f of None \<Rightarrow> False | Some _ \<Rightarrow>
        (case uf_stamp f of None \<Rightarrow> False | Some s \<Rightarrow> s = gz_trailer data))"

definition unpack_effects :: "(u8 list \<Rightarrow> u8 list \<times> bool) \<Rightarrow> u8 list \<Rightarrow> unpack_files \<Rightarrow> unpack_effect list" where
  "unpack_effects gunzip data f =
     (if unpack_fresh data f then []
      else (let (bytes, ended) = gunzip data in
        [Remove_stamp, Create_out] @ map Append_out bytes @
        (if ended then Create_stamp # map Append_stamp (gz_trailer data) else [])))"

text \<open>
  The whole call: \<open>gz\<close> is the vendored file if it is there. \<open>None\<close> is a panic: the file is missing,
  or decompressing it failed.
\<close>

definition unpack_vendored_model ::
    "(u8 list \<Rightarrow> u8 list \<times> bool) \<Rightarrow> u8 list option \<Rightarrow> unpack_files \<Rightarrow> unit panics \<times> unpack_files" where
  "unpack_vendored_model gunzip gz f =
     (case gz of
        None \<Rightarrow> (None, f)
      | Some data \<Rightarrow>
          (if \<not> unpack_fresh data f \<and> \<not> snd (gunzip data) then None else Some (),
           perform (unpack_effects gunzip data f) f))"

section \<open>Builds that may be stopped\<close>

text \<open>
  \<open>OUT_DIR\<close> is shared by builds of several versions of the crate, whose vendored files are \<open>V\<close>; each
  build may be stopped after any of its effects.
\<close>

inductive shared_out_dir :: "(u8 list \<Rightarrow> u8 list \<times> bool) \<Rightarrow> u8 list set \<Rightarrow> unpack_files \<Rightarrow> bool"
  for gunzip V
where
  empty: "shared_out_dir gunzip V \<lparr>uf_out = None, uf_stamp = None\<rparr>"
| build: "shared_out_dir gunzip V f \<Longrightarrow> data \<in> V \<Longrightarrow>
    shared_out_dir gunzip V (perform (take n (unpack_effects gunzip data f)) f)"

text \<open>What the format promises of the versions: a trailer of eight bytes, which identifies the data.\<close>

definition gz_law :: "(u8 list \<Rightarrow> u8 list \<times> bool) \<Rightarrow> u8 list set \<Rightarrow> bool" where
  "gz_law gunzip V \<longleftrightarrow> (\<forall>v \<in> V. 8 \<le> length v) \<and>
     (\<forall>v \<in> V. \<forall>w \<in> V. snd (gunzip v) \<longrightarrow> gz_trailer v = gz_trailer w \<longrightarrow> gunzip v = gunzip w)"

text \<open>
  The invariant: a complete stamp is the trailer of a version whose data the output is. A stamp that
  was cut short is no trailer.
\<close>

definition stamp_inv :: "(u8 list \<Rightarrow> u8 list \<times> bool) \<Rightarrow> u8 list set \<Rightarrow> unpack_files \<Rightarrow> bool" where
  "stamp_inv gunzip V f \<longleftrightarrow>
     (\<forall>s. uf_stamp f = Some s \<longrightarrow> length s < 8 \<or>
        (\<exists>v \<in> V. s = gz_trailer v \<and> snd (gunzip v) \<and> uf_out f = Some (fst (gunzip v))))"

lemma perform_simps [simp]:
  "perform [] f = f" "perform (e # es) f = perform es (apply_effect e f)"
  "perform (es @ es') f = perform es' (perform es f)"
  by (simp_all add: perform_def)

lemma perform_append_out:
  "uf_out f = Some bs \<Longrightarrow> perform (map Append_out cs) f = f\<lparr>uf_out := Some (bs @ cs)\<rparr>"
  by (induction cs arbitrary: bs f) simp_all

lemma perform_append_stamp:
  "uf_stamp f = Some bs \<Longrightarrow> perform (map Append_stamp cs) f = f\<lparr>uf_stamp := Some (bs @ cs)\<rparr>"
  by (induction cs arbitrary: bs f) simp_all

lemma length_gz_trailer: "8 \<le> length v \<Longrightarrow> length (gz_trailer v) = 8"
  by (simp add: gz_trailer_def)

lemma perform_keeps_stamp:
  "list_all (\<lambda>e. e = Create_out \<or> (\<exists>b. e = Append_out b)) es \<Longrightarrow> uf_stamp (perform es f) = uf_stamp f"
  by (induction es arbitrary: f) auto

text \<open>A build that is stopped has removed the stamp, or written all of the output and part of the stamp.\<close>

lemma build_prefix:
  assumes "\<not> unpack_fresh data f" and "n \<noteq> 0"
  shows "uf_stamp (perform (take n (unpack_effects gunzip data f)) f) = None \<or>
    snd (gunzip data) \<and> (\<exists>k. perform (take n (unpack_effects gunzip data f)) f =
        \<lparr>uf_out = Some (fst (gunzip data)), uf_stamp = Some (take k (gz_trailer data))\<rparr>)"
proof -
  obtain bytes ended where gz: "gunzip data = (bytes, ended)" by (cases "gunzip data")
  let ?t = "gz_trailer data" and ?A = "Create_out # map Append_out bytes"
  let ?B = "if ended then Create_stamp # map Append_stamp ?t else []"
  have "unpack_effects gunzip data f = Remove_stamp # ?A @ ?B"
    using assms(1) by (simp add: unpack_effects_def gz)
  moreover obtain m where "n = Suc m" using assms(2) by (cases n) auto
  ultimately have es: "take n (unpack_effects gunzip data f) = Remove_stamp # take m ?A @ take (m - length ?A) ?B"
    by (simp only: take_Suc_Cons take_append)
  have "list_all (\<lambda>e. e = Create_out \<or> (\<exists>b. e = Append_out b)) (take m ?A)"
    using set_take_subset [of m ?A] by (auto simp: list_all_iff)
  then have stamp: "uf_stamp (perform (take m ?A) (f\<lparr>uf_stamp := None\<rparr>)) = None"
    by (simp add: perform_keeps_stamp)
  show ?thesis
  proof (cases "m - length ?A = 0 \<or> \<not> ended")
    case True
    then have "take (m - length ?A) ?B = []" by auto
    with es have "take n (unpack_effects gunzip data f) = Remove_stamp # take m ?A" by (simp only: append_Nil2)
    then show ?thesis using stamp by simp
  next
    case False
    then obtain k where k: "m - length ?A = Suc k" and ended by (cases "m - length ?A") auto
    then have "take m ?A = ?A" by simp
    with k \<open>ended\<close> show ?thesis unfolding es
      by (simp add: gz take_map perform_append_out [where bs = "[]"] perform_append_stamp [where bs = "[]"])
        (rule exI [of _ k], cases f, simp)
  qed
qed

lemma build_keeps_stamp_inv:
  assumes "stamp_inv gunzip V f" and "data \<in> V" and "gz_law gunzip V"
  shows "stamp_inv gunzip V (perform (take n (unpack_effects gunzip data f)) f)"
proof (cases "unpack_fresh data f \<or> n = 0")
  case True
  with assms show ?thesis by (auto simp: unpack_effects_def)
next
  case False
  then have "\<not> unpack_fresh data f" "n \<noteq> 0" by simp_all
  from build_prefix [OF this, of gunzip] show ?thesis
  proof (elim disjE conjE exE)
    assume "uf_stamp (perform (take n (unpack_effects gunzip data f)) f) = None"
    then show ?thesis by (simp add: stamp_inv_def)
  next
    fix k assume good: "snd (gunzip data)" and stopped: "perform (take n (unpack_effects gunzip data f)) f =
        \<lparr>uf_out = Some (fst (gunzip data)), uf_stamp = Some (take k (gz_trailer data))\<rparr>"
    have "length (gz_trailer data) = 8" using assms by (simp add: gz_law_def length_gz_trailer)
    then have "length (take k (gz_trailer data)) < 8 \<or> take k (gz_trailer data) = gz_trailer data" by (simp add: min_def)
    with good assms(2) show ?thesis unfolding stopped by (auto simp: stamp_inv_def)
  qed
qed

lemma out_dir_stamp_inv: "shared_out_dir gunzip V f \<Longrightarrow> gz_law gunzip V \<Longrightarrow> stamp_inv gunzip V f"
  by (induction rule: shared_out_dir.induct) (simp add: stamp_inv_def, rule build_keeps_stamp_inv)

section \<open>Properties\<close>

text \<open>
  C37: a build never compiles the wrong or a half-written model. After any sequence of builds of any
  versions of the crate in the same directory, each stopped anywhere, a build that decompresses
  without an error leaves exactly its own version's data in the output and its trailer in the stamp;
  when the output was already that it writes nothing, and the next build of the same version writes
  nothing. A file that does not decompress makes the build panic and leaves no stamp.
\<close>

theorem unpack_survives_crashes:
  assumes "shared_out_dir gunzip V f" and "data \<in> V" and "gz_law gunzip V"
  shows "(snd (gunzip data) \<longrightarrow>
      (\<exists>g. unpack_vendored_model gunzip (Some data) f = (Some (), g) \<and>
         uf_out g = Some (fst (gunzip data)) \<and> uf_stamp g = Some (gz_trailer data) \<and>
         (unpack_fresh data f \<longrightarrow> g = f) \<and> unpack_effects gunzip data g = [])) \<and>
    (\<not> snd (gunzip data) \<longrightarrow>
      (\<exists>g. unpack_vendored_model gunzip (Some data) f = (None, g) \<and> uf_stamp g = None))"
proof -
  have inv: "stamp_inv gunzip V f" by (rule out_dir_stamp_inv [OF assms(1,3)])
  have len: "length (gz_trailer data) = 8" using assms(2,3) by (simp add: gz_law_def length_gz_trailer)
  have fresh: "uf_out f = Some (fst (gunzip data)) \<and> uf_stamp f = Some (gz_trailer data) \<and> snd (gunzip data)"
    if "unpack_fresh data f"
  proof -
    from that have stamp: "uf_stamp f = Some (gz_trailer data)"
      by (auto simp: unpack_fresh_def split: option.splits)
    with inv len obtain v where v: "v \<in> V" "gz_trailer data = gz_trailer v" "snd (gunzip v)"
      "uf_out f = Some (fst (gunzip v))" by (auto simp: stamp_inv_def)
    with assms(2,3) have "gunzip v = gunzip data" unfolding gz_law_def by metis
    with v stamp show ?thesis by simp
  qed
  show ?thesis
  proof (cases "unpack_fresh data f")
    case True
    with fresh show ?thesis by (simp add: unpack_vendored_model_def unpack_effects_def)
  next
    case False
    obtain bytes ended where gz: "gunzip data = (bytes, ended)" by (cases "gunzip data")
    from False show ?thesis
      by (auto simp: unpack_vendored_model_def unpack_effects_def gz unpack_fresh_def
          perform_append_out [where bs = "[]"] perform_append_stamp [where bs = "[]"])
  qed
qed

section \<open>Witnesses\<close>

text \<open>
  Two versions, told apart by their last byte. A build of the first is stopped inside the stamp; the
  second is built over it.
\<close>

definition demo_gz :: "u8 \<Rightarrow> u8 list" where
  "demo_gz v = replicate 7 0 @ [v]"

definition demo_gunzip :: "u8 list \<Rightarrow> u8 list \<times> bool" where
  "demo_gunzip data = ([last data, 0x0A], True)"

theorem unpack_survives_crashes_witness:
  "unpack_vendored_model demo_gunzip (Some (demo_gz 2)) \<lparr>uf_out = Some [1, 0x0A], uf_stamp = Some [0, 0]\<rparr> =
     (Some (), \<lparr>uf_out = Some [2, 0x0A], uf_stamp = Some (demo_gz 2)\<rparr>)"
proof -
  let ?V = "{demo_gz 1, demo_gz 2}" and ?f = "\<lparr>uf_out = Some [1, 0x0A], uf_stamp = Some [0, 0]\<rparr>"
  have law: "gz_law demo_gunzip ?V"
    by (simp add: gz_law_def gz_trailer_def demo_gz_def demo_gunzip_def)
  have "perform (take 7 (unpack_effects demo_gunzip (demo_gz 1) \<lparr>uf_out = None, uf_stamp = None\<rparr>))
      \<lparr>uf_out = None, uf_stamp = None\<rparr> = ?f"
    by (simp add: unpack_effects_def unpack_fresh_def demo_gunzip_def demo_gz_def gz_trailer_def
        numeral_eq_Suc)
  then have "shared_out_dir demo_gunzip ?V ?f"
    using shared_out_dir.build [OF shared_out_dir.empty, of "demo_gz 1" ?V demo_gunzip 7] by simp
  from unpack_survives_crashes [OF this _ law, of "demo_gz 2"]
  obtain g where "unpack_vendored_model demo_gunzip (Some (demo_gz 2)) ?f = (Some (), g)"
    "uf_out g = Some [2, 0x0A]" "uf_stamp g = Some (gz_trailer (demo_gz 2))"
    by (auto simp: demo_gunzip_def demo_gz_def)
  moreover have "gz_trailer (demo_gz 2) = demo_gz 2" by (simp add: gz_trailer_def demo_gz_def)
  ultimately show ?thesis by (cases g) simp
qed

end
