(* ===== verification/Build_Script.thy ===== *)
theory Build_Script
  imports Build_Gmp Build_Text Build_Unpack
begin

text \<open>
  The build script \<open>build.rs\<close> as a whole: which hardware backend a target can have, what is compiled
  for the Sail and the Bochs backend and with which settings, and what is linked. The compiler driver
  (\<open>cc::Build\<close>) is third-party code: a compilation is the record of the calls made on it. A panic is
  \<open>None\<close>. The values \<open>OUT_DIR\<close> and \<open>CARGO_MANIFEST_DIR\<close>, which Cargo always sets, are arguments.
\<close>

section \<open>Hardware backends\<close>

text \<open>\<open>emit_hardware_cfgs\<close>: the cfg attributes it sets.\<close>

definition hardware_cfgs :: "env \<Rightarrow> string list" where
  "hardware_cfgs E =
     (let os = (case en_var E ''CARGO_CFG_TARGET_OS'' of None \<Rightarrow> '''' | Some v \<Rightarrow> v);
          x86_64 = (en_var E ''CARGO_CFG_TARGET_ARCH'' = Some ''x86_64'') in
      (if x86_64 \<and> os = ''linux'' \<and> en_set E ''CARGO_FEATURE_KVM'' then [''backend_kvm''] else []) @
      (if x86_64 \<and> os = ''windows'' \<and> en_set E ''CARGO_FEATURE_WHP'' then [''backend_whp''] else []))"

section \<open>Compilations and output\<close>

datatype cc_flag = Flag string | Flag_path string path | Flag_if_supported string

record cc_build =
  cb_cpp :: bool
  cb_std :: "string option"
  cb_warnings :: bool
  cb_opt :: "string option"
  cb_includes :: "path list"
  cb_defines :: "(string \<times> string option) list"
  cb_files :: "path list"
  cb_flags :: "cc_flag list"
  cb_metadata :: bool

definition cc_new :: cc_build where
  "cc_new = \<lparr>cb_cpp = False, cb_std = None, cb_warnings = True, cb_opt = None,
     cb_includes = [], cb_defines = [], cb_files = [], cb_flags = [], cb_metadata = True\<rparr>"

abbreviation add_files :: "path list \<Rightarrow> cc_build \<Rightarrow> cc_build" where
  "add_files ps b \<equiv> b\<lparr>cb_files := cb_files b @ ps\<rparr>"
abbreviation add_includes :: "path list \<Rightarrow> cc_build \<Rightarrow> cc_build" where
  "add_includes ps b \<equiv> b\<lparr>cb_includes := cb_includes b @ ps\<rparr>"
abbreviation add_defines :: "(string \<times> string option) list \<Rightarrow> cc_build \<Rightarrow> cc_build" where
  "add_defines ds b \<equiv> b\<lparr>cb_defines := cb_defines b @ ds\<rparr>"
abbreviation add_flags :: "cc_flag list \<Rightarrow> cc_build \<Rightarrow> cc_build" where
  "add_flags fs b \<equiv> b\<lparr>cb_flags := cb_flags b @ fs\<rparr>"

text \<open>A path of the source tree, relative to the crate.\<close>

definition rel :: "string list \<Rightarrow> path" where
  "rel parts = \<lparr>pa_root = '''', pa_parts = parts\<rparr>"

text \<open>An argument of the linker and a line for Cargo, with the paths in them.\<close>

datatype link_text = Text string | With_path string path

record dll_parts =
  dp_libs :: "path list"
  dp_link_args :: "link_text list"
  dp_gmp_bin :: "path option"
  dp_export_sources :: "string list"

definition dll_default :: dll_parts where
  "dll_default = \<lparr>dp_libs = [], dp_link_args = [], dp_gmp_bin = None, dp_export_sources = []\<rparr>"

text \<open>What a run has done so far.\<close>

record build =
  bd_compiled :: "(string \<times> cc_build) list"
  bd_out :: "link_text list"
  bd_dll :: "dll_parts option"

definition say :: "link_text list \<Rightarrow> build \<Rightarrow> build" where
  "say ls s = s\<lparr>bd_out := bd_out s @ ls\<rparr>"

definition compile :: "path \<Rightarrow> cc_build \<Rightarrow> string \<Rightarrow> build \<Rightarrow> build" where
  "compile out_dir b name s =
     (let (b, s) = (case bd_dll s of
         None \<Rightarrow> (b, s)
       | Some d \<Rightarrow> (b\<lparr>cb_metadata := False\<rparr>,
           s\<lparr>bd_dll := Some (d\<lparr>dp_libs := dp_libs d @ [path_join out_dir [name @ ''.lib'']]\<rparr>)\<rparr>))
      in s\<lparr>bd_compiled := bd_compiled s @ [(name, b)]\<rparr>)"

definition on_dll :: "(dll_parts \<Rightarrow> dll_parts) \<Rightarrow> build \<Rightarrow> build" where
  "on_dll f s = s\<lparr>bd_dll := map_option f (bd_dll s)\<rparr>"

definition ensure :: "bool \<Rightarrow> unit panics" where
  "ensure c = (if c then Some () else None)"

section \<open>The Sail backend\<close>

text \<open>
  What the environment asks for. \<open>unpacked\<close> is the outcome of \<open>unpack_vendored_model\<close>, \<open>probe_ok\<close> that
  of compiling the GMP probe with the include directory that was found.
\<close>

definition RERUN_VARS :: "string list" where
  "RERUN_VARS =
     [''X86_ORACLE_SAIL_MODEL_C'', ''X86_ORACLE_SAIL_MODEL_INC'', ''SAIL_LIB_DIR'', ''SAIL_SYSTEM_GMP'',
      ''SAIL_MODEL_DEBUG'', ''GMP_DIR'', ''GMP_INCLUDE_DIR'', ''GMP_LIB_DIR'', ''GMP_LIB_NAME'', ''GMP_STATIC'',
      ''ZLIB_LIB_DIR'', ''ZLIB_LIB_NAME'']"

definition sail_model :: "env \<Rightarrow> file_system \<Rightarrow> path \<Rightarrow> path \<Rightarrow> unit panics \<Rightarrow> (path \<times> path) panics" where
  "sail_model E fs out_dir vendor unpacked =
     (case en_path E ''X86_ORACLE_SAIL_MODEL_C'' of
        Some src \<Rightarrow> do {
          _ \<leftarrow> ensure (fs_is_file fs src);
          inc \<leftarrow> (case en_path E ''X86_ORACLE_SAIL_MODEL_INC'' of Some p \<Rightarrow> Some p | None \<Rightarrow> path_parent src);
          Some (src, inc) }
      | None \<Rightarrow> do {
          _ \<leftarrow> unpacked;
          Some (path_join out_dir [''model.cpp''], vendor) })"

definition system_runtime :: "env \<Rightarrow> bool" where
  "system_runtime E \<longleftrightarrow> en_set E ''SAIL_LIB_DIR''"

definition system_gmp :: "env \<Rightarrow> bool" where
  "system_gmp E \<longleftrightarrow> system_runtime E \<or> en_set E ''CARGO_FEATURE_SYSTEM_GMP'' \<or> en_set E ''SAIL_SYSTEM_GMP''"

definition gmp_static :: "env \<Rightarrow> bool" where
  "gmp_static E \<longleftrightarrow> en_set E ''CARGO_FEATURE_SYSTEM_GMP_STATIC'' \<or> en_set E ''GMP_STATIC''"

definition model_opt :: "env \<Rightarrow> string" where
  "model_opt E =
     (if en_set E ''SAIL_MODEL_DEBUG'' then (case en_var E ''OPT_LEVEL'' of None \<Rightarrow> ''0'' | Some v \<Rightarrow> v)
      else (case en_var E ''OPT_LEVEL'' of
          None \<Rightarrow> ''2''
        | Some v \<Rightarrow> if v \<in> set [''2'', ''3'', ''s'', ''z''] then v else ''2''))"

definition common_flags :: "env \<Rightarrow> cc_build \<Rightarrow> cc_build" where
  "common_flags E b =
     add_flags (map Flag_if_supported [''-Wno-unused'', ''-Wno-unused-parameter'', ''-Wno-unused-but-set-variable'',
       ''-Wno-sign-compare'', ''-Wno-extra'']) (b\<lparr>cb_opt := Some (model_opt E)\<rparr>)"

definition is_msvc :: "env \<Rightarrow> bool" where
  "is_msvc E \<longleftrightarrow> en_var E ''CARGO_CFG_TARGET_ENV'' = Some ''msvc''"

definition force_prefix :: "env \<Rightarrow> path \<Rightarrow> cc_build \<Rightarrow> cc_build" where
  "force_prefix E manifest b =
     (let prefix_header = path_join manifest [''csrc'', ''x86oracle_prefix.h''] in
      if system_runtime E then b
      else if is_msvc E then add_flags [Flag_path ''/FI'' prefix_header] b
      else add_flags [Flag ''-include'', Flag_path '''' prefix_header] b)"

definition use_system_gmp :: "path option \<Rightarrow> cc_build \<Rightarrow> cc_build" where
  "use_system_gmp gmp_include b =
     (let b = add_defines [(''SAIL_SYSTEM_GMP'', None)] b in
      case gmp_include of None \<Rightarrow> b | Some inc \<Rightarrow> add_includes [inc] b)"

definition sail_cxx :: "env \<Rightarrow> file_system \<Rightarrow> path \<Rightarrow> path \<Rightarrow> path \<Rightarrow> path \<Rightarrow> path option \<Rightarrow> cc_build" where
  "sail_cxx E fs manifest sail_lib model_src model_inc gmp_include =
     (let cxx = cc_new\<lparr>cb_cpp := True, cb_std := Some ''c++20''\<rparr>;
          cxx = add_includes [sail_lib, model_inc, rel [''csrc'']] cxx;
          cxx = add_flags [Flag_if_supported ''/bigobj''] cxx;
          cxx = add_files [model_src, rel [''csrc'', ''shim.cpp'']] cxx;
          missing = path_join model_inc [''model_missing.cpp''];
          cxx = (if fs_is_file fs missing then add_files [missing] cxx else cxx);
          cxx = force_prefix E manifest (common_flags E cxx)
      in if system_gmp E then use_system_gmp gmp_include cxx else cxx)"

definition sail_crt :: "env \<Rightarrow> file_system \<Rightarrow> path \<Rightarrow> path \<Rightarrow> path \<Rightarrow> path option \<Rightarrow> cc_build" where
  "sail_crt E fs manifest vendor sail_lib gmp_include =
     (let crt = add_includes [sail_lib] cc_new;
          crt = add_flags [Flag_if_supported ''/std:c11''] crt;
          crt = add_files [path_join sail_lib [''sail.c''], path_join sail_lib [''rts.c'']] crt;
          crt = force_prefix E manifest (common_flags E crt);
          crt = add_files (filter (fs_is_file fs)
            (map (\<lambda>extra. path_join sail_lib [extra]) [''sail_failure.c'', ''sail_config.c'', ''cJSON.c''])) crt;
          crt = (if system_gmp E then use_system_gmp gmp_include crt
                 else add_files [path_join vendor [''runtime'', ''mini-gmp.c''], path_join vendor [''runtime'', ''mini-mpq.c'']] crt)
      in if system_runtime E then add_files [path_join sail_lib [''elf.c'']] crt else crt)"

text \<open>The library directories, as linker arguments of the DLL or as lines for Cargo.\<close>

definition sail_search :: "env \<Rightarrow> path option \<Rightarrow> build \<Rightarrow> build" where
  "sail_search E gmp_lib_dir s =
     (let args = (\<lambda>pre. (case gmp_lib_dir of None \<Rightarrow> [] | Some dir \<Rightarrow> [With_path pre dir]) @
                        (case en_var E ''ZLIB_LIB_DIR'' of None \<Rightarrow> [] | Some dir \<Rightarrow> [Text (pre @ dir)])) in
      case bd_dll s of
        Some d \<Rightarrow> on_dll (\<lambda>d. d\<lparr>dp_export_sources := dp_export_sources d @ [''src/sail.rs''],
                               dp_link_args := dp_link_args d @ args ''/LIBPATH:''\<rparr>) s
      | None \<Rightarrow> say (args ''cargo:rustc-link-search=native='') s)"

definition link_gmp :: "env \<Rightarrow> file_system \<Rightarrow> path option \<Rightarrow> build \<Rightarrow> build panics" where
  "link_gmp E fs gmp_lib_dir s =
     (if \<not> system_gmp E then Some s
      else (let gmp = (case en_var E ''GMP_LIB_NAME'' of None \<Rightarrow> ''gmp'' | Some v \<Rightarrow> v) in do {
        _ \<leftarrow> (if gmp_static E then static_gmp_check fs gmp gmp_lib_dir else Some ());
        Some (case bd_dll s of
            Some d \<Rightarrow> on_dll (\<lambda>d. let d = d\<lparr>dp_link_args := dp_link_args d @ [Text (gmp @ ''.lib'')]\<rparr> in
                if gmp_static E then d
                else d\<lparr>dp_gmp_bin := map_option (\<lambda>p. path_join p [''bin'']) (Option.bind gmp_lib_dir path_parent)\<rparr>) s
          | None \<Rightarrow> say [Text (''cargo:rustc-link-lib='' @ (if gmp_static E then ''static='' else '''') @ gmp)] s) }))"

definition link_zlib :: "env \<Rightarrow> build \<Rightarrow> build" where
  "link_zlib E s =
     (if \<not> system_runtime E then s
      else (let zlib = (case en_var E ''ZLIB_LIB_NAME'' of Some v \<Rightarrow> v | None \<Rightarrow> if is_msvc E then ''zlib'' else ''z'') in
        case bd_dll s of
          Some d \<Rightarrow> on_dll (\<lambda>d. d\<lparr>dp_link_args := dp_link_args d @ [Text (zlib @ ''.lib'')]\<rparr>) s
        | None \<Rightarrow> say [Text (''cargo:rustc-link-lib='' @ zlib)] s))"

definition build_sail ::
    "env \<Rightarrow> file_system \<Rightarrow> path \<Rightarrow> path \<Rightarrow> unit panics \<Rightarrow> (path option \<Rightarrow> bool) \<Rightarrow> build \<Rightarrow> build panics" where
  "build_sail E fs out_dir manifest unpacked probe_ok s = do {
     let s = say (map (\<lambda>key. Text (''cargo:rerun-if-env-changed='' @ key)) RERUN_VARS) s;
     let vendor = path_join manifest [''vendor'', ''sail''];
     (model_src, model_inc) \<leftarrow> sail_model E fs out_dir vendor unpacked;
     let sail_lib = (case en_path E ''SAIL_LIB_DIR'' of Some p \<Rightarrow> p | None \<Rightarrow> path_join vendor [''runtime'']);
     _ \<leftarrow> ensure (fs_is_dir fs sail_lib);
     let (gmp_include, gmp_lib_dir) = resolve_gmp E fs (system_gmp E) (gmp_static E);
     _ \<leftarrow> ensure (system_gmp E \<longrightarrow> probe_ok gmp_include);
     let s = compile out_dir (sail_cxx E fs manifest sail_lib model_src model_inc gmp_include) ''x86oracle_sail'' s;
     let s = compile out_dir (sail_crt E fs manifest vendor sail_lib gmp_include) ''x86oracle_runtime'' s;
     s \<leftarrow> link_gmp E fs gmp_lib_dir (sail_search E gmp_lib_dir s);
     Some (say (map (With_path ''cargo:rerun-if-changed='')
         [model_src, rel [''vendor'', ''sail'', ''model.cpp.gz''], rel [''vendor'', ''sail'', ''model.h''],
          rel [''vendor'', ''sail'', ''model_missing.cpp''], rel [''vendor'', ''sail'', ''runtime''],
          rel [''csrc'', ''shim.cpp''], rel [''csrc'', ''x86oracle_prefix.h''], rel [''build.rs'']])
       (link_zlib E s)) }"

section \<open>The Bochs backend\<close>

text \<open>\<open>Path::extension\<close> of a file name: what follows the last dot, unless that dot comes first.\<close>

definition extension :: "string \<Rightarrow> string option" where
  "extension name =
     (let tail = rev (takeWhile (\<lambda>c. c \<noteq> CHR ''.'') (rev name));
          stem = take (length name - length tail - 1) name in
      if CHR ''.'' \<notin> set name \<or> stem = [] \<or> name = ''..'' then None else Some tail)"

text \<open>The entries come in the order the system lists them; all have the same parent.\<close>

definition sources_with_ext :: "file_system \<Rightarrow> path \<Rightarrow> string list \<Rightarrow> string \<Rightarrow> path list panics" where
  "sources_with_ext fs bochs dir ext = do {
     let path = path_join bochs dir;
     entries \<leftarrow> fs_read_dir fs path;
     let out = map (\<lambda>name. path_join path [name]) (sort (filter (\<lambda>name. extension name = Some ext) entries));
     _ \<leftarrow> ensure (out \<noteq> []);
     Some out }"

definition bochs_cxx_dirs :: "string list list" where
  "bochs_cxx_dirs =
     [[''cpu''], [''cpu'', ''decoder''], [''cpu'', ''fpu''], [''cpu'', ''avx''], [''cpu'', ''cpudb'', ''intel''],
      [''cpu'', ''cpudb'', ''amd'']]"

definition bochs_cxx_files :: "string list list" where
  "bochs_cxx_files =
     [[''logio.cc''], [''pc_system.cc''], [''gui'', ''siminterface.cc''], [''gui'', ''paramtree.cc'']]"

definition softfloat_dir :: "string list" where "softfloat_dir = [''cpu'', ''softfloat3e'']"
definition softfloat_specialize :: "string list" where "softfloat_specialize = [''cpu'', ''softfloat3e'', ''8086-SSE'']"

text \<open>The header \<open>msvc_config_header\<close> leaves in \<open>OUT_DIR\<close>, from the text of \<open>config.h\<close>.\<close>

definition msvc_config :: "env \<Rightarrow> file_system \<Rightarrow> path \<Rightarrow> path \<Rightarrow> path option panics" where
  "msvc_config E fs out_dir bochs =
     (if \<not> is_msvc E then Some None
      else do {
        bytes \<leftarrow> fs_read fs (path_join bochs [''config.h'']);
        _ \<leftarrow> ensure (utf8_valid bytes);
        _ \<leftarrow> msvc_config_header (bytes_to_str bytes);
        Some (Some (path_join out_dir [''bochs_config_msvc.h''])) })"

definition force_config :: "path option \<Rightarrow> cc_build \<Rightarrow> cc_build" where
  "force_config header b = (case header of None \<Rightarrow> b | Some h \<Rightarrow> add_flags [Flag_path ''/FI'' h] b)"

definition bochs_opt :: "env \<Rightarrow> cc_build \<Rightarrow> cc_build" where
  "bochs_opt E b = (if en_set E ''SAIL_MODEL_DEBUG'' then b else b\<lparr>cb_opt := Some ''2''\<rparr>)"

text \<open>\<open>for dir in dirs\<close>: the sources of each, in turn.\<close>

definition all_sources :: "file_system \<Rightarrow> path \<Rightarrow> string list list \<Rightarrow> path list panics" where
  "all_sources fs bochs dirs =
     map_option concat (fill_each (\<lambda>dir. sources_with_ext fs bochs dir ''cc'') dirs)"

definition bochs_cxx :: "env \<Rightarrow> file_system \<Rightarrow> path \<Rightarrow> path \<Rightarrow> path option \<Rightarrow> cc_build panics" where
  "bochs_cxx E fs manifest bochs config = do {
     let cxx = force_config config (cc_new\<lparr>cb_cpp := True, cb_std := Some ''c++17'', cb_warnings := False\<rparr>);
     let cxx = add_includes [bochs, path_join bochs [''cpu''], path_join bochs [''iodev''],
       path_join bochs [''instrument'', ''stubs'']] cxx;
     sources \<leftarrow> all_sources fs bochs bochs_cxx_dirs;
     let files = map (path_join bochs) bochs_cxx_files;
     _ \<leftarrow> ensure (list_all (fs_is_file fs) files);
     let cxx = add_files (sources @ files @ [path_join manifest [''csrc'', ''bochs_shim.cpp'']]) cxx;
     Some (bochs_opt E (add_flags (map Flag_if_supported [''-Wno-unused-parameter'', ''-Wno-unused-variable'',
       ''-Wno-write-strings'', ''-Wno-class-memaccess'']) cxx)) }"

definition bochs_softfloat :: "env \<Rightarrow> file_system \<Rightarrow> path \<Rightarrow> path option \<Rightarrow> cc_build panics" where
  "bochs_softfloat E fs bochs config = do {
     let sf = force_config config (cc_new\<lparr>cb_cpp := True, cb_std := Some ''c++17'', cb_warnings := False\<rparr>);
     let sf = add_includes [bochs, path_join bochs softfloat_dir, path_join bochs (softfloat_dir @ [''include'']),
       path_join bochs softfloat_specialize] sf;
     let sf = add_defines [(''SOFTFLOAT_FAST_INT64'', None), (''INLINE_LEVEL'', Some ''5''),
       (''SOFTFLOAT_FAST_DIV32TO16'', None), (''SOFTFLOAT_FAST_DIV64TO32'', None)] sf;
     sources \<leftarrow> all_sources fs bochs [softfloat_dir, softfloat_specialize];
     Some (bochs_opt E (add_files sources sf)) }"

definition build_bochs :: "env \<Rightarrow> file_system \<Rightarrow> path \<Rightarrow> path \<Rightarrow> build \<Rightarrow> build panics" where
  "build_bochs E fs out_dir manifest s = do {
     let bochs = (case en_path E ''BOCHS_DIR'' of Some p \<Rightarrow> p | None \<Rightarrow> path_join manifest [''vendor'', ''bochs'']);
     _ \<leftarrow> ensure (fs_is_file fs (path_join bochs [''config.h'']));
     config \<leftarrow> msvc_config E fs out_dir bochs;
     cxx \<leftarrow> bochs_cxx E fs manifest bochs config;
     let s = compile out_dir cxx ''x86oracle_bochs'' s;
     sf \<leftarrow> bochs_softfloat E fs bochs config;
     let s = compile out_dir sf ''x86oracle_softfloat'' s;
     let s = on_dll (\<lambda>d. d\<lparr>dp_export_sources := dp_export_sources d @ [''src/bochs.rs'']\<rparr>) s;
     Some (say [Text ''cargo:rerun-if-changed=csrc/bochs_shim.cpp'', With_path ''cargo:rerun-if-changed='' bochs,
       Text ''cargo:rerun-if-env-changed=BOCHS_DIR''] s) }"

section \<open>Linking, and the whole run\<close>

text \<open>
  \<open>link_dll\<close>: the module-definition file, the linker's response file, whether the linker is found and
  succeeds (\<open>link_ok\<close>), and the files of a shared GMP that are copied beside the DLL; \<open>display\<close>
  prints a path. Writing the files and copying them is taken to succeed. Only letters of ASCII have a
  lower-case form in the texts a name is compared with, so lowering those of the name is enough.
\<close>

record dll_link =
  dl_def :: string
  dl_response :: string
  dl_copies :: "(path \<times> path) list"

definition is_gmp_dll :: "string \<Rightarrow> bool" where
  "is_gmp_dll file_name \<longleftrightarrow>
     (let name = map to_ascii_lowercase (str_bytes file_name) in
      take 3 name = str_bytes ''gmp'' \<and> bytes_end_with (str_bytes ''.dll'') name)"

definition gmp_dlls :: "file_system \<Rightarrow> path \<Rightarrow> path option \<Rightarrow> (path \<times> path) list" where
  "gmp_dlls fs out_dir gmp_bin =
     (case Option.bind gmp_bin (\<lambda>bin. map_option (Pair bin) (fs_read_dir fs bin)) of
        None \<Rightarrow> []
      | Some (bin, entries) \<Rightarrow>
          map (\<lambda>name. (path_join bin [name], path_join out_dir [name])) (filter is_gmp_dll entries))"

definition show_text :: "(path \<Rightarrow> string) \<Rightarrow> link_text \<Rightarrow> string" where
  "show_text display t = (case t of Text s \<Rightarrow> s | With_path pre p \<Rightarrow> pre @ display p)"

definition link_dll :: "file_system \<Rightarrow> path \<Rightarrow> (path \<Rightarrow> string) \<Rightarrow> (dll_link \<Rightarrow> bool) \<Rightarrow> dll_parts \<Rightarrow> build \<Rightarrow>
    (dll_link \<times> build) panics" where
  "link_dll fs out_dir display link_ok d s = do {
     sources \<leftarrow> fill_each (\<lambda>src. case fs_read fs (rel (str_split ''/'' src)) of None \<Rightarrow> None
       | Some bytes \<Rightarrow> if utf8_valid bytes then Some (bytes_to_str bytes) else None) (dp_export_sources d);
     let def = path_join out_dir [''x86oracle.def''];
     let dll = path_join out_dir [''x86oracle.dll''];
     let args = [''/NOLOGO'', ''/DLL'', ''/OUT:'' @ display dll, ''/DEF:'' @ display def,
       ''/IMPLIB:'' @ display (path_join out_dir [''x86oracle_dll.lib''])]
       @ map display (dp_libs d) @ map (show_text display) (dp_link_args d);
     let QUOTE = [char_of (34 :: nat)];
     let link = \<lparr>dl_def = def_file (dll_exports sources),
                 dl_response = concat (map (\<lambda>a. QUOTE @ a @ QUOTE @ NEWLINE) args),
                 dl_copies = gmp_dlls fs out_dir (dp_gmp_bin d)\<rparr>;
     _ \<leftarrow> ensure (link_ok link);
     Some (link, say [Text ''cargo::rustc-cfg=x86oracle_dll'', With_path ''cargo::rustc-env=X86ORACLE_DLL='' dll,
       Text ''cargo:rerun-if-changed=src''] s) }"

definition build_main :: "env \<Rightarrow> file_system \<Rightarrow> path \<Rightarrow> path \<Rightarrow> (path \<Rightarrow> string) \<Rightarrow> unit panics \<Rightarrow>
    (path option \<Rightarrow> bool) \<Rightarrow> (dll_link \<Rightarrow> bool) \<Rightarrow> (dll_link option \<times> build) panics" where
  "build_main E fs out_dir manifest display unpacked probe_ok link_ok = do {
     let s = \<lparr>bd_compiled = [], bd_out = [], bd_dll = None\<rparr>;
     let s = say ([Text ''cargo::rustc-check-cfg=cfg(backend_kvm)'', Text ''cargo::rustc-check-cfg=cfg(backend_whp)'']
       @ map (\<lambda>cfg. Text (''cargo::rustc-cfg='' @ cfg)) (hardware_cfgs E)
       @ [Text ''cargo::rustc-check-cfg=cfg(x86oracle_dll)'']) s;
     let s = (if en_var E ''CARGO_CFG_TARGET_OS'' = Some ''windows'' \<and> is_msvc E
              then s\<lparr>bd_dll := Some dll_default\<rparr> else s);
     s \<leftarrow> (if en_set E ''CARGO_FEATURE_SAIL'' then build_sail E fs out_dir manifest unpacked probe_ok s else Some s);
     s \<leftarrow> (if en_set E ''CARGO_FEATURE_BOCHS'' then build_bochs E fs out_dir manifest s else Some s);
     case bd_dll s of
       Some d \<Rightarrow> if dp_libs d \<noteq> [] then map_option (apfst Some) (link_dll fs out_dir display link_ok d s) else Some (None, s)
     | None \<Rightarrow> Some (None, s) }"

end
