(* ===== verification/Build_Properties.thy ===== *)
theory Build_Properties
  imports Build_Script Any_Oracle "HOL-Library.Multiset"
begin

text \<open>
  What the build script guarantees of the build as a whole: the two halves of the Sail backend agree
  on their settings, the Bochs sources are compiled in an order that does not depend on the file
  system, the DLL has the enabled backends' libraries and exports, and at most one hardware backend
  is compiled in.
\<close>

section \<open>Settings\<close>

lemma ensure_bind [simp]: "Option.bind (ensure c) f = (if c then f () else None)"
  by (simp add: ensure_def)

lemma model_opt_floor: "\<not> en_set E ''SAIL_MODEL_DEBUG'' \<Longrightarrow> model_opt E \<in> {''2'', ''3'', ''s'', ''z''}"
  by (auto simp: model_opt_def split: option.splits)

text \<open>What the passes after it leave of a compilation.\<close>

lemma common_flags_simps [simp]:
  "cb_files (common_flags E b) = cb_files b" "cb_defines (common_flags E b) = cb_defines b"
  "cb_opt (common_flags E b) = Some (model_opt E)" "cb_metadata (common_flags E b) = cb_metadata b"
  by (simp_all add: common_flags_def)

lemma force_prefix_simps [simp]:
  "cb_files (force_prefix E m b) = cb_files b" "cb_defines (force_prefix E m b) = cb_defines b"
  "cb_opt (force_prefix E m b) = cb_opt b" "cb_metadata (force_prefix E m b) = cb_metadata b"
  by (simp_all add: force_prefix_def Let_def)

lemma use_system_gmp_simps [simp]:
  "cb_files (use_system_gmp i b) = cb_files b" "cb_flags (use_system_gmp i b) = cb_flags b"
  "cb_opt (use_system_gmp i b) = cb_opt b" "cb_metadata (use_system_gmp i b) = cb_metadata b"
  "cb_defines (use_system_gmp i b) = cb_defines b @ [(''SAIL_SYSTEM_GMP'', None)]"
  by (simp_all add: use_system_gmp_def Let_def split: option.splits)

definition renamed :: "path \<Rightarrow> cc_build \<Rightarrow> bool" where
  "renamed manifest b \<longleftrightarrow> (\<exists>pre. Flag_path pre (path_join manifest [''csrc'', ''x86oracle_prefix.h'']) \<in> set (cb_flags b))"

lemma renamed_after [simp]:
  "renamed m (force_prefix E m b) \<longleftrightarrow> \<not> system_runtime E \<or> renamed m b"
  "renamed m (use_system_gmp gi b) \<longleftrightarrow> renamed m b"
  "renamed m (b\<lparr>cb_files := fs\<rparr>) \<longleftrightarrow> renamed m b" "renamed m (b\<lparr>cb_metadata := md\<rparr>) \<longleftrightarrow> renamed m b"
  by (auto simp: renamed_def force_prefix_def Let_def)

lemma path_join_join [simp]: "path_join (path_join p a) b = path_join p (a @ b)"
  by (simp add: path_join_def)

lemma path_join_last: "path_join p [n] = path_join q (cs @ [m]) \<Longrightarrow> n = m"
  by (simp add: path_join_def) (metis append.assoc last_snoc path.select_convs(2) path.surjective path.update_convs(2))

lemma sail_cxx_settings:
  fixes E fs m sl src inc gi
  defines "cxx \<equiv> sail_cxx E fs m sl src inc gi"
  shows "(''SAIL_SYSTEM_GMP'', None) \<in> set (cb_defines cxx) \<longleftrightarrow> system_gmp E"
    and "cb_opt cxx = Some (model_opt E)" and "renamed m cxx \<longleftrightarrow> \<not> system_runtime E"
proof -
  show "(''SAIL_SYSTEM_GMP'', None) \<in> set (cb_defines cxx) \<longleftrightarrow> system_gmp E" "cb_opt cxx = Some (model_opt E)"
    by (simp_all add: cxx_def sail_cxx_def Let_def cc_new_def)
  show "renamed m cxx \<longleftrightarrow> \<not> system_runtime E"
    by (simp add: cxx_def sail_cxx_def Let_def) (auto simp: renamed_def common_flags_def cc_new_def)
qed

lemma sail_crt_settings:
  fixes E fs m v sl gi
  defines "crt \<equiv> sail_crt E fs m v sl gi"
  shows "(''SAIL_SYSTEM_GMP'', None) \<in> set (cb_defines crt) \<longleftrightarrow> system_gmp E"
    and "path_join v [''runtime'', ''mini-gmp.c''] \<in> set (cb_files crt) \<longleftrightarrow> \<not> system_gmp E"
    and "path_join sl [''elf.c''] \<in> set (cb_files crt) \<longleftrightarrow> system_runtime E"
    and "cb_opt crt = Some (model_opt E)" and "renamed m crt \<longleftrightarrow> \<not> system_runtime E"
proof -
  show "(''SAIL_SYSTEM_GMP'', None) \<in> set (cb_defines crt) \<longleftrightarrow> system_gmp E" "cb_opt crt = Some (model_opt E)"
    by (simp_all add: crt_def sail_crt_def Let_def cc_new_def)
  have mini: "path_join v [''runtime'', ''mini-gmp.c''] \<noteq> path_join sl [n]" if "n \<noteq> ''mini-gmp.c''" for n
    using that path_join_last [of sl n v "[''runtime'']" "''mini-gmp.c''"] by auto
  have elf: "path_join sl [''elf.c''] \<noteq> path_join v [''runtime'', n]" if "n \<noteq> ''elf.c''" for n
    using that path_join_last [of sl "''elf.c''" v "[''runtime'']" n] by auto
  have elf': "path_join sl [''elf.c''] \<noteq> path_join sl [n]" if "n \<noteq> ''elf.c''" for n
    using that path_join_last [of sl "''elf.c''" sl "[]" n] by auto
  show "path_join v [''runtime'', ''mini-gmp.c''] \<in> set (cb_files crt) \<longleftrightarrow> \<not> system_gmp E"
    by (auto simp: crt_def sail_crt_def Let_def cc_new_def mini)
  show "path_join sl [''elf.c''] \<in> set (cb_files crt) \<longleftrightarrow> system_runtime E"
    by (simp add: crt_def sail_crt_def Let_def cc_new_def elf elf')
  show "renamed m crt \<longleftrightarrow> \<not> system_runtime E"
    by (simp add: crt_def sail_crt_def Let_def) (auto simp: renamed_def common_flags_def cc_new_def)
qed

lemma sail_metadata: "cb_metadata (sail_cxx E fs m sl src inc gi)" "cb_metadata (sail_crt E fs m v sl gi)"
  by (simp_all add: sail_cxx_def sail_crt_def Let_def cc_new_def)

text \<open>Cargo links a library by itself when no DLL takes it in.\<close>

definition for_cargo :: "dll_parts option \<Rightarrow> cc_build \<Rightarrow> cc_build" where
  "for_cargo d b = (if d = None then b else b\<lparr>cb_metadata := False\<rparr>)"

lemma for_cargo_simps [simp]:
  "cb_files (for_cargo d b) = cb_files b" "cb_defines (for_cargo d b) = cb_defines b"
  "cb_includes (for_cargo d b) = cb_includes b" "cb_opt (for_cargo d b) = cb_opt b"
  "cb_metadata (for_cargo d b) \<longleftrightarrow> d = None \<and> cb_metadata b"
  "renamed m (for_cargo d b) \<longleftrightarrow> renamed m b" "for_cargo (map_option f d) b = for_cargo d b"
  by (auto simp: for_cargo_def)

lemma compile_simps [simp]:
  "bd_compiled (compile od b name s) = bd_compiled s @ [(name, for_cargo (bd_dll s) b)]"
  "bd_dll (compile od b name s) =
     map_option (\<lambda>d. d\<lparr>dp_libs := dp_libs d @ [path_join od [name @ ''.lib'']]\<rparr>) (bd_dll s)"
  by (simp_all add: compile_def for_cargo_def Let_def split: option.splits)

lemma build_steps_simps [simp]:
  "bd_compiled (say ls s) = bd_compiled s" "bd_dll (say ls s) = bd_dll s"
  "bd_compiled (on_dll f s) = bd_compiled s" "bd_dll (on_dll f s) = map_option f (bd_dll s)"
  by (simp_all add: say_def on_dll_def)

text \<open>What naming the libraries leaves of the run: nothing is compiled, and of the DLL only arguments change.\<close>

definition same_dll :: "string list \<Rightarrow> dll_parts option \<Rightarrow> dll_parts option \<Rightarrow> bool" where
  "same_dll new d d' \<longleftrightarrow>
     (case d of None \<Rightarrow> d' = None
      | Some p \<Rightarrow> (\<exists>p'. d' = Some p' \<and> dp_libs p' = dp_libs p \<and> dp_export_sources p' = dp_export_sources p @ new))"

lemma sail_search_keeps:
  "bd_compiled (sail_search E g s) = bd_compiled s" "same_dll [''src/sail.rs''] (bd_dll s) (bd_dll (sail_search E g s))"
  by (simp_all add: sail_search_def same_dll_def Let_def split: option.splits)

lemma link_gmp_keeps:
  "link_gmp E fs g s = Some s' \<Longrightarrow> bd_compiled s' = bd_compiled s \<and> same_dll [] (bd_dll s) (bd_dll s')"
  by (auto simp: link_gmp_def same_dll_def Let_def split: if_splits option.splits bind_splits)

lemma link_zlib_keeps:
  "bd_compiled (link_zlib E s) = bd_compiled s" "same_dll [] (bd_dll s) (bd_dll (link_zlib E s))"
  by (simp_all add: link_zlib_def same_dll_def Let_def split: option.splits)

lemma same_dll_trans: "same_dll a d d' \<Longrightarrow> same_dll b d' d'' \<Longrightarrow> same_dll (a @ b) d d''"
  by (auto simp: same_dll_def split: option.splits)

lemma build_sail_result:
  assumes "build_sail E fs od m unpacked probe_ok s = Some s'"
  obtains src inc sl where
    "bd_compiled s' = bd_compiled s @
       [(''x86oracle_sail'', for_cargo (bd_dll s)
           (sail_cxx E fs m sl src inc (fst (resolve_gmp E fs (system_gmp E) (gmp_static E))))),
        (''x86oracle_runtime'', for_cargo (bd_dll s)
           (sail_crt E fs m (path_join m [''vendor'', ''sail'']) sl (fst (resolve_gmp E fs (system_gmp E) (gmp_static E)))))]"
    and "system_gmp E \<longrightarrow> probe_ok (fst (resolve_gmp E fs (system_gmp E) (gmp_static E)))"
    and "same_dll [''src/sail.rs'']
      (map_option (\<lambda>d. d\<lparr>dp_libs := dp_libs d @
         [path_join od [''x86oracle_sail.lib''], path_join od [''x86oracle_runtime.lib'']]\<rparr>) (bd_dll s)) (bd_dll s')"
    and "sl = (case en_path E ''SAIL_LIB_DIR'' of Some p \<Rightarrow> p | None \<Rightarrow> path_join m [''vendor'', ''sail'', ''runtime''])"
proof -
  obtain gi gl where r: "resolve_gmp E fs (system_gmp E) (gmp_static E) = (gi, gl)" by (cases "resolve_gmp E fs (system_gmp E) (gmp_static E)")
  obtain src inc where model: "sail_model E fs od (path_join m [''vendor'', ''sail'']) unpacked = Some (src, inc)"
    using assms by (auto simp: build_sail_def Let_def split: bind_splits)
  let ?v = "path_join m [''vendor'', ''sail'']"
  let ?sl = "case en_path E ''SAIL_LIB_DIR'' of Some p \<Rightarrow> p | None \<Rightarrow> path_join ?v [''runtime'']"
  let ?s0 = "say (map (\<lambda>key. Text (''cargo:rerun-if-env-changed='' @ key)) RERUN_VARS) s"
  let ?s1 = "compile od (sail_crt E fs m ?v ?sl gi) ''x86oracle_runtime'' (compile od (sail_cxx E fs m ?sl src inc gi) ''x86oracle_sail'' ?s0)"
  obtain s2 where s2: "link_gmp E fs gl (sail_search E gl ?s1) = Some s2"
    and probe_ok: "system_gmp E \<longrightarrow> probe_ok gi" and s': "\<exists>ls. s' = say ls (link_zlib E s2)"
    using assms by (auto simp: build_sail_def Let_def r model split: if_splits bind_splits)
  have dll: "same_dll ([''src/sail.rs''] @ [] @ []) (bd_dll ?s1) (bd_dll s')"
    using sail_search_keeps(2) [of ?s1 E gl] link_gmp_keeps [OF s2] link_zlib_keeps(2) [of s2 E] s'
    by (intro same_dll_trans [of _ _ "bd_dll (sail_search E gl ?s1)"] same_dll_trans [of "[]" _ "bd_dll s2"]) auto
  have compiled: "bd_compiled s' = bd_compiled ?s1"
    using link_gmp_keeps [OF s2] s' by (auto simp: sail_search_keeps(1) link_zlib_keeps(1))
  show thesis
  proof (rule that [of ?sl src inc])
    show "bd_compiled s' = bd_compiled s @
       [(''x86oracle_sail'', for_cargo (bd_dll s)
           (sail_cxx E fs m ?sl src inc (fst (resolve_gmp E fs (system_gmp E) (gmp_static E))))),
        (''x86oracle_runtime'', for_cargo (bd_dll s)
           (sail_crt E fs m ?v ?sl (fst (resolve_gmp E fs (system_gmp E) (gmp_static E)))))]"
      unfolding r fst_conv compiled by simp
    show "system_gmp E \<longrightarrow> probe_ok (fst (resolve_gmp E fs (system_gmp E) (gmp_static E)))"
      unfolding r fst_conv by (rule probe_ok)
    show "?sl = (case en_path E ''SAIL_LIB_DIR'' of Some p \<Rightarrow> p | None \<Rightarrow> path_join m [''vendor'', ''sail'', ''runtime''])"
      by (simp split: option.splits)
    show "same_dll [''src/sail.rs'']
      (map_option (\<lambda>d. d\<lparr>dp_libs := dp_libs d @
         [path_join od [''x86oracle_sail.lib''], path_join od [''x86oracle_runtime.lib'']]\<rparr>) (bd_dll s)) (bd_dll s')"
      using dll by (simp add: option.map_comp comp_def)
  qed
qed


section \<open>The Sail backend\<close>

lemma use_system_gmp_includes: "inc \<in> set (cb_includes (use_system_gmp (Some inc) b))"
  by (simp add: use_system_gmp_def Let_def)

lemma sail_includes:
  assumes "system_gmp E"
  shows "inc \<in> set (cb_includes (sail_cxx E fs m sl src mi (Some inc)))"
    and "inc \<in> set (cb_includes (sail_crt E fs m v sl (Some inc)))"
  using assms by (simp_all add: sail_cxx_def sail_crt_def Let_def use_system_gmp_includes)

text \<open>
  C33: When \<open>build_sail\<close> succeeds it has compiled the C++ half and the C runtime half, in this order,
  and the two agree: both see \<open>SAIL_SYSTEM_GMP\<close> exactly when the system GMP is used, which is exactly
  when the bundled mini-gmp is not compiled, and then both have the include directory that was found
  and the probe program compiled with it; \<open>elf.c\<close> comes in exactly with an outside Sail runtime, which
  is exactly when neither half has its runtime symbols renamed; both have the same optimisation level,
  one of 2, 3, s and z unless the model is built for debugging.
\<close>

theorem sail_build_consistent:
  assumes "build_sail E fs od m unpacked probe_ok s = Some s'"
  defines "gmp \<equiv> fst (resolve_gmp E fs (system_gmp E) (gmp_static E))"
  shows "\<exists>cxx crt sl. bd_compiled s' = bd_compiled s @ [(''x86oracle_sail'', cxx), (''x86oracle_runtime'', crt)] \<and>
    ((''SAIL_SYSTEM_GMP'', None) \<in> set (cb_defines cxx) \<longleftrightarrow> system_gmp E) \<and>
    ((''SAIL_SYSTEM_GMP'', None) \<in> set (cb_defines crt) \<longleftrightarrow> system_gmp E) \<and>
    (path_join m [''vendor'', ''sail'', ''runtime'', ''mini-gmp.c''] \<in> set (cb_files crt) \<longleftrightarrow> \<not> system_gmp E) \<and>
    (system_gmp E \<longrightarrow> probe_ok gmp \<and>
       (\<forall>inc. gmp = Some inc \<longrightarrow> inc \<in> set (cb_includes cxx) \<and> inc \<in> set (cb_includes crt))) \<and>
    (path_join sl [''elf.c''] \<in> set (cb_files crt) \<longleftrightarrow> system_runtime E) \<and>
    (renamed m cxx \<longleftrightarrow> \<not> system_runtime E) \<and> (renamed m crt \<longleftrightarrow> \<not> system_runtime E) \<and>
    cb_opt cxx = Some (model_opt E) \<and> cb_opt crt = Some (model_opt E) \<and>
    (\<not> en_set E ''SAIL_MODEL_DEBUG'' \<longrightarrow> model_opt E \<in> {''2'', ''3'', ''s'', ''z''})"
proof -
  obtain src inc sl where compiled: "bd_compiled s' = bd_compiled s @
       [(''x86oracle_sail'', for_cargo (bd_dll s) (sail_cxx E fs m sl src inc gmp)),
        (''x86oracle_runtime'', for_cargo (bd_dll s) (sail_crt E fs m (path_join m [''vendor'', ''sail'']) sl gmp))]"
    and probe_set: "system_gmp E \<longrightarrow> probe_ok gmp"
    unfolding gmp_def by (rule build_sail_result [OF assms(1)])
  show ?thesis
    by (rule exI, rule exI, rule exI [of _ sl], rule conjI [OF compiled])
      (use probe_set sail_crt_settings [where E = E and fs = fs and m = m and v = "path_join m [''vendor'', ''sail'']" and sl = sl and gi = gmp]
        sail_cxx_settings [where E = E and fs = fs and m = m and sl = sl and src = src and inc = inc and gi = gmp] sail_includes model_opt_floor in auto)
qed

text \<open>A source tree with the unpacked model and one Bochs source for each directory, on Linux and on Windows.\<close>

definition demo_root :: path where
  "demo_root = \<lparr>pa_root = ''/'', pa_parts = [''x86'']\<rparr>"

definition demo_tree :: "(string list \<Rightarrow> string list option) \<Rightarrow> file_system" where
  "demo_tree dirs =
     \<lparr>fs_is_file = (\<lambda>p. True), fs_is_dir = (\<lambda>p. True),
      fs_read = (\<lambda>p. Some (str_bytes ''fn x86oracle_sail_new('')),
      fs_read_dir = (\<lambda>p. dirs (pa_parts p))\<rparr>"

definition demo_cargo :: "(string \<rightharpoonup> string) \<Rightarrow> env" where
  "demo_cargo vars =
     \<lparr>en_var = vars, en_to_path = (\<lambda>t. \<lparr>pa_root = '''', pa_parts = [t]\<rparr>),
      en_split_paths = (\<lambda>t. [\<lparr>pa_root = '''', pa_parts = [t]\<rparr>])\<rparr>"


definition demo_gmp_env :: env where
  "demo_gmp_env = demo_cargo [''SAIL_SYSTEM_GMP'' \<mapsto> ''1'', ''GMP_INCLUDE_DIR'' \<mapsto> ''include'', ''OPT_LEVEL'' \<mapsto> ''0'']"

lemma demo_gmp_env_simps [simp]:
  "system_gmp demo_gmp_env" "\<not> system_runtime demo_gmp_env" "\<not> gmp_static demo_gmp_env"
  "en_path demo_gmp_env ''X86_ORACLE_SAIL_MODEL_C'' = None" "en_path demo_gmp_env ''SAIL_LIB_DIR'' = None"
  "en_var demo_gmp_env ''GMP_LIB_NAME'' = None" "model_opt demo_gmp_env = ''2''"
  "resolve_gmp demo_gmp_env fs True st = (Some \<lparr>pa_root = '''', pa_parts = [''include'']\<rparr>, None)"
  by (simp_all add: demo_gmp_env_def demo_cargo_def system_gmp_def system_runtime_def gmp_static_def en_set_def en_path_def
      model_opt_def resolve_gmp_def explicit_half_def)

theorem sail_build_consistent_witness:
  "\<exists>s' cxx crt. build_sail demo_gmp_env (demo_tree (\<lambda>_. None)) demo_root demo_root (Some ()) (\<lambda>_. True)
       \<lparr>bd_compiled = [], bd_out = [], bd_dll = None\<rparr> = Some s' \<and>
     bd_compiled s' = [(''x86oracle_sail'', cxx), (''x86oracle_runtime'', crt)] \<and>
     (''SAIL_SYSTEM_GMP'', None) \<in> set (cb_defines cxx) \<and> (''SAIL_SYSTEM_GMP'', None) \<in> set (cb_defines crt) \<and>
     path_join demo_root [''vendor'', ''sail'', ''runtime'', ''mini-gmp.c''] \<notin> set (cb_files crt) \<and>
     \<lparr>pa_root = '''', pa_parts = [''include'']\<rparr> \<in> set (cb_includes cxx) \<inter> set (cb_includes crt) \<and>
     cb_opt cxx = Some ''2'' \<and> cb_opt crt = Some ''2''"
proof -
  let ?s = "\<lparr>bd_compiled = [], bd_out = [], bd_dll = None\<rparr>"
  obtain s' where "build_sail demo_gmp_env (demo_tree (\<lambda>_. None)) demo_root demo_root (Some ()) (\<lambda>_. True) ?s = Some s'"
    by (simp add: build_sail_def sail_model_def Let_def demo_tree_def link_gmp_def sail_search_def compile_def say_def split: option.splits)
  then show ?thesis
    using sail_build_consistent [of demo_gmp_env "demo_tree (\<lambda>_. None)" demo_root demo_root "Some ()" "\<lambda>_. True" ?s s']
    by auto
qed


section \<open>The Bochs backend\<close>

definition bochs_root :: "env \<Rightarrow> path \<Rightarrow> path" where
  "bochs_root E m = (case en_path E ''BOCHS_DIR'' of Some p \<Rightarrow> p | None \<Rightarrow> path_join m [''vendor'', ''bochs''])"

text \<open>The same tree, with its directories listed in another order.\<close>

definition relisted :: "file_system \<Rightarrow> file_system \<Rightarrow> bool" where
  "relisted fs fs' \<longleftrightarrow> fs_is_file fs' = fs_is_file fs \<and> fs_read fs' = fs_read fs \<and>
     (\<forall>p. rel_option (\<lambda>es es'. mset es = mset es') (fs_read_dir fs p) (fs_read_dir fs' p))"

lemma sort_filter_mset: "mset es = mset es' \<Longrightarrow> sort (filter P es) = sort (filter P es')"
  by (rule properties_for_sort [symmetric]) simp_all

lemma sources_relisted: "relisted fs fs' \<Longrightarrow> sources_with_ext fs' b dir ext = sources_with_ext fs b dir ext"
proof -
  assume "relisted fs fs'"
  then have "rel_option (\<lambda>es es'. mset es = mset es') (fs_read_dir fs (path_join b dir)) (fs_read_dir fs' (path_join b dir))"
    by (simp add: relisted_def)
  then show ?thesis
  proof (cases rule: option.rel_cases)
    case (Some es es')
    then show ?thesis
      using sort_filter_mset [of es es' "\<lambda>name. extension name = Some ext"] by (simp add: sources_with_ext_def Let_def)
  qed (simp add: sources_with_ext_def)
qed

lemma build_bochs_relisted: "relisted fs fs' \<Longrightarrow> build_bochs E fs' od m s = build_bochs E fs od m s"
proof -
  assume same: "relisted fs fs'"
  have sources: "all_sources fs' b dirs = all_sources fs b dirs" for b dirs
    by (simp add: all_sources_def sources_relisted [OF same])
  have files: "fs_is_file fs' = fs_is_file fs" "fs_read fs' = fs_read fs" using same by (simp_all add: relisted_def)
  show ?thesis
    unfolding build_bochs_def bochs_cxx_def bochs_softfloat_def msvc_config_def sources files ..
qed

definition source_at :: "file_system \<Rightarrow> path \<Rightarrow> string list \<Rightarrow> string \<Rightarrow> bool" where
  "source_at fs b dir name \<longleftrightarrow>
     extension name = Some ''cc'' \<and> (\<exists>es. fs_read_dir fs (path_join b dir) = Some es \<and> name \<in> set es)"

lemma sources_with_ext_set:
  "sources_with_ext fs b dir ''cc'' = Some out \<Longrightarrow>
     set out = {path_join b (dir @ [name]) | name. source_at fs b dir name} \<and> out \<noteq> []"
  by (auto simp: sources_with_ext_def source_at_def Let_def split: bind_splits if_splits)

lemma all_sources_set:
  "all_sources fs b dirs = Some out \<Longrightarrow>
     set out = {path_join b (dir @ [name]) | dir name. dir \<in> set dirs \<and> source_at fs b dir name} \<and>
     (\<forall>dir \<in> set dirs. \<exists>name. source_at fs b dir name)"
proof (induction dirs arbitrary: out)
  case Nil
  then show ?case by (simp add: all_sources_def)
next
  case (Cons d dirs)
  then obtain o1 o2 where d: "sources_with_ext fs b d ''cc'' = Some o1" and ds: "all_sources fs b dirs = Some o2"
    and out: "out = o1 @ o2"
    by (auto simp: all_sources_def split: bind_splits)
  have "\<exists>name. source_at fs b d name" using sources_with_ext_set [OF d] by (cases o1) auto
  then show ?case using sources_with_ext_set [OF d] Cons.IH [OF ds] by (auto simp: out)
qed

lemma path_join_inj [simp]: "path_join b xs = path_join b ys \<longleftrightarrow> xs = ys"
  by (cases b) (simp add: path_join_def)


lemma bochs_opt_files [simp]: "cb_files (bochs_opt E b) = cb_files b" "cb_metadata (bochs_opt E b) = cb_metadata b"
  by (simp_all add: bochs_opt_def)

lemma force_config_files [simp]:
  "cb_files (force_config h b) = cb_files b" "cb_metadata (force_config h b) = cb_metadata b"
  by (simp_all add: force_config_def split: option.splits)

lemma bochs_metadata:
  "bochs_cxx E fs m b config = Some cxx \<Longrightarrow> cb_metadata cxx"
  "bochs_softfloat E fs b config = Some sf \<Longrightarrow> cb_metadata sf"
  by (auto simp: bochs_cxx_def bochs_softfloat_def Let_def cc_new_def split: bind_splits if_splits)

lemma bochs_cxx_files_of:
  assumes "bochs_cxx E fs m b config = Some cxx"
  obtains srcs where "all_sources fs b bochs_cxx_dirs = Some srcs"
    and "cb_files cxx = srcs @ map (path_join b) bochs_cxx_files @ [path_join m [''csrc'', ''bochs_shim.cpp'']]"
  using assms by (auto simp: bochs_cxx_def Let_def cc_new_def split: bind_splits if_splits)

lemma bochs_softfloat_files_of:
  assumes "bochs_softfloat E fs b config = Some sf"
  obtains srcs where "all_sources fs b [softfloat_dir, softfloat_specialize] = Some srcs" and "cb_files sf = srcs"
  using assms by (auto simp: bochs_softfloat_def Let_def cc_new_def split: bind_splits if_splits)

lemma build_bochs_result:
  assumes "build_bochs E fs od m s = Some s'"
  obtains config cxx sf where "bochs_cxx E fs m (bochs_root E m) config = Some cxx"
    and "bochs_softfloat E fs (bochs_root E m) config = Some sf"
    and "bd_compiled s' = bd_compiled s @
      [(''x86oracle_bochs'', for_cargo (bd_dll s) cxx), (''x86oracle_softfloat'', for_cargo (bd_dll s) sf)]"
    and "same_dll [''src/bochs.rs'']
      (map_option (\<lambda>d. d\<lparr>dp_libs := dp_libs d @
         [path_join od [''x86oracle_bochs.lib''], path_join od [''x86oracle_softfloat.lib'']]\<rparr>) (bd_dll s)) (bd_dll s')"
proof -
  obtain config cxx sf where steps: "bochs_cxx E fs m (bochs_root E m) config = Some cxx"
    "bochs_softfloat E fs (bochs_root E m) config = Some sf"
    and s': "\<exists>ls. s' = say ls (on_dll (\<lambda>d. d\<lparr>dp_export_sources := dp_export_sources d @ [''src/bochs.rs'']\<rparr>)
       (compile od sf ''x86oracle_softfloat'' (compile od cxx ''x86oracle_bochs'' s)))"
    using assms by (auto simp: build_bochs_def bochs_root_def [symmetric] Let_def split: bind_splits if_splits)
  show thesis
    by (rule that [OF steps]) (use s' in \<open>auto simp: same_dll_def option.map_comp split: option.splits\<close>)
qed

lemma bochs_dirs_no_file:
  "dir \<in> set bochs_cxx_dirs \<Longrightarrow> dir @ [name] \<notin> set bochs_cxx_files"
  by (auto simp: bochs_cxx_dirs_def bochs_cxx_files_def)

lemma shim_no_source: "extension ''bochs_shim.cpp'' \<noteq> Some ''cc''"
  by (simp add: extension_def)



lemma demo_listing: "sources_with_ext (demo_tree (\<lambda>_. Some [''a.cc'', ''a.h''])) b dir ''cc'' = Some [path_join b (dir @ [''a.cc''])]"
  by (simp add: sources_with_ext_def demo_tree_def extension_def Let_def)



section \<open>The whole run\<close>

definition source_text :: "file_system \<Rightarrow> string \<Rightarrow> string option" where
  "source_text fs src = (case fs_read fs (rel (str_split ''/'' src)) of None \<Rightarrow> None
     | Some bytes \<Rightarrow> if utf8_valid bytes then Some (bytes_to_str bytes) else None)"

definition quoted :: "string \<Rightarrow> string" where
  "quoted a = [char_of (34 :: nat)] @ a @ [char_of (34 :: nat)] @ NEWLINE"

lemma concat_member: "x \<in> set xs \<Longrightarrow> \<exists>pre post. concat (map f xs) = pre @ f x @ post"
proof -
  assume "x \<in> set xs"
  then obtain us vs where "xs = us @ x # vs" by (auto dest: split_list)
  then have "concat (map f xs) = concat (map f us) @ f x @ concat (map f vs)" by simp
  then show ?thesis by blast
qed

lemma link_dll_result:
  assumes "link_dll fs od display link_ok d s = Some (link, s')"
  obtains texts where "fill_each (source_text fs) (dp_export_sources d) = Some texts"
    and "dl_def link = def_file (dll_exports texts)" and "link_ok link" and "bd_compiled s' = bd_compiled s"
    and "\<And>lib. lib \<in> set (dp_libs d) \<Longrightarrow> \<exists>pre post. dl_response link = pre @ quoted (display lib) @ post"
proof -
  have eq: "(\<lambda>src. case fs_read fs (rel (str_split ''/'' src)) of None \<Rightarrow> None
       | Some bytes \<Rightarrow> if utf8_valid bytes then Some (bytes_to_str bytes) else None) = source_text fs"
    by (rule ext) (simp add: source_text_def)
  let ?args = "[''/NOLOGO'', ''/DLL'', ''/OUT:'' @ display (path_join od [''x86oracle.dll'']),
       ''/DEF:'' @ display (path_join od [''x86oracle.def'']),
       ''/IMPLIB:'' @ display (path_join od [''x86oracle_dll.lib''])]
       @ map display (dp_libs d) @ map (show_text display) (dp_link_args d)"
  obtain texts where texts: "fill_each (source_text fs) (dp_export_sources d) = Some texts"
    and link: "link = \<lparr>dl_def = def_file (dll_exports texts), dl_response = concat (map quoted ?args),
      dl_copies = gmp_dlls fs od (dp_gmp_bin d)\<rparr>"
    and ok: "link_ok link" and s': "bd_compiled s' = bd_compiled s"
    using assms unfolding link_dll_def eq quoted_def by (auto simp: Let_def split: bind_splits if_splits)
  show thesis
  proof (rule that [OF texts _ ok s'])
    show "dl_def link = def_file (dll_exports texts)" by (simp add: link)
    fix lib assume "lib \<in> set (dp_libs d)"
    then have "display lib \<in> set ?args" by simp
    from concat_member [OF this, of quoted] show "\<exists>pre post. dl_response link = pre @ quoted (display lib) @ post"
      by (simp add: link)
  qed
qed

text \<open>The backends a run compiles, the libraries of each, and the sources of their exports.\<close>

definition native_libs :: "env \<Rightarrow> string list" where
  "native_libs E =
     (if en_set E ''CARGO_FEATURE_SAIL'' then [''x86oracle_sail'', ''x86oracle_runtime''] else []) @
     (if en_set E ''CARGO_FEATURE_BOCHS'' then [''x86oracle_bochs'', ''x86oracle_softfloat''] else [])"

definition native_sources :: "env \<Rightarrow> string list" where
  "native_sources E =
     (if en_set E ''CARGO_FEATURE_SAIL'' then [''src/sail.rs''] else []) @
     (if en_set E ''CARGO_FEATURE_BOCHS'' then [''src/bochs.rs''] else [])"

definition makes_dll :: "env \<Rightarrow> bool" where
  "makes_dll E \<longleftrightarrow> en_var E ''CARGO_CFG_TARGET_OS'' = Some ''windows'' \<and> is_msvc E"

text \<open>Where a run stands: what it has compiled, and the DLL it is collecting, if it makes one.\<close>

definition collected :: "env \<Rightarrow> path \<Rightarrow> string list \<Rightarrow> string list \<Rightarrow> build \<Rightarrow> bool" where
  "collected E od libs srcs s \<longleftrightarrow> map fst (bd_compiled s) = libs \<and>
     (\<forall>(name, b) \<in> set (bd_compiled s). cb_metadata b \<longleftrightarrow> \<not> makes_dll E) \<and>
     (case bd_dll s of None \<Rightarrow> \<not> makes_dll E
      | Some d \<Rightarrow> makes_dll E \<and> dp_libs d = map (\<lambda>n. path_join od [n @ ''.lib'']) libs \<and> dp_export_sources d = srcs)"

lemma sail_collected:
  assumes "build_sail E fs od m unpacked probe_ok s = Some s'" and "collected E od libs srcs s"
  shows "collected E od (libs @ [''x86oracle_sail'', ''x86oracle_runtime'']) (srcs @ [''src/sail.rs'']) s'"
  by (rule build_sail_result [OF assms(1)])
    (use assms(2) in \<open>auto simp: collected_def same_dll_def sail_metadata split: option.splits\<close>)

lemma bochs_collected:
  assumes "build_bochs E fs od m s = Some s'" and "collected E od libs srcs s"
  shows "collected E od (libs @ [''x86oracle_bochs'', ''x86oracle_softfloat'']) (srcs @ [''src/bochs.rs'']) s'"
  by (rule build_bochs_result [OF assms(1)])
    (use assms(2) in \<open>auto simp: collected_def same_dll_def bochs_metadata split: option.splits\<close>)

lemma main_collected:
  assumes "build_main E fs od m display unpacked probe_ok link_ok = Some (dll, s')"
  obtains s where "collected E od (native_libs E) (native_sources E) s"
    and "(case bd_dll s of
       Some d \<Rightarrow> if dp_libs d \<noteq> [] then map_option (apfst Some) (link_dll fs od display link_ok d s) else Some (None, s)
     | None \<Rightarrow> Some (None, s)) = Some (dll, s')"
proof -
  let ?none = "\<lparr>bd_compiled = [], bd_out = [], bd_dll = None\<rparr>"
  obtain s0 s1 s2 where s0: "collected E od [] [] s0"
    and s1: "(if en_set E ''CARGO_FEATURE_SAIL'' then build_sail E fs od m unpacked probe_ok s0 else Some s0) = Some s1"
    and s2: "(if en_set E ''CARGO_FEATURE_BOCHS'' then build_bochs E fs od m s1 else Some s1) = Some s2"
    and fin: "(case bd_dll s2 of
       Some d \<Rightarrow> if dp_libs d \<noteq> [] then map_option (apfst Some) (link_dll fs od display link_ok d s2) else Some (None, s2)
     | None \<Rightarrow> Some (None, s2)) = Some (dll, s')"
  proof -
    let ?said = "say ([Text ''cargo::rustc-check-cfg=cfg(backend_kvm)'', Text ''cargo::rustc-check-cfg=cfg(backend_whp)'']
       @ map (\<lambda>cfg. Text (''cargo::rustc-cfg='' @ cfg)) (hardware_cfgs E)
       @ [Text ''cargo::rustc-check-cfg=cfg(x86oracle_dll)'']) ?none"
    let ?s0 = "if en_var E ''CARGO_CFG_TARGET_OS'' = Some ''windows'' \<and> is_msvc E then ?said\<lparr>bd_dll := Some dll_default\<rparr> else ?said"
    have start: "collected E od [] [] ?s0" by (simp add: collected_def makes_dll_def dll_default_def say_def)
    show thesis
      using assms unfolding build_main_def Let_def by (auto split: bind_splits intro: that [OF start])
  qed
  have sail: "collected E od
      (if en_set E ''CARGO_FEATURE_SAIL'' then [''x86oracle_sail'', ''x86oracle_runtime''] else [])
      (if en_set E ''CARGO_FEATURE_SAIL'' then [''src/sail.rs''] else []) s1" (is "collected _ _ ?libs ?srcs _")
    using s1 s0 sail_collected [of E fs od m unpacked probe_ok s0 s1 "[]" "[]"] by (simp split: if_splits)
  have "collected E od (native_libs E) (native_sources E) s2"
    unfolding native_libs_def native_sources_def
    using s2 sail bochs_collected [of E fs od m s1 s2 ?libs ?srcs] by (simp split: if_splits)
  then show thesis using fin by (rule that)
qed

text \<open>
  C34: A run of the build script that ends without a panic has compiled exactly the libraries of the
  enabled native backends, Sail's before Bochs's. It links a DLL exactly for a Windows MSVC target with
  at least one of them; the DLL's response file then names every library, and the functions it exports
  are those found in the sources of the enabled backends and of no other. Cargo is left to link a
  library by itself exactly for the other targets.
\<close>

theorem build_main_links:
  assumes "build_main E fs od m display unpacked probe_ok link_ok = Some (dll, s)"
  shows "map fst (bd_compiled s) = native_libs E \<and>
    (\<forall>(name, b) \<in> set (bd_compiled s). cb_metadata b \<longleftrightarrow> \<not> makes_dll E) \<and>
    (dll \<noteq> None \<longleftrightarrow> makes_dll E \<and> native_libs E \<noteq> []) \<and>
    (\<forall>d. dll = Some d \<longrightarrow> link_ok d \<and>
       (\<exists>texts. fill_each (source_text fs) (native_sources E) = Some texts \<and> dl_def d = def_file (dll_exports texts)) \<and>
       (\<forall>name \<in> set (map fst (bd_compiled s)). \<exists>pre post.
          dl_response d = pre @ quoted (display (path_join od [name @ ''.lib''])) @ post))"
proof -
  obtain s1 where c: "collected E od (native_libs E) (native_sources E) s1"
    and fin: "(case bd_dll s1 of
       Some d \<Rightarrow> if dp_libs d \<noteq> [] then map_option (apfst Some) (link_dll fs od display link_ok d s1) else Some (None, s1)
     | None \<Rightarrow> Some (None, s1)) = Some (dll, s)"
    using main_collected [OF assms] by blast
  have libs: "map fst (bd_compiled s1) = native_libs E"
    "\<forall>(name, b) \<in> set (bd_compiled s1). cb_metadata b \<longleftrightarrow> \<not> makes_dll E" using c by (simp_all add: collected_def)
  show ?thesis
  proof (cases "makes_dll E \<and> native_libs E \<noteq> []")
    case False
    have "dll = None \<and> s = s1" using c fin False by (auto simp: collected_def split: option.splits if_splits)
    with False libs show ?thesis by auto
  next
    case True
    then obtain d where d: "bd_dll s1 = Some d" and dlibs: "dp_libs d = map (\<lambda>n. path_join od [n @ ''.lib'']) (native_libs E)"
      and srcs: "dp_export_sources d = native_sources E"
      using c by (auto simp: collected_def split: option.splits)
    obtain link where link: "link_dll fs od display link_ok d s1 = Some (link, s)" and dll: "dll = Some link"
      using fin True by (auto simp: d dlibs split: if_splits)
    obtain texts where "fill_each (source_text fs) (dp_export_sources d) = Some texts"
      and "dl_def link = def_file (dll_exports texts)" and "link_ok link" and "bd_compiled s = bd_compiled s1"
      and "\<And>lib. lib \<in> set (dp_libs d) \<Longrightarrow> \<exists>pre post. dl_response link = pre @ quoted (display lib) @ post"
      using link_dll_result [OF link] by blast
    then show ?thesis using True libs by (simp add: dll srcs dlibs)
  qed
qed


definition demo_msvc_env :: env where
  "demo_msvc_env = demo_cargo [''CARGO_FEATURE_SAIL'' \<mapsto> ''1'', ''CARGO_CFG_TARGET_OS'' \<mapsto> ''windows'',
     ''CARGO_CFG_TARGET_ENV'' \<mapsto> ''msvc'']"

lemma demo_msvc_env_simps [simp]:
  "\<not> system_gmp demo_msvc_env" "\<not> system_runtime demo_msvc_env" "is_msvc demo_msvc_env"
  "en_var demo_msvc_env ''CARGO_CFG_TARGET_OS'' = Some ''windows''" "en_var demo_msvc_env ''ZLIB_LIB_DIR'' = None"
  "en_set demo_msvc_env ''CARGO_FEATURE_SAIL''" "\<not> en_set demo_msvc_env ''CARGO_FEATURE_BOCHS''"
  "en_path demo_msvc_env ''X86_ORACLE_SAIL_MODEL_C'' = None" "en_path demo_msvc_env ''SAIL_LIB_DIR'' = None"
  "resolve_gmp demo_msvc_env fs False st = (None, None)"
  by (simp_all add: demo_msvc_env_def demo_cargo_def system_gmp_def system_runtime_def is_msvc_def en_set_def en_path_def
      resolve_gmp_def explicit_half_def)

lemma demo_exports: "utf8_valid (str_bytes ''fn x86oracle_sail_new('')"
    "bytes_to_str (str_bytes ''fn x86oracle_sail_new('') = ''fn x86oracle_sail_new(''"
    "dll_exports [''fn x86oracle_sail_new(''] = [''x86oracle_sail_new'']"
proof -
  show "utf8_valid (str_bytes ''fn x86oracle_sail_new('')" by (rule ascii_valid) (simp add: str_bytes_def)
  show "bytes_to_str (str_bytes ''fn x86oracle_sail_new('') = ''fn x86oracle_sail_new(''" by (rule str_bytes_inverse)
  have "exports_of ''fn x86oracle_sail_new('' = [''x86oracle_sail_new'']"
    by (simp add: exports_of_def EXPORT_MARK_def str_split_def starts_with_def ident_char_def)
  then show "dll_exports [''fn x86oracle_sail_new(''] = [''x86oracle_sail_new'']" by (simp add: dll_exports_def)
qed

theorem build_main_links_witness:
  "\<exists>d s. build_main demo_msvc_env (demo_tree (\<lambda>_. None)) demo_root demo_root (\<lambda>p. concat (pa_parts p)) (Some ())
       (\<lambda>_. False) (\<lambda>_. True) = Some (Some d, s) \<and>
     map fst (bd_compiled s) = [''x86oracle_sail'', ''x86oracle_runtime''] \<and>
     dl_def d = def_file [''x86oracle_sail_new'']"
proof -
  let ?fs = "demo_tree (\<lambda>_. None)"
  have exported: "source_text ?fs src = Some ''fn x86oracle_sail_new(''" for src
    by (simp add: source_text_def demo_tree_def demo_exports)
  obtain d s where run: "build_main demo_msvc_env ?fs demo_root demo_root (\<lambda>p. concat (pa_parts p)) (Some ())
       (\<lambda>_. False) (\<lambda>_. True) = Some (Some d, s)"
    by (simp add: build_main_def build_sail_def sail_model_def Let_def link_gmp_def sail_search_def link_zlib_def compile_def say_def on_dll_def
        dll_default_def link_dll_def demo_exports demo_tree_def)
  show ?thesis
    using run build_main_links [OF run] by (auto simp: native_libs_def native_sources_def exported demo_exports)
qed

end
