(* ===== verification/Native_Api.thy ===== *)
theory Native_Api
  imports Build_Text
begin

text \<open>
  \<open>native.rs\<close>: how a program that uses the DLL build finds the C functions of the native backends.
  The system's loader is a parameter with a state of its own; a string it takes ends with a NUL,
  which is left out here. Each use of the macro \<open>native_api!\<close> has a table of its own, named by its
  source file; a \<open>OnceLock\<close> is an option that is filled once.
\<close>

section \<open>Loading and looking up\<close>

definition LOAD_WITH_ALTERED_SEARCH_PATH :: u32 where "LOAD_WITH_ALTERED_SEARCH_PATH = 0x00000008"

text \<open>\<open>LoadLibraryExW\<close> returns a module or leaves an error for \<open>GetLastError\<close>.\<close>

record ('h, 'p, 'w) loader =
  ld_load :: "string \<Rightarrow> u32 \<Rightarrow> 'w \<Rightarrow> (u32 + 'h) \<times> 'w"
  ld_symbol :: "'h \<Rightarrow> string \<Rightarrow> 'p option"

record ('h, 'p, 'w) native =
  na_module :: "'h option"
  na_apis :: "string \<rightharpoonup> (string \<times> 'p) list"
  na_world :: 'w

definition native_module :: "('h, 'p, 'w) loader \<Rightarrow> string \<Rightarrow> ('h, 'p, 'w) native \<Rightarrow> ('h \<times> ('h, 'p, 'w) native) panics" where
  "native_module ld dll_path s =
     (case na_module s of
        Some h \<Rightarrow> Some (h, s)
      | None \<Rightarrow>
          (case ld_load ld dll_path LOAD_WITH_ALTERED_SEARCH_PATH (na_world s) of
             (Inl _, _) \<Rightarrow> None
           | (Inr h, w) \<Rightarrow> Some (h, s\<lparr>na_module := Some h, na_world := w\<rparr>)))"

definition native_symbol ::
    "('h, 'p, 'w) loader \<Rightarrow> string \<Rightarrow> string \<Rightarrow> ('h, 'p, 'w) native \<Rightarrow> ('p \<times> ('h, 'p, 'w) native) panics" where
  "native_symbol ld dll_path name s = do {
     (h, s) \<leftarrow> native_module ld dll_path s;
     p \<leftarrow> ld_symbol ld h name;
     Some (p, s) }"

text \<open>The fields of \<open>NativeApi\<close> are filled in the order of the declarations.\<close>

fun native_fields ::
    "('h, 'p, 'w) loader \<Rightarrow> string \<Rightarrow> string list \<Rightarrow> ('h, 'p, 'w) native \<Rightarrow>
     ((string \<times> 'p) list \<times> ('h, 'p, 'w) native) panics" where
  "native_fields ld dll_path [] s = Some ([], s)"
| "native_fields ld dll_path (name # declared) s = do {
     (p, s) \<leftarrow> native_symbol ld dll_path name s;
     (rest, s) \<leftarrow> native_fields ld dll_path declared s;
     Some ((name, p) # rest, s) }"

definition native_api ::
    "('h, 'p, 'w) loader \<Rightarrow> string \<Rightarrow> string \<Rightarrow> string list \<Rightarrow> ('h, 'p, 'w) native \<Rightarrow>
     ((string \<times> 'p) list \<times> ('h, 'p, 'w) native) panics" where
  "native_api ld dll_path src declared s =
     (case na_apis s src of
        Some api \<Rightarrow> Some (api, s)
      | None \<Rightarrow> do {
          (api, s) \<leftarrow> native_fields ld dll_path declared s;
          Some (api, s\<lparr>na_apis := (na_apis s)(src \<mapsto> api)\<rparr>) })"

text \<open>A call of a declared function: the entry point it goes to.\<close>

definition native_fn ::
    "('h, 'p, 'w) loader \<Rightarrow> string \<Rightarrow> (string \<Rightarrow> string list) \<Rightarrow> string \<times> string \<Rightarrow> ('h, 'p, 'w) native \<Rightarrow>
     ('p \<times> ('h, 'p, 'w) native) panics" where
  "native_fn ld dll_path declared call s = do {
     (api, s) \<leftarrow> native_api ld dll_path (fst call) (declared (fst call)) s;
     p \<leftarrow> map_of api (snd call);
     Some (p, s) }"

fun native_calls ::
    "('h, 'p, 'w) loader \<Rightarrow> string \<Rightarrow> (string \<Rightarrow> string list) \<Rightarrow> (string \<times> string) list \<Rightarrow> ('h, 'p, 'w) native \<Rightarrow>
     ('p list \<times> ('h, 'p, 'w) native) panics" where
  "native_calls ld dll_path declared [] s = Some ([], s)"
| "native_calls ld dll_path declared (call # calls) s = do {
     (p, s) \<leftarrow> native_fn ld dll_path declared call s;
     (ps, s) \<leftarrow> native_calls ld dll_path declared calls s;
     Some (p # ps, s) }"

section \<open>Declared functions are exported\<close>

text \<open>A source that declares a function of the C API, as the macro's syntax has it.\<close>

definition declares :: "string \<Rightarrow> string \<Rightarrow> bool" where
  "declares src name \<longleftrightarrow>
     (\<exists>u ident v. src = u @ ''fn '' @ name @ ''('' @ v \<and> name = ''x86oracle_'' @ ident \<and> ident \<noteq> [] \<and>
        list_all ident_char ident)"

lemma no_mark_in_ident:
  assumes "list_all ident_char (cur @ ident)"
  shows "takeWhile ident_char (hd (split_from EXPORT_MARK cur (ident @ ''('' @ v))) = cur @ ident"
  using assms
proof (induction ident arbitrary: cur)
  case Nil
  have "\<exists>r. hd (split_from EXPORT_MARK cur' s) = cur' @ r" for cur' s
  proof (induction s arbitrary: cur')
    case (Cons c s)
    obtain r where "hd (split_from EXPORT_MARK (cur' @ [c]) s) = (cur' @ [c]) @ r" using Cons.IH by blast
    then show ?case by simp
  qed simp
  then obtain r where "hd (split_from EXPORT_MARK (cur @ ''('') v) = (cur @ ''('') @ r" by blast
  moreover have "split_from EXPORT_MARK cur (''('' @ v) = split_from EXPORT_MARK (cur @ ''('') v"
    by (simp add: starts_with_def EXPORT_MARK_def)
  moreover have "\<not> ident_char (CHR ''('')" by (simp add: ident_char_def)
  ultimately show ?case using Nil by (simp add: takeWhile_append list_all_iff)
next
  case (Cons c ident)
  have "\<not> starts_with EXPORT_MARK (c # ident @ ''('' @ v)"
  proof
    assume "starts_with EXPORT_MARK (c # ident @ ''('' @ v)"
    then have "take 2 (ident @ ''('' @ v) = ''n ''"
      by (cases ident; cases "tl ident") (simp_all add: starts_with_def EXPORT_MARK_def)
    moreover have "\<not> ident_char (CHR '' '')" by (simp add: ident_char_def)
    ultimately show False using Cons.prems by (cases ident; cases "tl ident") auto
  qed
  then show ?case using Cons.IH [of "cur @ [c]"] Cons.prems by simp
qed

lemma declared_exported:
  assumes "declares src name" and "src \<in> set sources"
  shows "name \<in> set (dll_exports sources)"
proof -
  obtain u ident v where src: "src = u @ ''fn '' @ name @ ''('' @ v" and name: "name = ''x86oracle_'' @ ident"
    and ident: "ident \<noteq> []" "list_all ident_char ident"
    using assms(1) unfolding declares_def by blast
  have "src = u @ EXPORT_MARK @ ident @ ''('' @ v" by (simp add: src name EXPORT_MARK_def)
  moreover have "takeWhile ident_char (upto_mark EXPORT_MARK (ident @ ''('' @ v)) = ident"
    using no_mark_in_ident [of "[]" ident v] ident(2) by (simp add: upto_mark_def str_split_def)
  ultimately have "name \<in> set (exports_of src)"
    unfolding set_exports_of name
    by (intro CollectI exI [of _ "ident @ ''('' @ v"]) (simp add: ident(1))
  with assms(2) show ?thesis by (auto simp: dll_exports_def)
qed


section \<open>Every call reaches its function\<close>

text \<open>What the loader promises of a DLL: a loaded module has its exports, and nothing else.\<close>

definition module_law :: "('h, 'p, 'w) loader \<Rightarrow> string \<Rightarrow> string list \<Rightarrow> (string \<Rightarrow> 'p) \<Rightarrow> bool" where
  "module_law ld dll_path exports addr \<longleftrightarrow>
     (\<forall>w h w'. ld_load ld dll_path LOAD_WITH_ALTERED_SEARCH_PATH w = (Inr h, w') \<longrightarrow>
        (\<forall>name. ld_symbol ld h name = (if name \<in> set exports then Some (addr name) else None)))"

text \<open>Once the module is loaded: tables that are filled are right, and nothing loads again.\<close>

definition native_bound :: "(string \<Rightarrow> string list) \<Rightarrow> (string \<Rightarrow> 'p) \<Rightarrow> 'h \<Rightarrow> 'w \<Rightarrow> ('h, 'p, 'w) native \<Rightarrow> bool" where
  "native_bound declared addr h w s \<longleftrightarrow> na_module s = Some h \<and> na_world s = w \<and>
     (\<forall>src api. na_apis s src = Some api \<longrightarrow> api = map (\<lambda>n. (n, addr n)) (declared src))"

lemma native_fields_bound:
  assumes "na_module s = Some h" and "\<forall>n \<in> set ns. ld_symbol ld h n = Some (addr n)"
  shows "native_fields ld dll_path ns s = Some (map (\<lambda>n. (n, addr n)) ns, s)"
  using assms(2) by (induction ns) (simp_all add: native_symbol_def native_module_def assms(1))

lemma native_fields_first:
  assumes "na_module s = None" and "ld_load ld dll_path LOAD_WITH_ALTERED_SEARCH_PATH (na_world s) = (Inr h, w)"
    and "ns \<noteq> []" and "\<forall>n \<in> set ns. ld_symbol ld h n = Some (addr n)"
  shows "native_fields ld dll_path ns s =
    Some (map (\<lambda>n. (n, addr n)) ns, s\<lparr>na_module := Some h, na_world := w\<rparr>)"
  using assms(3,4) native_fields_bound [of "s\<lparr>na_module := Some h, na_world := w\<rparr>" h "tl ns" ld addr dll_path]
  by (cases ns) (simp_all add: native_symbol_def native_module_def assms(1,2))

lemma map_of_addr: "map_of (map (\<lambda>n. (n, addr n)) ns) n = (if n \<in> set ns then Some (addr n) else None)"
  by (induction ns) auto

lemma native_fn_bound:
  assumes "native_bound declared addr h w s" and "snd call \<in> set (declared (fst call))"
    and "\<forall>n \<in> set (declared (fst call)). ld_symbol ld h n = Some (addr n)"
  shows "\<exists>s'. native_fn ld dll_path declared call s = Some (addr (snd call), s') \<and> native_bound declared addr h w s'"
proof (cases "na_apis s (fst call)")
  case None
  with assms show ?thesis
    by (simp add: native_fn_def native_api_def native_bound_def native_fields_bound [of s h _ ld addr] map_of_addr)
next
  case (Some api)
  with assms have "api = map (\<lambda>n. (n, addr n)) (declared (fst call))" by (simp add: native_bound_def)
  with assms Some show ?thesis by (simp add: native_fn_def native_api_def map_of_addr)
qed

lemma native_calls_bound:
  assumes "native_bound declared addr h w s"
    and "\<forall>call \<in> set calls. snd call \<in> set (declared (fst call)) \<and>
      (\<forall>n \<in> set (declared (fst call)). ld_symbol ld h n = Some (addr n))"
  shows "\<exists>s'. native_calls ld dll_path declared calls s = Some (map (addr \<circ> snd) calls, s') \<and> na_world s' = w"
  using assms
proof (induction calls arbitrary: s)
  case Nil
  then show ?case by (simp add: native_bound_def)
next
  case (Cons call calls)
  obtain s' where "native_fn ld dll_path declared call s = Some (addr (snd call), s')" and "native_bound declared addr h w s'"
    using native_fn_bound [OF Cons.prems(1)] Cons.prems(2) by (metis list.set_intros(1))
  moreover from this obtain s'' where "native_calls ld dll_path declared calls s' = Some (map (addr \<circ> snd) calls, s'')"
    "na_world s'' = w"
    using Cons.IH [of s'] Cons.prems(2) by auto
  ultimately show ?case by simp
qed

text \<open>
  C39: The export list the build script makes is enough for \<open>native.rs\<close>. When the DLL exports what
  \<open>link_dll\<close> found in the sources, and the functions called are declared in them by \<open>native_api!\<close>, every
  call goes to the function of its name; the DLL is loaded once, by the first call, and never without
  one. When it cannot be loaded, the first call panics.
\<close>

theorem native_calls_resolve:
  fixes ld :: "('h, 'p, 'w) loader" and w :: 'w
  assumes law: "module_law ld dll_path (dll_exports sources) addr"
    and calls: "\<forall>call \<in> set calls. snd call \<in> set (declared (fst call)) \<and> text_of (fst call) \<in> set sources \<and>
      (\<forall>n \<in> set (declared (fst call)). declares (text_of (fst call)) n)"
  defines "s \<equiv> \<lparr>na_module = None, na_apis = Map.empty, na_world = w\<rparr>"
  shows "case ld_load ld dll_path LOAD_WITH_ALTERED_SEARCH_PATH w of
      (Inr h, w') \<Rightarrow> \<exists>s'. native_calls ld dll_path declared calls s = Some (map (addr \<circ> snd) calls, s') \<and>
        na_world s' = (if calls = [] then w else w')
    | (Inl e, w') \<Rightarrow> native_calls ld dll_path declared calls s = (if calls = [] then Some ([], s) else None)"
proof (cases calls)
  case Nil
  then show ?thesis by (auto simp: s_def split: prod.splits sum.splits)
next
  case (Cons call rest)
  then have named: "snd call \<in> set (declared (fst call))" "declared (fst call) \<noteq> []" using calls by auto
  obtain r w' where load: "ld_load ld dll_path LOAD_WITH_ALTERED_SEARCH_PATH w = (r, w')"
    by (cases "ld_load ld dll_path LOAD_WITH_ALTERED_SEARCH_PATH w")
  show ?thesis
  proof (cases r)
    case (Inl e)
    then have "native_fields ld dll_path (declared (fst call)) s = None"
      using named(2) by (cases "declared (fst call)") (simp_all add: native_symbol_def native_module_def s_def load)
    then have "native_fn ld dll_path declared call s = None" by (simp add: native_fn_def native_api_def s_def)
    then show ?thesis by (simp add: load Inl Cons)
  next
    case (Inr h)
    have sym: "\<forall>c \<in> set calls. \<forall>n \<in> set (declared (fst c)). ld_symbol ld h n = Some (addr n)"
      using law calls declared_exported load unfolding module_law_def Inr by (metis (no_types, lifting))
    then have "native_fields ld dll_path (declared (fst call)) s =
        Some (map (\<lambda>n. (n, addr n)) (declared (fst call)), s\<lparr>na_module := Some h, na_world := w'\<rparr>)"
      using named(2) by (intro native_fields_first) (simp_all add: s_def load Inr Cons)
    then obtain s1 where first: "native_fn ld dll_path declared call s = Some (addr (snd call), s1)"
      and bound: "native_bound declared addr h w' s1"
      using named(1) by (simp add: native_fn_def native_api_def native_bound_def s_def map_of_addr)
    obtain s' where "native_calls ld dll_path declared rest s1 = Some (map (addr \<circ> snd) rest, s')" "na_world s' = w'"
      using native_calls_bound [OF bound, of rest ld dll_path] sym calls Cons by auto
    then show ?thesis using first by (simp add: load Inr Cons)
  qed
qed


text \<open>A loader that counts the loads, and one function in each backend's source.\<close>

definition demo_sources :: "string \<Rightarrow> string" where
  "demo_sources src = (if src = ''src/sail.rs'' then ''fn x86oracle_step() -> u32;'' else ''fn x86oracle_bochs_step() -> i32;'')"

definition demo_loader :: "(unit, string, nat) loader" where
  "demo_loader =
     \<lparr>ld_load = (\<lambda>dll_path flags w. (Inr (), Suc w)),
      ld_symbol = (\<lambda>_ name. if name \<in> set (dll_exports (map demo_sources [''src/sail.rs'', ''src/bochs.rs''])) then Some name else None)\<rparr>"

definition demo_declared :: "string \<Rightarrow> string list" where
  "demo_declared src = (if src = ''src/sail.rs'' then [''x86oracle_step''] else [''x86oracle_bochs_step''])"

theorem native_calls_resolve_witness:
  "\<exists>s'. native_calls demo_loader ''x86oracle.dll'' demo_declared
       [(''src/sail.rs'', ''x86oracle_step''), (''src/bochs.rs'', ''x86oracle_bochs_step''), (''src/sail.rs'', ''x86oracle_step'')]
       \<lparr>na_module = None, na_apis = Map.empty, na_world = 0\<rparr> =
     Some ([''x86oracle_step'', ''x86oracle_bochs_step'', ''x86oracle_step''], s') \<and> na_world s' = 1"
proof -
  let ?calls = "[(''src/sail.rs'', ''x86oracle_step''), (''src/bochs.rs'', ''x86oracle_bochs_step''), (''src/sail.rs'', ''x86oracle_step'')]"
  have "declares ''fn x86oracle_step() -> u32;'' ''x86oracle_step''"
    unfolding declares_def
    by (intro exI [of _ "[]"] exI [of _ "''step''"] exI [of _ "'') -> u32;''"]) (simp add: ident_char_def)
  moreover have "declares ''fn x86oracle_bochs_step() -> i32;'' ''x86oracle_bochs_step''"
    unfolding declares_def
    by (intro exI [of _ "[]"] exI [of _ "''bochs_step''"] exI [of _ "'') -> i32;''"]) (simp add: ident_char_def)
  ultimately have decl: "declares (demo_sources src) n" if "n \<in> set (demo_declared src)" for src n
    using that by (simp add: demo_sources_def demo_declared_def split: if_splits)
  have law: "module_law demo_loader ''x86oracle.dll'' (dll_exports (map demo_sources [''src/sail.rs'', ''src/bochs.rs''])) (\<lambda>n. n)"
    by (simp add: module_law_def demo_loader_def)
  have "\<forall>call \<in> set ?calls. snd call \<in> set (demo_declared (fst call)) \<and>
      demo_sources (fst call) \<in> set (map demo_sources [''src/sail.rs'', ''src/bochs.rs'']) \<and>
      (\<forall>n \<in> set (demo_declared (fst call)). declares (demo_sources (fst call)) n)"
    using decl by (simp add: demo_declared_def demo_sources_def)
  from native_calls_resolve [OF law this, of 0] show ?thesis by (simp add: demo_loader_def)
qed

end
