(* ===== verification/Spec2Isabelle.thy ===== *)
theory Spec2Isabelle
  imports Any_Properties Bochs_Properties Whp_Properties Build_Properties Native_Api
begin

text \<open>
  A verification development of the crate \<open>hybrid-x86-oracle\<close>: a library that runs single x86-64
  instructions on one of four backends behind one trait, to compare them. All paths below are those
  of the repository's Rust sources \<open>src/*.rs\<close> and its build script \<open>build.rs\<close>.

  \<^bold>\<open>The program.\<close> A client chooses a \<open>Backend\<close> and gets an \<open>AnyOracle\<close> (\<open>any.rs\<close>), which forwards the
  methods of the trait \<open>X86Oracle\<close> (\<open>lib.rs\<close>) to the backend it holds: the Sail model (\<open>sail.rs\<close>), the
  Bochs emulator (\<open>bochs.rs\<close>), or the host's processor through KVM (\<open>kvm.rs\<close>) or the Windows
  Hypervisor Platform (\<open>whp.rs\<close>). The two hypervisor backends share \<open>hw.rs\<close>: guest RAM, the tables
  that put a virtual CPU into long mode, the decoding of faults, and the XSAVE image that holds the
  vector registers. \<open>CpuState\<close> carries a state from one oracle to another and is what a campaign
  compares. The build script compiles the native halves and decides which backends exist.

  \<^bold>\<open>Theories and what they model.\<close>
  \<^item> \<open>Prelude\<close>, \<open>Rust_Strings\<close>, \<open>Rust_Bytes\<close>: what the code uses of Rust's integers, slices, strings
    and loops, with the lemma collections of the development.
  \<^item> \<open>Oracle_Types\<close>, \<open>Oracle_Trait\<close> (\<open>lib.rs\<close>): \<open>FaultKind\<close>, \<open>StepOutcome\<close>, \<open>CpuState\<close> with \<open>diff\<close> and
    \<open>eq_integer\<close>; the trait as the record \<open>oracle_ops\<close> of its methods, the provided methods as
    functions of it. \<open>Core_Registers\<close>: what both native backends promise of their registers.
  \<^item> \<open>Guest_Ram\<close>, \<open>Hw_Tables\<close>, \<open>Hw_Guest\<close>, \<open>Hw_Faults\<close>, \<open>Hw_Xsave\<close>, \<open>Hw_Image\<close> (\<open>hw.rs\<close>): RAM as a byte
    list, the control structures, how the processor reads them, faults, both XSAVE formats, and the
    properties of the image as a whole.
  \<^item> \<open>Kvm_Oracle\<close>, \<open>Kvm_Contract\<close>, \<open>Kvm_Step\<close>, \<open>Kvm_Properties\<close> (\<open>kvm.rs\<close>): the oracle and all its
    operations over the record \<open>kvm_api\<close> of the kernel's calls, the kernel's documented behaviour
    (\<open>kvm_laws\<close>), the step loop.
  \<^item> \<open>Whp_Api\<close>, \<open>Whp_Oracle\<close>, \<open>Whp_Mapping\<close>, \<open>Whp_Contract\<close>, \<open>Whp_Boot\<close>, \<open>Whp_Step\<close>, \<open>Whp_Sim\<close>,
    \<open>Whp_Properties\<close> (\<open>whp.rs\<close>): the same over the record \<open>whp_api\<close>, with the process state, that is
    the world of partitions and the slot \<open>MAPPING_OWNER\<close>; a step relation of what a process may do to
    its oracles; a simulated platform for the witnesses.
  \<^item> \<open>Bochs_Oracle\<close>, \<open>Bochs_Occupancy\<close>, \<open>Bochs_Contract\<close>, \<open>Bochs_Properties\<close> (\<open>bochs.rs\<close>): the backend over
    the record \<open>bochs_api\<close> of the shim's functions, and the flag and condition variable that keep one
    oracle alive at a time, as a step relation over any number of concurrent calls.
  \<^item> \<open>Sail_Oracle\<close>, \<open>Sail_Contract\<close>, \<open>Sail_Properties\<close> (\<open>sail.rs\<close>): the backend over \<open>sail_api\<close>, its
    classification of the model's messages.
  \<^item> \<open>Any_Oracle\<close>, \<open>Any_Properties\<close> (\<open>any.rs\<close>): the choice of a backend and the forwarding, with what
    survives a snapshot carried from one backend to another.
  \<^item> \<open>Build_Archive\<close>, \<open>Build_Unpack\<close>, \<open>Build_Text\<close>, \<open>Build_Gmp\<close>, \<open>Build_Script\<close>, \<open>Build_Properties\<close>
    (\<open>build.rs\<close>): the inspection of archives, the unpacking of the vendored model, the export list and
    the MSVC header, the search for a system GMP, the compilations of both native backends, the DLL.
  \<^item> \<open>Native_Api\<close> (\<open>native.rs\<close>): loading the DLL and looking up its entry points.
  \<^item> This theory: the build script and \<open>any.rs\<close> together.

  \<^bold>\<open>How the code is translated.\<close> A struct is a record, an enum a datatype, an integer of \<open>w\<close> bits a
  word of \<open>w\<close> bits; a \<open>usize\<close> is a natural number where it cannot overflow, and the check is written
  out where it can. A method that changes its receiver returns the changed value. A panic is \<open>None\<close>,
  an \<open>Err\<close> the left side of a sum; arithmetic that panics in debug builds and wraps in release builds
  takes the \<open>profile\<close>. Code outside the repository's Rust sources is an argument: the C functions of
  the shims, the kernel, the hypervisor platform and CPUID are records of functions on a state of
  their own, \<open>cc\<close>, the linker and the gzip decoder are values or functions. What the code relies on of
  them is a named predicate (\<open>kvm_laws\<close>, \<open>whp_laws\<close>, \<open>bochs_mem_law\<close>, \<open>sail_ok\<close>, \<open>gz_law\<close> and others), a
  hypothesis of the properties that need it, and every such property has a witness on a simulated
  instance. The interfaces are locales where several operations share a contract; each is interpreted
  on the model's own operations.

  \<^bold>\<open>What is shown.\<close>
  \<^item> The guest: the page tables are the identity, delivery of any vector through the built IDT and TSS
    halts in a stub that tells it, unwinding restores the faulting state, host writes below the
    control region leave the tables intact (\<open>Hw_Image\<close>).
  \<^item> The hypervisor backends: construction yields the reset state, a failed one leaves nothing behind,
    faults do not vector, both ways WHP learns of an exception agree, \<open>step\<close> returns after at most 64
    runs, restoring a snapshot loads it, the WHP mapping slot tells the truth in every reachable state.
  \<^item> Vector state: writes and reads of vector registers through an XSAVE image in either format, and
    that the probed layout is within bounds and disjoint.
  \<^item> The native backends: at most one Bochs oracle at a time and no lost wake-up, over all
    interleavings; Bochs classifies faults as the hardware does; every step of the Sail backend
    returns, with a message that is withheld from comparison exactly when the model stopped short.
  \<^item> The crate: \<open>diff\<close> is empty exactly on equality, any snapshot restored into any backend arrives up
    to the flags and vectors that backend normalises, at most one hardware backend per build.
  \<^item> The build: the verdict on an archive is that of its members, a stopped build is never taken for a
    finished one, exports and MSVC header are exact, the halves of the Sail backend agree on their
    settings, the Bochs build does not depend on how the file system lists directories, and a program
    finds every function it declares in the DLL.

  \<^bold>\<open>Bounds.\<close> The step loops take fuel 64, the code's own bound (\<open>for _ in 0..64\<close>), so nothing is cut off.
  The wait of \<open>bochs.rs\<close> is a step relation and has no bound; the scan of an archive and the search of
  a string end because the offset grows.

  \<^bold>\<open>Not modelled.\<close> The shims under \<open>csrc\<close>: C++ glue, whose functions are the interface records. The
  vendored Sail model and Bochs sources. The allocation of guest RAM (its success is a parameter),
  \<open>Drop\<close> of the backends that only free memory, mutexes that only one thread can hold, and the tests. Of the build script, the writing of generated files is taken to succeed, environment
  variables are taken to be Unicode, and the GMP probe is the outcome of its compilation.
\<close>

section \<open>The backends of a build\<close>

text \<open>The attributes \<open>any.rs\<close> is compiled under: two Cargo features, and what \<open>emit_hardware_cfgs\<close> sets.\<close>

definition configured :: "env \<Rightarrow> build_cfg" where
  "configured E =
     \<lparr>bc_sail = en_set E ''CARGO_FEATURE_SAIL'', bc_bochs = en_set E ''CARGO_FEATURE_BOCHS'',
      bc_kvm = (''backend_kvm'' \<in> set (hardware_cfgs E)), bc_whp = (''backend_whp'' \<in> set (hardware_cfgs E))\<rparr>"

lemma configured_hardware:
  "bc_kvm (configured E) \<longleftrightarrow> en_var E ''CARGO_CFG_TARGET_ARCH'' = Some ''x86_64'' \<and>
     en_var E ''CARGO_CFG_TARGET_OS'' = Some ''linux'' \<and> en_set E ''CARGO_FEATURE_KVM''"
  "bc_whp (configured E) \<longleftrightarrow> en_var E ''CARGO_CFG_TARGET_ARCH'' = Some ''x86_64'' \<and>
     en_var E ''CARGO_CFG_TARGET_OS'' = Some ''windows'' \<and> en_set E ''CARGO_FEATURE_WHP''"
  by (auto simp: configured_def hardware_cfgs_def Let_def split: option.splits)

text \<open>
  C32: The build script and \<open>any.rs\<close> together give a build at most one hardware backend. Whatever the
  environment, KVM and WHP are never both compiled in, and neither is off x86-64; a usable hardware
  backend is the one \<open>hardware\<close> returns, it is the hypervisor of the target's system with its feature
  enabled, and no comparison \<open>pairs\<close> lists is between two hardware backends.
\<close>

theorem hardware_exclusive:
  "\<not> (bc_kvm (configured E) \<and> bc_whp (configured E)) \<and>
   (en_var E ''CARGO_CFG_TARGET_ARCH'' \<noteq> Some ''x86_64'' \<longrightarrow> hardware_backend (configured E) k w = None) \<and>
   (\<forall>b \<in> {Kvm, Whp}. b \<in> set (available (configured E) k w) \<longleftrightarrow> hardware_backend (configured E) k w = Some b) \<and>
   (hardware_backend (configured E) k w = Some Kvm \<longleftrightarrow> k \<and> en_set E ''CARGO_FEATURE_KVM'' \<and>
      en_var E ''CARGO_CFG_TARGET_ARCH'' = Some ''x86_64'' \<and> en_var E ''CARGO_CFG_TARGET_OS'' = Some ''linux'') \<and>
   (hardware_backend (configured E) k w = Some Whp \<longleftrightarrow> w \<and> en_set E ''CARGO_FEATURE_WHP'' \<and>
      en_var E ''CARGO_CFG_TARGET_ARCH'' = Some ''x86_64'' \<and> en_var E ''CARGO_CFG_TARGET_OS'' = Some ''windows'') \<and>
   (\<forall>(a, b) \<in> set (backend_pairs (configured E) k w). {a, b} \<noteq> {Kvm, Whp})"
proof -
  let ?cfg = "configured E"
  have one: "\<not> (bc_kvm ?cfg \<and> bc_whp ?cfg)" by (auto simp: configured_hardware)
  have usable: "Kvm \<in> set (available ?cfg k w) \<longleftrightarrow> bc_kvm ?cfg \<and> k" "Whp \<in> set (available ?cfg k w) \<longleftrightarrow> bc_whp ?cfg \<and> w"
    by (auto simp: available_def)
  have hardware: "hardware_backend ?cfg k w =
      (if bc_kvm ?cfg \<and> k then Some Kvm else if bc_whp ?cfg \<and> w then Some Whp else None)"
    by (simp add: hardware_backend_def available_def)
  have "{a, b} \<noteq> {Kvm, Whp}" if "(a, b) \<in> set (backend_pairs ?cfg k w)" for a b
    using that backend_pairs_once [of a b ?cfg k w] usable one by (auto simp: doubleton_eq_iff)
  then show ?thesis using one by (auto simp: hardware usable) (auto simp: configured_hardware split: if_splits)
qed

theorem hardware_exclusive_witness:
  "hardware_backend (configured (demo_cargo [''CARGO_CFG_TARGET_ARCH'' \<mapsto> ''x86_64'',
     ''CARGO_CFG_TARGET_OS'' \<mapsto> ''linux'', ''CARGO_FEATURE_KVM'' \<mapsto> ''1'', ''CARGO_FEATURE_WHP'' \<mapsto> ''1''])) True True = Some Kvm \<and>
   hardware_backend (configured (demo_cargo [''CARGO_CFG_TARGET_ARCH'' \<mapsto> ''aarch64'',
     ''CARGO_CFG_TARGET_OS'' \<mapsto> ''linux'', ''CARGO_FEATURE_KVM'' \<mapsto> ''1''])) True True = None"
  using hardware_exclusive [of "demo_cargo [''CARGO_CFG_TARGET_ARCH'' \<mapsto> ''x86_64'',
      ''CARGO_CFG_TARGET_OS'' \<mapsto> ''linux'', ''CARGO_FEATURE_KVM'' \<mapsto> ''1'', ''CARGO_FEATURE_WHP'' \<mapsto> ''1'']" True True]
    hardware_exclusive [of "demo_cargo [''CARGO_CFG_TARGET_ARCH'' \<mapsto> ''aarch64'',
      ''CARGO_CFG_TARGET_OS'' \<mapsto> ''linux'', ''CARGO_FEATURE_KVM'' \<mapsto> ''1'']" True True]
  by (simp add: demo_cargo_def en_set_def)

end
